(* ===== verification/Prelude.thy ===== *)
theory Prelude
  imports Complex_Main "HOL-Library.Sublist"
begin

text \<open>
  Shared vocabulary of the development: the sum-typed results in which every \<open>throw\<close>
  of the source is an \<open>Inl\<close>, the exceptions the TypeScript and JavaScript code raises,
  decimal printing of integers for the template strings of error messages, reachability for
  step relations with the interface of inductive invariants, and the lemmas on lists that the
  component theories share.
\<close>

named_theorems res_simps \<open>inversion of successful and failed results\<close>

section \<open>Results: a value or a thrown exception\<close>

text \<open>
  The exceptions of the code. \<open>TypeErr\<close> and \<open>RangeErr\<close> are JavaScript's, \<open>CodedErr\<close> is
  an \<open>Error\<close> given a \<open>code\<close> property, \<open>PlainErr\<close> an \<open>Error\<close> without one, \<open>QueryFailed\<close>
  the error of a refused SQL statement with the server's error code, and the others are the
  HTTP exceptions of the web framework.
\<close>

datatype exn =
    TypeErr string
  | RangeErr string
  | PlainErr string
  | CodedErr string string
  | QueryFailed string
  | BadRequestException string
  | UnauthorizedException string
  | ForbiddenException string
  | NotFoundException string
  | ConflictException string
  | ServiceUnavailableException string

definition bindE :: "'e + 'a \<Rightarrow> ('a \<Rightarrow> 'e + 'b) \<Rightarrow> 'e + 'b" where
  "bindE m f = (case m of Inl e \<Rightarrow> Inl e | Inr a \<Rightarrow> f a)"

definition guardE :: "bool \<Rightarrow> 'e \<Rightarrow> 'e + unit" where
  "guardE c e = (if c then Inr () else Inl e)"

definition someE :: "'e \<Rightarrow> 'a option \<Rightarrow> 'e + 'a" where
  "someE e v = (case v of None \<Rightarrow> Inl e | Some a \<Rightarrow> Inr a)"

text \<open>\<open>catchE m h\<close> is \<open>try m catch h\<close> where the handler rethrows another exception.\<close>

definition catchE :: "'e + 'a \<Rightarrow> ('e \<Rightarrow> 'e) \<Rightarrow> 'e + 'a" where
  "catchE m h = (case m of Inl e \<Rightarrow> Inl (h e) | Inr a \<Rightarrow> Inr a)"

fun mapE :: "('a \<Rightarrow> 'e + 'b) \<Rightarrow> 'a list \<Rightarrow> 'e + 'b list" where
  "mapE f [] = Inr []"
| "mapE f (x # xs) = bindE (f x) (\<lambda>y. bindE (mapE f xs) (\<lambda>ys. Inr (y # ys)))"

fun foldE :: "('s \<Rightarrow> 'a \<Rightarrow> 'e + 's) \<Rightarrow> 's \<Rightarrow> 'a list \<Rightarrow> 'e + 's" where
  "foldE f s [] = Inr s"
| "foldE f s (x # xs) = bindE (f s x) (\<lambda>s'. foldE f s' xs)"

lemma bindE_simps [simp]: "bindE (Inl e) f = Inl e" "bindE (Inr a) f = f a"
  by (simp_all add: bindE_def)

lemma bindE_Inr_conv [res_simps]:
  "bindE m f = Inr b \<longleftrightarrow> (\<exists>a. m = Inr a \<and> f a = Inr b)"
  by (cases m) auto

lemma bindE_Inl_conv:
  "bindE m f = Inl e \<longleftrightarrow> m = Inl e \<or> (\<exists>a. m = Inr a \<and> f a = Inl e)"
  by (cases m) auto

lemma guardE_True [simp]: "c \<Longrightarrow> guardE c e = Inr ()"
  by (simp add: guardE_def)

lemma guardE_False [simp]: "\<not> c \<Longrightarrow> guardE c e = Inl e"
  by (simp add: guardE_def)

lemma guardE_Inr_conv [res_simps]: "guardE c e = Inr u \<longleftrightarrow> c"
  by (simp add: guardE_def)

lemma guardE_Inl_conv: "guardE c e = Inl x \<longleftrightarrow> \<not> c \<and> x = e"
  by (auto simp: guardE_def)

lemma someE_simps [simp]: "someE e None = Inl e" "someE e (Some a) = Inr a"
  by (simp_all add: someE_def)

lemma someE_Inr_conv [res_simps]: "someE e v = Inr a \<longleftrightarrow> v = Some a"
  by (cases v) auto

lemma catchE_simps [simp]: "catchE (Inl e) h = Inl (h e)" "catchE (Inr a) h = Inr a"
  by (simp_all add: catchE_def)

lemma catchE_Inr_conv [res_simps]: "catchE m h = Inr a \<longleftrightarrow> m = Inr a"
  by (cases m) auto

lemma mapE_Inr_length: "mapE f xs = Inr ys \<Longrightarrow> length ys = length xs"
  by (induction xs arbitrary: ys) (auto simp: res_simps)

lemma mapE_Inr_conv: "mapE f xs = Inr ys \<longleftrightarrow> map f xs = map Inr ys"
  by (induction xs arbitrary: ys) (auto simp: res_simps Cons_eq_map_conv)

lemma mapE_Inl: "mapE f xs = Inl e \<Longrightarrow> \<exists>x \<in> set xs. f x = Inl e"
  by (induction xs) (auto simp: bindE_Inl_conv)

lemma mapE_Inr_nth:
  assumes "mapE f xs = Inr ys" and "i < length xs"
  shows "f (xs ! i) = Inr (ys ! i)"
proof -
  from assms(1) have m: "map f xs = map Inr ys" by (simp add: mapE_Inr_conv)
  then have "length xs = length ys" by (metis length_map)
  with m assms(2) show ?thesis by (metis nth_map)
qed

lemma foldE_append:
  "foldE f s (xs @ ys) = bindE (foldE f s xs) (\<lambda>t. foldE f t ys)"
proof (induction xs arbitrary: s)
  case Nil
  then show ?case by simp
next
  case (Cons x xs)
  then show ?case by (cases "f s x") auto
qed

section \<open>Decimal printing\<close>

fun show_nat :: "nat \<Rightarrow> string" where
  "show_nat n = (if n < 10 then [char_of (48 + n)] else show_nat (n div 10) @ [char_of (48 + n mod 10)])"

declare show_nat.simps [simp del]

definition show_int :: "int \<Rightarrow> string" where
  "show_int i = (if i < 0 then ''-'' @ show_nat (nat (- i)) else show_nat (nat i))"

lemma show_nat_nonempty [simp]: "show_nat n \<noteq> []"
  by (subst show_nat.simps) simp

section \<open>Reachability and inductive invariants\<close>

inductive reach :: "('s \<Rightarrow> bool) \<Rightarrow> ('s \<Rightarrow> 's \<Rightarrow> bool) \<Rightarrow> 's \<Rightarrow> bool"
  for start :: "'s \<Rightarrow> bool" and step :: "'s \<Rightarrow> 's \<Rightarrow> bool" where
  reach_start: "start s \<Longrightarrow> reach start step s"
| reach_step: "reach start step s \<Longrightarrow> step s t \<Longrightarrow> reach start step t"

text \<open>
  The contract of an inductive invariant: the client is any safety property of reachable
  states, the provider proves that the start states have it and that every step keeps it.
\<close>

locale inductive_invariant =
  fixes start :: "'s \<Rightarrow> bool" and step :: "'s \<Rightarrow> 's \<Rightarrow> bool" and inv :: "'s \<Rightarrow> bool"
  assumes start_inv: "start s \<Longrightarrow> inv s"
    and step_inv: "inv s \<Longrightarrow> step s t \<Longrightarrow> inv t"
begin

lemma reach_inv: "reach start step s \<Longrightarrow> inv s"
  by (induction rule: reach.induct) (auto intro: start_inv step_inv)

lemma steps_inv: "step\<^sup>*\<^sup>* s t \<Longrightarrow> inv s \<Longrightarrow> inv t"
  by (induction rule: rtranclp_induct) (auto intro: step_inv)

end

section \<open>Lists as tables\<close>

text \<open>
  A table is the list of its rows in insertion order; an \<open>UPDATE\<close> is a \<open>map\<close> that changes
  the rows a predicate selects.
\<close>

definition update_where :: "('r \<Rightarrow> bool) \<Rightarrow> ('r \<Rightarrow> 'r) \<Rightarrow> 'r list \<Rightarrow> 'r list" where
  "update_where P f rs = map (\<lambda>r. if P r then f r else r) rs"

definition count_where :: "('r \<Rightarrow> bool) \<Rightarrow> 'r list \<Rightarrow> nat" where
  "count_where P rs = length (filter P rs)"

lemma update_where_Nil [simp]: "update_where P f [] = []"
  by (simp add: update_where_def)

lemma update_where_Cons [simp]:
  "update_where P f (r # rs) = (if P r then f r else r) # update_where P f rs"
  by (simp add: update_where_def)

lemma length_update_where [simp]: "length (update_where P f rs) = length rs"
  by (simp add: update_where_def)

lemma set_update_where:
  "set (update_where P f rs) = {r \<in> set rs. \<not> P r} \<union> f ` {r \<in> set rs. P r}"
  by (auto simp: update_where_def image_iff)

lemma map_update_where_same:
  "(\<And>r. r \<in> set rs \<Longrightarrow> P r \<Longrightarrow> g (f r) = g r) \<Longrightarrow> map g (update_where P f rs) = map g rs"
  by (auto simp: update_where_def)

lemma sum_list_update_where:
  fixes g :: "'r \<Rightarrow> int"
  shows "sum_list (map g (update_where P f rs))
    = sum_list (map g rs) + sum_list (map (\<lambda>r. g (f r) - g r) (filter P rs))"
  by (induction rs) auto

lemma filter_distinct_key:
  assumes "distinct (map k rs)" and "r \<in> set rs"
  shows "filter (\<lambda>x. k x = k r) rs = [r]"
  using assms
proof (induction rs)
  case Nil
  then show ?case by simp
next
  case (Cons a rs)
  show ?case
  proof (cases "a = r")
    case True
    with Cons.prems(1) have "\<forall>x \<in> set rs. k x \<noteq> k r" by (metis distinct.simps(2) imageI list.set_map list.simps(9))
    then have "filter (\<lambda>x. k x = k r) rs = []" by (simp add: filter_empty_conv)
    with True show ?thesis by simp
  next
    case False
    with Cons.prems have r: "r \<in> set rs" by simp
    with Cons.prems(1) have "k a \<noteq> k r" by (metis distinct.simps(2) imageI list.set_map list.simps(9))
    with Cons r show ?thesis by simp
  qed
qed

lemma find_Some_D: "find P xs = Some x \<Longrightarrow> x \<in> set xs \<and> P x"
  by (induction xs) (auto split: if_splits)

lemma find_None_D: "find P xs = None \<Longrightarrow> x \<in> set xs \<Longrightarrow> \<not> P x"
  by (induction xs) (auto split: if_splits)

lemma find_append:
  "find P (xs @ ys) = (case find P xs of None \<Rightarrow> find P ys | Some x \<Rightarrow> Some x)"
  by (induction xs) auto

lemma find_unique:
  assumes "distinct (map k rs)" and "r \<in> set rs"
  shows "find (\<lambda>x. k x = k r) rs = Some r"
proof -
  have "find (\<lambda>x. k x = k r) rs \<noteq> None"
  proof
    assume "find (\<lambda>x. k x = k r) rs = None"
    then show False using find_None_D assms(2) by fastforce
  qed
  then obtain y where y: "find (\<lambda>x. k x = k r) rs = Some y" by blast
  then have "y \<in> set rs" and "k y = k r" by (auto dest: find_Some_D)
  with assms have "y = r" by (meson distinct_map inj_onD)
  with y show ?thesis by simp
qed

end
