(* ===== verification/JsNumber.thy ===== *)
theory JsNumber
  imports Prelude
begin

text \<open>
  The numbers of the JavaScript code. A \<open>Number\<close> is an IEEE 754 binary64 value: a finite
  value (here the rational it denotes; the sign of zero is not kept, nothing in the code reads
  it), an infinity (\<open>Infty True\<close> is negative) or NaN. Every arithmetic operation computes the
  exact rational result and rounds it once, to nearest with ties to even (\<open>round64\<close>), as the
  language requires. The lemmas show where that rounding is the identity, which is what makes
  the integer money arithmetic of the domain package exact.
\<close>

datatype jsnum = Fin rat | Infty bool | NaN

abbreviation JInt :: "int \<Rightarrow> jsnum" where
  "JInt i \<equiv> Fin (of_int i)"

section \<open>Rounding to binary64\<close>

function bitlen :: "int \<Rightarrow> int" where
  "bitlen n = (if n \<le> 0 then 0 else 1 + bitlen (n div 2))"
  by pat_completeness auto
termination
  by (relation "measure nat") auto

declare bitlen.simps [simp del]

definition two_to :: "int \<Rightarrow> rat" where
  "two_to e = (if 0 \<le> e then 2 ^ nat e else 1 / 2 ^ nat (- e))"

text \<open>The exponent of the binade of a positive rational: \<open>\<lfloor>log2 x\<rfloor>\<close>.\<close>

definition binade :: "rat \<Rightarrow> int" where
  "binade x =
     (let q = quotient_of x;
          k = bitlen (fst q) - bitlen (snd q)
      in if two_to k \<le> x then k else k - 1)"

definition round_half_even :: "rat \<Rightarrow> int" where
  "round_half_even x =
     (let f = \<lfloor>x\<rfloor>; r = x - of_int f
      in if r < 1 / 2 then f else if 1 / 2 < r then f + 1 else if even f then f else f + 1)"

text \<open>
  The spacing of binary64 values around \<open>x > 0\<close> is \<open>2 ^ (binade x - 52)\<close>, and never below
  \<open>2 ^ (-1074)\<close> (subnormals).
\<close>

definition ulp_exp :: "rat \<Rightarrow> int" where
  "ulp_exp x = max (binade x - 52) (- 1074)"

definition round64_pos :: "rat \<Rightarrow> rat" where
  "round64_pos x = of_int (round_half_even (x / two_to (ulp_exp x))) * two_to (ulp_exp x)"

definition round64 :: "rat \<Rightarrow> jsnum" where
  "round64 x =
     (if x = 0 then Fin 0
      else let r = round64_pos \<bar>x\<bar>
           in if 2 ^ 1024 \<le> r then Infty (x < 0) else Fin (if x < 0 then - r else r))"

section \<open>Arithmetic, comparison, rounding functions\<close>

fun js_neg :: "jsnum \<Rightarrow> jsnum" where
  "js_neg (Fin a) = Fin (- a)"
| "js_neg (Infty s) = Infty (\<not> s)"
| "js_neg NaN = NaN"

fun js_add :: "jsnum \<Rightarrow> jsnum \<Rightarrow> jsnum" where
  "js_add (Fin a) (Fin b) = round64 (a + b)"
| "js_add (Infty s) (Fin b) = Infty s"
| "js_add (Fin a) (Infty t) = Infty t"
| "js_add (Infty s) (Infty t) = (if s = t then Infty s else NaN)"
| "js_add NaN y = NaN"
| "js_add x NaN = NaN"

definition js_sub :: "jsnum \<Rightarrow> jsnum \<Rightarrow> jsnum" where
  "js_sub x y = js_add x (js_neg y)"

fun js_mul :: "jsnum \<Rightarrow> jsnum \<Rightarrow> jsnum" where
  "js_mul (Fin a) (Fin b) = round64 (a * b)"
| "js_mul (Infty s) (Fin b) = (if b = 0 then NaN else Infty (s \<noteq> (b < 0)))"
| "js_mul (Fin a) (Infty t) = (if a = 0 then NaN else Infty (t \<noteq> (a < 0)))"
| "js_mul (Infty s) (Infty t) = Infty (s \<noteq> t)"
| "js_mul NaN y = NaN"
| "js_mul x NaN = NaN"

fun js_div :: "jsnum \<Rightarrow> jsnum \<Rightarrow> jsnum" where
  "js_div (Fin a) (Fin b) =
     (if b = 0 then (if a = 0 then NaN else Infty (a < 0)) else round64 (a / b))"
| "js_div (Infty s) (Fin b) = Infty (s \<noteq> (b < 0))"
| "js_div (Fin a) (Infty t) = Fin 0"
| "js_div (Infty s) (Infty t) = NaN"
| "js_div NaN y = NaN"
| "js_div x NaN = NaN"

text \<open>\<open>x < y\<close>: false as soon as one side is NaN; \<open>x > y\<close> is \<open>js_lt y x\<close>.\<close>

fun js_lt :: "jsnum \<Rightarrow> jsnum \<Rightarrow> bool" where
  "js_lt (Fin a) (Fin b) = (a < b)"
| "js_lt (Infty s) (Fin b) = s"
| "js_lt (Fin a) (Infty t) = (\<not> t)"
| "js_lt (Infty s) (Infty t) = (s \<and> \<not> t)"
| "js_lt NaN y = False"
| "js_lt x NaN = False"

text \<open>\<open>Math.round\<close>: the nearest integer, halves towards plus infinity.\<close>

fun js_round :: "jsnum \<Rightarrow> jsnum" where
  "js_round (Fin a) = JInt \<lfloor>a + 1 / 2\<rfloor>"
| "js_round x = x"

fun js_floor :: "jsnum \<Rightarrow> jsnum" where
  "js_floor (Fin a) = JInt \<lfloor>a\<rfloor>"
| "js_floor x = x"

fun js_abs :: "jsnum \<Rightarrow> jsnum" where
  "js_abs (Fin a) = Fin \<bar>a\<bar>"
| "js_abs (Infty s) = Infty False"
| "js_abs NaN = NaN"

definition max_safe :: int where
  "max_safe = 2 ^ 53 - 1"

fun is_integer :: "jsnum \<Rightarrow> bool" where
  "is_integer (Fin a) = (of_int \<lfloor>a\<rfloor> = a)"
| "is_integer x = False"

fun is_safe_integer :: "jsnum \<Rightarrow> bool" where
  "is_safe_integer (Fin a) = (of_int \<lfloor>a\<rfloor> = a \<and> \<bar>a\<bar> \<le> of_int max_safe)"
| "is_safe_integer x = False"

text \<open>The integer an integral \<open>Number\<close> denotes.\<close>

fun num_int :: "jsnum \<Rightarrow> int" where
  "num_int (Fin a) = \<lfloor>a\<rfloor>"
| "num_int x = 0"

section \<open>The binade of a rational\<close>

lemma two_to_pos [simp]: "0 < two_to e"
  by (simp add: two_to_def)

lemma two_to_ne [simp]: "two_to e \<noteq> 0"
  using two_to_pos [of e] by linarith

lemma abs_two_to [simp]: "\<bar>two_to e\<bar> = two_to e"
  by (simp add: less_imp_le)

lemma two_to_powi: "two_to e = power_int 2 e"
  by (simp add: two_to_def power_int_def field_simps)

lemma two_to_add: "two_to (a + b) = two_to a * two_to b"
  by (simp add: two_to_powi power_int_add)

lemma two_to_0 [simp]: "two_to 0 = 1"
  by (simp add: two_to_def)

lemma two_to_Suc: "two_to (e + 1) = 2 * two_to e"
  by (simp add: two_to_add) (simp add: two_to_def)

lemma two_to_nat [simp]: "two_to (int n) = 2 ^ n"
  by (simp add: two_to_def)

lemma two_to_diff: "two_to (a - b) = two_to a / two_to b"
  by (simp add: two_to_powi power_int_diff)

lemma two_to_strict_mono: "a < b \<Longrightarrow> two_to a < two_to b"
  by (simp add: two_to_powi power_int_strict_increasing)

lemma two_to_less_iff [simp]: "two_to a < two_to b \<longleftrightarrow> a < b"
  by (metis less_irrefl less_trans linorder_less_linear two_to_strict_mono)

lemma two_to_le_iff [simp]: "two_to a \<le> two_to b \<longleftrightarrow> a \<le> b"
  by (simp flip: not_less)

lemma bitlen_bounds: "0 < n \<Longrightarrow> two_to (bitlen n - 1) \<le> of_int n \<and> of_int n < two_to (bitlen n)"
proof (induction n rule: bitlen.induct)
  case (1 n)
  let ?h = "n div 2"
  have rec: "bitlen n = bitlen ?h + 1" using 1(2) by (simp add: bitlen.simps [of n])
  show ?case
  proof (cases "?h = 0")
    case True
    with 1(2) have "n = 1" by simp
    moreover have "bitlen n = 1" using rec True by (simp add: bitlen.simps [of 0])
    ultimately show ?thesis by (simp add: two_to_def)
  next
    case False
    with 1(2) have "0 < ?h" by linarith
    with 1 have IH: "two_to (bitlen ?h - 1) \<le> of_int ?h" "of_int ?h < two_to (bitlen ?h)"
      by auto
    have n: "of_int (2 * ?h) \<le> (of_int n :: rat)" "(of_int n :: rat) \<le> of_int (2 * ?h + 1)"
      by (simp_all only: of_int_le_iff)
    have "two_to (bitlen n - 1) = 2 * two_to (bitlen ?h - 1)"
      using two_to_Suc [of "bitlen ?h - 1"] by (simp add: rec)
    with IH(1) n(1) have lower: "two_to (bitlen n - 1) \<le> of_int n" by simp
    have pos: "0 \<le> bitlen ?h"
    proof (rule ccontr)
      assume "\<not> 0 \<le> bitlen ?h"
      then have "two_to (bitlen ?h) \<le> two_to 0" by (simp del: two_to_0)
      with IH(2) \<open>0 < ?h\<close> show False by simp
    qed
    then have "two_to (bitlen ?h) = of_int (2 ^ nat (bitlen ?h))" by (simp add: two_to_def)
    with IH(2) have "?h + 1 \<le> 2 ^ nat (bitlen ?h)" by (simp only: of_int_less_iff)
    then have "(of_int (?h + 1) :: rat) \<le> two_to (bitlen ?h)"
      using \<open>two_to (bitlen ?h) = _\<close> by (simp only: of_int_le_iff)
    with n(2) have "of_int n < 2 * two_to (bitlen ?h)" by simp
    with lower show ?thesis by (simp add: rec two_to_Suc)
  qed
qed

lemma binade_bounds:
  assumes "0 < x"
  shows "two_to (binade x) \<le> x" and "x < two_to (binade x + 1)"
proof -
  obtain n d where q: "quotient_of x = (n, d)" by fastforce
  then have d: "0 < d" and x: "x = of_int n / of_int d"
    by (auto simp: quotient_of_denom_pos quotient_of_div)
  from assms x d have n: "0 < n" by (simp add: zero_less_divide_iff)
  define a b where "a = bitlen n" and "b = bitlen d"
  let ?N = "of_int n :: rat" and ?D = "of_int d :: rat"
  have N: "two_to (a - 1) \<le> ?N" "?N < two_to a"
    using bitlen_bounds [OF n] by (simp_all add: a_def)
  have D: "two_to (b - 1) \<le> ?D" "?D < two_to b"
    using bitlen_bounds [OF d] by (simp_all add: b_def)
  let ?k = "a - b"
  have Dpos: "0 < ?D" using d by simp
  have lower: "two_to (?k - 1) < x"
  proof -
    have "two_to (?k - 1) * ?D < two_to (?k - 1) * two_to (b)"
      using D(2) by simp
    also have "\<dots> = two_to (a - 1)" by (simp del: two_to_nat flip: two_to_add)
    also have "\<dots> \<le> ?N" by (rule N(1))
    finally show ?thesis using Dpos x by (simp add: pos_less_divide_eq)
  qed
  have upper: "x < two_to (?k + 1)"
  proof -
    have "?N < two_to (a)" by (rule N(2))
    also have "\<dots> = two_to (?k + 1) * two_to (b - 1)" by (simp flip: two_to_add)
    also have "\<dots> \<le> two_to (?k + 1) * ?D" using D(1) by simp
    finally show ?thesis using Dpos x by (simp add: pos_divide_less_eq)
  qed
  have bin: "binade x = (if two_to ?k \<le> x then ?k else ?k - 1)"
    by (simp add: binade_def q a_def b_def)
  show "two_to (binade x) \<le> x" using lower by (auto simp: bin)
  show "x < two_to (binade x + 1)" using upper by (auto simp: bin)
qed

lemma binade_ge: "two_to e \<le> x \<Longrightarrow> e \<le> binade x"
proof -
  assume a: "two_to e \<le> x"
  then have "0 < x" using two_to_pos [of e] by linarith
  then have "x < two_to (binade x + 1)" by (rule binade_bounds)
  with a have "two_to e < two_to (binade x + 1)" by linarith
  then show ?thesis by simp
qed

lemma binade_less: "0 < x \<Longrightarrow> x < two_to e \<Longrightarrow> binade x < e"
proof -
  assume "0 < x" and a: "x < two_to e"
  then have "two_to (binade x) \<le> x" by (blast intro: binade_bounds)
  with a have "two_to (binade x) < two_to e" by linarith
  then show ?thesis by simp
qed

section \<open>Where rounding is the identity, and how far it can be off\<close>

lemma round_half_even_of_int [simp]: "round_half_even (of_int n) = n"
  by (simp add: round_half_even_def)

lemma round_half_even_error: "\<bar>of_int (round_half_even x) - x\<bar> \<le> 1 / 2"
proof -
  have "of_int \<lfloor>x\<rfloor> \<le> x" "x < of_int \<lfloor>x\<rfloor> + 1" by linarith+
  then show ?thesis by (auto simp: round_half_even_def Let_def abs_le_iff)
qed

lemma round_half_even_ge: "of_int m \<le> x \<Longrightarrow> m \<le> round_half_even x"
proof -
  assume "of_int m \<le> x"
  then have "m \<le> \<lfloor>x\<rfloor>" by (simp add: le_floor_iff)
  then show ?thesis by (auto simp: round_half_even_def Let_def)
qed

lemma round64_pos_error: "\<bar>round64_pos x - x\<bar> \<le> two_to (ulp_exp x) / 2"
proof -
  let ?t = "two_to (ulp_exp x)"
  let ?r = "of_int (round_half_even (x / ?t)) :: rat"
  have "\<bar>?r - x / ?t\<bar> * ?t \<le> 1 / 2 * ?t"
    by (rule mult_right_mono [OF round_half_even_error less_imp_le [OF two_to_pos]])
  moreover have "\<bar>?r - x / ?t\<bar> * ?t = \<bar>?r * ?t - x\<bar>"
  proof -
    have "\<bar>?r - x / ?t\<bar> * ?t = \<bar>(?r - x / ?t) * ?t\<bar>" by (simp add: abs_mult)
    also have "(?r - x / ?t) * ?t = ?r * ?t - x" by (simp add: left_diff_distrib)
    finally show ?thesis .
  qed
  ultimately show ?thesis by (simp add: round64_pos_def)
qed

text \<open>A value that is a multiple of the spacing around \<open>x\<close> and not above \<open>x\<close> stays below
  the rounded \<open>x\<close>.\<close>

lemma round64_pos_ge:
  assumes le: "of_int m * two_to e \<le> x" and e: "ulp_exp x \<le> e"
  shows "of_int m * two_to e \<le> round64_pos x"
proof -
  let ?u = "ulp_exp x"
  have split: "of_int m * two_to e = of_int (m * 2 ^ nat (e - ?u)) * two_to ?u"
  proof -
    have "two_to e = two_to (e - ?u) * two_to ?u" by (simp flip: two_to_add)
    also have "two_to (e - ?u) = of_int (2 ^ nat (e - ?u))" using e by (simp add: two_to_def)
    finally show ?thesis by simp
  qed
  have "of_int (m * 2 ^ nat (e - ?u)) \<le> x / two_to ?u"
    using le by (simp only: split pos_le_divide_eq two_to_pos)
  then have "m * 2 ^ nat (e - ?u) \<le> round_half_even (x / two_to ?u)"
    by (rule round_half_even_ge)
  then have "of_int (m * 2 ^ nat (e - ?u)) * two_to ?u
      \<le> of_int (round_half_even (x / two_to ?u)) * two_to ?u"
    by (intro mult_right_mono) (simp_all only: of_int_le_iff less_imp_le two_to_pos)
  then show ?thesis by (simp only: split round64_pos_def)
qed

lemma ulp_exp_le:
  assumes "0 < x" and "x < two_to e"
  shows "ulp_exp x \<le> max (e - 53) (- 1074)"
  using binade_less [OF assms] by (auto simp: ulp_exp_def)

lemma two_to_53: "two_to 53 = 2 ^ 53"
  using two_to_nat [of 53] by simp

lemma round64_pos_int:
  assumes i: "0 < i" "i \<le> 2 ^ 53"
  shows "round64_pos (of_int i) = of_int i"
proof -
  let ?x = "of_int i :: rat" and ?u = "ulp_exp (of_int i)"
  have xpos: "0 < ?x" using i(1) by simp
  show ?thesis
  proof (cases "i = 2 ^ 53")
    case True
    have "binade ?x = 53"
    proof -
      have "two_to 53 \<le> ?x" using True by (simp add: two_to_53)
      then have "53 \<le> binade ?x" by (rule binade_ge)
      moreover have "?x < two_to 54" using True two_to_nat [of 54] by simp
      then have "binade ?x < 54" using binade_less xpos by blast
      ultimately show ?thesis by simp
    qed
    then have u: "?u = 1" by (simp add: ulp_exp_def)
    have half: "?x / two_to 1 = of_int (2 ^ 52)" using True by (simp add: two_to_def)
    have "round64_pos ?x = of_int (2 ^ 52) * two_to 1"
      by (simp only: round64_pos_def u half round_half_even_of_int)
    then show ?thesis using True by (simp add: two_to_def)
  next
    case False
    with i have "i < 2 ^ 53" by simp
    then have "?x < of_int (2 ^ 53)" by (simp only: of_int_less_iff)
    then have "?x < two_to 53" by (simp add: two_to_53)
    then have "?u \<le> 0" using ulp_exp_le [OF xpos] by fastforce
    then have "two_to ?u = 1 / 2 ^ nat (- ?u)" by (auto simp: two_to_def)
    then have "?x / two_to ?u = of_int (i * 2 ^ nat (- ?u))" by simp
    then have "round_half_even (?x / two_to ?u) = i * 2 ^ nat (- ?u)"
      by (simp only: round_half_even_of_int)
    then show ?thesis
      using \<open>two_to ?u = 1 / 2 ^ nat (- ?u)\<close> by (simp add: round64_pos_def)
  qed
qed

lemma round64_pos_large:
  assumes "2 ^ 53 \<le> x"
  shows "2 ^ 53 \<le> round64_pos x"
proof -
  have b: "53 \<le> binade x" using assms by (intro binade_ge) (simp add: two_to_53)
  then have u: "ulp_exp x = binade x - 52" by (simp add: ulp_exp_def)
  have split: "two_to (binade x) = of_int (2 ^ 52) * two_to (binade x - 52)"
    using two_to_nat [of 52] by (simp add: two_to_diff)
  have "0 < x" using assms by (meson less_le_trans zero_less_numeral zero_less_power)
  then have "of_int (2 ^ 52) * two_to (binade x - 52) \<le> x"
    using binade_bounds(1) by (simp only: split [symmetric])
  then have "two_to (binade x) \<le> round64_pos x"
    using round64_pos_ge [of "2 ^ 52" "binade x - 52" x] by (simp only: split u)
  moreover have "two_to 53 \<le> two_to (binade x)" using b by simp
  ultimately show ?thesis by (simp add: two_to_53)
qed

lemma round64_int [simp]: "\<bar>i\<bar> \<le> 2 ^ 53 \<Longrightarrow> round64 (of_int i) = JInt i"
proof -
  assume a: "\<bar>i\<bar> \<le> 2 ^ 53"
  show ?thesis
  proof (cases "i = 0")
    case False
    then have r: "round64_pos (of_int \<bar>i\<bar>) = of_int \<bar>i\<bar>"
      using a by (intro round64_pos_int) auto
    have "of_int \<bar>i\<bar> < (2 ^ 1024 :: rat)"
    proof -
      have "(of_int \<bar>i\<bar> :: rat) \<le> of_int (2 ^ 53)" using a by (simp only: of_int_le_iff)
      also have "\<dots> < 2 ^ 1024" by simp
      finally show ?thesis .
    qed
    then show ?thesis using False r by (simp add: round64_def Let_def)
  qed (simp add: round64_def)
qed

text \<open>Evaluation takes the short way for the integers that are exact.\<close>

lemma round64_code [code]:
  "round64 x =
     (let f = \<lfloor>x\<rfloor> in
      if of_int f = x \<and> \<bar>f\<bar> \<le> 2 ^ 53 then Fin x
      else if x = 0 then Fin 0
      else let r = round64_pos \<bar>x\<bar>
           in if 2 ^ 1024 \<le> r then Infty (x < 0) else Fin (if x < 0 then - r else r))"
proof (cases "of_int \<lfloor>x\<rfloor> = x \<and> \<bar>\<lfloor>x\<rfloor>\<bar> \<le> 2 ^ 53")
  case True
  then have "round64 x = Fin x" using round64_int [of "\<lfloor>x\<rfloor>"] by (simp only: conj_absorb)
  with True show ?thesis unfolding Let_def by (simp only: simp_thms if_True)
next
  case False
  then show ?thesis unfolding Let_def round64_def by (simp only: if_False)
qed

text \<open>
  The guard \<open>Number.isSafeInteger\<close> on the rounded result of an integer operation accepts
  exactly the results that were computed without rounding.
\<close>

lemma round64_safe_iff:
  "is_safe_integer (round64 (of_int i)) \<longleftrightarrow> \<bar>i\<bar> \<le> max_safe"
proof
  assume s: "is_safe_integer (round64 (of_int i))"
  show "\<bar>i\<bar> \<le> max_safe"
  proof (rule ccontr)
    assume "\<not> \<bar>i\<bar> \<le> max_safe"
    then have "2 ^ 53 \<le> \<bar>i\<bar>" by (simp add: max_safe_def)
    then have "(of_int (2 ^ 53) :: rat) \<le> of_int \<bar>i\<bar>" by (simp only: of_int_le_iff)
    then have "2 ^ 53 \<le> round64_pos \<bar>of_int i\<bar>" by (intro round64_pos_large) simp
    then have "\<not> is_safe_integer (round64 (of_int i))"
      using \<open>2 ^ 53 \<le> \<bar>i\<bar>\<close> by (auto simp: round64_def Let_def max_safe_def)
    with s show False by simp
  qed
next
  assume "\<bar>i\<bar> \<le> max_safe"
  moreover from this have "\<bar>i\<bar> \<le> 2 ^ 53" by (simp add: max_safe_def)
  ultimately show "is_safe_integer (round64 (of_int i))"
    by (simp flip: of_int_abs)
qed

lemma is_safe_JInt [simp]: "is_safe_integer (JInt i) \<longleftrightarrow> \<bar>i\<bar> \<le> max_safe"
  by (simp flip: of_int_abs)

lemma num_int_JInt [simp]: "num_int (JInt i) = i"
  by simp

lemma is_safe_integer_JInt: "is_safe_integer n \<Longrightarrow> n = JInt (num_int n) \<and> \<bar>num_int n\<bar> \<le> max_safe"
proof (cases n)
  case (Fin a)
  assume s: "is_safe_integer n"
  then have a: "of_int \<lfloor>a\<rfloor> = a" "\<bar>a\<bar> \<le> of_int max_safe" by (simp_all add: Fin)
  then have "(of_int \<bar>\<lfloor>a\<rfloor>\<bar> :: rat) \<le> of_int max_safe" by (simp only: of_int_abs)
  then have "\<bar>\<lfloor>a\<rfloor>\<bar> \<le> max_safe" by (simp only: of_int_le_iff)
  with a(1) show ?thesis unfolding Fin num_int.simps by metis
qed simp_all

section \<open>Percentages of an integer amount\<close>

text \<open>
  \<open>Math.round (p / 10000)\<close> in binary64 is \<open>p / 10000\<close> rounded half up exactly, for every
  \<open>p\<close> that is an exact \<open>Number\<close>: the quotient is below \<open>2 ^ 40\<close>, so its rounding error is below
  the distance \<open>1 / 10000\<close> of two adjacent quotients, and a half is representable.
\<close>

lemma round_div_10000:
  assumes p: "0 \<le> p" "p \<le> 2 ^ 53"
  shows "js_round (js_div (JInt p) (JInt 10000)) = JInt ((p + 5000) div 10000)"
proof (cases "p = 0")
  case True
  have "\<lfloor>1 / 2 :: rat\<rfloor> = 0" by (simp add: floor_eq_iff)
  with True show ?thesis by (simp add: round64_def)
next
  case False
  with p have p0: "0 < p" by simp
  define x :: rat where "x = of_int p / 10000"
  define y where "y = round64_pos x"
  define k where "k = (p + 5000) div 10000"
  have k: "10000 * k \<le> p + 5000" "p + 5000 \<le> 10000 * k + 9999"
    using div_mult_mod_eq [of "p + 5000" 10000] pos_mod_bound [of 10000 "p + 5000"]
      pos_mod_sign [of 10000 "p + 5000"] unfolding k_def by linarith+
  have xpos: "0 < x" using p0 by (simp add: x_def)
  have "x < two_to 40"
  proof -
    have "(of_int p :: rat) \<le> of_int (2 ^ 53)" using p(2) by (simp only: of_int_le_iff)
    then have "x \<le> 2 ^ 53 / 10000" by (simp add: x_def)
    also have "\<dots> < two_to 40" by (simp add: two_to_def)
    finally show ?thesis .
  qed
  then have u: "ulp_exp x \<le> - 13" using ulp_exp_le [OF xpos, of 40] by simp
  have upper: "y + 1 / 2 < of_int k + 1"
  proof -
    have "two_to (ulp_exp x) \<le> two_to (- 13)" using u by simp
    moreover have "two_to (- 13) = 1 / 8192" by (simp add: two_to_def)
    moreover have "y - x \<le> two_to (ulp_exp x) / 2"
      using round64_pos_error [of x] unfolding y_def by linarith
    ultimately have "y - x \<le> 1 / 16384" by linarith
    moreover have "10000 * (x + 1 / 2) \<le> 10000 * of_int k + 9999"
    proof -
      have "(of_int (p + 5000) :: rat) \<le> of_int (10000 * k + 9999)"
        using k(2) by (simp only: of_int_le_iff)
      then show ?thesis by (simp add: x_def)
    qed
    ultimately show ?thesis by (simp add: field_simps)
  qed
  have lower: "of_int k \<le> y + 1 / 2"
  proof -
    have "of_int (2 * k - 1) * two_to (- 1) \<le> x"
    proof -
      have "(of_int (10000 * k) :: rat) \<le> of_int (p + 5000)"
        using k(1) by (simp only: of_int_le_iff)
      then show ?thesis by (simp add: x_def two_to_def field_simps)
    qed
    then have "of_int (2 * k - 1) * two_to (- 1) \<le> y"
      unfolding y_def using u by (intro round64_pos_ge) auto
    then show ?thesis by (simp add: two_to_def field_simps)
  qed
  have "y < 2 ^ 1024"
  proof -
    have "(of_int k :: rat) \<le> of_int (2 ^ 53)"
      using k(1) p(2) by simp
    with upper have "y < of_int (2 ^ 53) + 1" by linarith
    also have "\<dots> < 2 ^ 1024" by simp
    finally show ?thesis .
  qed
  then have "js_div (JInt p) (JInt 10000) = Fin y"
    using xpos by (simp add: round64_def x_def y_def)
  moreover have "\<lfloor>y + 1 / 2\<rfloor> = k" using lower upper by (simp add: floor_eq_iff)
  ultimately show ?thesis by (simp add: k_def)
qed

end
