(* ===== verification/JsText.thy ===== *)
theory JsText
  imports JsNumber
begin

text \<open>
  The string functions of the JavaScript code: trimming, lower-casing, the character classes
  of its regular expressions, \<open>Number(text)\<close> and hexadecimal digests. A \<open>string\<close> here is a
  sequence of UTF-16 code units below 256 (Latin-1); every regular expression, key, header and
  identifier of the code is ASCII.
\<close>

abbreviation code :: "char \<Rightarrow> nat" where
  "code c \<equiv> of_char c"

definition in_range :: "nat \<Rightarrow> char \<Rightarrow> nat \<Rightarrow> bool" where
  "in_range lo c hi \<longleftrightarrow> lo \<le> code c \<and> code c \<le> hi"

definition is_digit :: "char \<Rightarrow> bool" where "is_digit c = in_range 48 c 57"
definition is_upper :: "char \<Rightarrow> bool" where "is_upper c = in_range 65 c 90"
definition is_lower :: "char \<Rightarrow> bool" where "is_lower c = in_range 97 c 122"
definition is_alnum :: "char \<Rightarrow> bool" where
  "is_alnum c \<longleftrightarrow> is_digit c \<or> is_upper c \<or> is_lower c"

definition is_space :: "char \<Rightarrow> bool" where
  "is_space c \<longleftrightarrow> in_range 9 c 13 \<or> code c = 32 \<or> code c = 160"

definition js_trim :: "string \<Rightarrow> string" where
  "js_trim s = rev (dropWhile is_space (rev (dropWhile is_space s)))"

text \<open>\<open>toLowerCase\<close> on Latin-1: the letters A-Z and the accented capitals, but for the
  multiplication sign (215).\<close>

definition lower_char :: "char \<Rightarrow> char" where
  "lower_char c =
     (if is_upper c \<or> (in_range 192 c 222 \<and> code c \<noteq> 215) then char_of (code c + 32) else c)"

definition js_lower :: "string \<Rightarrow> string" where
  "js_lower s = map lower_char s"

definition slice_to :: "nat \<Rightarrow> string \<Rightarrow> string" where
  "slice_to n s = take n s"

definition truthy :: "string \<Rightarrow> bool" where
  "truthy s \<longleftrightarrow> s \<noteq> []"

text \<open>\<open>/^[class]{lo,hi}$/\<close>\<close>

definition class_between :: "(char \<Rightarrow> bool) \<Rightarrow> nat \<Rightarrow> nat \<Rightarrow> string \<Rightarrow> bool" where
  "class_between C lo hi s \<longleftrightarrow> lo \<le> length s \<and> length s \<le> hi \<and> list_all C s"

text \<open>\<open>[A-Za-z0-9._:-]\<close>, the class of identifiers and keys.\<close>

definition is_key_char :: "char \<Rightarrow> bool" where
  "is_key_char c \<longleftrightarrow> is_alnum c \<or> c \<in> set ''._:-''"

definition is_hex :: "char \<Rightarrow> bool" where
  "is_hex c \<longleftrightarrow> is_digit c \<or> in_range 97 c 102"

definition is_hex_i :: "char \<Rightarrow> bool" where
  "is_hex_i c \<longleftrightarrow> is_digit c \<or> in_range 97 c 102 \<or> in_range 65 c 70"

section \<open>\<open>Number(text)\<close>\<close>

definition digit_val :: "char \<Rightarrow> nat" where
  "digit_val c =
     (if is_digit c then code c - 48 else if is_lower c then code c - 87
      else if is_upper c then code c - 55 else 99)"

fun val_in_base :: "int \<Rightarrow> int \<Rightarrow> string \<Rightarrow> int" where
  "val_in_base b acc [] = acc"
| "val_in_base b acc (c # cs) = val_in_base b (b * acc + int (digit_val c)) cs"

text \<open>A literal \<open>0x..\<close>, \<open>0o..\<close> or \<open>0b..\<close> after its prefix.\<close>

definition based_literal :: "int \<Rightarrow> string \<Rightarrow> jsnum" where
  "based_literal b ds =
     (if ds \<noteq> [] \<and> list_all (\<lambda>c. int (digit_val c) < b) ds
      then round64 (of_int (val_in_base b 0 ds)) else NaN)"

text \<open>The exponent part of a decimal literal: \<open>Some 0\<close> when there is none, \<open>None\<close> when the
  rest of the text is not one.\<close>

definition exponent_part :: "string \<Rightarrow> int option" where
  "exponent_part s =
     (case s of
        [] \<Rightarrow> Some 0
      | e # t \<Rightarrow>
          (if e \<noteq> CHR ''e'' \<and> e \<noteq> CHR ''E'' then None
           else
             let neg = (t \<noteq> [] \<and> hd t = CHR ''-'');
                 ds = (if t \<noteq> [] \<and> (hd t = CHR ''-'' \<or> hd t = CHR ''+'') then tl t else t)
             in if ds \<noteq> [] \<and> list_all is_digit ds
                then Some (if neg then - val_in_base 10 0 ds else val_in_base 10 0 ds)
                else None))"

definition ten_to :: "int \<Rightarrow> rat" where
  "ten_to e = (if 0 \<le> e then 10 ^ nat e else 1 / 10 ^ nat (- e))"

definition unsigned_decimal :: "string \<Rightarrow> rat option" where
  "unsigned_decimal s =
     (let ip = takeWhile is_digit s; r = dropWhile is_digit s;
          dot = (r \<noteq> [] \<and> hd r = CHR ''.'');
          fp = (if dot then takeWhile is_digit (tl r) else []);
          e = (if dot then dropWhile is_digit (tl r) else r)
      in if ip = [] \<and> fp = [] then None
         else map_option
           (\<lambda>x. of_int (val_in_base 10 0 (ip @ fp)) * ten_to (x - int (length fp)))
           (exponent_part e))"

definition js_number :: "string \<Rightarrow> jsnum" where
  "js_number text =
     (let s = js_trim text in
      if s = [] then Fin 0
      else if take 2 s = ''0x'' \<or> take 2 s = ''0X'' then based_literal 16 (drop 2 s)
      else if take 2 s = ''0o'' \<or> take 2 s = ''0O'' then based_literal 8 (drop 2 s)
      else if take 2 s = ''0b'' \<or> take 2 s = ''0B'' then based_literal 2 (drop 2 s)
      else
        let neg = (hd s = CHR ''-'');
            u = (if hd s = CHR ''-'' \<or> hd s = CHR ''+'' then tl s else s)
        in if u = ''Infinity'' then Infty neg
           else case unsigned_decimal u of
                  None \<Rightarrow> NaN
                | Some r \<Rightarrow> round64 (if neg then - r else r))"

section \<open>Hexadecimal digests\<close>

definition hex_digit :: "nat \<Rightarrow> char" where
  "hex_digit n = (if n < 10 then char_of (48 + n) else char_of (87 + n))"

fun hex_of_bytes :: "char list \<Rightarrow> string" where
  "hex_of_bytes [] = []"
| "hex_of_bytes (b # bs) = hex_digit (code b div 16) # hex_digit (code b mod 16) # hex_of_bytes bs"

text \<open>The UTF-8 bytes of a text, \<open>Buffer.from(text)\<close> and what \<open>update(text)\<close> hashes.\<close>

definition utf8_char :: "char \<Rightarrow> char list" where
  "utf8_char c =
     (if code c < 128 then [c] else [char_of (192 + code c div 64), char_of (128 + code c mod 64)])"

definition utf8 :: "string \<Rightarrow> char list" where
  "utf8 s = concat (map utf8_char s)"

section \<open>Lemmas\<close>

lemma code_less [simp]: "code c < 256"
  by (metis of_char_mod_256 mod_less_divisor zero_less_numeral)

lemma hex_of_bytes_length [simp]: "length (hex_of_bytes bs) = 2 * length bs"
  by (induction bs) auto

lemma hex_digit_code: "n < 16 \<Longrightarrow> code (hex_digit n) = (if n < 10 then 48 + n else 87 + n)"
  by (simp add: hex_digit_def)

lemma is_hex_digit: "n < 16 \<Longrightarrow> is_hex (hex_digit n)"
  by (auto simp: is_hex_def is_digit_def in_range_def hex_digit_code)

lemma hex_digit_inj: "m < 16 \<Longrightarrow> n < 16 \<Longrightarrow> hex_digit m = hex_digit n \<Longrightarrow> m = n"
  by (drule arg_cong [of _ _ code]) (auto simp: hex_digit_code split: if_splits)

lemma hex_of_bytes_hex: "list_all is_hex (hex_of_bytes bs)"
  by (induction bs) (auto intro!: is_hex_digit simp: less_mult_imp_div_less)

lemma hex_of_bytes_inj: "hex_of_bytes a = hex_of_bytes b \<Longrightarrow> a = b"
proof (induction a arbitrary: b)
  case Nil
  then show ?case by (cases b) auto
next
  case (Cons x xs)
  then obtain y ys where b: "b = y # ys" by (cases b) auto
  with Cons.prems have eq: "hex_digit (code x div 16) = hex_digit (code y div 16)"
    "hex_digit (code x mod 16) = hex_digit (code y mod 16)" "hex_of_bytes xs = hex_of_bytes ys"
    by auto
  have "code x div 16 = code y div 16" "code x mod 16 = code y mod 16"
    using eq(1,2) by (auto intro!: hex_digit_inj simp: less_mult_imp_div_less)
  then have "code x = code y" by (metis div_mult_mod_eq)
  then have "x = y" by (metis char_of_char)
  with Cons.IH [OF eq(3)] b show ?case by simp
qed

lemma lower_char_hex: "is_hex c \<Longrightarrow> lower_char c = c"
  by (auto simp: lower_char_def is_hex_def is_digit_def is_upper_def in_range_def)

lemma js_lower_hex: "list_all is_hex s \<Longrightarrow> js_lower s = s"
  by (induction s) (auto simp: js_lower_def lower_char_hex)

lemma is_hex_imp_is_hex_i: "is_hex c \<Longrightarrow> is_hex_i c"
  by (auto simp: is_hex_def is_hex_i_def)

lemma js_lower_length [simp]: "length (js_lower s) = length s"
  by (simp add: js_lower_def)

lemma dropWhile_idem: "dropWhile P (dropWhile P xs) = dropWhile P xs"
  by (induction xs) auto

lemma js_trim_idem: "js_trim (js_trim s) = js_trim s"
proof -
  have hd_keep: "xs = [] \<or> \<not> P (hd xs) \<Longrightarrow> dropWhile P xs = xs" for P and xs :: string
    by (cases xs) auto
  define t where "t = dropWhile is_space s"
  define u where "u = rev (dropWhile is_space (rev t))"
  have "u = [] \<or> \<not> is_space (hd u)"
  proof (cases "u = []")
    case False
    obtain w where "rev t = w @ dropWhile is_space (rev t)" by (metis takeWhile_dropWhile_id)
    then have "t = u @ rev w" unfolding u_def by (metis rev_append rev_rev_ident)
    with False have "hd u = hd t" and "t \<noteq> []" by auto
    then have "\<not> is_space (hd u)" unfolding t_def by (metis hd_dropWhile)
    then show ?thesis by simp
  qed simp
  then have "dropWhile is_space u = u" by (rule hd_keep)
  then have "js_trim u = u" by (simp add: js_trim_def u_def dropWhile_idem)
  then show ?thesis by (simp add: js_trim_def u_def t_def)
qed

lemma js_trim_keeps:
  assumes "list_all (\<lambda>c. \<not> is_space c) s"
  shows "js_trim s = s"
proof -
  have keep: "dropWhile is_space xs = xs" if "\<forall>c \<in> set xs. \<not> is_space c" for xs
    using that by (cases xs) auto
  show ?thesis using assms by (simp add: js_trim_def list_all_iff keep)
qed

lemma utf8_char_prefix:
  assumes "utf8_char c @ x = utf8_char d @ y"
  shows "c = d \<and> x = y"
proof -
  have lead: "code (char_of (192 + n :: nat) :: char) = 192 + n" if "n < 4" for n
    using that by simp
  have tail: "code (char_of (128 + n :: nat) :: char) = 128 + n" if "n < 64" for n
    using that by simp
  show ?thesis
  proof (cases "code c < 128"; cases "code d < 128")
    assume h: "\<not> code c < 128" "\<not> code d < 128"
    have q: "code c div 64 < 4" "code d div 64 < 4" by (intro less_mult_imp_div_less; simp)+
    from assms h have e: "char_of (192 + code c div 64) = (char_of (192 + code d div 64) :: char)"
      "char_of (128 + code c mod 64) = (char_of (128 + code d mod 64) :: char)" and "x = y"
      by (simp_all add: utf8_char_def)
    have "code c div 64 = code d div 64"
      using arg_cong [OF e(1), of code] lead [OF q(1)] lead [OF q(2)] by simp
    moreover have "code c mod 64 = code d mod 64"
      using arg_cong [OF e(2), of code] tail [of "code c mod 64"] tail [of "code d mod 64"] by simp
    ultimately have "code c = code d" by (metis div_mult_mod_eq)
    with \<open>x = y\<close> show ?thesis by simp
  next
    assume h: "code c < 128" "\<not> code d < 128"
    then have "c = char_of (192 + code d div 64)" using assms by (simp add: utf8_char_def)
    moreover have "code d div 64 < 4" by (intro less_mult_imp_div_less) simp
    ultimately have "code c = 192 + code d div 64" using lead [of "code d div 64"] by simp
    with h show ?thesis by simp
  next
    assume h: "\<not> code c < 128" "code d < 128"
    then have "d = char_of (192 + code c div 64)" using assms by (simp add: utf8_char_def)
    moreover have "code c div 64 < 4" by (intro less_mult_imp_div_less) simp
    ultimately have "code d = 192 + code c div 64" using lead [of "code c div 64"] by simp
    with h show ?thesis by simp
  qed (use assms in \<open>simp add: utf8_char_def\<close>)
qed

lemma utf8_inj: "utf8 s = utf8 t \<Longrightarrow> s = t"
proof (induction s arbitrary: t)
  case Nil
  then show ?case by (cases t) (auto simp: utf8_def utf8_char_def split: if_splits)
next
  case (Cons c s)
  show ?case
  proof (cases t)
    case Nil
    with Cons.prems show ?thesis by (auto simp: utf8_def utf8_char_def split: if_splits)
  next
    case t: (Cons d t')
    with Cons.prems have "utf8_char c @ utf8 s = utf8_char d @ utf8 t'" by (simp add: utf8_def)
    from utf8_char_prefix [OF this] Cons.IH [of t'] t show ?thesis by simp
  qed
qed

lemma utf8_ascii: "list_all (\<lambda>c. code c < 128) s \<Longrightarrow> utf8 s = s"
  by (induction s) (auto simp: utf8_def utf8_char_def)

subsection \<open>\<open>Number\<close> of a decimal integer\<close>

lemma digit_not_space: "is_digit c \<Longrightarrow> \<not> is_space c"
  by (auto simp: is_digit_def is_space_def in_range_def)

lemma not_digits [simp]:
  "\<not> is_digit (CHR ''x'')" "\<not> is_digit (CHR ''X'')" "\<not> is_digit (CHR ''o'')"
  "\<not> is_digit (CHR ''O'')" "\<not> is_digit (CHR ''b'')" "\<not> is_digit (CHR ''B'')"
  "\<not> is_digit (CHR ''-'')" "\<not> is_digit (CHR ''+'')" "\<not> is_digit (CHR ''I'')"
  "\<not> is_digit (CHR ''.'')"
  by code_simp+

lemma digits_no_prefix:
  "list_all is_digit ds \<Longrightarrow> \<not> is_digit c \<Longrightarrow> take 2 ds \<noteq> [a, c]"
  by (cases ds rule: remdups_adj.cases) auto

lemma js_number_digits:
  assumes "ds \<noteq> []" and "list_all is_digit ds" and "\<bar>val_in_base 10 0 ds\<bar> \<le> 2 ^ 53"
  shows "js_number ds = JInt (val_in_base 10 0 ds)"
proof -
  have trim: "js_trim ds = ds"
    using assms(2) by (intro js_trim_keeps) (auto simp: list_all_iff digit_not_space)
  have hd: "is_digit (hd ds)" using assms(1,2) by (cases ds) auto
  have sign: "hd ds \<noteq> CHR ''-''" "hd ds \<noteq> CHR ''+''" "ds \<noteq> ''Infinity''"
    using hd not_digits by auto
  have whole: "takeWhile is_digit ds = ds" "dropWhile is_digit ds = []"
    using assms(2) by (auto simp: list_all_iff)
  have "unsigned_decimal ds = Some (of_int (val_in_base 10 0 ds))"
    using assms(1) by (simp add: unsigned_decimal_def Let_def whole exponent_part_def ten_to_def)
  then show ?thesis
    using assms(1,3) sign round64_int [OF assms(3)]
    by (simp add: js_number_def Let_def trim digits_no_prefix [OF assms(2)])
qed

end
