(* ===== verification/Config.thy ===== *)
theory Config
  imports JsText
begin

text \<open>
  The configuration loaders: \<open>loadApiConfig\<close>, \<open>loadWorkerConfig\<close> and \<open>databaseOptions\<close>. The
  environment is a map from variable names to texts; \<open>env.X ?? d\<close> is \<open>d\<close> for an absent variable
  only, while \<open>required\<close> and the other truth tests refuse the empty text too. \<open>Number\<close> is the
  conversion of \<open>JsText\<close>, so hexadecimal, exponent and blank texts are read as JavaScript reads them.
\<close>

type_synonym process_env = "string \<Rightarrow> string option"

definition env_or :: "process_env \<Rightarrow> string \<Rightarrow> string \<Rightarrow> string" where
  "env_or env key fallback = (case env key of None \<Rightarrow> fallback | Some v \<Rightarrow> v)"

definition truthy_opt :: "string option \<Rightarrow> bool" where
  "truthy_opt v = (case v of None \<Rightarrow> False | Some s \<Rightarrow> s \<noteq> [])"

text \<open>\<open>required\<close> of both applications.\<close>

definition required :: "process_env \<Rightarrow> string \<Rightarrow> exn + string" where
  "required env key =
     (if truthy_opt (env key) then Inr (the (env key)) else Inl (PlainErr (key @ '' is required'')))"

text \<open>\<open>boundedInteger\<close> of the API, \<open>integer\<close> of the worker.\<close>

definition boundedInteger :: "string \<Rightarrow> string \<Rightarrow> int \<Rightarrow> int \<Rightarrow> exn + int" where
  "boundedInteger v name minimum maximum =
     (let parsed = js_number v in
      if \<not> is_integer parsed \<or> js_lt parsed (JInt minimum) \<or> js_lt (JInt maximum) parsed
      then Inl (PlainErr (name @ '' must be an integer between '' @ show_int minimum @ '' and '' @
        show_int maximum))
      else Inr (num_int parsed))"

section \<open>The API\<close>

record ApiConfig =
  cfg_nodeEnv :: string
  cfg_port :: int
  cfg_platformApiKey :: string
  cfg_actorTokenSecret :: "string option"
  cfg_actorJwksUrl :: "string option"
  cfg_actorIssuer :: "string option"
  cfg_actorAudience :: "string option"
  cfg_paymentProvider :: string
  cfg_paymentWebhookSecret :: string
  cfg_paymentWebhookToleranceSeconds :: int
  cfg_releaseVersion :: string

text \<open>\<open>/^[a-z0-9-]{2,40}$/\<close>; whether \<open>new URL\<close> accepts a text is a parameter.\<close>

definition provider_format :: "string \<Rightarrow> bool" where
  "provider_format s \<longleftrightarrow> class_between (\<lambda>c. is_lower c \<or> is_digit c \<or> c = CHR ''-'') 2 40 s"

definition loadApiConfig :: "(string \<Rightarrow> bool) \<Rightarrow> process_env \<Rightarrow> exn + ApiConfig" where
  "loadApiConfig is_url env =
     bindE (required env ''PLATFORM_API_KEY'') (\<lambda>platformApiKey.
     let nodeEnv = env_or env ''NODE_ENV'' ''development'' in
     bindE (guardE (\<not> length platformApiKey < 16)
       (PlainErr ''PLATFORM_API_KEY must contain at least 16 characters'')) (\<lambda>_.
     let actorTokenSecret = env ''ACTOR_TOKEN_SECRET''; actorJwksUrl = env ''ACTOR_JWKS_URL'';
         actorIssuer = env ''ACTOR_ISSUER''; actorAudience = env ''ACTOR_AUDIENCE'';
         paymentProvider = env_or env ''PAYMENT_PROVIDER'' ''sandboxpay''
     in
     bindE (required env ''PAYMENT_WEBHOOK_SECRET'') (\<lambda>paymentWebhookSecret.
     bindE (guardE (provider_format paymentProvider)
       (PlainErr ''PAYMENT_PROVIDER must contain 2-40 lowercase letters, digits, or hyphens'')) (\<lambda>_.
     bindE (guardE (\<not> length paymentWebhookSecret < 32)
       (PlainErr ''PAYMENT_WEBHOOK_SECRET must contain at least 32 characters'')) (\<lambda>_.
     bindE (if nodeEnv = ''production'' then
         bindE (guardE (truthy_opt actorJwksUrl \<and> truthy_opt actorIssuer \<and> truthy_opt actorAudience)
           (PlainErr ''ACTOR_JWKS_URL, ACTOR_ISSUER, and ACTOR_AUDIENCE are required in production''))
           (\<lambda>_. guardE (is_url (the actorJwksUrl)) (TypeErr ''Invalid URL''))
       else guardE (case actorTokenSecret of None \<Rightarrow> False | Some s \<Rightarrow> s \<noteq> [] \<and> \<not> length s < 32)
         (PlainErr ''ACTOR_TOKEN_SECRET must contain at least 32 characters outside production'')) (\<lambda>_.
     let port = (case env ''API_PORT'' of None \<Rightarrow> JInt 8080 | Some s \<Rightarrow> js_number s) in
     bindE (guardE (is_integer port \<and> \<not> js_lt port (JInt 1) \<and> \<not> js_lt (JInt 65535) port)
       (PlainErr ''API_PORT must be a valid TCP port'')) (\<lambda>_.
     bindE (boundedInteger (env_or env ''PAYMENT_WEBHOOK_TOLERANCE_SECONDS'' ''300'')
       ''PAYMENT_WEBHOOK_TOLERANCE_SECONDS'' 30 900) (\<lambda>tolerance.
     Inr \<lparr>cfg_nodeEnv = nodeEnv, cfg_port = num_int port, cfg_platformApiKey = platformApiKey,
          cfg_actorTokenSecret = actorTokenSecret, cfg_actorJwksUrl = actorJwksUrl,
          cfg_actorIssuer = actorIssuer, cfg_actorAudience = actorAudience,
          cfg_paymentProvider = paymentProvider, cfg_paymentWebhookSecret = paymentWebhookSecret,
          cfg_paymentWebhookToleranceSeconds = tolerance,
          cfg_releaseVersion = env_or env ''RELEASE_VERSION'' ''unknown''\<rparr>))))))))"

section \<open>The worker\<close>

datatype notification_provider = LogProvider | WebhookProvider

record WorkerConfig =
  wcf_redisHost :: string
  wcf_redisPort :: int
  wcf_redisTls :: bool
  wcf_redisPassword :: "string option"
  wcf_pollIntervalMs :: int
  wcf_maxAttempts :: int
  wcf_baseDelayMs :: int
  wcf_concurrency :: int
  wcf_metricsPort :: int
  wcf_provider :: notification_provider
  wcf_providerUrl :: "string option"
  wcf_providerApiKey :: "string option"
  wcf_releaseVersion :: string
  wcf_idempotencyRetentionDays :: int
  wcf_outboxRetentionDays :: int
  wcf_webhookReceiptRetentionDays :: int

definition integer_var :: "process_env \<Rightarrow> string \<Rightarrow> string \<Rightarrow> int \<Rightarrow> int \<Rightarrow> exn + int" where
  "integer_var env name fallback lo hi = boundedInteger (env_or env name fallback) name lo hi"

definition loadWorkerConfig :: "process_env \<Rightarrow> exn + WorkerConfig" where
  "loadWorkerConfig env =
     (let provider = env_or env ''NOTIFICATION_PROVIDER'' ''log'' in
      bindE (guardE (provider = ''log'' \<or> provider = ''webhook'')
        (PlainErr ''NOTIFICATION_PROVIDER must be log or webhook'')) (\<lambda>_.
      bindE (guardE (\<not> (env_or env ''NODE_ENV'' ''development'' = ''production'' \<and> provider = ''log''))
        (PlainErr ''The log notification provider is forbidden in production'')) (\<lambda>_.
      bindE (guardE (\<not> (provider = ''webhook'' \<and> (\<not> truthy_opt (env ''NOTIFICATION_PROVIDER_URL'') \<or>
            \<not> truthy_opt (env ''NOTIFICATION_PROVIDER_API_KEY''))))
        (PlainErr ''Webhook provider URL and API key are required'')) (\<lambda>_.
      bindE (required env ''REDIS_HOST'') (\<lambda>redisHost.
      bindE (integer_var env ''REDIS_PORT'' ''6379'' 1 65535) (\<lambda>redisPort.
      bindE (integer_var env ''OUTBOX_POLL_INTERVAL_MS'' ''1000'' 100 60000) (\<lambda>pollIntervalMs.
      bindE (integer_var env ''NOTIFICATION_MAX_ATTEMPTS'' ''5'' 1 20) (\<lambda>maxAttempts.
      bindE (integer_var env ''NOTIFICATION_BASE_DELAY_MS'' ''1000'' 100 60000) (\<lambda>baseDelayMs.
      bindE (integer_var env ''WORKER_CONCURRENCY'' ''8'' 1 100) (\<lambda>concurrency.
      bindE (integer_var env ''WORKER_METRICS_PORT'' ''9091'' 1 65535) (\<lambda>metricsPort.
      bindE (integer_var env ''IDEMPOTENCY_RETENTION_DAYS'' ''7'' 1 90) (\<lambda>idempotencyDays.
      bindE (integer_var env ''OUTBOX_RETENTION_DAYS'' ''30'' 7 365) (\<lambda>outboxDays.
      bindE (integer_var env ''WEBHOOK_RECEIPT_RETENTION_DAYS'' ''400'' 90 2555) (\<lambda>receiptDays.
      Inr \<lparr>wcf_redisHost = redisHost, wcf_redisPort = redisPort,
           wcf_redisTls = (env ''REDIS_TLS'' = Some ''true''), wcf_redisPassword = env ''REDIS_PASSWORD'',
           wcf_pollIntervalMs = pollIntervalMs, wcf_maxAttempts = maxAttempts,
           wcf_baseDelayMs = baseDelayMs, wcf_concurrency = concurrency, wcf_metricsPort = metricsPort,
           wcf_provider = (if provider = ''log'' then LogProvider else WebhookProvider),
           wcf_providerUrl = env ''NOTIFICATION_PROVIDER_URL'',
           wcf_providerApiKey = env ''NOTIFICATION_PROVIDER_API_KEY'',
           wcf_releaseVersion = env_or env ''RELEASE_VERSION'' ''unknown'',
           wcf_idempotencyRetentionDays = idempotencyDays, wcf_outboxRetentionDays = outboxDays,
           wcf_webhookReceiptRetentionDays = receiptDays\<rparr>))))))))))))))"

section \<open>The database connection\<close>

record ssl_options =
  ssl_ca :: string
  ssl_rejectUnauthorized :: bool

record DataSourceOptions =
  dso_host :: "string option"
  dso_port :: jsnum
  dso_database :: "string option"
  dso_username :: "string option"
  dso_password :: "string option"
  dso_timezone :: string
  dso_charset :: string
  dso_ssl :: "ssl_options option"
  dso_connectionLimit :: int
  dso_keepAliveInitialDelay :: int

text \<open>Reading the certificate file is a parameter.\<close>

definition mysqlSslOptions ::
  "(string \<Rightarrow> exn + string) \<Rightarrow> process_env \<Rightarrow> exn + ssl_options option" where
  "mysqlSslOptions read_file env =
     (if env ''MYSQL_SSL'' \<noteq> Some ''true'' then Inr None
      else if \<not> truthy_opt (env ''MYSQL_SSL_CA_PATH'')
      then Inl (PlainErr ''MYSQL_SSL_CA_PATH is required when MYSQL_SSL=true'')
      else bindE (read_file (the (env ''MYSQL_SSL_CA_PATH'')))
        (\<lambda>ca. Inr (Some \<lparr>ssl_ca = ca, ssl_rejectUnauthorized = True\<rparr>)))"

definition databaseOptions ::
  "(string \<Rightarrow> exn + string) \<Rightarrow> process_env \<Rightarrow> exn + DataSourceOptions" where
  "databaseOptions read_file env =
     bindE (mapE (required env) [''MYSQL_HOST'', ''MYSQL_DATABASE'', ''MYSQL_USER'', ''MYSQL_PASSWORD''])
     (\<lambda>_.
     bindE (mysqlSslOptions read_file env) (\<lambda>ssl.
     Inr \<lparr>dso_host = env ''MYSQL_HOST'',
          dso_port = (case env ''MYSQL_PORT'' of None \<Rightarrow> JInt 3306 | Some s \<Rightarrow> js_number s),
          dso_database = env ''MYSQL_DATABASE'', dso_username = env ''MYSQL_USER'',
          dso_password = env ''MYSQL_PASSWORD'', dso_timezone = ''Z'', dso_charset = ''utf8mb4'',
          dso_ssl = ssl, dso_connectionLimit = 10, dso_keepAliveInitialDelay = 10000\<rparr>))"

section \<open>What a loaded configuration promises\<close>

lemma required_Inr [res_simps]: "required env key = Inr v \<longleftrightarrow> env key = Some v \<and> v \<noteq> []"
  by (auto simp: required_def truthy_opt_def split: option.splits)

lemma is_integer_Fin:
  assumes "is_integer n"
  obtains i where "n = JInt i" and "num_int n = i"
proof (cases n)
  case (Fin a)
  with assms have a: "of_int \<lfloor>a\<rfloor> = a" by simp
  show ?thesis by (rule that [of "\<lfloor>a\<rfloor>"]) (simp_all only: a Fin num_int.simps)
qed (use assms in simp_all)

lemma integer_in_range:
  assumes "is_integer n" and "\<not> js_lt n (JInt lo)" and "\<not> js_lt (JInt hi) n"
  shows "lo \<le> num_int n \<and> num_int n \<le> hi \<and> n = JInt (num_int n)"
  using assms(1)
proof (rule is_integer_Fin)
  fix i assume i: "n = JInt i" "num_int n = i"
  show ?thesis using assms(2,3) unfolding i(2) unfolding i(1) by simp
qed

lemma boundedInteger_Inr:
  "boundedInteger v name lo hi = Inr i \<Longrightarrow> lo \<le> i \<and> i \<le> hi \<and> js_number v = JInt i"
  unfolding boundedInteger_def Let_def
  by (drule if_split [THEN iffD1, rotated]) (auto dest: integer_in_range)

text \<open>A configuration the API starts with has a usable port, a provider name of 2 to 40 lower-case
  letters, digits or hyphens, an API key of at least 16 and a webhook secret of at least 32
  characters, and a replay tolerance between 30 seconds and 15 minutes; in production it names a
  key set, an issuer and an audience, elsewhere it has a token secret of at least 32 characters.\<close>

theorem loadApiConfig_valid:
  assumes "loadApiConfig is_url env = Inr c"
  shows "1 \<le> cfg_port c \<and> cfg_port c \<le> 65535 \<and> provider_format (cfg_paymentProvider c) \<and>
    16 \<le> length (cfg_platformApiKey c) \<and> 32 \<le> length (cfg_paymentWebhookSecret c) \<and>
    30 \<le> cfg_paymentWebhookToleranceSeconds c \<and> cfg_paymentWebhookToleranceSeconds c \<le> 900 \<and>
    (if cfg_nodeEnv c = ''production''
     then truthy_opt (cfg_actorJwksUrl c) \<and> is_url (the (cfg_actorJwksUrl c)) \<and>
       truthy_opt (cfg_actorIssuer c) \<and> truthy_opt (cfg_actorAudience c)
     else \<exists>s. cfg_actorTokenSecret c = Some s \<and> 32 \<le> length s)"
proof -
  let ?port = "case env ''API_PORT'' of None \<Rightarrow> JInt 8080 | Some s \<Rightarrow> js_number s"
  let ?prod = "env_or env ''NODE_ENV'' ''development'' = ''production''"
  from assms obtain key secret tol u where
    pre: "\<not> length key < 16" "provider_format (env_or env ''PAYMENT_PROVIDER'' ''sandboxpay'')"
      "\<not> length secret < 32"
    and auth: "(if ?prod then
         bindE (guardE (truthy_opt (env ''ACTOR_JWKS_URL'') \<and> truthy_opt (env ''ACTOR_ISSUER'') \<and>
             truthy_opt (env ''ACTOR_AUDIENCE''))
           (PlainErr ''ACTOR_JWKS_URL, ACTOR_ISSUER, and ACTOR_AUDIENCE are required in production''))
           (\<lambda>_. guardE (is_url (the (env ''ACTOR_JWKS_URL''))) (TypeErr ''Invalid URL''))
       else guardE (case env ''ACTOR_TOKEN_SECRET'' of None \<Rightarrow> False
           | Some s \<Rightarrow> s \<noteq> [] \<and> \<not> length s < 32)
         (PlainErr ''ACTOR_TOKEN_SECRET must contain at least 32 characters outside production''))
       = Inr u"
    and port: "is_integer ?port" "\<not> js_lt ?port (JInt 1)" "\<not> js_lt (JInt 65535) ?port"
    and tol: "boundedInteger (env_or env ''PAYMENT_WEBHOOK_TOLERANCE_SECONDS'' ''300'')
       ''PAYMENT_WEBHOOK_TOLERANCE_SECONDS'' 30 900 = Inr tol"
    and c: "cfg_port c = num_int ?port" "cfg_paymentProvider c = env_or env ''PAYMENT_PROVIDER'' ''sandboxpay''"
      "cfg_platformApiKey c = key" "cfg_paymentWebhookSecret c = secret"
      "cfg_paymentWebhookToleranceSeconds c = tol" "cfg_nodeEnv c = env_or env ''NODE_ENV'' ''development''"
      "cfg_actorTokenSecret c = env ''ACTOR_TOKEN_SECRET''" "cfg_actorJwksUrl c = env ''ACTOR_JWKS_URL''"
      "cfg_actorIssuer c = env ''ACTOR_ISSUER''" "cfg_actorAudience c = env ''ACTOR_AUDIENCE''"
    unfolding loadApiConfig_def Let_def bindE_Inr_conv guardE_Inr_conv
    by (elim exE conjE) (drule sum.inject(2) [THEN iffD1], hypsubst, rule that,
      (assumption | simp only: ApiConfig.select_convs)+)
  have "if ?prod then truthy_opt (env ''ACTOR_JWKS_URL'') \<and> is_url (the (env ''ACTOR_JWKS_URL'')) \<and>
       truthy_opt (env ''ACTOR_ISSUER'') \<and> truthy_opt (env ''ACTOR_AUDIENCE'')
     else \<exists>s. env ''ACTOR_TOKEN_SECRET'' = Some s \<and> 32 \<le> length s"
    using auth by (auto simp: res_simps not_less split: if_splits option.splits)
  then show ?thesis
    using pre integer_in_range [OF port] boundedInteger_Inr [OF tol] by (simp only: c not_less simp_thms)
qed

definition sample_api_env :: process_env where
  "sample_api_env = [''PLATFORM_API_KEY'' \<mapsto> ''0123456789abcdef'',
     ''PAYMENT_WEBHOOK_SECRET'' \<mapsto> ''0123456789abcdef0123456789abcdef'',
     ''ACTOR_TOKEN_SECRET'' \<mapsto> ''0123456789abcdef0123456789abcdef'', ''API_PORT'' \<mapsto> ''9000'']"

lemma number_text:
  "ds \<noteq> [] \<Longrightarrow> list_all is_digit ds \<Longrightarrow> val_in_base 10 0 ds = i \<Longrightarrow> \<bar>i\<bar> \<le> 2 ^ 53 \<Longrightarrow>
     js_number ds = JInt i"
  using js_number_digits by blast

lemma sample_numbers:
  "js_number ''300'' = JInt 300" "js_number ''9000'' = JInt 9000" "js_number ''6379'' = JInt 6379"
  "js_number ''1000'' = JInt 1000" "js_number ''5'' = JInt 5" "js_number ''8'' = JInt 8"
  "js_number ''9091'' = JInt 9091" "js_number ''7'' = JInt 7" "js_number ''30'' = JInt 30"
  "js_number ''400'' = JInt 400"
  by (rule number_text; code_simp)+

theorem loadApiConfig_valid_witness:
  "\<exists>c. loadApiConfig (\<lambda>_. True) sample_api_env = Inr c \<and> 1 \<le> cfg_port c \<and> cfg_port c \<le> 65535"
proof -
  have p: "provider_format ''sandboxpay''" by code_simp
  have "\<not> isl (loadApiConfig (\<lambda>_. True) sample_api_env)"
    by (simp add: loadApiConfig_def sample_api_env_def required_def truthy_opt_def env_or_def
        boundedInteger_def sample_numbers p)
  then obtain c where "loadApiConfig (\<lambda>_. True) sample_api_env = Inr c"
    by (cases "loadApiConfig (\<lambda>_. True) sample_api_env") auto
  then show ?thesis using loadApiConfig_valid by blast
qed

text \<open>A configuration the worker starts with has every number in its range: the ports, a poll
  interval of 0.1 to 60 seconds, 1 to 20 attempts, a base delay of 0.1 to 60 seconds, at most a
  hundred concurrent jobs and the retention periods in days; a webhook provider has a URL and
  a key, and the log provider is never used in production.\<close>

theorem loadWorkerConfig_valid:
  assumes "loadWorkerConfig env = Inr c"
  shows "wcf_redisHost c \<noteq> [] \<and> wcf_redisPort c \<in> {1..65535} \<and> wcf_metricsPort c \<in> {1..65535} \<and>
    wcf_pollIntervalMs c \<in> {100..60000} \<and> wcf_maxAttempts c \<in> {1..20} \<and>
    wcf_baseDelayMs c \<in> {100..60000} \<and> wcf_concurrency c \<in> {1..100} \<and>
    wcf_idempotencyRetentionDays c \<in> {1..90} \<and> wcf_outboxRetentionDays c \<in> {7..365} \<and>
    wcf_webhookReceiptRetentionDays c \<in> {90..2555} \<and>
    (wcf_provider c = WebhookProvider \<longrightarrow>
       truthy_opt (wcf_providerUrl c) \<and> truthy_opt (wcf_providerApiKey c)) \<and>
    (env ''NODE_ENV'' = Some ''production'' \<longrightarrow> wcf_provider c = WebhookProvider)"
  using assms unfolding loadWorkerConfig_def Let_def bindE_Inr_conv guardE_Inr_conv integer_var_def
  by (elim exE conjE) (drule sum.inject(2) [THEN iffD1], hypsubst, drule boundedInteger_Inr,
      drule boundedInteger_Inr, drule boundedInteger_Inr, drule boundedInteger_Inr,
      drule boundedInteger_Inr, drule boundedInteger_Inr, drule boundedInteger_Inr,
      drule boundedInteger_Inr, drule boundedInteger_Inr, auto simp: required_Inr env_or_def split: if_splits)

definition sample_worker_env :: process_env where
  "sample_worker_env = [''REDIS_HOST'' \<mapsto> ''redis'']"

theorem loadWorkerConfig_valid_witness:
  "\<exists>c. loadWorkerConfig sample_worker_env = Inr c \<and> wcf_maxAttempts c \<in> {1..20}"
proof -
  have "\<not> isl (loadWorkerConfig sample_worker_env)"
    by (simp add: loadWorkerConfig_def sample_worker_env_def required_def truthy_opt_def env_or_def
        integer_var_def boundedInteger_def sample_numbers)
  then obtain c where "loadWorkerConfig sample_worker_env = Inr c"
    by (cases "loadWorkerConfig sample_worker_env") auto
  then show ?thesis using loadWorkerConfig_valid by blast
qed

end
