(* ===== verification/Lifecycle.thy ===== *)
theory Lifecycle
  imports JsText
begin

text \<open>
  The invoice state machine of the domain package (\<open>invoiceTransitions\<close> and
  \<open>assertInvoiceTransition\<close>), the status enumerations of the persistence package, and the
  idempotency key format.
\<close>

section \<open>Statuses\<close>

datatype InvoiceStatus =
  DRAFT | ISSUED | PARTIALLY_PAID | PAID | PARTIALLY_REFUNDED | REFUNDED | CANCELLED

datatype OutboxStatus = PENDING | PROCESSING | PUBLISHED

datatype DeliveryStatus = SUCCEEDED | RETRYING | DEAD_LETTERED

datatype PaymentStatus = Pay_CAPTURED | Pay_PARTIALLY_REFUNDED | Pay_REFUNDED

fun status_name :: "InvoiceStatus \<Rightarrow> string" where
  "status_name DRAFT = ''DRAFT''"
| "status_name ISSUED = ''ISSUED''"
| "status_name PARTIALLY_PAID = ''PARTIALLY_PAID''"
| "status_name PAID = ''PAID''"
| "status_name PARTIALLY_REFUNDED = ''PARTIALLY_REFUNDED''"
| "status_name REFUNDED = ''REFUNDED''"
| "status_name CANCELLED = ''CANCELLED''"

section \<open>Transitions\<close>

fun invoiceTransitions :: "InvoiceStatus \<Rightarrow> InvoiceStatus list" where
  "invoiceTransitions DRAFT = [ISSUED, CANCELLED]"
| "invoiceTransitions ISSUED = [PARTIALLY_PAID, PAID, CANCELLED]"
| "invoiceTransitions PARTIALLY_PAID = [PAID]"
| "invoiceTransitions PAID = [PARTIALLY_REFUNDED, REFUNDED]"
| "invoiceTransitions PARTIALLY_REFUNDED = [REFUNDED]"
| "invoiceTransitions REFUNDED = []"
| "invoiceTransitions CANCELLED = []"

definition assertInvoiceTransition :: "InvoiceStatus \<Rightarrow> InvoiceStatus \<Rightarrow> exn + bool" where
  "assertInvoiceTransition currentStatus nextStatus =
     (if nextStatus \<in> set (invoiceTransitions currentStatus) then Inr True
      else Inl (CodedErr
        (''Invoice cannot transition from '' @ status_name currentStatus @ '' to '' @
         status_name nextStatus) ''INVALID_INVOICE_TRANSITION''))"

definition may_become :: "InvoiceStatus \<Rightarrow> InvoiceStatus \<Rightarrow> bool" where
  "may_become a b \<longleftrightarrow> assertInvoiceTransition a b = Inr True"

fun stage :: "InvoiceStatus \<Rightarrow> nat" where
  "stage DRAFT = 0"
| "stage ISSUED = 1"
| "stage PARTIALLY_PAID = 2"
| "stage PAID = 3"
| "stage PARTIALLY_REFUNDED = 4"
| "stage REFUNDED = 5"
| "stage CANCELLED = 5"

lemma may_become_iff: "may_become a b \<longleftrightarrow> b \<in> set (invoiceTransitions a)"
  by (simp add: may_become_def assertInvoiceTransition_def)

lemma may_become_stage: "may_become a b \<Longrightarrow> stage a < stage b"
  by (cases a) (auto simp: may_become_iff)

lemma may_become_plus_stage: "may_become\<^sup>+\<^sup>+ a b \<Longrightarrow> stage a < stage b"
  by (induction rule: tranclp_induct) (auto dest: may_become_stage)

lemma may_become_star_stage: "may_become\<^sup>*\<^sup>* a b \<Longrightarrow> stage a \<le> stage b"
  by (induction rule: rtranclp_induct) (auto dest: may_become_stage)

lemma no_step_out: "invoiceTransitions a = [] \<Longrightarrow> may_become\<^sup>*\<^sup>* a b \<Longrightarrow> b = a"
  by (erule converse_rtranclpE) (auto simp: may_become_iff)

section \<open>Idempotency keys\<close>

definition key_format :: "string \<Rightarrow> bool" where
  "key_format k \<longleftrightarrow>
     (case k of [] \<Rightarrow> False | c # cs \<Rightarrow> is_alnum c \<and> class_between is_key_char 15 127 cs)"

text \<open>The header value is absent (\<open>None\<close>, read as the empty string) or text.\<close>

definition normalizeIdempotencyKey :: "string option \<Rightarrow> exn + string" where
  "normalizeIdempotencyKey value =
     (let key = js_trim (case value of None \<Rightarrow> [] | Some v \<Rightarrow> v)
      in if \<not> key_format key
         then Inl (TypeErr ''Idempotency-Key must be 16-128 URL-safe characters'')
         else Inr key)"

lemma is_key_char_not_space: "is_key_char c \<Longrightarrow> \<not> is_space c"
  by (auto simp: is_key_char_def is_alnum_def is_digit_def is_upper_def is_lower_def
      is_space_def in_range_def)

lemma is_alnum_key_char: "is_alnum c \<Longrightarrow> is_key_char c"
  by (simp add: is_key_char_def)

lemma key_format_chars: "key_format k \<Longrightarrow> list_all is_key_char k \<and> 16 \<le> length k \<and> length k \<le> 128"
  by (cases k) (auto simp: key_format_def class_between_def is_alnum_key_char)

lemma key_format_trimmed: "key_format k \<Longrightarrow> js_trim k = k"
  by (rule js_trim_keeps) (auto dest!: key_format_chars simp: list_all_iff is_key_char_not_space)

lemma normalizeIdempotencyKey_Inr [res_simps]:
  "normalizeIdempotencyKey v = Inr k \<longleftrightarrow>
     k = js_trim (case v of None \<Rightarrow> [] | Some s \<Rightarrow> s) \<and> key_format k"
  by (auto simp: normalizeIdempotencyKey_def Let_def)

lemma normalizeIdempotencyKey_again:
  "normalizeIdempotencyKey v = Inr k \<Longrightarrow> normalizeIdempotencyKey (Some k) = Inr k"
  by (auto simp: res_simps key_format_trimmed)

end
