(* ===== verification/StableJson.thy ===== *)
theory StableJson
  imports JsText "HOL-Library.Multiset" "HOL-Library.List_Lexorder" "HOL-Library.Char_ord"
begin

text \<open>
  JSON values and the canonical serialisation \<open>stableJson\<close> of the domain package, whose SHA-256
  is the fingerprint of a request body. Numbers are the integers a validated request body
  holds; an object is the list of its properties, with distinct keys.
\<close>

section \<open>Values and serialisation\<close>

datatype json =
    JSNull
  | JSBool bool
  | JSNum int
  | JSStr string
  | JSArr "json list"
  | JSObj "(string \<times> json) list"

definition escape_char :: "char \<Rightarrow> string" where
  "escape_char c =
     (if c = CHR 0x22 then [CHR 0x5C, CHR 0x22]
      else if c = CHR 0x5C then [CHR 0x5C, CHR 0x5C]
      else if code c = 8 then [CHR 0x5C, CHR ''b'']
      else if code c = 12 then [CHR 0x5C, CHR ''f'']
      else if code c = 10 then [CHR 0x5C, CHR ''n'']
      else if code c = 13 then [CHR 0x5C, CHR ''r'']
      else if code c = 9 then [CHR 0x5C, CHR ''t'']
      else if code c < 32 then
        CHR 0x5C # ''u00'' @ [hex_digit (code c div 16), hex_digit (code c mod 16)]
      else [c])"

definition json_string :: "string \<Rightarrow> string" where
  "json_string s = [CHR 0x22] @ concat (map escape_char s) @ [CHR 0x22]"

fun join_with :: "string \<Rightarrow> string list \<Rightarrow> string" where
  "join_with sep [] = []"
| "join_with sep [x] = x"
| "join_with sep (x # y # ys) = x @ sep @ join_with sep (y # ys)"

definition json_member :: "string \<times> string \<Rightarrow> string" where
  "json_member kv = json_string (fst kv) @ '':'' @ snd kv"

fun stableJson :: "json \<Rightarrow> string" where
  "stableJson JSNull = ''null''"
| "stableJson (JSBool b) = (if b then ''true'' else ''false'')"
| "stableJson (JSNum i) = show_int i"
| "stableJson (JSStr s) = json_string s"
| "stableJson (JSArr vs) = ''['' @ join_with '','' (map stableJson vs) @ '']''"
| "stableJson (JSObj kvs) =
     ''{'' @ join_with '','' (map json_member (sort_key fst (map (map_prod id stableJson) kvs)))
     @ ''}''"

text \<open>\<open>createHash("sha256").update(text).digest("hex")\<close>: the hash is a parameter, from the
  bytes of the text to the bytes of the digest.\<close>

definition sha256_hex :: "(string \<Rightarrow> char list) \<Rightarrow> string \<Rightarrow> string" where
  "sha256_hex sha256 text = hex_of_bytes (sha256 (utf8 text))"

definition requestFingerprint :: "(string \<Rightarrow> char list) \<Rightarrow> json \<Rightarrow> string" where
  "requestFingerprint sha256 value = sha256_hex sha256 (stableJson value)"

section \<open>The serialisation is a code\<close>

text \<open>
  \<open>canon\<close> puts the properties of every object in key order. The canonical text of a value
  determines it up to that order: the text of each part can be read off the front of what
  follows it, so no two different values share a text.
\<close>

fun canon :: "json \<Rightarrow> json" where
  "canon (JSArr vs) = JSArr (map canon vs)"
| "canon (JSObj kvs) = JSObj (sort_key fst (map (map_prod id canon) kvs))"
| "canon v = v"

subsection \<open>Numbers\<close>

fun digits_value :: "nat \<Rightarrow> string \<Rightarrow> nat" where
  "digits_value a [] = a"
| "digits_value a (c # cs) = digits_value (10 * a + (code c - 48)) cs"

lemma digits_value_append: "digits_value a (s @ t) = digits_value (digits_value a s) t"
  by (induction a s rule: digits_value.induct) auto

lemma show_nat_value: "digits_value 0 (show_nat n) = n"
proof (induction n rule: show_nat.induct)
  case (1 n)
  then show ?case
    by (subst show_nat.simps) (auto simp: digits_value_append)
qed

lemma show_nat_digits: "list_all is_digit (show_nat n)"
proof (induction n rule: show_nat.induct)
  case (1 n)
  have "n mod 10 < 10" by simp
  with 1 show ?case
    by (subst show_nat.simps) (auto simp: is_digit_def in_range_def list_all_iff)
qed

lemma show_nat_hd: "is_digit (hd (show_nat n))"
  using show_nat_digits [of n] by (cases "show_nat n") auto

definition ends :: "string \<Rightarrow> bool" where
  "ends r \<longleftrightarrow> (case r of [] \<Rightarrow> True | c # _ \<Rightarrow> \<not> is_digit c)"

lemma digits_prefix:
  assumes "list_all is_digit a" "list_all is_digit b" "ends r" "ends s" "a @ r = b @ s"
  shows "a = b \<and> r = s"
proof -
  have tw: "takeWhile is_digit (x @ y) = x" if "list_all is_digit x" "ends y" for x y
    using that by (cases y) (simp_all add: ends_def takeWhile_append2 list_all_iff)
  show ?thesis using tw [OF assms(1,3)] tw [OF assms(2,4)] assms(5) by simp
qed

lemma show_int_prefix:
  assumes "show_int i @ r = show_int j @ s" and "ends r" and "ends s"
  shows "i = j \<and> r = s"
proof -
  have minus: "\<not> is_digit (CHR ''-'')" by code_simp
  have n: "m = n \<and> r = s" if "show_nat m @ r = show_nat n @ s" for m n
    using digits_prefix [OF show_nat_digits show_nat_digits assms(2,3) that] show_nat_value by metis
  have hd: "show_nat m @ x \<noteq> CHR ''-'' # y" for m x y
    using show_nat_hd [of m] minus by (cases "show_nat m") auto
  have hd': "CHR ''-'' # y \<noteq> show_nat m @ x" for m x y
    using hd [of m x y] by metis
  show ?thesis
  proof (cases "i < 0"; cases "j < 0")
    assume c: "i < 0" "j < 0"
    with assms(1) have "show_nat (nat (- i)) @ r = show_nat (nat (- j)) @ s" by (simp add: show_int_def)
    from n [OF this] c show ?thesis by linarith
  next
    assume c: "\<not> i < 0" "\<not> j < 0"
    with assms(1) have "show_nat (nat i) @ r = show_nat (nat j) @ s" by (simp add: show_int_def)
    from n [OF this] c show ?thesis by linarith
  qed (use assms(1) hd hd' in \<open>simp_all add: show_int_def\<close>)
qed

subsection \<open>Strings\<close>

text \<open>The first escaped character of a text, read back.\<close>

definition unescape :: "string \<Rightarrow> nat \<times> string" where
  "unescape s =
     (if hd s \<noteq> CHR 0x5C then (code (hd s), tl s)
      else let k = s ! 1 in
        if k = CHR ''b'' then (8, drop 2 s)
        else if k = CHR ''f'' then (12, drop 2 s)
        else if k = CHR ''n'' then (10, drop 2 s)
        else if k = CHR ''r'' then (13, drop 2 s)
        else if k = CHR ''t'' then (9, drop 2 s)
        else if k = CHR ''u'' then (16 * digit_val (s ! 4) + digit_val (s ! 5), drop 6 s)
        else (code k, drop 2 s))"

lemma digit_val_hex: "n < 16 \<Longrightarrow> digit_val (hex_digit n) = n"
  unfolding digit_val_def is_digit_def is_lower_def is_upper_def in_range_def hex_digit_code
  by (cases "n < 10") simp_all

lemma unescape_short:
  "unescape (CHR 0x5C # k # x) =
     (if k = CHR ''b'' then (8, x) else if k = CHR ''f'' then (12, x)
      else if k = CHR ''n'' then (10, x) else if k = CHR ''r'' then (13, x)
      else if k = CHR ''t'' then (9, x)
      else if k = CHR ''u'' then (16 * digit_val (x ! 2) + digit_val (x ! 3), drop 4 x)
      else (code k, x))"
  by (simp add: unescape_def Let_def nth_Cons')

lemma unescape_plain: "c \<noteq> CHR 0x5C \<Longrightarrow> unescape (c # x) = (code c, x)"
  by (simp add: unescape_def)

lemma code_inj: "code a = code b \<Longrightarrow> a = b"
  by (rule of_char_eqI)

lemma unescape_escape: "unescape (escape_char c @ x) = (code c, x)"
proof -
  have hex: "16 * digit_val (hex_digit (code c div 16)) + digit_val (hex_digit (code c mod 16)) = code c"
    if "code c < 32" using that by (simp add: digit_val_hex)
  consider (quote) "c = CHR 0x22" | (slash) "c = CHR 0x5C"
    | (named) "code c \<in> {8, 12, 10, 13, 9}"
    | (control) "c \<noteq> CHR 0x22" "c \<noteq> CHR 0x5C" "code c \<notin> {8, 12, 10, 13, 9}" "code c < 32"
    | (plain) "c \<noteq> CHR 0x22" "c \<noteq> CHR 0x5C" "code c \<notin> {8, 12, 10, 13, 9}" "\<not> code c < 32"
    by blast
  then show ?thesis
  proof cases
    case named
    then have "c \<noteq> CHR 0x22" "c \<noteq> CHR 0x5C" by auto
    with named show ?thesis by (auto simp: escape_char_def unescape_short)
  next
    case control
    then have "escape_char c =
        [CHR 0x5C, CHR ''u'', CHR ''0'', CHR ''0'', hex_digit (code c div 16), hex_digit (code c mod 16)]"
      by (simp add: escape_char_def)
    then show ?thesis using hex [OF control(4)] by (simp add: unescape_short)
  next
    case plain
    then have "escape_char c = [c]" by (simp add: escape_char_def)
    then show ?thesis using plain by (simp add: unescape_plain)
  qed (simp_all add: escape_char_def unescape_short)
qed

lemma escape_char_prefix:
  assumes "escape_char c @ x = escape_char c' @ y"
  shows "c = c' \<and> x = y"
proof -
  have "(code c, x) = (code c', y)"
    using unescape_escape [of c x] unescape_escape [of c' y] assms by metis
  then show ?thesis using code_inj by blast
qed

lemma escape_char_hd: "\<exists>h t. escape_char c = h # t \<and> h \<noteq> CHR 0x22"
  by (simp add: escape_char_def)

lemma escaped_prefix:
  assumes "concat (map escape_char a) @ CHR 0x22 # r = concat (map escape_char b) @ CHR 0x22 # s"
  shows "a = b \<and> r = s"
  using assms
proof (induction a arbitrary: b)
  case Nil
  show ?case
  proof (cases b)
    case (Cons c cs)
    with Nil escape_char_hd [of c] show ?thesis by auto
  qed (use Nil in simp)
next
  case (Cons c cs)
  show ?case
  proof (cases b)
    case Nil
    with Cons.prems escape_char_hd [of c] show ?thesis by auto
  next
    case b: (Cons c' cs')
    with Cons.prems have "escape_char c @ (concat (map escape_char cs) @ CHR 0x22 # r)
      = escape_char c' @ (concat (map escape_char cs') @ CHR 0x22 # s)" by simp
    from escape_char_prefix [OF this] Cons.IH [of cs'] b show ?thesis by simp
  qed
qed

lemma json_string_prefix:
  "json_string a @ r = json_string b @ s \<Longrightarrow> a = b \<and> r = s"
  using escaped_prefix [of a r b s] by (simp add: json_string_def)

subsection \<open>Values\<close>

lemma join_with_Cons: "join_with sep (x # xs) = x @ concat (map (\<lambda>y. sep @ y) xs)"
  by (induction xs arbitrary: x) simp_all

text \<open>\<open>read_off f v\<close>: the text of \<open>v\<close>, followed by a delimiter, ends where any text of \<open>f\<close>
  it could be taken for ends.\<close>

definition read_off :: "('a \<Rightarrow> string) \<Rightarrow> 'a \<Rightarrow> bool" where
  "read_off f v \<longleftrightarrow> (\<forall>w r s. f v @ r = f w @ s \<and> ends r \<and> ends s \<longrightarrow> f v = f w \<and> r = s)"

lemma read_off_D:
  "read_off f v \<Longrightarrow> f v @ r = f w @ s \<Longrightarrow> ends r \<Longrightarrow> ends s \<Longrightarrow> f v = f w \<and> r = s"
  by (auto simp: read_off_def)

lemma ends_Cons [simp]: "ends (c # cs) \<longleftrightarrow> \<not> is_digit c"
  by (simp add: ends_def)

lemma delimiters [simp]:
  "\<not> is_digit (CHR '','')" "\<not> is_digit (CHR '']'')" "\<not> is_digit (CHR ''}'')"
  by code_simp+

text \<open>A sequence of texts, each led by a comma, before a closing bracket.\<close>

lemma sequence_prefix:
  assumes "\<forall>v \<in> set vs. read_off f v" and "k \<noteq> CHR '',''" and "\<not> is_digit k"
    and "concat (map (\<lambda>v. CHR '','' # f v) vs) @ k # r = concat (map (\<lambda>w. CHR '','' # f w) ws) @ k # s"
  shows "map f vs = map f ws \<and> r = s"
  using assms
proof (induction vs arbitrary: ws)
  case Nil
  then show ?case by (cases ws) auto
next
  case (Cons v vs)
  show ?case
  proof (cases ws)
    case Nil
    then show ?thesis using Cons.prems by auto
  next
    case ws: (Cons w ws')
    let ?r = "concat (map (\<lambda>v. CHR '','' # f v) vs) @ k # r"
    let ?s = "concat (map (\<lambda>w. CHR '','' # f w) ws') @ k # s"
    have e: "ends (concat (map (\<lambda>v. CHR '','' # f v) us) @ k # t)" for us t
      using Cons.prems(3) by (cases us) simp_all
    have "f v @ ?r = f w @ ?s" using Cons.prems(4) ws by simp
    with Cons.prems(1) have "f v = f w \<and> ?r = ?s" by (intro read_off_D e) auto
    with Cons ws show ?thesis by auto
  qed
qed

lemma bracketed_prefix:
  assumes vs: "\<forall>v \<in> set vs. read_off f v" and k: "k \<noteq> CHR '',''" "\<not> is_digit k"
    and first: "\<And>v t. f v @ t \<noteq> k # r" "\<And>v t. f v @ t \<noteq> k # s"
    and eq: "join_with '','' (map f vs) @ k # r = join_with '','' (map f ws) @ k # s"
  shows "map f vs = map f ws \<and> r = s"
proof -
  have first': "k # r \<noteq> f v @ t" "k # s \<noteq> f v @ t" for v t
    using first by metis+
  have led: "join_with '','' (map f (u # us)) @ t = f u @ concat (map (\<lambda>v. CHR '','' # f v) us) @ t"
    for u us t by (simp add: join_with_Cons o_def)
  show ?thesis
  proof (cases "vs = [] \<or> ws = []")
    case True
    then show ?thesis using eq first first' by (cases vs; cases ws) (auto simp del: list.map(2) simp: led)
  next
    case False
    then obtain v vs' w ws' where c: "vs = v # vs'" "ws = w # ws'" by (meson neq_Nil_conv)
    then have "concat (map (\<lambda>v. CHR '','' # f v) (v # vs')) @ k # r =
        concat (map (\<lambda>v. CHR '','' # f v) (w # ws')) @ k # s"
      using eq by (simp del: list.map(2) join_with.simps add: led) simp
    from sequence_prefix [OF vs [unfolded c] k this] c show ?thesis by simp
  qed
qed

text \<open>The first character tells the kind of a value.\<close>

fun kind :: "json \<Rightarrow> nat" where
  "kind JSNull = 0"
| "kind (JSBool b) = 1"
| "kind (JSNum i) = 2"
| "kind (JSStr s) = 3"
| "kind (JSArr vs) = 4"
| "kind (JSObj kvs) = 5"

definition kind_char :: "char \<Rightarrow> nat" where
  "kind_char c = (if c = CHR ''n'' then 0 else if c \<in> set ''tf'' then 1 else if c = CHR 0x22 then 3
     else if c = CHR ''['' then 4 else if c = CHR ''{'' then 5 else if is_digit c \<or> c = CHR ''-'' then 2
     else 6)"

lemma kind_char_digit: "is_digit c \<Longrightarrow> kind_char c = 2"
proof -
  have "\<not> is_digit (CHR ''n'')" "\<not> is_digit (CHR ''t'')" "\<not> is_digit (CHR ''f'')"
    "\<not> is_digit (CHR 0x22)" "\<not> is_digit (CHR ''['')" "\<not> is_digit (CHR ''{'')" by code_simp+
  then show "is_digit c \<Longrightarrow> kind_char c = 2" by (auto simp: kind_char_def)
qed

lemma stableJson_hd: "stableJson v \<noteq> [] \<and> kind_char (hd (stableJson v)) = kind v"
proof (cases v)
  case (JSNum i)
  have "kind_char (CHR ''-'') = 2" by code_simp
  with JSNum show ?thesis
    using kind_char_digit [OF show_nat_hd] by (simp add: show_int_def)
qed (simp_all add: kind_char_def json_string_def)

lemma same_kind: "stableJson v @ r = stableJson w @ s \<Longrightarrow> kind v = kind w"
  using stableJson_hd [of v] stableJson_hd [of w] by (metis hd_append2)

lemma stableJson_first: "kind_char k = 6 \<Longrightarrow> stableJson v @ t \<noteq> k # r"
  using stableJson_hd [of v] by (cases "stableJson v"; cases v) auto

definition member_text :: "string \<times> json \<Rightarrow> string" where
  "member_text kv = json_member (map_prod id stableJson kv)"

lemma sort_key_map_fst:
  "sort_key fst (map (map_prod id g) kvs) = map (map_prod id g) (sort_key fst kvs)"
proof -
  have "insort_key fst (map_prod id g kv) (map (map_prod id g) xs) =
      map (map_prod id g) (insort_key fst kv xs)" for kv xs
    by (induction xs) auto
  note ins = this
  show ?thesis by (induction kvs) (simp_all only: list.map sort_key_simps ins)
qed

lemma stableJson_JSObj:
  "stableJson (JSObj kvs) = ''{'' @ join_with '','' (map member_text (sort_key fst kvs)) @ ''}''"
  by (simp add: sort_key_map_fst member_text_def [abs_def] o_def)

lemma member_text_prefix:
  assumes "member_text (a, v) @ r = member_text (b, w) @ s"
  shows "a = b \<and> stableJson v @ r = stableJson w @ s"
  using json_string_prefix [of a "'':'' @ stableJson v @ r" b "'':'' @ stableJson w @ s"] assms
  by (simp add: member_text_def json_member_def)

lemma read_off_member:
  assumes "read_off stableJson v"
  shows "read_off member_text (a, v)"
  unfolding read_off_def
proof (intro allI impI)
  fix kw :: "string \<times> json" and r s
  assume eq: "member_text (a, v) @ r = member_text kw @ s \<and> ends r \<and> ends s"
  obtain b w where kw: "kw = (b, w)" by (cases kw)
  with eq have ab: "a = b" and t: "stableJson v @ r = stableJson w @ s"
    using member_text_prefix [of a v r b w s] by simp_all
  from read_off_D [OF assms t] eq have "stableJson v = stableJson w \<and> r = s" by blast
  with ab kw show "member_text (a, v) = member_text kw \<and> r = s"
    by (simp add: member_text_def)
qed

lemma member_text_first: "k \<noteq> CHR 0x22 \<Longrightarrow> member_text kv @ t \<noteq> k # r"
  by (cases kv) (simp add: member_text_def json_member_def json_string_def)

lemma stableJson_read_off: "read_off stableJson v"
proof (induction v)
  case JSNull
  show ?case unfolding read_off_def
  proof (intro allI impI)
    fix w r s assume "stableJson JSNull @ r = stableJson w @ s \<and> ends r \<and> ends s"
    then show "stableJson JSNull = stableJson w \<and> r = s"
      using same_kind [of JSNull r w s] by (cases w) auto
  qed
next
  case (JSBool b)
  show ?case unfolding read_off_def
  proof (intro allI impI)
    fix w r s assume "stableJson (JSBool b) @ r = stableJson w @ s \<and> ends r \<and> ends s"
    then show "stableJson (JSBool b) = stableJson w \<and> r = s"
      using same_kind [of "JSBool b" r w s] by (cases w) (auto split: if_splits)
  qed
next
  case (JSNum i)
  show ?case unfolding read_off_def
  proof (intro allI impI)
    fix w r s assume a: "stableJson (JSNum i) @ r = stableJson w @ s \<and> ends r \<and> ends s"
    then obtain j where "w = JSNum j" using same_kind [of "JSNum i" r w s] by (cases w) auto
    with a show "stableJson (JSNum i) = stableJson w \<and> r = s"
      using show_int_prefix [of i r j s] by simp
  qed
next
  case (JSStr t)
  show ?case unfolding read_off_def
  proof (intro allI impI)
    fix w r s assume a: "stableJson (JSStr t) @ r = stableJson w @ s \<and> ends r \<and> ends s"
    then obtain u where "w = JSStr u" using same_kind [of "JSStr t" r w s] by (cases w) auto
    with a show "stableJson (JSStr t) = stableJson w \<and> r = s"
      using json_string_prefix [of t r u s] by simp
  qed
next
  case (JSArr vs)
  show ?case unfolding read_off_def
  proof (intro allI impI)
    fix w r s assume a: "stableJson (JSArr vs) @ r = stableJson w @ s \<and> ends r \<and> ends s"
    then obtain ws where w: "w = JSArr ws" using same_kind [of "JSArr vs" r w s] by (cases w) auto
    have k: "kind_char (CHR '']'') = 6" by code_simp
    from a w have "join_with '','' (map stableJson vs) @ CHR '']'' # r =
        join_with '','' (map stableJson ws) @ CHR '']'' # s" by simp
    with JSArr have "map stableJson vs = map stableJson ws \<and> r = s"
      by (intro bracketed_prefix stableJson_first) (auto intro: k)
    with w show "stableJson (JSArr vs) = stableJson w \<and> r = s" by simp
  qed
next
  case (JSObj kvs)
  show ?case unfolding read_off_def
  proof (intro allI impI)
    fix w r s assume a: "stableJson (JSObj kvs) @ r = stableJson w @ s \<and> ends r \<and> ends s"
    then obtain ws where w: "w = JSObj ws" using same_kind [of "JSObj kvs" r w s] by (cases w) auto
    have "\<forall>kv \<in> set (sort_key fst kvs). read_off member_text kv"
      using JSObj by (auto intro!: read_off_member)
    moreover from a w have "join_with '','' (map member_text (sort_key fst kvs)) @ CHR ''}'' # r =
        join_with '','' (map member_text (sort_key fst ws)) @ CHR ''}'' # s"
      by (simp only: stableJson_JSObj) simp
    ultimately have "map member_text (sort_key fst kvs) = map member_text (sort_key fst ws) \<and> r = s"
      by (intro bracketed_prefix member_text_first) auto
    with w show "stableJson (JSObj kvs) = stableJson w \<and> r = s" by (simp only: stableJson_JSObj)
  qed
qed

lemma stableJson_eq_canon: "stableJson v = stableJson w \<Longrightarrow> canon v = canon w"
proof (induction v arbitrary: w)
  case (JSArr vs)
  then obtain ws where w: "w = JSArr ws" using same_kind [of "JSArr vs" "[]" w "[]"] by (cases w) auto
  have "map stableJson vs = map stableJson ws \<and> [] = ([] :: string)"
  proof (rule bracketed_prefix)
    show "join_with '','' (map stableJson vs) @ CHR '']'' # [] =
        join_with '','' (map stableJson ws) @ CHR '']'' # []" using JSArr.prems w by simp
  qed (simp_all add: stableJson_read_off stableJson_first kind_char_def)
  then have "map canon vs = map canon ws"
    using JSArr.IH by (auto simp: list_eq_iff_nth_eq dest: map_eq_imp_length_eq)
  with w show ?case by simp
next
  case (JSObj kvs)
  then obtain ws where w: "w = JSObj ws" using same_kind [of "JSObj kvs" "[]" w "[]"] by (cases w) auto
  let ?a = "sort_key fst kvs" and ?b = "sort_key fst ws"
  have "map member_text ?a = map member_text ?b \<and> [] = ([] :: string)"
  proof (rule bracketed_prefix)
    show "join_with '','' (map member_text ?a) @ CHR ''}'' # [] =
        join_with '','' (map member_text ?b) @ CHR ''}'' # []"
      using JSObj.prems w by (simp only: stableJson_JSObj) simp
    show "\<forall>kv \<in> set ?a. read_off member_text kv"
      by (auto intro!: read_off_member stableJson_read_off)
  qed (simp_all add: member_text_first)
  then have same: "map member_text ?a = map member_text ?b" by blast
  then have len: "length ?a = length ?b" by (rule map_eq_imp_length_eq)
  have nth: "member_text (?a ! i) = member_text (?b ! i)" if "i < length ?a" for i
    using that len same nth_map [of i ?a member_text] nth_map [of i ?b member_text] by simp
  have "map_prod id canon (?a ! i) = map_prod id canon (?b ! i)" if i: "i < length ?a" for i
  proof -
    obtain k v l x where kv: "?a ! i = (k, v)" "?b ! i = (l, x)" by fastforce
    with nth [OF i] have "k = l" "stableJson v = stableJson x"
      using member_text_prefix [of k v "[]" l x "[]"] by simp_all
    moreover have "(k, v) \<in> set kvs" using i kv by (metis nth_mem set_sort)
    ultimately show ?thesis using JSObj.IH [of "(k, v)" v x] kv by simp
  qed
  with len have "map (map_prod id canon) ?a = map (map_prod id canon) ?b"
    by (simp add: list_eq_iff_nth_eq)
  with w show ?case by (simp add: sort_key_map_fst)
next
  case JSNull
  then show ?case using same_kind [of JSNull "[]" w "[]"] by (cases w) auto
next
  case (JSBool b)
  then show ?case using same_kind [of "JSBool b" "[]" w "[]"] by (cases w) (auto split: if_splits)
next
  case (JSNum i)
  then obtain j where "w = JSNum j" using same_kind [of "JSNum i" "[]" w "[]"] by (cases w) auto
  then show ?case using JSNum show_int_prefix [of i "[]" j "[]"] by (simp add: ends_def)
next
  case (JSStr t)
  then obtain u where "w = JSStr u" using same_kind [of "JSStr t" "[]" w "[]"] by (cases w) auto
  then show ?case using JSStr json_string_prefix [of t "[]" u "[]"] by simp
qed

lemma stableJson_canon: "stableJson (canon v) = stableJson v"
proof (induction v)
  case (JSObj kvs)
  then have "map (map_prod id stableJson \<circ> map_prod id canon) kvs = map (map_prod id stableJson) kvs"
    by (auto simp: map_prod_def)
  then have "map (map_prod id stableJson) (sort_key fst (map (map_prod id canon) kvs)) =
      sort_key fst (map (map_prod id stableJson) kvs)"
    by (simp only: sort_key_map_fst [symmetric] list.map_comp)
  then show ?case by (simp add: sort_key_id_if_sorted)
next
  case (JSArr vs)
  then have "map (stableJson \<circ> canon) vs = map stableJson vs" by auto
  then show ?case by (simp only: canon.simps stableJson.simps list.map_comp)
qed simp_all

lemma stableJson_iff_canon: "stableJson v = stableJson w \<longleftrightarrow> canon v = canon w"
  using stableJson_eq_canon stableJson_canon by metis

text \<open>Canonically equal objects agree on every property.\<close>

lemma canon_lookup:
  assumes "canon (JSObj kvs) = canon (JSObj kws)"
    and "distinct (map fst kvs)" "distinct (map fst kws)"
  shows "map_option canon (map_of kvs k) = map_option canon (map_of kws k)"
proof -
  have sorted: "map_of (sort_key fst xs) = map_of xs" if "distinct (map fst xs)" for xs :: "(string \<times> json) list"
  proof (subst map_of_inject_set)
    have "mset (map fst (sort_key fst xs)) = mset (map fst xs)" by (metis mset_map mset_sort)
    then show "distinct (map fst (sort_key fst xs))" using that by (metis mset_eq_imp_distinct_iff)
  qed (use that in simp_all)
  have d: "distinct (map fst (map (map_prod id canon) xs))" if "distinct (map fst xs)" for xs :: "(string \<times> json) list"
    using that by (simp add: o_def)
  have lookup: "map_of (map (map_prod id canon) xs) k = map_option canon (map_of xs k)" for xs :: "(string \<times> json) list"
    by (induction xs) auto
  from assms(1) have "map_of (sort_key fst (map (map_prod id canon) kvs)) =
      map_of (sort_key fst (map (map_prod id canon) kws))" by simp
  then show ?thesis by (simp only: sorted [OF d [OF assms(2)]] sorted [OF d [OF assms(3)]] flip: lookup)
qed

text \<open>C33: Two JSON values have the same canonical text exactly when they are the same value up to
  the order of the properties of their objects: reordering a body's properties never changes
  the text that is fingerprinted, and no two bodies that differ otherwise share it.\<close>

theorem stableJson_equal_iff: "stableJson v = stableJson w \<longleftrightarrow> canon v = canon w"
  using stableJson_iff_canon .

end
