(* ===== verification/Database.thy ===== *)
theory Database
  imports Lifecycle StableJson
begin

text \<open>
  The tables of the persistence package: one record per entity, in the column order of
  \<open>entities.ts\<close>, and the \<open>INSERT\<close>s and \<open>UPDATE\<close>s the services run, with the column
  types, unique keys, foreign keys and checks the entities and the migrations declare. A
  refused statement is \<open>QueryFailed\<close> with the server's error code. Dates are milliseconds since
  the epoch.

  How the server compares strings is its collation, a parameter kept in the database itself:
  two strings are equal to SQL when their collation keys are, while the TypeScript code
  compares strings exactly.
\<close>

section \<open>Entities\<close>

record merchant =
  mer_id :: string
  mer_parentMerchantId :: "string option"
  mer_name :: string
  mer_active :: bool
  mer_createdAt :: int

record store =
  sto_id :: string
  sto_merchantId :: string
  sto_code :: string
  sto_name :: string
  sto_timezone :: string
  sto_active :: bool
  sto_createdAt :: int

record invoice =
  inv_id :: string
  inv_merchantId :: string
  inv_storeId :: string
  inv_createdBy :: string
  inv_customerName :: string
  inv_customerContact :: string
  inv_currency :: string
  inv_subtotalMinor :: int
  inv_discountMinor :: int
  inv_taxRateBasisPoints :: int
  inv_taxMinor :: int
  inv_totalMinor :: int
  inv_status :: InvoiceStatus
  inv_issuedAt :: int
  inv_version :: int
  inv_createdAt :: int

record invoice_line =
  lin_id :: string
  lin_invoiceId :: string
  lin_position :: int
  lin_description :: string
  lin_quantity :: int
  lin_unitPriceMinor :: int
  lin_lineTotalMinor :: int

text \<open>The response of the invoice operations, also stored in the idempotency records.\<close>

record InvoiceResponse =
  rsp_id :: string
  rsp_storeId :: string
  rsp_status :: InvoiceStatus
  rsp_currency :: string
  rsp_subtotalMinor :: int
  rsp_discountMinor :: int
  rsp_taxMinor :: int
  rsp_totalMinor :: int
  rsp_issuedAt :: int
  rsp_version :: int

record idempotency_record =
  idm_id :: string
  idm_actorMerchantId :: string
  idm_operation :: string
  idm_idempotencyKey :: string
  idm_requestHash :: string
  idm_responseStatus :: int
  idm_responseBody :: InvoiceResponse
  idm_createdAt :: int

text \<open>The payload of an outbox event; payment events carry the last two properties.\<close>

record event_payload =
  evp_eventId :: string
  evp_invoiceId :: string
  evp_merchantId :: string
  evp_storeId :: string
  evp_customerName :: string
  evp_customerContact :: string
  evp_currency :: string
  evp_totalMinor :: int
  evp_status :: InvoiceStatus
  evp_issuedAt :: int
  evp_providerEventId :: "string option"
  evp_paymentAmountMinor :: "int option"

record outbox_event =
  obx_id :: string
  obx_aggregateType :: string
  obx_aggregateId :: string
  obx_merchantId :: string
  obx_eventType :: string
  obx_payload :: event_payload
  obx_status :: OutboxStatus
  obx_attempts :: int
  obx_availableAt :: int
  obx_lockUntil :: "int option"
  obx_publishedAt :: "int option"
  obx_lastError :: "string option"
  obx_createdAt :: int

record delivery_attempt =
  dlv_id :: int
  dlv_eventId :: string
  dlv_attemptNumber :: int
  dlv_status :: DeliveryStatus
  dlv_providerReference :: "string option"
  dlv_errorCode :: "string option"
  dlv_errorMessage :: "string option"
  dlv_createdAt :: int

record payment =
  pay_id :: string
  pay_merchantId :: string
  pay_invoiceId :: string
  pay_provider :: string
  pay_providerPaymentId :: string
  pay_amountMinor :: int
  pay_refundedMinor :: int
  pay_currency :: string
  pay_status :: PaymentStatus
  pay_capturedAt :: int
  pay_version :: int
  pay_createdAt :: int

record refund =
  rfd_id :: string
  rfd_merchantId :: string
  rfd_paymentId :: string
  rfd_provider :: string
  rfd_providerRefundId :: string
  rfd_amountMinor :: int
  rfd_refundedAt :: int
  rfd_createdAt :: int

record webhook_receipt =
  rcp_id :: string
  rcp_provider :: string
  rcp_providerEventId :: string
  rcp_eventType :: string
  rcp_payloadHash :: string
  rcp_receivedAt :: int

record audit_event =
  aud_id :: string
  aud_merchantId :: string
  aud_actorSubject :: string
  aud_action :: string
  aud_resourceType :: string
  aud_resourceId :: string
  aud_requestId :: "string option"
  aud_details :: json
  aud_createdAt :: int

record database =
  collation :: "string \<Rightarrow> string"
  merchants :: "merchant list"
  stores :: "store list"
  invoices :: "invoice list"
  invoice_lines :: "invoice_line list"
  idempotency_records :: "idempotency_record list"
  outbox_events :: "outbox_event list"
  delivery_attempts :: "delivery_attempt list"
  payments :: "payment list"
  refunds :: "refund list"
  webhook_receipts :: "webhook_receipt list"
  audit_events :: "audit_event list"

text \<open>
  What an operation reads from its surroundings: its \<open>i\<close>-th reading of the application clock,
  its \<open>i\<close>-th random UUID, and the server's current timestamp.
\<close>

record env =
  clock :: "nat \<Rightarrow> int"
  uuid :: "nat \<Rightarrow> string"
  db_now :: int

section \<open>Comparing and storing values\<close>

definition sql_eq :: "database \<Rightarrow> string \<Rightarrow> string \<Rightarrow> bool" where
  "sql_eq d a b \<longleftrightarrow> collation d a = collation d b"

definition uint_col :: "nat \<Rightarrow> int \<Rightarrow> bool \<times> string" where
  "uint_col bits v = (0 \<le> v \<and> v < 2 ^ bits, ''ER_WARN_DATA_OUT_OF_RANGE'')"

definition text_col :: "nat \<Rightarrow> string \<Rightarrow> bool \<times> string" where
  "text_col n s = (length s \<le> n, ''ER_DATA_TOO_LONG'')"

definition unique_key :: "('r \<Rightarrow> 'k) \<Rightarrow> 'r list \<Rightarrow> 'r \<Rightarrow> bool \<times> string" where
  "unique_key k rows r = (k r \<notin> k ` set rows, ''ER_DUP_ENTRY'')"

definition foreign_key :: "'k \<Rightarrow> ('r \<Rightarrow> 'k) \<Rightarrow> 'r list \<Rightarrow> bool \<times> string" where
  "foreign_key v k rows = (v \<in> k ` set rows, ''ER_NO_REFERENCED_ROW_2'')"

definition check_that :: "bool \<Rightarrow> bool \<times> string" where
  "check_that c = (c, ''ER_CHECK_CONSTRAINT_VIOLATED'')"

text \<open>A row is stored when every constraint holds; the first violated one is the error.\<close>

definition insert_row :: "(bool \<times> string) list \<Rightarrow> 'r \<Rightarrow> 'r list \<Rightarrow> exn + 'r list" where
  "insert_row constraints r rows =
     (case find (\<lambda>c. \<not> fst c) constraints of
        Some c \<Rightarrow> Inl (QueryFailed (snd c))
      | None \<Rightarrow> Inr (rows @ [r]))"

text \<open>The error test both services use.\<close>

fun isDuplicateKey :: "exn \<Rightarrow> bool" where
  "isDuplicateKey (QueryFailed c) = (c = ''ER_DUP_ENTRY'')"
| "isDuplicateKey (CodedErr m c) = (c = ''ER_DUP_ENTRY'')"
| "isDuplicateKey _ = False"

text \<open>An integral \<open>Number\<close> bound to an integer column; anything else does not fit one.\<close>

definition int_column :: "jsnum \<Rightarrow> exn + int" where
  "int_column n =
     (if is_integer n then Inr (num_int n) else Inl (QueryFailed ''ER_WARN_DATA_OUT_OF_RANGE''))"

section \<open>Inserts\<close>

definition invoice_constraints :: "database \<Rightarrow> invoice \<Rightarrow> (bool \<times> string) list" where
  "invoice_constraints d r =
     [text_col 36 (inv_id r), text_col 36 (inv_merchantId r), text_col 36 (inv_storeId r),
      text_col 120 (inv_createdBy r), text_col 160 (inv_customerName r),
      text_col 254 (inv_customerContact r), text_col 3 (inv_currency r),
      uint_col 32 (inv_subtotalMinor r), uint_col 32 (inv_discountMinor r),
      uint_col 16 (inv_taxRateBasisPoints r), uint_col 32 (inv_taxMinor r),
      uint_col 32 (inv_totalMinor r), uint_col 32 (inv_version r),
      unique_key (\<lambda>x. collation d (inv_id x)) (invoices d) r,
      foreign_key (collation d (inv_merchantId r)) (\<lambda>x. collation d (mer_id x)) (merchants d),
      foreign_key (collation d (inv_storeId r)) (\<lambda>x. collation d (sto_id x)) (stores d)]"

definition insert_invoice :: "invoice \<Rightarrow> database \<Rightarrow> exn + database" where
  "insert_invoice r d =
     bindE (insert_row (invoice_constraints d r) r (invoices d)) (\<lambda>rs. Inr (d\<lparr>invoices := rs\<rparr>))"

definition line_constraints :: "database \<Rightarrow> invoice_line \<Rightarrow> (bool \<times> string) list" where
  "line_constraints d r =
     [text_col 36 (lin_id r), text_col 36 (lin_invoiceId r), uint_col 16 (lin_position r),
      text_col 240 (lin_description r), uint_col 16 (lin_quantity r),
      uint_col 32 (lin_unitPriceMinor r), uint_col 32 (lin_lineTotalMinor r),
      unique_key (\<lambda>x. collation d (lin_id x)) (invoice_lines d) r,
      unique_key (\<lambda>x. (collation d (lin_invoiceId x), lin_position x)) (invoice_lines d) r,
      foreign_key (collation d (lin_invoiceId r)) (\<lambda>x. collation d (inv_id x)) (invoices d)]"

definition insert_line :: "database \<Rightarrow> invoice_line \<Rightarrow> exn + database" where
  "insert_line d r =
     bindE (insert_row (line_constraints d r) r (invoice_lines d))
       (\<lambda>rs. Inr (d\<lparr>invoice_lines := rs\<rparr>))"

definition idempotency_constraints :: "database \<Rightarrow> idempotency_record \<Rightarrow> (bool \<times> string) list" where
  "idempotency_constraints d r =
     [text_col 36 (idm_id r), text_col 36 (idm_actorMerchantId r), text_col 80 (idm_operation r),
      text_col 128 (idm_idempotencyKey r), text_col 64 (idm_requestHash r),
      uint_col 16 (idm_responseStatus r),
      unique_key (\<lambda>x. collation d (idm_id x)) (idempotency_records d) r,
      unique_key (\<lambda>x. (collation d (idm_actorMerchantId x), collation d (idm_operation x),
        collation d (idm_idempotencyKey x))) (idempotency_records d) r]"

definition insert_idempotency :: "idempotency_record \<Rightarrow> database \<Rightarrow> exn + database" where
  "insert_idempotency r d =
     bindE (insert_row (idempotency_constraints d r) r (idempotency_records d))
       (\<lambda>rs. Inr (d\<lparr>idempotency_records := rs\<rparr>))"

definition outbox_constraints :: "database \<Rightarrow> outbox_event \<Rightarrow> (bool \<times> string) list" where
  "outbox_constraints d r =
     [text_col 36 (obx_id r), text_col 80 (obx_aggregateType r), text_col 36 (obx_aggregateId r),
      text_col 36 (obx_merchantId r), text_col 120 (obx_eventType r), uint_col 16 (obx_attempts r),
      unique_key (\<lambda>x. collation d (obx_id x)) (outbox_events d) r,
      foreign_key (collation d (obx_merchantId r)) (\<lambda>x. collation d (mer_id x)) (merchants d)]"

definition insert_outbox :: "outbox_event \<Rightarrow> database \<Rightarrow> exn + database" where
  "insert_outbox r d =
     bindE (insert_row (outbox_constraints d r) r (outbox_events d))
       (\<lambda>rs. Inr (d\<lparr>outbox_events := rs\<rparr>))"

definition payment_checks :: "payment \<Rightarrow> (bool \<times> string) list" where
  "payment_checks r =
     [uint_col 32 (pay_amountMinor r), uint_col 32 (pay_refundedMinor r), uint_col 32 (pay_version r),
      check_that (0 < pay_amountMinor r), check_that (pay_refundedMinor r \<le> pay_amountMinor r)]"

definition payment_constraints :: "database \<Rightarrow> payment \<Rightarrow> (bool \<times> string) list" where
  "payment_constraints d r =
     [text_col 36 (pay_id r), text_col 36 (pay_merchantId r), text_col 36 (pay_invoiceId r),
      text_col 40 (pay_provider r), text_col 120 (pay_providerPaymentId r),
      text_col 3 (pay_currency r)] @ payment_checks r @
     [unique_key (\<lambda>x. collation d (pay_id x)) (payments d) r,
      unique_key (\<lambda>x. (collation d (pay_provider x), collation d (pay_providerPaymentId x)))
        (payments d) r,
      foreign_key (collation d (pay_merchantId r)) (\<lambda>x. collation d (mer_id x)) (merchants d),
      foreign_key (collation d (pay_invoiceId r)) (\<lambda>x. collation d (inv_id x)) (invoices d)]"

definition insert_payment :: "payment \<Rightarrow> database \<Rightarrow> exn + database" where
  "insert_payment r d =
     bindE (insert_row (payment_constraints d r) r (payments d)) (\<lambda>rs. Inr (d\<lparr>payments := rs\<rparr>))"

definition refund_constraints :: "database \<Rightarrow> refund \<Rightarrow> (bool \<times> string) list" where
  "refund_constraints d r =
     [text_col 36 (rfd_id r), text_col 36 (rfd_merchantId r), text_col 36 (rfd_paymentId r),
      text_col 40 (rfd_provider r), text_col 120 (rfd_providerRefundId r),
      uint_col 32 (rfd_amountMinor r), check_that (0 < rfd_amountMinor r),
      unique_key (\<lambda>x. collation d (rfd_id x)) (refunds d) r,
      unique_key (\<lambda>x. (collation d (rfd_provider x), collation d (rfd_providerRefundId x)))
        (refunds d) r,
      foreign_key (collation d (rfd_merchantId r)) (\<lambda>x. collation d (mer_id x)) (merchants d),
      foreign_key (collation d (rfd_paymentId r)) (\<lambda>x. collation d (pay_id x)) (payments d)]"

definition insert_refund :: "refund \<Rightarrow> database \<Rightarrow> exn + database" where
  "insert_refund r d =
     bindE (insert_row (refund_constraints d r) r (refunds d)) (\<lambda>rs. Inr (d\<lparr>refunds := rs\<rparr>))"

definition receipt_constraints :: "database \<Rightarrow> webhook_receipt \<Rightarrow> (bool \<times> string) list" where
  "receipt_constraints d r =
     [text_col 36 (rcp_id r), text_col 40 (rcp_provider r), text_col 120 (rcp_providerEventId r),
      text_col 80 (rcp_eventType r), text_col 64 (rcp_payloadHash r),
      unique_key (\<lambda>x. collation d (rcp_id x)) (webhook_receipts d) r,
      unique_key (\<lambda>x. (collation d (rcp_provider x), collation d (rcp_providerEventId x)))
        (webhook_receipts d) r]"

definition insert_receipt :: "webhook_receipt \<Rightarrow> database \<Rightarrow> exn + database" where
  "insert_receipt r d =
     bindE (insert_row (receipt_constraints d r) r (webhook_receipts d))
       (\<lambda>rs. Inr (d\<lparr>webhook_receipts := rs\<rparr>))"

definition audit_constraints :: "database \<Rightarrow> audit_event \<Rightarrow> (bool \<times> string) list" where
  "audit_constraints d r =
     [text_col 36 (aud_id r), text_col 36 (aud_merchantId r), text_col 120 (aud_actorSubject r),
      text_col 120 (aud_action r), text_col 80 (aud_resourceType r), text_col 120 (aud_resourceId r),
      text_col 128 (case aud_requestId r of None \<Rightarrow> [] | Some s \<Rightarrow> s),
      unique_key (\<lambda>x. collation d (aud_id x)) (audit_events d) r,
      foreign_key (collation d (aud_merchantId r)) (\<lambda>x. collation d (mer_id x)) (merchants d)]"

definition insert_audit :: "audit_event \<Rightarrow> database \<Rightarrow> exn + database" where
  "insert_audit r d =
     bindE (insert_row (audit_constraints d r) r (audit_events d))
       (\<lambda>rs. Inr (d\<lparr>audit_events := rs\<rparr>))"

section \<open>Updates and transactions\<close>

text \<open>An \<open>UPDATE\<close> returns the number of rows it changed.\<close>

definition set_invoice_status ::
  "(invoice \<Rightarrow> bool) \<Rightarrow> InvoiceStatus \<Rightarrow> database \<Rightarrow> exn + nat \<times> database" where
  "set_invoice_status P s d =
     (let f = (\<lambda>r. r\<lparr>inv_status := s, inv_version := inv_version r + 1\<rparr>) in
      if list_all (\<lambda>r. fst (uint_col 32 (inv_version (f r)))) (filter P (invoices d))
      then Inr (count_where P (invoices d), d\<lparr>invoices := update_where P f (invoices d)\<rparr>)
      else Inl (QueryFailed ''ER_WARN_DATA_OUT_OF_RANGE''))"

definition set_payment_refunded ::
  "(payment \<Rightarrow> bool) \<Rightarrow> int \<Rightarrow> PaymentStatus \<Rightarrow> database \<Rightarrow> exn + database" where
  "set_payment_refunded P n s d =
     (let f = (\<lambda>r. r\<lparr>pay_refundedMinor := n, pay_status := s, pay_version := pay_version r + 1\<rparr>) in
      case find (\<lambda>c. \<not> fst c) (concat (map (\<lambda>r. payment_checks (f r)) (filter P (payments d)))) of
        Some c \<Rightarrow> Inl (QueryFailed (snd c))
      | None \<Rightarrow> Inr (d\<lparr>payments := update_where P f (payments d)\<rparr>))"

text \<open>A transaction commits the state its body returns, or rolls back and rethrows.\<close>

definition transaction ::
  "(database \<Rightarrow> exn + 'a \<times> database) \<Rightarrow> database \<Rightarrow> (exn + 'a) \<times> database" where
  "transaction body d =
     (case body d of Inl e \<Rightarrow> (Inl e, d) | Inr (a, d') \<Rightarrow> (Inr a, d'))"

section \<open>Lemmas on inserts and updates\<close>

lemma sql_eq_refl [simp]: "sql_eq d a a"
  by (simp add: sql_eq_def)

lemma sql_eq_sym: "sql_eq d a b \<longleftrightarrow> sql_eq d b a"
  by (auto simp: sql_eq_def)

lemma find_None_list_all: "find (\<lambda>c. \<not> P c) cs = None \<longleftrightarrow> list_all P cs"
  by (induction cs) auto

lemma insert_row_Inr [res_simps]:
  "insert_row cs r rows = Inr rs \<longleftrightarrow> list_all fst cs \<and> rs = rows @ [r]"
  unfolding insert_row_def by (auto simp flip: find_None_list_all split: option.splits)

lemmas insert_defs = insert_invoice_def insert_line_def insert_idempotency_def insert_outbox_def
  insert_payment_def insert_refund_def insert_receipt_def insert_audit_def

lemmas constraint_defs = invoice_constraints_def line_constraints_def idempotency_constraints_def
  outbox_constraints_def payment_constraints_def payment_checks_def refund_constraints_def
  receipt_constraints_def audit_constraints_def

lemmas column_defs = text_col_def uint_col_def unique_key_def foreign_key_def check_that_def

lemma insert_invoice_Inr [res_simps]:
  "insert_invoice r d = Inr d' \<longleftrightarrow>
     list_all fst (invoice_constraints d r) \<and> d' = d\<lparr>invoices := invoices d @ [r]\<rparr>"
  by (auto simp: insert_defs res_simps)

lemma insert_line_Inr [res_simps]:
  "insert_line d r = Inr d' \<longleftrightarrow>
     list_all fst (line_constraints d r) \<and> d' = d\<lparr>invoice_lines := invoice_lines d @ [r]\<rparr>"
  by (auto simp: insert_defs res_simps)

lemma insert_idempotency_Inr [res_simps]:
  "insert_idempotency r d = Inr d' \<longleftrightarrow>
     list_all fst (idempotency_constraints d r) \<and>
     d' = d\<lparr>idempotency_records := idempotency_records d @ [r]\<rparr>"
  by (auto simp: insert_defs res_simps)

lemma insert_outbox_Inr [res_simps]:
  "insert_outbox r d = Inr d' \<longleftrightarrow>
     list_all fst (outbox_constraints d r) \<and> d' = d\<lparr>outbox_events := outbox_events d @ [r]\<rparr>"
  by (auto simp: insert_defs res_simps)

lemma insert_payment_Inr [res_simps]:
  "insert_payment r d = Inr d' \<longleftrightarrow>
     list_all fst (payment_constraints d r) \<and> d' = d\<lparr>payments := payments d @ [r]\<rparr>"
  by (auto simp: insert_defs res_simps)

lemma insert_refund_Inr [res_simps]:
  "insert_refund r d = Inr d' \<longleftrightarrow>
     list_all fst (refund_constraints d r) \<and> d' = d\<lparr>refunds := refunds d @ [r]\<rparr>"
  by (auto simp: insert_defs res_simps)

lemma insert_receipt_Inr [res_simps]:
  "insert_receipt r d = Inr d' \<longleftrightarrow>
     list_all fst (receipt_constraints d r) \<and>
     d' = d\<lparr>webhook_receipts := webhook_receipts d @ [r]\<rparr>"
  by (auto simp: insert_defs res_simps)

lemma insert_audit_Inr [res_simps]:
  "insert_audit r d = Inr d' \<longleftrightarrow>
     list_all fst (audit_constraints d r) \<and> d' = d\<lparr>audit_events := audit_events d @ [r]\<rparr>"
  by (auto simp: insert_defs res_simps)

lemma set_invoice_status_Inr [res_simps]:
  "set_invoice_status P s d = Inr (n, d') \<longleftrightarrow>
     list_all (\<lambda>r. inv_version r + 1 < 2 ^ 32 \<and> 0 \<le> inv_version r + 1) (filter P (invoices d)) \<and>
     n = count_where P (invoices d) \<and>
     d' = d\<lparr>invoices := update_where P
       (\<lambda>r. r\<lparr>inv_status := s, inv_version := inv_version r + 1\<rparr>) (invoices d)\<rparr>"
  by (auto simp: set_invoice_status_def uint_col_def Let_def list_all_iff)

lemma set_payment_refunded_Inr [res_simps]:
  "set_payment_refunded P n s d = Inr d' \<longleftrightarrow>
     list_all fst (concat (map (\<lambda>r. payment_checks
       (r\<lparr>pay_refundedMinor := n, pay_status := s, pay_version := pay_version r + 1\<rparr>))
       (filter P (payments d)))) \<and>
     d' = d\<lparr>payments := update_where P
       (\<lambda>r. r\<lparr>pay_refundedMinor := n, pay_status := s, pay_version := pay_version r + 1\<rparr>)
       (payments d)\<rparr>"
  unfolding set_payment_refunded_def Let_def
  by (auto simp flip: find_None_list_all split: option.splits)

lemma transaction_Inr [res_simps]:
  "transaction body d = (Inr a, d') \<longleftrightarrow> body d = Inr (a, d')"
  by (auto simp: transaction_def split: sum.splits)

lemma transaction_Inl:
  "transaction body d = (Inl e, d') \<longleftrightarrow> body d = Inl e \<and> d' = d"
  by (auto simp: transaction_def split: sum.splits)

section \<open>Tables with a unique key\<close>

text \<open>
  The contract between a table with a unique key and the services that look rows up by that
  key: an insert appends the row, refuses a key that is taken, and changes no other row.
\<close>

locale keyed_table =
  fixes rows :: "database \<Rightarrow> 'r list"
    and key :: "database \<Rightarrow> 'r \<Rightarrow> 'k"
    and ins :: "'r \<Rightarrow> database \<Rightarrow> exn + database"
  assumes ins_rows: "ins r d = Inr d' \<Longrightarrow> rows d' = rows d @ [r]"
    and ins_fresh: "ins r d = Inr d' \<Longrightarrow> key d r \<notin> key d ` set (rows d)"
    and ins_key: "ins r d = Inr d' \<Longrightarrow> key d' = key d"
begin

lemma ins_distinct:
  "ins r d = Inr d' \<Longrightarrow> distinct (map (key d) (rows d)) \<Longrightarrow> distinct (map (key d') (rows d'))"
  by (frule ins_rows, frule ins_key, drule ins_fresh) simp

lemma find_after_ins:
  assumes "ins r d = Inr d'"
  shows "find (\<lambda>x. key d' x = k) (rows d') =
    (if key d r = k then Some r else find (\<lambda>x. key d x = k) (rows d))"
proof -
  have no: "find (\<lambda>x. key d x = key d r) (rows d) = None"
    using ins_fresh [OF assms] by (force simp: find_None_iff image_iff)
  show ?thesis
    using ins_rows [OF assms] ins_key [OF assms] no by (auto simp: find_append split: option.splits)
qed

lemma find_mono:
  assumes "ins r d = Inr d'" and "find (\<lambda>x. key d x = k) (rows d) = Some y"
  shows "find (\<lambda>x. key d' x = k) (rows d') = Some y"
proof -
  from assms(2) have "y \<in> set (rows d)" "key d y = k" by (auto dest: find_Some_D)
  then have "key d r \<noteq> k" using ins_fresh [OF assms(1)] by auto
  then show ?thesis using find_after_ins [OF assms(1)] assms(2) by simp
qed

lemma taken_key_refused: "x \<in> set (rows d) \<Longrightarrow> key d x = key d r \<Longrightarrow> \<exists>e. ins r d = Inl e"
  using ins_fresh [of r d] by (cases "ins r d") (auto simp: image_iff)

end

definition invoice_key :: "database \<Rightarrow> invoice \<Rightarrow> string" where
  "invoice_key d r = collation d (inv_id r)"

definition idempotency_key :: "database \<Rightarrow> idempotency_record \<Rightarrow> string \<times> string \<times> string" where
  "idempotency_key d r = (collation d (idm_actorMerchantId r), collation d (idm_operation r),
     collation d (idm_idempotencyKey r))"

definition outbox_key :: "database \<Rightarrow> outbox_event \<Rightarrow> string" where
  "outbox_key d r = collation d (obx_id r)"

definition fresh_event :: "database \<Rightarrow> outbox_event \<Rightarrow> bool" where
  "fresh_event d r \<longleftrightarrow> outbox_key d r \<notin> outbox_key d ` set (outbox_events d)"

definition payment_key :: "database \<Rightarrow> payment \<Rightarrow> string" where
  "payment_key d r = collation d (pay_id r)"

definition provider_payment_key :: "database \<Rightarrow> payment \<Rightarrow> string \<times> string" where
  "provider_payment_key d r = (collation d (pay_provider r), collation d (pay_providerPaymentId r))"

definition provider_refund_key :: "database \<Rightarrow> refund \<Rightarrow> string \<times> string" where
  "provider_refund_key d r = (collation d (rfd_provider r), collation d (rfd_providerRefundId r))"

definition receipt_key :: "database \<Rightarrow> webhook_receipt \<Rightarrow> string \<times> string" where
  "receipt_key d r = (collation d (rcp_provider r), collation d (rcp_providerEventId r))"

definition audit_key :: "database \<Rightarrow> audit_event \<Rightarrow> string" where
  "audit_key d r = collation d (aud_id r)"

lemmas key_defs = invoice_key_def idempotency_key_def outbox_key_def payment_key_def
  provider_payment_key_def provider_refund_key_def receipt_key_def audit_key_def

interpretation invoice_table: keyed_table invoices invoice_key insert_invoice
  by unfold_locales (auto simp: res_simps constraint_defs column_defs key_defs fun_eq_iff)

interpretation idempotency_table: keyed_table idempotency_records idempotency_key insert_idempotency
  by unfold_locales (auto simp: res_simps constraint_defs column_defs key_defs fun_eq_iff)

interpretation outbox_table: keyed_table outbox_events outbox_key insert_outbox
  by unfold_locales (auto simp: res_simps constraint_defs column_defs key_defs fun_eq_iff)

lemma insert_outbox_fresh: "insert_outbox r d = Inr d' \<Longrightarrow> fresh_event d r"
  unfolding fresh_event_def by (rule outbox_table.ins_fresh)

lemma fresh_event_cong:
  "collation d' = collation d \<Longrightarrow> outbox_events d' = outbox_events d \<Longrightarrow> fresh_event d' r = fresh_event d r"
  by (simp add: fresh_event_def outbox_key_def)

interpretation payment_table: keyed_table payments payment_key insert_payment
  by unfold_locales (auto simp: res_simps constraint_defs column_defs key_defs fun_eq_iff)

interpretation provider_payment_table: keyed_table payments provider_payment_key insert_payment
  by unfold_locales (auto simp: res_simps constraint_defs column_defs key_defs fun_eq_iff)

interpretation provider_refund_table: keyed_table refunds provider_refund_key insert_refund
  by unfold_locales (auto simp: res_simps constraint_defs column_defs key_defs fun_eq_iff)

interpretation receipt_table: keyed_table webhook_receipts receipt_key insert_receipt
  by unfold_locales (auto simp: res_simps constraint_defs column_defs key_defs fun_eq_iff)

interpretation audit_table: keyed_table audit_events audit_key insert_audit
  by unfold_locales (auto simp: res_simps constraint_defs column_defs key_defs fun_eq_iff)

end
