(* ===== verification/Money.thy ===== *)
theory Money
  imports JsText
begin

text \<open>
  \<open>calculateInvoice\<close> of the domain package: the server-side totals of an invoice, in the
  binary64 arithmetic the code runs in, with every check in the code's order. The integer
  specification \<open>bill\<close> says what the totals are meant to be; the lemmas show when the checks
  pass, that the sums and the discounted amount are then exact, and up to which amount the tax
  is the exact half-up percentage.
\<close>

section \<open>Inputs and result\<close>

record line_input =
  li_description :: string
  li_quantity :: jsnum
  li_unitPriceMinor :: jsnum

record calc_input =
  ci_items :: "line_input list"
  ci_discountMinor :: "jsnum option"
  ci_taxRateBasisPoints :: "jsnum option"

record calc_line =
  cl_description :: string
  cl_quantity :: jsnum
  cl_unitPriceMinor :: jsnum
  cl_lineTotalMinor :: jsnum

record calculated =
  ca_items :: "calc_line list"
  ca_subtotalMinor :: jsnum
  ca_discountMinor :: jsnum
  ca_taxableMinor :: jsnum
  ca_taxRateBasisPoints :: jsnum
  ca_taxMinor :: jsnum
  ca_totalMinor :: jsnum

section \<open>The code\<close>

definition requireInteger :: "jsnum \<Rightarrow> string \<Rightarrow> int \<Rightarrow> exn + unit" where
  "requireInteger v field minimum =
     guardE (\<not> (\<not> is_safe_integer v \<or> js_lt v (JInt minimum)))
       (TypeErr (field @ '' must be a safe integer greater than or equal to '' @ show_int minimum))"

definition item_field :: "nat \<Rightarrow> string \<Rightarrow> string" where
  "item_field i f = ''items['' @ show_nat i @ '']'' @ f"

definition normalizeItem :: "nat \<times> line_input \<Rightarrow> exn + calc_line" where
  "normalizeItem ix =
     (let index = fst ix; item = snd ix;
          description = js_trim (li_description item)
      in bindE (guardE (description \<noteq> []) (TypeErr (item_field index ''.description is required''))) (\<lambda>_.
         bindE (requireInteger (li_quantity item) (item_field index ''.quantity'') 1) (\<lambda>_.
         bindE (requireInteger (li_unitPriceMinor item) (item_field index ''.unitPriceMinor'') 0) (\<lambda>_.
         let lineTotalMinor = js_mul (li_quantity item) (li_unitPriceMinor item) in
         bindE (requireInteger lineTotalMinor (item_field index ''.lineTotalMinor'') 0) (\<lambda>_.
         Inr \<lparr>cl_description = description, cl_quantity = li_quantity item,
              cl_unitPriceMinor = li_unitPriceMinor item, cl_lineTotalMinor = lineTotalMinor\<rparr>)))))"

definition js_sum :: "jsnum list \<Rightarrow> jsnum" where
  "js_sum ns = foldl js_add (JInt 0) ns"

definition calculateInvoice :: "calc_input \<Rightarrow> exn + calculated" where
  "calculateInvoice inp =
     (let discountMinor = (case ci_discountMinor inp of None \<Rightarrow> JInt 0 | Some n \<Rightarrow> n);
          taxRateBasisPoints = (case ci_taxRateBasisPoints inp of None \<Rightarrow> JInt 0 | Some n \<Rightarrow> n)
      in bindE (guardE (ci_items inp \<noteq> []) (TypeErr ''items must contain at least one line item'')) (\<lambda>_.
         bindE (requireInteger discountMinor ''discountMinor'' 0) (\<lambda>_.
         bindE (requireInteger taxRateBasisPoints ''taxRateBasisPoints'' 0) (\<lambda>_.
         bindE (guardE (\<not> js_lt (JInt 10000) taxRateBasisPoints)
                  (RangeErr ''taxRateBasisPoints cannot exceed 10000'')) (\<lambda>_.
         bindE (mapE normalizeItem (enumerate 0 (ci_items inp))) (\<lambda>normalizedItems.
         let subtotalMinor = js_sum (map cl_lineTotalMinor normalizedItems) in
         bindE (requireInteger subtotalMinor ''subtotalMinor'' 0) (\<lambda>_.
         bindE (guardE (\<not> js_lt subtotalMinor discountMinor)
                  (RangeErr ''discountMinor cannot exceed subtotalMinor'')) (\<lambda>_.
         let taxableMinor = js_sub subtotalMinor discountMinor;
             taxMinor = js_round (js_div (js_mul taxableMinor taxRateBasisPoints) (JInt 10000));
             totalMinor = js_add taxableMinor taxMinor
         in Inr \<lparr>ca_items = normalizedItems, ca_subtotalMinor = subtotalMinor,
                 ca_discountMinor = discountMinor, ca_taxableMinor = taxableMinor,
                 ca_taxRateBasisPoints = taxRateBasisPoints, ca_taxMinor = taxMinor,
                 ca_totalMinor = totalMinor\<rparr>))))))))"

section \<open>The specification, in integers\<close>

definition safe_nat :: "int \<Rightarrow> bool" where
  "safe_nat i \<longleftrightarrow> 0 \<le> i \<and> i \<le> max_safe"

definition line_total :: "line_input \<Rightarrow> int" where
  "line_total l = num_int (li_quantity l) * num_int (li_unitPriceMinor l)"

definition subtotal :: "calc_input \<Rightarrow> int" where
  "subtotal inp = sum_list (map line_total (ci_items inp))"

definition opt_num :: "jsnum option \<Rightarrow> jsnum" where
  "opt_num n = (case n of None \<Rightarrow> JInt 0 | Some m \<Rightarrow> m)"

definition discount :: "calc_input \<Rightarrow> int" where
  "discount inp = num_int (opt_num (ci_discountMinor inp))"

definition rate :: "calc_input \<Rightarrow> int" where
  "rate inp = num_int (opt_num (ci_taxRateBasisPoints inp))"

definition taxable :: "calc_input \<Rightarrow> int" where
  "taxable inp = subtotal inp - discount inp"

definition half_up :: "int \<Rightarrow> int \<Rightarrow> int" where
  "half_up amount bps = (amount * bps + 5000) div 10000"

definition nonneg_safe :: "jsnum \<Rightarrow> bool" where
  "nonneg_safe n \<longleftrightarrow> is_safe_integer n \<and> 0 \<le> num_int n"

definition line_ok :: "line_input \<Rightarrow> bool" where
  "line_ok l \<longleftrightarrow> js_trim (li_description l) \<noteq> [] \<and>
     nonneg_safe (li_quantity l) \<and> 1 \<le> num_int (li_quantity l) \<and>
     nonneg_safe (li_unitPriceMinor l) \<and> line_total l \<le> max_safe"

definition input_ok :: "calc_input \<Rightarrow> bool" where
  "input_ok inp \<longleftrightarrow> ci_items inp \<noteq> [] \<and>
     nonneg_safe (opt_num (ci_discountMinor inp)) \<and>
     nonneg_safe (opt_num (ci_taxRateBasisPoints inp)) \<and> rate inp \<le> 10000 \<and>
     list_all line_ok (ci_items inp) \<and> subtotal inp \<le> max_safe \<and> discount inp \<le> subtotal inp"

section \<open>The checks accept exactly the exact results\<close>

lemma js_lt_JInt [simp]: "js_lt (JInt a) (JInt b) \<longleftrightarrow> a < b"
  by simp

lemma requireInteger_Inr [res_simps]:
  "requireInteger v f m = Inr u \<longleftrightarrow> is_safe_integer v \<and> m \<le> num_int v"
proof (cases "is_safe_integer v")
  case True
  then obtain i where v: "v = JInt i" by (metis is_safe_integer_JInt)
  have "requireInteger (JInt i) f m = Inr u \<longleftrightarrow> is_safe_integer (JInt i) \<and> m \<le> i"
    by (auto simp only: requireInteger_def guardE_Inr_conv js_lt_JInt not_less de_Morgan_disj not_not)
  then show ?thesis by (simp only: v num_int_JInt)
next
  case False
  then show ?thesis by (auto simp: requireInteger_def guardE_Inr_conv)
qed

lemma requireInteger_Inl:
  "requireInteger v f m = Inl e \<Longrightarrow> \<exists>s. e = TypeErr s"
  by (auto simp: requireInteger_def guardE_def split: if_splits)

lemma js_mul_JInt: "js_mul (JInt a) (JInt b) = round64 (of_int (a * b))"
  by simp

lemma js_mul_safe:
  assumes "is_safe_integer x" and "is_safe_integer y"
  shows "is_safe_integer (js_mul x y) \<longleftrightarrow> \<bar>num_int x * num_int y\<bar> \<le> max_safe"
    and "\<bar>num_int x * num_int y\<bar> \<le> 2 ^ 53 \<Longrightarrow> js_mul x y = JInt (num_int x * num_int y)"
proof -
  obtain a b where xy: "x = JInt a" "y = JInt b" using assms by (metis is_safe_integer_JInt)
  show "is_safe_integer (js_mul x y) \<longleftrightarrow> \<bar>num_int x * num_int y\<bar> \<le> max_safe"
    by (simp only: xy js_mul_JInt round64_safe_iff num_int_JInt)
  assume "\<bar>num_int x * num_int y\<bar> \<le> 2 ^ 53"
  then show "js_mul x y = JInt (num_int x * num_int y)"
    by (simp only: xy js_mul_JInt num_int_JInt round64_int)
qed

lemma max_safe_le: "i \<le> max_safe \<Longrightarrow> i \<le> 2 ^ 53"
  by (simp add: max_safe_def)

lemma normalizeItem_Inr:
  "normalizeItem (i, l) = Inr c \<longleftrightarrow>
     line_ok l \<and> c = \<lparr>cl_description = js_trim (li_description l), cl_quantity = li_quantity l,
       cl_unitPriceMinor = li_unitPriceMinor l, cl_lineTotalMinor = JInt (line_total l)\<rparr>"
  (is "?L \<longleftrightarrow> ?R")
proof -
  let ?p = "js_mul (li_quantity l) (li_unitPriceMinor l)"
  have pre: "?L \<longleftrightarrow> js_trim (li_description l) \<noteq> [] \<and>
      is_safe_integer (li_quantity l) \<and> 1 \<le> num_int (li_quantity l) \<and>
      is_safe_integer (li_unitPriceMinor l) \<and> 0 \<le> num_int (li_unitPriceMinor l) \<and>
      is_safe_integer ?p \<and> 0 \<le> num_int ?p \<and>
      c = \<lparr>cl_description = js_trim (li_description l), cl_quantity = li_quantity l,
       cl_unitPriceMinor = li_unitPriceMinor l, cl_lineTotalMinor = ?p\<rparr>"
    by (auto simp: normalizeItem_def Let_def res_simps)
  show ?thesis
  proof (cases "is_safe_integer (li_quantity l) \<and> 1 \<le> num_int (li_quantity l) \<and>
      is_safe_integer (li_unitPriceMinor l) \<and> 0 \<le> num_int (li_unitPriceMinor l)")
    case True
    then have nn: "0 \<le> line_total l" by (simp add: line_total_def)
    have s: "is_safe_integer ?p \<longleftrightarrow> line_total l \<le> max_safe"
      using True nn by (simp add: js_mul_safe line_total_def)
    have v: "line_total l \<le> max_safe \<Longrightarrow> ?p = JInt (line_total l)"
      using True nn js_mul_safe(2) [of "li_quantity l" "li_unitPriceMinor l"]
        max_safe_le [of "line_total l"]
      by (simp add: line_total_def)
    show ?thesis
      unfolding pre using True nn s v by (auto simp: line_ok_def nonneg_safe_def)
  next
    case False
    then show ?thesis unfolding pre by (auto simp: line_ok_def nonneg_safe_def)
  qed
qed

text \<open>A running sum of non-negative safe integers is exact, or it has passed \<open>2 ^ 53\<close> and
  never comes back.\<close>

fun past_exact :: "jsnum \<Rightarrow> bool" where
  "past_exact (Fin a) = (2 ^ 53 \<le> a)"
| "past_exact (Infty s) = (\<not> s)"
| "past_exact NaN = False"

lemma past_exact_round64: "2 ^ 53 \<le> x \<Longrightarrow> past_exact (round64 x)"
proof -
  assume a: "2 ^ 53 \<le> x"
  then have pos: "0 < x" by (meson less_le_trans zero_less_numeral zero_less_power)
  then have "x \<noteq> 0" "\<not> x < 0" "\<bar>x\<bar> = x" by simp_all
  then show ?thesis using round64_pos_large [OF a] by (simp add: round64_def Let_def)
qed

lemma past_exact_add: "past_exact n \<Longrightarrow> 0 \<le> i \<Longrightarrow> past_exact (js_add n (JInt i))"
proof (cases n)
  case (Fin a)
  assume "past_exact n" and i: "0 \<le> i"
  then have "2 ^ 53 \<le> a" by (simp only: Fin past_exact.simps)
  moreover have "(0 :: rat) \<le> of_int i" using i by simp
  ultimately have "2 ^ 53 \<le> a + of_int i" by linarith
  then show ?thesis by (simp only: Fin js_add.simps past_exact_round64)
qed auto

lemma past_exact_not_safe: "past_exact n \<Longrightarrow> \<not> is_safe_integer n"
  by (cases n) (auto simp: max_safe_def)

definition sum_state :: "jsnum \<Rightarrow> int \<Rightarrow> bool" where
  "sum_state n s \<longleftrightarrow> (if s \<le> max_safe then n = JInt s else past_exact n)"

lemma sum_state_step:
  assumes n: "sum_state n s" and s: "0 \<le> s" and i: "0 \<le> i"
  shows "sum_state (js_add n (JInt i)) (s + i)"
proof (cases "s \<le> max_safe")
  case True
  with n have eq: "js_add n (JInt i) = round64 (of_int (s + i))" by (simp add: sum_state_def)
  show ?thesis
  proof (cases "s + i \<le> max_safe")
    case True
    then have "\<bar>s + i\<bar> \<le> 2 ^ 53" using s i max_safe_le by auto
    with eq True show ?thesis by (simp only: sum_state_def round64_int if_True)
  next
    case False
    then have "2 ^ 53 \<le> s + i" by (simp add: max_safe_def)
    then have "(of_int (2 ^ 53) :: rat) \<le> of_int (s + i)" by (simp only: of_int_le_iff)
    then have "past_exact (round64 (of_int (s + i)))" by (intro past_exact_round64) simp
    with eq False show ?thesis by (simp only: sum_state_def if_False)
  qed
next
  case False
  with n i have "past_exact (js_add n (JInt i))"
    by (simp only: sum_state_def if_False past_exact_add)
  with False i show ?thesis by (simp add: sum_state_def)
qed

lemma foldl_sum_state:
  assumes "sum_state n s" and "0 \<le> s" and "list_all (\<lambda>i. 0 \<le> i) is"
  shows "sum_state (foldl js_add n (map JInt is)) (s + sum_list is)"
  using assms
proof (induction "is" arbitrary: n s)
  case Nil
  then show ?case by simp
next
  case (Cons i "is")
  then have "sum_state (js_add n (JInt i)) (s + i)" by (intro sum_state_step) auto
  from Cons.IH [OF this] Cons.prems show ?case by (simp add: add.assoc)
qed

lemma js_sum_state:
  assumes "list_all (\<lambda>i. 0 \<le> i) is"
  shows "sum_state (js_sum (map JInt is)) (sum_list is)"
proof -
  have "sum_state (JInt 0) 0" by (simp add: sum_state_def max_safe_def)
  from foldl_sum_state [OF this _ assms] show ?thesis by (simp add: js_sum_def)
qed

lemma sum_state_safe: "sum_state n s \<Longrightarrow> 0 \<le> s \<Longrightarrow> is_safe_integer n \<longleftrightarrow> s \<le> max_safe"
  by (auto simp: sum_state_def past_exact_not_safe split: if_splits simp del: is_safe_integer.simps)

section \<open>What \<open>calculateInvoice\<close> returns\<close>

definition normal_line :: "line_input \<Rightarrow> calc_line" where
  "normal_line l = \<lparr>cl_description = js_trim (li_description l), cl_quantity = li_quantity l,
     cl_unitPriceMinor = li_unitPriceMinor l, cl_lineTotalMinor = JInt (line_total l)\<rparr>"

lemma mapE_normalizeItem:
  "mapE normalizeItem (enumerate n ls) = Inr cs \<longleftrightarrow> list_all line_ok ls \<and> cs = map normal_line ls"
proof (induction ls arbitrary: n cs)
  case Nil
  then show ?case by auto
next
  case (Cons l ls)
  then show ?case by (auto simp: res_simps normalizeItem_Inr normal_line_def)
qed

lemma line_total_nonneg: "line_ok l \<Longrightarrow> 0 \<le> line_total l"
  by (simp add: line_ok_def nonneg_safe_def line_total_def)

lemma line_totals_nonneg: "list_all line_ok ls \<Longrightarrow> list_all (\<lambda>i. 0 \<le> i) (map line_total ls)"
  by (induction ls) (auto simp: line_total_nonneg)

lemma js_sub_JInt: "\<bar>a - b\<bar> \<le> 2 ^ 53 \<Longrightarrow> js_sub (JInt a) (JInt b) = JInt (a - b)"
  using round64_int [of "a - b"] by (simp add: js_sub_def)

definition tax_amount :: "int \<Rightarrow> int \<Rightarrow> jsnum" where
  "tax_amount amount bps = js_round (js_div (js_mul (JInt amount) (JInt bps)) (JInt 10000))"

definition result_of :: "calc_input \<Rightarrow> calculated" where
  "result_of inp =
     \<lparr>ca_items = map normal_line (ci_items inp), ca_subtotalMinor = JInt (subtotal inp),
      ca_discountMinor = JInt (discount inp), ca_taxableMinor = JInt (taxable inp),
      ca_taxRateBasisPoints = JInt (rate inp), ca_taxMinor = tax_amount (taxable inp) (rate inp),
      ca_totalMinor = js_add (JInt (taxable inp)) (tax_amount (taxable inp) (rate inp))\<rparr>"

lemma calculateInvoice_Inr [res_simps]:
  "calculateInvoice inp = Inr c \<longleftrightarrow> input_ok inp \<and> c = result_of inp" (is "?L \<longleftrightarrow> ?R")
proof -
  let ?d = "opt_num (ci_discountMinor inp)" and ?r = "opt_num (ci_taxRateBasisPoints inp)"
  let ?S = "js_sum (map JInt (map line_total (ci_items inp)))"
  let ?T = "js_round (js_div (js_mul (js_sub ?S ?d) ?r) (JInt 10000))"
  let ?c = "\<lparr>ca_items = map normal_line (ci_items inp), ca_subtotalMinor = ?S,
      ca_discountMinor = ?d, ca_taxableMinor = js_sub ?S ?d, ca_taxRateBasisPoints = ?r,
      ca_taxMinor = ?T, ca_totalMinor = js_add (js_sub ?S ?d) ?T\<rparr>"
  have pre: "?L \<longleftrightarrow> ci_items inp \<noteq> [] \<and> (is_safe_integer ?d \<and> 0 \<le> num_int ?d) \<and>
      (is_safe_integer ?r \<and> 0 \<le> num_int ?r) \<and> \<not> js_lt (JInt 10000) ?r \<and>
      list_all line_ok (ci_items inp) \<and> (is_safe_integer ?S \<and> 0 \<le> num_int ?S) \<and>
      \<not> js_lt ?S ?d \<and> c = ?c"
    unfolding calculateInvoice_def Let_def opt_num_def [symmetric]
      bindE_Inr_conv guardE_Inr_conv requireInteger_Inr mapE_normalizeItem
    by (auto simp: normal_line_def o_def)
  show ?thesis
  proof (cases "list_all line_ok (ci_items inp) \<and> is_safe_integer ?d \<and> is_safe_integer ?r")
    case False
    then show ?thesis unfolding pre by (auto simp: input_ok_def nonneg_safe_def)
  next
    case True
    then have d: "?d = JInt (discount inp)" and r: "?r = JInt (rate inp)"
      by (simp_all only: discount_def rate_def is_safe_integer_JInt)
    have state: "sum_state ?S (subtotal inp)" and nn: "0 \<le> subtotal inp"
      using True js_sum_state [OF line_totals_nonneg] line_totals_nonneg
      by (auto simp: subtotal_def list_all_iff intro!: sum_list_nonneg)
    show ?thesis
    proof (cases "subtotal inp \<le> max_safe")
      case False
      with state nn show ?thesis unfolding pre by (simp add: sum_state_safe input_ok_def)
    next
      case True2: True
      then have S: "?S = JInt (subtotal inp)" using state by (simp only: sum_state_def if_True)
      have S_safe: "is_safe_integer ?S" using sum_state_safe [OF state nn] True2 by simp
      have cond: "?L \<longleftrightarrow> input_ok inp \<and> c = ?c"
        unfolding pre input_ok_def nonneg_safe_def
        using True True2 S_safe nn by (simp only: S d r num_int_JInt js_lt_JInt not_less discount_def [symmetric] rate_def [symmetric]) auto
      have res: "?c = result_of inp" if ok: "input_ok inp"
      proof -
        have "0 \<le> discount inp" "discount inp \<le> subtotal inp"
          using ok by (simp_all add: input_ok_def nonneg_safe_def discount_def)
        then have "js_sub (JInt (subtotal inp)) (JInt (discount inp)) = JInt (taxable inp)"
          using True2 max_safe_le unfolding taxable_def by (intro js_sub_JInt) fastforce
        then show ?thesis by (simp only: S d r result_of_def tax_amount_def)
      qed
      show ?thesis
      proof (cases "input_ok inp")
        case True
        then show ?thesis unfolding cond res [OF True] by (simp only: simp_thms)
      next
        case False
        then show ?thesis unfolding cond by (simp only: simp_thms)
      qed
    qed
  qed
qed

lemma normalizeItem_Inl: "normalizeItem ix = Inl e \<Longrightarrow> \<exists>s. e = TypeErr s"
  by (auto simp: normalizeItem_def Let_def bindE_Inl_conv guardE_Inl_conv dest!: requireInteger_Inl)

lemma calculateInvoice_Inl:
  "calculateInvoice inp = Inl e \<Longrightarrow> \<exists>s. e = TypeErr s \<or> e = RangeErr s"
  unfolding calculateInvoice_def Let_def bindE_Inl_conv guardE_Inl_conv
  by (elim disjE exE conjE) (auto dest: requireInteger_Inl dest!: mapE_Inl normalizeItem_Inl)

section \<open>The tax and the total\<close>

lemma tax_amount_exact:
  assumes "0 \<le> amount" and "0 \<le> bps" and "amount * bps \<le> 2 ^ 53"
  shows "tax_amount amount bps = JInt (half_up amount bps)"
proof -
  have nn: "0 \<le> amount * bps" using assms by simp
  then have "js_mul (JInt amount) (JInt bps) = JInt (amount * bps)"
    using assms(3) by (simp only: js_mul_JInt round64_int abs_of_nonneg)
  then show ?thesis
    using round_div_10000 [OF nn assms(3)] by (simp only: tax_amount_def half_up_def)
qed

lemma half_up_bounds:
  assumes "0 \<le> amount" and "0 \<le> bps" and "bps \<le> 10000"
  shows "0 \<le> half_up amount bps" and "half_up amount bps \<le> amount"
proof -
  have "0 \<le> amount * bps + 5000" using assms by simp
  then show "0 \<le> half_up amount bps" unfolding half_up_def by (rule div_int_pos_iff [THEN iffD2, OF disjI2, OF disjI2, OF disjI1, OF conjI]) simp
  have "amount * bps + 5000 \<le> amount * 10000 + 5000" using assms by (simp add: mult_left_mono)
  then have "half_up amount bps \<le> (amount * 10000 + 5000) div 10000"
    unfolding half_up_def by (rule zdiv_mono1) simp
  then show "half_up amount bps \<le> amount" by simp
qed

lemma half_up_nearest:
  "2 * \<bar>10000 * half_up amount bps - amount * bps\<bar> \<le> 10000"
proof -
  define q m where "q = (amount * bps + 5000) div 10000" and "m = (amount * bps + 5000) mod 10000"
  have "q * 10000 + m = amount * bps + 5000" unfolding q_def m_def by (rule div_mult_mod_eq)
  moreover have "m < 10000" "0 \<le> m" unfolding m_def by simp_all
  moreover have "half_up amount bps = q" by (simp add: half_up_def q_def)
  ultimately show ?thesis by (simp add: abs_if split: if_split)
qed

lemma input_ok_bounds:
  assumes "input_ok inp"
  shows "0 \<le> discount inp" "0 \<le> rate inp" "rate inp \<le> 10000" "0 \<le> taxable inp"
    "taxable inp \<le> subtotal inp" "subtotal inp \<le> max_safe"
  using assms by (simp_all add: input_ok_def nonneg_safe_def discount_def rate_def taxable_def)

lemma total_exact:
  assumes ok: "input_ok inp" and small: "taxable inp * rate inp \<le> 2 ^ 53"
    and total: "taxable inp + half_up (taxable inp) (rate inp) \<le> 2 ^ 53"
  shows "ca_taxMinor (result_of inp) = JInt (half_up (taxable inp) (rate inp))"
    and "ca_totalMinor (result_of inp) = JInt (taxable inp + half_up (taxable inp) (rate inp))"
proof -
  note b = input_ok_bounds [OF ok]
  have t: "tax_amount (taxable inp) (rate inp) = JInt (half_up (taxable inp) (rate inp))"
    using b small by (intro tax_amount_exact) auto
  then show "ca_taxMinor (result_of inp) = JInt (half_up (taxable inp) (rate inp))"
    by (simp add: result_of_def)
  have "0 \<le> taxable inp + half_up (taxable inp) (rate inp)"
    using b half_up_bounds [of "taxable inp" "rate inp"] by simp
  then have "round64 (of_int (taxable inp + half_up (taxable inp) (rate inp)))
      = JInt (taxable inp + half_up (taxable inp) (rate inp))"
    using total by (intro round64_int) simp
  then show "ca_totalMinor (result_of inp) = JInt (taxable inp + half_up (taxable inp) (rate inp))"
    by (simp add: result_of_def t)
qed

end
