(* ===== verification/MerchantScope.thy ===== *)
theory MerchantScope
  imports Database
begin

text \<open>
  \<open>MerchantScopeService\<close>: the two ways the API decides which merchants an actor may act for.
  \<open>authorizedMerchantIds\<close> walks down from the actor, level by level, and scopes the list
  queries; \<open>authorizeStore\<close> walks up from the store's merchant and guards every operation on a
  single invoice. Both stop after 16 rounds. The lemmas relate both to one definition of the
  hierarchy, the chain of active parents, and show where the two bounds differ.
\<close>

section \<open>The code\<close>

fun widen :: "database \<Rightarrow> nat \<Rightarrow> string list \<Rightarrow> string list \<Rightarrow> string list" where
  "widen d 0 authorized frontier = authorized"
| "widen d (Suc depth) authorized frontier =
     (if frontier = [] then authorized
      else
        let children = filter (\<lambda>m. (case mer_parentMerchantId m of
                None \<Rightarrow> False
              | Some p \<Rightarrow> list_ex (\<lambda>f. sql_eq d p f) frontier) \<and> mer_active m) (merchants d);
            next_frontier = map mer_id (filter (\<lambda>m. mer_id m \<notin> set authorized) children)
        in widen d depth (authorized @ next_frontier) next_frontier)"

definition authorizedMerchantIds :: "database \<Rightarrow> string \<Rightarrow> string list" where
  "authorizedMerchantIds d actorMerchantId = widen d 16 [actorMerchantId] [actorMerchantId]"

definition active_merchant :: "database \<Rightarrow> string \<Rightarrow> merchant option" where
  "active_merchant d i = find (\<lambda>m. sql_eq d (mer_id m) i \<and> mer_active m) (merchants d)"

definition parent_of :: "database \<Rightarrow> string \<Rightarrow> string option" where
  "parent_of d i = Option.bind (active_merchant d i) mer_parentMerchantId"

fun climb :: "database \<Rightarrow> string \<Rightarrow> nat \<Rightarrow> string list \<Rightarrow> string option \<Rightarrow> bool" where
  "climb d actor 0 visited current = False"
| "climb d actor (Suc depth) visited None = False"
| "climb d actor (Suc depth) visited (Some c) =
     (if c = [] then False
      else if c = actor then True
      else if c \<in> set visited then False
      else climb d actor depth (c # visited) (parent_of d c))"

definition authorizeStore :: "database \<Rightarrow> string \<Rightarrow> string \<Rightarrow> exn + store" where
  "authorizeStore d actorMerchantId storeId =
     bindE (someE (NotFoundException ''Store not found'')
       (find (\<lambda>s. sql_eq d (sto_id s) storeId \<and> sto_active s) (stores d))) (\<lambda>store.
     bindE (guardE (climb d actorMerchantId 16 [] (Some (sto_merchantId store)))
       (ForbiddenException ''Actor is not authorized for the requested store'')) (\<lambda>_.
     Inr store))"

text \<open>The scope filter of the list queries, \<open>merchantId IN (...)\<close>.\<close>

definition in_scope :: "database \<Rightarrow> string \<Rightarrow> string \<Rightarrow> bool" where
  "in_scope d actor m \<longleftrightarrow> list_ex (\<lambda>a. sql_eq d m a) (authorizedMerchantIds d actor)"

text \<open>The row limit of the list queries.\<close>

definition take_limit :: "int \<Rightarrow> nat" where
  "take_limit limit = nat (min (max limit 1) 100)"

text \<open>\<open>assertStoreAccess\<close> of the domain package, over an explicit hierarchy.\<close>

definition assertStoreAccess ::
  "string \<Rightarrow> string option \<Rightarrow> (string \<Rightarrow> string list option) \<Rightarrow> exn + bool" where
  "assertStoreAccess actorMerchantId storeMerchantId merchantHierarchy =
     (case storeMerchantId of
        None \<Rightarrow> Inl (TypeErr ''actorMerchantId and store.merchantId are required'')
      | Some m \<Rightarrow>
          if actorMerchantId = [] \<or> m = []
          then Inl (TypeErr ''actorMerchantId and store.merchantId are required'')
          else if m \<notin> set (actorMerchantId #
              (case merchantHierarchy actorMerchantId of None \<Rightarrow> [] | Some ms \<Rightarrow> ms))
          then Inl (CodedErr ''Actor is not authorized for the requested store'' ''STORE_ACCESS_DENIED'')
          else Inr True)"

section \<open>The hierarchy\<close>

text \<open>
  \<open>ancestor d k m = Some a\<close>: \<open>a\<close> is the \<open>k\<close>-th parent of \<open>m\<close>, every merchant below it being
  active.
\<close>

fun ancestor :: "database \<Rightarrow> nat \<Rightarrow> string \<Rightarrow> string option" where
  "ancestor d 0 m = Some m"
| "ancestor d (Suc k) m = Option.bind (parent_of d m) (ancestor d k)"

definition manages_within :: "database \<Rightarrow> nat \<Rightarrow> string \<Rightarrow> string \<Rightarrow> bool" where
  "manages_within d n actor m \<longleftrightarrow> (\<exists>k \<le> n. ancestor d k m = Some actor)"

text \<open>
  Identifiers in canonical form: merchants have distinct, non-empty identifiers that the
  server's collation tells apart, parents included. With the version-4 UUIDs the platform
  writes in lower case this holds.
\<close>

definition hierarchy_ids :: "database \<Rightarrow> string list" where
  "hierarchy_ids d = map mer_id (merchants d) @
     concat (map (\<lambda>m. case mer_parentMerchantId m of None \<Rightarrow> [] | Some p \<Rightarrow> [p]) (merchants d)) @
     map sto_merchantId (stores d)"

definition canonical_ids :: "database \<Rightarrow> string \<Rightarrow> bool" where
  "canonical_ids d actor \<longleftrightarrow>
     distinct (map mer_id (merchants d)) \<and> [] \<notin> set (actor # hierarchy_ids d) \<and>
     inj_on (collation d) (set (actor # hierarchy_ids d))"

subsection \<open>Walking up\<close>

lemma ancestor_add: "ancestor d (j + k) m = Option.bind (ancestor d j m) (ancestor d k)"
proof (induction j arbitrary: m)
  case 0
  then show ?case by simp
next
  case (Suc j)
  then show ?case by (cases "parent_of d m") auto
qed

lemma ancestor_repeat:
  assumes "ancestor d i m = ancestor d j m" and "j \<le> k"
  shows "ancestor d (i + (k - j)) m = ancestor d k m"
proof -
  have "ancestor d k m = ancestor d (j + (k - j)) m" using assms(2) by simp
  then show ?thesis using assms(1) by (simp only: ancestor_add)
qed

lemma climb_imp_ancestor:
  "climb d actor n visited (Some m) \<Longrightarrow> \<exists>k < n. ancestor d k m = Some actor"
proof (induction n arbitrary: visited m)
  case 0
  then show ?case by simp
next
  case (Suc n)
  show ?case
  proof (cases "m = actor")
    case True
    then show ?thesis by (intro exI [of _ 0]) simp
  next
    case False
    with Suc.prems have c: "climb d actor n (m # visited) (parent_of d m)"
      by (auto split: if_splits)
    then obtain p where p: "parent_of d m = Some p" by (cases "parent_of d m"; cases n) auto
    with c Suc.IH obtain k where "k < n" "ancestor d k p = Some actor" by auto
    with p show ?thesis by (intro exI [of _ "Suc k"]) simp
  qed
qed

lemma ancestor_imp_climb:
  assumes "ancestor d k m = Some actor" and "k < n"
    and "\<And>j. j < k \<Longrightarrow> ancestor d j m \<noteq> Some actor"
    and "\<And>j x. j < k \<Longrightarrow> x \<in> set visited \<Longrightarrow> ancestor d j m \<noteq> Some x"
    and "\<And>j. j \<le> k \<Longrightarrow> ancestor d j m \<noteq> Some []"
    and "\<And>i j. i < j \<Longrightarrow> j \<le> k \<Longrightarrow> ancestor d i m \<noteq> ancestor d j m"
  shows "climb d actor n visited (Some m)"
  using assms
proof (induction k arbitrary: m n visited)
  case 0
  then show ?case by (cases n) force+
next
  case (Suc k)
  obtain n' where n: "n = Suc n'" "k < n'" using Suc.prems(2) by (cases n) auto
  obtain p where p: "parent_of d m = Some p" using Suc.prems(1) by (cases "parent_of d m") auto
  have shift: "ancestor d j p = ancestor d (Suc j) m" for j by (simp add: p)
  have "m \<noteq> actor" using Suc.prems(3) [of 0] by simp
  moreover have "m \<notin> set visited" using Suc.prems(4) [of 0 m] by auto
  moreover have "m \<noteq> []" using Suc.prems(5) [of 0] by simp
  moreover have "climb d actor n' (m # visited) (Some p)"
  proof (rule Suc.IH)
    show "ancestor d k p = Some actor" using Suc.prems(1) by (simp only: shift)
    show "k < n'" by (rule n(2))
    show "ancestor d j p \<noteq> Some actor" if "j < k" for j
      using Suc.prems(3) [of "Suc j"] that by (simp only: shift) simp
    show "ancestor d j p \<noteq> Some []" if "j \<le> k" for j
      using Suc.prems(5) [of "Suc j"] that by (simp only: shift) simp
    show "ancestor d i p \<noteq> ancestor d j p" if "i < j" "j \<le> k" for i j
      using Suc.prems(6) [of "Suc i" "Suc j"] that by (simp only: shift) simp
    show "ancestor d j p \<noteq> Some x" if "j < k" "x \<in> set (m # visited)" for j x
    proof (cases "x = m")
      case True
      then show ?thesis using Suc.prems(6) [of 0 "Suc j"] that(1) by (simp only: shift) auto
    next
      case False
      then show ?thesis using Suc.prems(4) [of "Suc j" x] that by (simp only: shift) simp
    qed
  qed
  ultimately show ?case by (simp add: n(1) p)
qed

text \<open>The check against a visited merchant loses nothing: the shortest chain has no repetition.\<close>

lemma climb_iff:
  assumes "\<And>j. ancestor d j m \<noteq> Some []"
  shows "climb d actor n [] (Some m) \<longleftrightarrow> (\<exists>k < n. ancestor d k m = Some actor)"
proof
  assume "\<exists>k < n. ancestor d k m = Some actor"
  then obtain k0 where k0: "k0 < n" "ancestor d k0 m = Some actor" by blast
  define k where "k = (LEAST k. ancestor d k m = Some actor)"
  have k: "ancestor d k m = Some actor" unfolding k_def by (rule LeastI, rule k0(2))
  have less: "ancestor d j m \<noteq> Some actor" if "j < k" for j
    using that not_less_Least unfolding k_def by blast
  have "k \<le> k0" unfolding k_def by (rule Least_le, rule k0(2))
  then have kn: "k < n" using k0(1) by simp
  have "ancestor d i m \<noteq> ancestor d j m" if ij: "i < j" "j \<le> k" for i j
  proof
    assume "ancestor d i m = ancestor d j m"
    then have "ancestor d (i + (k - j)) m = Some actor"
      using ancestor_repeat ij(2) k by metis
    moreover have "i + (k - j) < k" using ij by simp
    ultimately show False using less by blast
  qed
  then show "climb d actor n [] (Some m)"
    using k kn less assms by (intro ancestor_imp_climb) auto
qed (rule climb_imp_ancestor)

subsection \<open>Canonical identifiers\<close>

lemma sql_eq_canonical:
  assumes "canonical_ids d actor" and "a \<in> set (actor # hierarchy_ids d)"
    and "b \<in> set (actor # hierarchy_ids d)"
  shows "sql_eq d a b \<longleftrightarrow> a = b"
  using assms unfolding canonical_ids_def sql_eq_def by (meson inj_onD)

lemma mer_id_in: "m \<in> set (merchants d) \<Longrightarrow> mer_id m \<in> set (hierarchy_ids d)"
  by (simp add: hierarchy_ids_def)

lemma mer_parent_in:
  "m \<in> set (merchants d) \<Longrightarrow> mer_parentMerchantId m = Some p \<Longrightarrow> p \<in> set (hierarchy_ids d)"
  by (force simp: hierarchy_ids_def)

lemma parent_of_canonical:
  assumes c: "canonical_ids d actor" and x: "x \<in> set (actor # hierarchy_ids d)"
  shows "parent_of d x = Some p \<longleftrightarrow>
    (\<exists>m \<in> set (merchants d). mer_id m = x \<and> mer_active m \<and> mer_parentMerchantId m = Some p)"
proof
  assume "parent_of d x = Some p"
  then obtain m where m: "active_merchant d x = Some m" "mer_parentMerchantId m = Some p"
    by (cases "active_merchant d x") (auto simp: parent_of_def)
  from m(1) have mm: "m \<in> set (merchants d)" "sql_eq d (mer_id m) x" "mer_active m"
    unfolding active_merchant_def by (auto dest: find_Some_D)
  then have "mer_id m = x" using sql_eq_canonical [OF c _ x] mer_id_in by simp
  with mm m(2) show "\<exists>m \<in> set (merchants d). mer_id m = x \<and> mer_active m \<and>
      mer_parentMerchantId m = Some p" by blast
next
  assume "\<exists>m \<in> set (merchants d). mer_id m = x \<and> mer_active m \<and> mer_parentMerchantId m = Some p"
  then obtain m where m: "m \<in> set (merchants d)" "mer_id m = x" "mer_active m"
    "mer_parentMerchantId m = Some p" by blast
  have "active_merchant d x \<noteq> None"
    using m(1,2,3) by (auto simp: active_merchant_def find_None_iff intro!: exI [of _ m])
  then obtain m' where m': "active_merchant d x = Some m'" by blast
  then have mm': "m' \<in> set (merchants d)" "sql_eq d (mer_id m') x"
    unfolding active_merchant_def by (auto dest: find_Some_D)
  then have "mer_id m' = x" using sql_eq_canonical [OF c _ x] mer_id_in by simp
  then have "m' = m"
    using c mm'(1) m(1,2) unfolding canonical_ids_def by (metis distinct_map inj_onD)
  with m' m(4) show "parent_of d x = Some p" by (simp add: parent_of_def)
qed

lemma ancestor_nonempty:
  assumes c: "canonical_ids d actor"
  shows "x \<in> set (actor # hierarchy_ids d) \<Longrightarrow> ancestor d k x \<noteq> Some []"
proof (induction k arbitrary: x)
  case 0
  then show ?case using c by (auto simp: canonical_ids_def)
next
  case (Suc k)
  show ?case
  proof (cases "parent_of d x")
    case (Some p)
    then have "p \<in> set (actor # hierarchy_ids d)"
      using parent_of_canonical [OF c Suc.prems] mer_parent_in by auto
    then show ?thesis using Suc.IH Some by simp
  qed simp
qed

subsection \<open>Walking down\<close>

definition level :: "database \<Rightarrow> string \<Rightarrow> nat \<Rightarrow> string set" where
  "level d actor k = {x \<in> set (actor # hierarchy_ids d). ancestor d k x = Some actor}"

definition next_level :: "database \<Rightarrow> string list \<Rightarrow> string list \<Rightarrow> string list" where
  "next_level d authorized frontier =
     map mer_id (filter (\<lambda>m. mer_id m \<notin> set authorized)
       (filter (\<lambda>m. (case mer_parentMerchantId m of
            None \<Rightarrow> False
          | Some p \<Rightarrow> list_ex (\<lambda>f. sql_eq d p f) frontier) \<and> mer_active m) (merchants d)))"

lemma widen_Nil [simp]: "widen d n authorized [] = authorized"
  by (cases n) auto

lemma widen_Suc:
  "widen d (Suc n) authorized frontier =
     widen d n (authorized @ next_level d authorized frontier) (next_level d authorized frontier)"
proof (cases "frontier = []")
  case True
  have "next_level d authorized [] = []"
    by (auto simp: next_level_def filter_empty_conv split: option.splits)
  with True show ?thesis by simp
qed (simp add: next_level_def Let_def)

lemma level_0: "level d actor 0 = {actor}"
  by (auto simp: level_def)

lemma level_Suc:
  assumes c: "canonical_ids d actor"
  shows "level d actor (Suc k) =
    {x \<in> set (actor # hierarchy_ids d). \<exists>p \<in> level d actor k. parent_of d x = Some p}"
proof -
  have "ancestor d (Suc k) x = Some actor \<longleftrightarrow> (\<exists>p \<in> level d actor k. parent_of d x = Some p)"
    if x: "x \<in> set (actor # hierarchy_ids d)" for x
  proof (cases "parent_of d x")
    case (Some p)
    then have "p \<in> set (actor # hierarchy_ids d)"
      using parent_of_canonical [OF c x] mer_parent_in by auto
    with Some show ?thesis by (auto simp: level_def)
  qed simp
  then show ?thesis unfolding level_def [of d actor "Suc k"] by blast
qed

lemma set_next_level:
  assumes c: "canonical_ids d actor" and fr: "set frontier \<subseteq> set (actor # hierarchy_ids d)"
  shows "set (next_level d authorized frontier) =
    {x \<in> set (actor # hierarchy_ids d). \<exists>p \<in> set frontier. parent_of d x = Some p} - set authorized"
    (is "?L = ?R")
proof -
  have par: "list_ex (\<lambda>f. sql_eq d p f) frontier \<longleftrightarrow> p \<in> set frontier"
    if "m \<in> set (merchants d)" "mer_parentMerchantId m = Some p" for m p
  proof -
    have pU: "p \<in> set (actor # hierarchy_ids d)" using mer_parent_in [OF that] by simp
    have "sql_eq d p f \<longleftrightarrow> p = f" if "f \<in> set frontier" for f
      using that fr by (intro sql_eq_canonical [OF c pU]) blast
    then show ?thesis by (auto simp: list_ex_iff)
  qed
  have mem: "x \<in> ?L \<longleftrightarrow> x \<notin> set authorized \<and> (\<exists>m \<in> set (merchants d). mer_id m = x \<and>
      mer_active m \<and> (\<exists>p \<in> set frontier. mer_parentMerchantId m = Some p))" for x
  proof -
    have "x \<in> ?L \<longleftrightarrow> x \<notin> set authorized \<and> (\<exists>m \<in> set (merchants d). mer_id m = x \<and>
        mer_active m \<and> (\<exists>p. mer_parentMerchantId m = Some p \<and> list_ex (\<lambda>f. sql_eq d p f) frontier))"
      unfolding next_level_def by (auto split: option.splits)
    then show ?thesis using par by blast
  qed
  have "x \<in> ?L \<longleftrightarrow> x \<in> ?R" for x
  proof (cases "x \<in> set (actor # hierarchy_ids d)")
    case True
    show ?thesis unfolding mem using parent_of_canonical [OF c True] True by blast
  next
    case False
    then show ?thesis unfolding mem using mer_id_in by fastforce
  qed
  then show ?thesis by blast
qed

lemma set_widen:
  assumes c: "canonical_ids d actor"
  shows "set authorized = (\<Union>k \<le> i. level d actor k) \<Longrightarrow>
    set frontier = level d actor i - (\<Union>k < i. level d actor k) \<Longrightarrow>
    set (widen d n authorized frontier) = (\<Union>k \<le> i + n. level d actor k)"
proof (induction n arbitrary: i authorized frontier)
  case 0
  then show ?case by simp
next
  case (Suc n)
  let ?next = "next_level d authorized frontier"
  have "set frontier \<subseteq> set (actor # hierarchy_ids d)"
    using Suc.prems(2) by (auto simp: level_def)
  note step = set_next_level [OF c this, of authorized]
  have next_set: "set ?next = level d actor (Suc i) - (\<Union>k < Suc i. level d actor k)"
  proof -
    have "x \<in> set ?next \<longleftrightarrow> x \<in> level d actor (Suc i) - (\<Union>k \<le> i. level d actor k)" for x
    proof
      assume "x \<in> set ?next"
      then show "x \<in> level d actor (Suc i) - (\<Union>k \<le> i. level d actor k)"
        unfolding step Suc.prems level_Suc [OF c, of i] by blast
    next
      assume x: "x \<in> level d actor (Suc i) - (\<Union>k \<le> i. level d actor k)"
      then obtain p where p: "p \<in> level d actor i" "parent_of d x = Some p"
        and xU: "x \<in> set (actor # hierarchy_ids d)"
        unfolding level_Suc [OF c] by blast
      have "p \<notin> level d actor k" if "k < i" for k
      proof
        assume "p \<in> level d actor k"
        with p(2) xU have "x \<in> level d actor (Suc k)" unfolding level_Suc [OF c] by blast
        with that x show False by auto
      qed
      with p xU x show "x \<in> set ?next" unfolding step Suc.prems by blast
    qed
    then show ?thesis by (auto simp: lessThan_Suc_atMost)
  qed
  have "set (authorized @ ?next) = (\<Union>k \<le> Suc i. level d actor k)"
    using Suc.prems(1) next_set by (auto simp: atMost_Suc lessThan_Suc_atMost)
  from Suc.IH [OF this next_set] show ?case by (simp only: widen_Suc) simp
qed

lemma authorizedMerchantIds_iff:
  assumes c: "canonical_ids d actor" and x: "x \<in> set (actor # hierarchy_ids d)"
  shows "x \<in> set (authorizedMerchantIds d actor) \<longleftrightarrow> manages_within d 16 actor x"
proof -
  have "set (widen d 16 [actor] [actor]) = (\<Union>k \<le> 0 + 16. level d actor k)"
    by (rule set_widen [OF c]) (simp_all add: level_0)
  then show ?thesis
    using x by (auto simp: authorizedMerchantIds_def manages_within_def level_def)
qed

lemma authorizeStore_Inr:
  assumes c: "canonical_ids d actor"
  shows "authorizeStore d actor sid = Inr s \<longleftrightarrow>
    find (\<lambda>s. sql_eq d (sto_id s) sid \<and> sto_active s) (stores d) = Some s \<and>
    manages_within d 15 actor (sto_merchantId s)"
proof -
  have "climb d actor 16 [] (Some (sto_merchantId s)) \<longleftrightarrow> manages_within d 15 actor (sto_merchantId s)"
    if "s \<in> set (stores d)" for s
  proof -
    have "sto_merchantId s \<in> set (actor # hierarchy_ids d)" using that by (simp add: hierarchy_ids_def)
    then have "climb d actor 16 [] (Some (sto_merchantId s)) \<longleftrightarrow>
        (\<exists>k < 16. ancestor d k (sto_merchantId s) = Some actor)"
      by (intro climb_iff ancestor_nonempty [OF c])
    also have "\<dots> \<longleftrightarrow> manages_within d 15 actor (sto_merchantId s)"
    proof -
      have "k < 16 \<longleftrightarrow> k \<le> 15" for k :: nat by arith
      then show ?thesis by (simp only: manages_within_def)
    qed
    finally show ?thesis .
  qed
  then show ?thesis
    unfolding authorizeStore_def by (auto simp: res_simps dest: find_Some_D)
qed

lemma in_scope_iff:
  assumes c: "canonical_ids d actor" and x: "x \<in> set (actor # hierarchy_ids d)"
  shows "in_scope d actor x \<longleftrightarrow> manages_within d 16 actor x"
proof -
  have sub: "set (authorizedMerchantIds d actor) \<subseteq> set (actor # hierarchy_ids d)"
  proof -
    have "set (widen d 16 [actor] [actor]) = (\<Union>k \<le> 0 + 16. level d actor k)"
      by (rule set_widen [OF c]) (simp_all add: level_0)
    then show ?thesis by (auto simp: authorizedMerchantIds_def level_def)
  qed
  have "in_scope d actor x \<longleftrightarrow> x \<in> set (authorizedMerchantIds d actor)"
    using sub sql_eq_canonical [OF c x] unfolding in_scope_def list_ex_iff by blast
  then show ?thesis by (simp only: authorizedMerchantIds_iff [OF c x])
qed

lemma manages_within_mono: "manages_within d i a x \<Longrightarrow> i \<le> j \<Longrightarrow> manages_within d j a x"
  by (auto simp: manages_within_def intro: le_trans)

lemma in_scope_self: "in_scope d actor actor"
proof -
  have "set authorized \<subseteq> set (widen d n authorized frontier)" for n authorized frontier
  proof (induction n arbitrary: authorized frontier)
    case (Suc n)
    have "set authorized \<subseteq> set (authorized @ next_level d authorized frontier)" by simp
    also have "\<dots> \<subseteq> set (widen d (Suc n) authorized frontier)" unfolding widen_Suc by (rule Suc)
    finally show ?case .
  qed simp
  then have "actor \<in> set (authorizedMerchantIds d actor)"
    unfolding authorizedMerchantIds_def by fastforce
  then show ?thesis unfolding in_scope_def list_ex_iff by (intro bexI [of _ actor]) simp_all
qed

end
