(* ===== verification/Samples.thy ===== *)
theory Samples
  imports Database
begin

text \<open>
  Concrete data for the witnesses: a platform with a parent merchant, its child, one store of
  the child, and an environment whose clock and identifiers are fixed.
\<close>

definition empty_database :: database where
  "empty_database = \<lparr>collation = js_lower, merchants = [], stores = [], invoices = [],
     invoice_lines = [], idempotency_records = [], outbox_events = [], delivery_attempts = [],
     payments = [], refunds = [], webhook_receipts = [], audit_events = []\<rparr>"

definition sample_merchants :: "merchant list" where
  "sample_merchants =
     [\<lparr>mer_id = ''m1'', mer_parentMerchantId = None, mer_name = ''Parent'', mer_active = True,
       mer_createdAt = 0\<rparr>,
      \<lparr>mer_id = ''m2'', mer_parentMerchantId = Some ''m1'', mer_name = ''Child'',
       mer_active = True, mer_createdAt = 0\<rparr>]"

definition sample_store :: store where
  "sample_store = \<lparr>sto_id = ''s1'', sto_merchantId = ''m2'', sto_code = ''S'',
     sto_name = ''Store'', sto_timezone = ''Asia/Kolkata'', sto_active = True, sto_createdAt = 0\<rparr>"

definition sample_db :: database where
  "sample_db = empty_database\<lparr>merchants := sample_merchants, stores := [sample_store]\<rparr>"

text \<open>Identifiers of the \<open>n\<close>-th operation are \<open>n\<close> letters followed by the call's number.\<close>

definition sample_env :: "nat \<Rightarrow> env" where
  "sample_env n = \<lparr>clock = (\<lambda>i. 1000), uuid = (\<lambda>i. replicate n CHR ''x'' @ show_nat i),
     db_now = 1000\<rparr>"

definition sample_hash :: "string \<Rightarrow> char list" where
  "sample_hash s = drop (length s - 32) s"

end
