(* ===== verification/InvoiceService.thy ===== *)
theory InvoiceService
  imports Money MerchantScope Samples
begin

text \<open>
  \<open>InvoiceService\<close> and the part of \<open>AuditService\<close> it writes through. A service method takes
  the database it finds and returns its result or exception, the database it leaves and the
  counter increments it makes. Methods that run at \<open>READ COMMITTED\<close> are given in the form
  \<open>..._from\<close>, with the state their reads see, the state their writes meet and, for the retry in
  the \<open>catch\<close> block, the state the second read sees: other requests may commit in between. The
  method itself is the case without interference, where the three are the same.
\<close>

section \<open>Requests and counters\<close>

record ActorTokenPayload =
  act_actorMerchantId :: string
  act_roles :: "string list"
  act_exp :: int
  act_subject :: "string option"

text \<open>Validated request bodies: every number is an integer.\<close>

record CreateInvoiceLineDto =
  dln_description :: string
  dln_quantity :: int
  dln_unitPriceMinor :: int

record CreateInvoiceDto =
  dto_storeId :: string
  dto_customerName :: string
  dto_customerContact :: string
  dto_currency :: string
  dto_discountMinor :: int
  dto_taxRateBasisPoints :: int
  dto_items :: "CreateInvoiceLineDto list"

record UpdateInvoiceStatusDto =
  upd_status :: InvoiceStatus
  upd_expectedVersion :: int

text \<open>
  The constraints the decorators of the DTO classes put on a body. Whether text is a UUID or
  an e-mail address is decided by the validator library, a parameter here.
\<close>

definition line_dto_valid :: "CreateInvoiceLineDto \<Rightarrow> bool" where
  "line_dto_valid l \<longleftrightarrow> length (dln_description l) \<le> 240 \<and>
     1 \<le> dln_quantity l \<and> dln_quantity l \<le> 10000 \<and>
     0 \<le> dln_unitPriceMinor l \<and> dln_unitPriceMinor l \<le> 100000000"

definition create_dto_valid ::
  "(string \<Rightarrow> bool) \<Rightarrow> (string \<Rightarrow> bool) \<Rightarrow> CreateInvoiceDto \<Rightarrow> bool" where
  "create_dto_valid is_uuid is_email b \<longleftrightarrow>
     is_uuid (dto_storeId b) \<and> length (dto_customerName b) \<le> 160 \<and>
     is_email (dto_customerContact b) \<and> length (dto_customerContact b) \<le> 254 \<and>
     dto_currency b = ''INR'' \<and>
     0 \<le> dto_discountMinor b \<and> dto_discountMinor b \<le> 100000000 \<and>
     0 \<le> dto_taxRateBasisPoints b \<and> dto_taxRateBasisPoints b \<le> 10000 \<and>
     list_all line_dto_valid (dto_items b) \<and>
     1 \<le> length (dto_items b) \<and> length (dto_items b) \<le> 100"

definition update_dto_valid :: "UpdateInvoiceStatusDto \<Rightarrow> bool" where
  "update_dto_valid b \<longleftrightarrow> upd_status b \<in> {PAID, CANCELLED} \<and> 1 \<le> upd_expectedVersion b"

datatype metric = InvoicesInc string | PaymentWebhooksInc string string

section \<open>Audit records\<close>

record AuditRecordInput =
  ari_merchantId :: string
  ari_actorSubject :: string
  ari_action :: string
  ari_resourceType :: string
  ari_resourceId :: string
  ari_requestId :: "string option"
  ari_details :: "json option"

definition audit_row :: "string \<Rightarrow> int \<Rightarrow> AuditRecordInput \<Rightarrow> audit_event" where
  "audit_row row_id now inp =
     \<lparr>aud_id = row_id, aud_merchantId = ari_merchantId inp,
      aud_actorSubject = ari_actorSubject inp, aud_action = ari_action inp,
      aud_resourceType = ari_resourceType inp, aud_resourceId = ari_resourceId inp,
      aud_requestId = ari_requestId inp,
      aud_details = (case ari_details inp of None \<Rightarrow> JSObj [] | Some j \<Rightarrow> j),
      aud_createdAt = now\<rparr>"

definition audit_record :: "string \<Rightarrow> int \<Rightarrow> AuditRecordInput \<Rightarrow> database \<Rightarrow> exn + database" where
  "audit_record row_id now inp d = insert_audit (audit_row row_id now inp) d"

text \<open>The list queries: the rows in the actor's scope, newest first, at most \<open>take_limit\<close>.\<close>

definition newest_first :: "('r \<Rightarrow> int) \<Rightarrow> 'r list \<Rightarrow> 'r list" where
  "newest_first createdAt rows = sort_key (\<lambda>r. - createdAt r) rows"

definition scoped_page ::
  "database \<Rightarrow> string \<Rightarrow> int \<Rightarrow> ('r \<Rightarrow> string) \<Rightarrow> ('r \<Rightarrow> int) \<Rightarrow> 'r list \<Rightarrow> 'r list" where
  "scoped_page d actor limit merchantId createdAt rows =
     take (take_limit limit)
       (newest_first createdAt (filter (\<lambda>r. in_scope d actor (merchantId r)) rows))"

definition audit_list :: "database \<Rightarrow> ActorTokenPayload \<Rightarrow> int \<Rightarrow> audit_event list" where
  "audit_list d actor limit =
     scoped_page d (act_actorMerchantId actor) limit aud_merchantId aud_createdAt (audit_events d)"

section \<open>Creating an invoice\<close>

definition domainInput :: "exn + 'a \<Rightarrow> exn + 'a" where
  "domainInput m = catchE m (\<lambda>e. case e of
       TypeErr s \<Rightarrow> BadRequestException s
     | RangeErr s \<Rightarrow> BadRequestException s
     | _ \<Rightarrow> e)"

definition findIdempotency :: "database \<Rightarrow> string \<Rightarrow> string \<Rightarrow> idempotency_record option" where
  "findIdempotency d actorMerchantId key =
     find (\<lambda>r. sql_eq d (idm_actorMerchantId r) actorMerchantId \<and>
        sql_eq d (idm_operation r) ''invoice.create'' \<and>
        sql_eq d (idm_idempotencyKey r) key) (idempotency_records d)"

text \<open>The request body as the JSON value that is fingerprinted.\<close>

definition line_json :: "CreateInvoiceLineDto \<Rightarrow> json" where
  "line_json l = JSObj
     [(''description'', JSStr (dln_description l)), (''quantity'', JSNum (dln_quantity l)),
      (''unitPriceMinor'', JSNum (dln_unitPriceMinor l))]"

definition dto_json :: "CreateInvoiceDto \<Rightarrow> json" where
  "dto_json b = JSObj
     [(''currency'', JSStr (dto_currency b)), (''discountMinor'', JSNum (dto_discountMinor b)),
      (''taxRateBasisPoints'', JSNum (dto_taxRateBasisPoints b)),
      (''storeId'', JSStr (dto_storeId b)), (''customerName'', JSStr (dto_customerName b)),
      (''customerContact'', JSStr (dto_customerContact b)),
      (''items'', JSArr (map line_json (dto_items b)))]"

definition calc_of :: "CreateInvoiceDto \<Rightarrow> calc_input" where
  "calc_of b =
     \<lparr>ci_items = map (\<lambda>l. \<lparr>li_description = dln_description l, li_quantity = JInt (dln_quantity l),
        li_unitPriceMinor = JInt (dln_unitPriceMinor l)\<rparr>) (dto_items b),
      ci_discountMinor = Some (JInt (dto_discountMinor b)),
      ci_taxRateBasisPoints = Some (JInt (dto_taxRateBasisPoints b))\<rparr>"

definition actor_subject :: "ActorTokenPayload \<Rightarrow> string" where
  "actor_subject a = (case act_subject a of None \<Rightarrow> act_actorMerchantId a | Some s \<Rightarrow> s)"

text \<open>The amounts of a calculated invoice as integer columns.\<close>

record amounts =
  amt_subtotalMinor :: int
  amt_discountMinor :: int
  amt_taxRateBasisPoints :: int
  amt_taxMinor :: int
  amt_totalMinor :: int

definition amounts_of :: "calculated \<Rightarrow> exn + amounts" where
  "amounts_of c =
     bindE (int_column (ca_subtotalMinor c)) (\<lambda>s.
     bindE (int_column (ca_discountMinor c)) (\<lambda>di.
     bindE (int_column (ca_taxRateBasisPoints c)) (\<lambda>r.
     bindE (int_column (ca_taxMinor c)) (\<lambda>t.
     bindE (int_column (ca_totalMinor c)) (\<lambda>total.
     Inr \<lparr>amt_subtotalMinor = s, amt_discountMinor = di, amt_taxRateBasisPoints = r,
          amt_taxMinor = t, amt_totalMinor = total\<rparr>)))))"

definition new_invoice ::
  "env \<Rightarrow> ActorTokenPayload \<Rightarrow> CreateInvoiceDto \<Rightarrow> store \<Rightarrow> amounts \<Rightarrow> invoice" where
  "new_invoice e actor b store a =
     \<lparr>inv_id = uuid e 0, inv_merchantId = sto_merchantId store, inv_storeId = sto_id store,
      inv_createdBy = actor_subject actor, inv_customerName = js_trim (dto_customerName b),
      inv_customerContact = js_lower (dto_customerContact b), inv_currency = dto_currency b,
      inv_subtotalMinor = amt_subtotalMinor a, inv_discountMinor = amt_discountMinor a,
      inv_taxRateBasisPoints = amt_taxRateBasisPoints a, inv_taxMinor = amt_taxMinor a,
      inv_totalMinor = amt_totalMinor a, inv_status = ISSUED, inv_issuedAt = clock e 0,
      inv_version = 1, inv_createdAt = db_now e\<rparr>"

definition new_line :: "env \<Rightarrow> nat \<times> calc_line \<Rightarrow> exn + invoice_line" where
  "new_line e ix =
     bindE (int_column (cl_quantity (snd ix))) (\<lambda>q.
     bindE (int_column (cl_unitPriceMinor (snd ix))) (\<lambda>p.
     bindE (int_column (cl_lineTotalMinor (snd ix))) (\<lambda>t.
     Inr \<lparr>lin_id = uuid e (1 + fst ix), lin_invoiceId = uuid e 0,
          lin_position = int (fst ix) + 1, lin_description = cl_description (snd ix),
          lin_quantity = q, lin_unitPriceMinor = p, lin_lineTotalMinor = t\<rparr>)))"

definition pending_event :: "string \<Rightarrow> invoice \<Rightarrow> string \<Rightarrow> event_payload \<Rightarrow> int \<Rightarrow> int \<Rightarrow> outbox_event" where
  "pending_event eventId ivc eventType payload availableAt now =
     \<lparr>obx_id = eventId, obx_aggregateType = ''invoice'', obx_aggregateId = inv_id ivc,
      obx_merchantId = inv_merchantId ivc, obx_eventType = eventType, obx_payload = payload,
      obx_status = PENDING, obx_attempts = 0, obx_availableAt = availableAt,
      obx_lockUntil = None, obx_publishedAt = None, obx_lastError = None, obx_createdAt = now\<rparr>"

definition invoice_payload :: "string \<Rightarrow> invoice \<Rightarrow> InvoiceStatus \<Rightarrow> event_payload" where
  "invoice_payload eventId ivc status =
     \<lparr>evp_eventId = eventId, evp_invoiceId = inv_id ivc, evp_merchantId = inv_merchantId ivc,
      evp_storeId = inv_storeId ivc, evp_customerName = inv_customerName ivc,
      evp_customerContact = inv_customerContact ivc, evp_currency = inv_currency ivc,
      evp_totalMinor = inv_totalMinor ivc, evp_status = status, evp_issuedAt = inv_issuedAt ivc,
      evp_providerEventId = None, evp_paymentAmountMinor = None\<rparr>"

definition toResponse :: "invoice \<Rightarrow> InvoiceResponse" where
  "toResponse ivc =
     \<lparr>rsp_id = inv_id ivc, rsp_storeId = inv_storeId ivc, rsp_status = inv_status ivc,
      rsp_currency = inv_currency ivc, rsp_subtotalMinor = inv_subtotalMinor ivc,
      rsp_discountMinor = inv_discountMinor ivc, rsp_taxMinor = inv_taxMinor ivc,
      rsp_totalMinor = inv_totalMinor ivc, rsp_issuedAt = inv_issuedAt ivc,
      rsp_version = inv_version ivc\<rparr>"

datatype create_plan = Replay InvoiceResponse | Proceed store calculated

text \<open>The reading half of the transaction.\<close>

definition create_read ::
  "ActorTokenPayload \<Rightarrow> string \<Rightarrow> string \<Rightarrow> CreateInvoiceDto \<Rightarrow> database \<Rightarrow> exn + create_plan" where
  "create_read actor key fingerprint b d =
     (case findIdempotency d (act_actorMerchantId actor) key of
        Some existing \<Rightarrow>
          if idm_requestHash existing \<noteq> fingerprint
          then Inl (ConflictException ''Idempotency key was already used with a different request'')
          else Inr (Replay (idm_responseBody existing))
      | None \<Rightarrow>
          bindE (authorizeStore d (act_actorMerchantId actor) (dto_storeId b)) (\<lambda>store.
          bindE (domainInput (calculateInvoice (calc_of b))) (\<lambda>calculated.
          Inr (Proceed store calculated))))"

text \<open>
  The writing half. The calls of \<open>randomUUID\<close> are numbered in the order of the code: the invoice,
  its lines, the outbox event, the idempotency record, the audit event.
\<close>

definition create_write ::
  "env \<Rightarrow> ActorTokenPayload \<Rightarrow> string \<Rightarrow> string \<Rightarrow> string \<Rightarrow> CreateInvoiceDto \<Rightarrow> store \<Rightarrow>
   calculated \<Rightarrow> database \<Rightarrow> exn + InvoiceResponse \<times> database" where
  "create_write e actor key fingerprint requestId b store calculated d =
     (let n = length (ca_items calculated) in
      bindE (amounts_of calculated) (\<lambda>a.
      let ivc = new_invoice e actor b store a; eventId = uuid e (n + 1); response = toResponse ivc in
      bindE (insert_invoice ivc d) (\<lambda>d.
      bindE (mapE (new_line e) (enumerate 0 (ca_items calculated))) (\<lambda>lines.
      bindE (foldE insert_line d lines) (\<lambda>d.
      bindE (insert_outbox (pending_event eventId ivc ''invoice.issued.v1''
               (invoice_payload eventId ivc ISSUED) (clock e 0) (db_now e)) d) (\<lambda>d.
      bindE (insert_idempotency
               \<lparr>idm_id = uuid e (n + 2), idm_actorMerchantId = act_actorMerchantId actor,
                idm_operation = ''invoice.create'', idm_idempotencyKey = key,
                idm_requestHash = fingerprint, idm_responseStatus = 201,
                idm_responseBody = response, idm_createdAt = db_now e\<rparr> d) (\<lambda>d.
      bindE (audit_record (uuid e (n + 3)) (db_now e)
               \<lparr>ari_merchantId = sto_merchantId store, ari_actorSubject = actor_subject actor,
                ari_action = ''invoice.created'', ari_resourceType = ''invoice'',
                ari_resourceId = inv_id ivc, ari_requestId = Some requestId,
                ari_details = Some (JSObj [(''storeId'', JSStr (sto_id store)),
                  (''currency'', JSStr (dto_currency b)),
                  (''totalMinor'', JSNum (amt_totalMinor a))])\<rparr> d) (\<lambda>d.
      Inr (response, d)))))))))"

definition create_from ::
  "(string \<Rightarrow> char list) \<Rightarrow> env \<Rightarrow> ActorTokenPayload \<Rightarrow> string option \<Rightarrow> string \<Rightarrow> CreateInvoiceDto \<Rightarrow>
   database \<Rightarrow> database \<Rightarrow> database \<Rightarrow> (exn + InvoiceResponse) \<times> database \<times> metric list" where
  "create_from sha256 e actor rawKey requestId b d_read d_write d_retry =
     (case domainInput (normalizeIdempotencyKey rawKey) of
        Inl err \<Rightarrow> (Inl err, d_write, [])
      | Inr key \<Rightarrow>
          let fingerprint = requestFingerprint sha256 (dto_json b);
              body = bindE (create_read actor key fingerprint b d_read) (\<lambda>plan.
                case plan of
                  Replay response \<Rightarrow> Inr ((response, True), d_write)
                | Proceed store calculated \<Rightarrow>
                    bindE (create_write e actor key fingerprint requestId b store calculated d_write)
                      (\<lambda>(response, d). Inr ((response, False), d)))
          in case body of
               Inr ((response, replayed), d) \<Rightarrow>
                 (Inr response, d, [InvoicesInc (if replayed then ''replayed'' else ''created'')])
             | Inl err \<Rightarrow>
                 if isDuplicateKey err
                 then (case findIdempotency d_retry (act_actorMerchantId actor) key of
                     Some existing \<Rightarrow>
                       if idm_requestHash existing = fingerprint
                       then (Inr (idm_responseBody existing), d_write, [InvoicesInc ''replayed''])
                       else (Inl (ConflictException ''Concurrent idempotency-key conflict''), d_write, [])
                   | None \<Rightarrow> (Inl (ConflictException ''Concurrent idempotency-key conflict''), d_write, []))
                 else (Inl err, d_write, [InvoicesInc ''failed'']))"

definition create ::
  "(string \<Rightarrow> char list) \<Rightarrow> env \<Rightarrow> ActorTokenPayload \<Rightarrow> string option \<Rightarrow> string \<Rightarrow> CreateInvoiceDto \<Rightarrow>
   database \<Rightarrow> (exn + InvoiceResponse) \<times> database \<times> metric list" where
  "create sha256 e actor rawKey requestId b d = create_from sha256 e actor rawKey requestId b d d d"

section \<open>Reading invoices\<close>

definition find_invoice :: "database \<Rightarrow> string \<Rightarrow> invoice option" where
  "find_invoice d i = find (\<lambda>r. sql_eq d (inv_id r) i) (invoices d)"

definition get_invoice :: "database \<Rightarrow> ActorTokenPayload \<Rightarrow> string \<Rightarrow> exn + InvoiceResponse" where
  "get_invoice d actor invoiceId =
     bindE (someE (NotFoundException ''Invoice not found'') (find_invoice d invoiceId)) (\<lambda>ivc.
     bindE (authorizeStore d (act_actorMerchantId actor) (inv_storeId ivc)) (\<lambda>_.
     Inr (toResponse ivc)))"

definition list_invoices :: "database \<Rightarrow> ActorTokenPayload \<Rightarrow> int \<Rightarrow> InvoiceResponse list" where
  "list_invoices d actor limit =
     map toResponse (scoped_page d (act_actorMerchantId actor) limit inv_merchantId inv_createdAt
       (invoices d))"

section \<open>Changing an invoice's status\<close>

definition transition_read ::
  "ActorTokenPayload \<Rightarrow> string \<Rightarrow> UpdateInvoiceStatusDto \<Rightarrow> database \<Rightarrow> exn + invoice" where
  "transition_read actor invoiceId b d =
     bindE (someE (NotFoundException ''Invoice not found'') (find_invoice d invoiceId)) (\<lambda>ivc.
     bindE (authorizeStore d (act_actorMerchantId actor) (inv_storeId ivc)) (\<lambda>_.
     bindE (catchE (assertInvoiceTransition (inv_status ivc) (upd_status b))
              (\<lambda>e. case e of CodedErr m c \<Rightarrow> ConflictException m
                  | _ \<Rightarrow> ConflictException ''Invalid invoice transition'')) (\<lambda>_.
     bindE (guardE (inv_version ivc = upd_expectedVersion b)
              (ConflictException ''Invoice was modified by another request; reload before retrying''))
       (\<lambda>_. Inr ivc))))"

definition transition_write ::
  "env \<Rightarrow> ActorTokenPayload \<Rightarrow> string \<Rightarrow> string \<Rightarrow> UpdateInvoiceStatusDto \<Rightarrow> invoice \<Rightarrow> database \<Rightarrow>
   exn + InvoiceResponse \<times> database" where
  "transition_write e actor invoiceId requestId b ivc d =
     bindE (set_invoice_status (\<lambda>r. sql_eq d (inv_id r) invoiceId \<and>
              inv_version r = upd_expectedVersion b) (upd_status b) d) (\<lambda>(affected, d).
     bindE (guardE (affected = 1) (ConflictException ''Concurrent invoice update detected'')) (\<lambda>_.
     bindE (insert_outbox (pending_event (uuid e 0) ivc ''invoice.status-changed.v1''
              (invoice_payload (uuid e 0) ivc (upd_status b)) (clock e 0) (db_now e)) d) (\<lambda>d.
     bindE (audit_record (uuid e 1) (db_now e)
              \<lparr>ari_merchantId = inv_merchantId ivc, ari_actorSubject = actor_subject actor,
               ari_action = ''invoice.status_changed'', ari_resourceType = ''invoice'',
               ari_resourceId = inv_id ivc, ari_requestId = Some requestId,
               ari_details = Some (JSObj [(''from'', JSStr (status_name (inv_status ivc))),
                 (''to'', JSStr (status_name (upd_status b))),
                 (''expectedVersion'', JSNum (upd_expectedVersion b))])\<rparr> d) (\<lambda>d.
     Inr (toResponse (ivc\<lparr>inv_status := upd_status b, inv_version := inv_version ivc + 1\<rparr>), d)))))"

definition transition_from ::
  "env \<Rightarrow> ActorTokenPayload \<Rightarrow> string \<Rightarrow> string \<Rightarrow> UpdateInvoiceStatusDto \<Rightarrow> database \<Rightarrow> database \<Rightarrow>
   (exn + InvoiceResponse) \<times> database" where
  "transition_from e actor invoiceId requestId b d_read d_write =
     transaction (\<lambda>d. bindE (transition_read actor invoiceId b d_read)
       (\<lambda>ivc. transition_write e actor invoiceId requestId b ivc d)) d_write"

definition transition ::
  "env \<Rightarrow> ActorTokenPayload \<Rightarrow> string \<Rightarrow> string \<Rightarrow> UpdateInvoiceStatusDto \<Rightarrow> database \<Rightarrow>
   (exn + InvoiceResponse) \<times> database" where
  "transition e actor invoiceId requestId b d = transition_from e actor invoiceId requestId b d d"

section \<open>What a successful creation stores\<close>

lemma foldE_insert_line:
  "foldE insert_line d ls = Inr d' \<Longrightarrow> d' = d\<lparr>invoice_lines := invoice_lines d @ ls\<rparr>"
proof (induction ls arbitrary: d)
  case Nil
  then show ?case by simp
next
  case (Cons l ls)
  then obtain d1 where "insert_line d l = Inr d1" and "foldE insert_line d1 ls = Inr d'"
    by (auto simp: bindE_Inr_conv)
  then show ?case using Cons.IH [of d1] by (simp add: insert_line_Inr)
qed

lemma int_column_Inr [res_simps]: "int_column n = Inr i \<longleftrightarrow> is_integer n \<and> i = num_int n"
  by (auto simp: int_column_def)

lemma domainInput_Inr [res_simps]: "domainInput m = Inr a \<longleftrightarrow> m = Inr a"
  by (simp add: domainInput_def res_simps)

lemma amounts_of_Inr:
  "amounts_of c = Inr a \<Longrightarrow>
     amt_subtotalMinor a = num_int (ca_subtotalMinor c) \<and>
     amt_discountMinor a = num_int (ca_discountMinor c) \<and>
     amt_taxRateBasisPoints a = num_int (ca_taxRateBasisPoints c) \<and>
     amt_taxMinor a = num_int (ca_taxMinor c) \<and> amt_totalMinor a = num_int (ca_totalMinor c)"
  by (auto simp: amounts_of_def res_simps)

text \<open>The rows one creation writes.\<close>

definition issued_event :: "env \<Rightarrow> nat \<Rightarrow> invoice \<Rightarrow> outbox_event" where
  "issued_event e n ivc =
     pending_event (uuid e (n + 1)) ivc ''invoice.issued.v1''
       (invoice_payload (uuid e (n + 1)) ivc ISSUED) (clock e 0) (db_now e)"

definition key_record ::
  "env \<Rightarrow> nat \<Rightarrow> ActorTokenPayload \<Rightarrow> string \<Rightarrow> string \<Rightarrow> InvoiceResponse \<Rightarrow> idempotency_record" where
  "key_record e n actor key fingerprint response =
     \<lparr>idm_id = uuid e (n + 2), idm_actorMerchantId = act_actorMerchantId actor,
      idm_operation = ''invoice.create'', idm_idempotencyKey = key,
      idm_requestHash = fingerprint, idm_responseStatus = 201,
      idm_responseBody = response, idm_createdAt = db_now e\<rparr>"

definition created_audit ::
  "env \<Rightarrow> nat \<Rightarrow> ActorTokenPayload \<Rightarrow> string \<Rightarrow> CreateInvoiceDto \<Rightarrow> store \<Rightarrow> invoice \<Rightarrow> audit_event" where
  "created_audit e n actor requestId b store ivc =
     audit_row (uuid e (n + 3)) (db_now e)
       \<lparr>ari_merchantId = sto_merchantId store, ari_actorSubject = actor_subject actor,
        ari_action = ''invoice.created'', ari_resourceType = ''invoice'',
        ari_resourceId = inv_id ivc, ari_requestId = Some requestId,
        ari_details = Some (JSObj [(''storeId'', JSStr (sto_id store)),
          (''currency'', JSStr (dto_currency b)), (''totalMinor'', JSNum (inv_totalMinor ivc))])\<rparr>"

lemma create_write_Inr:
  assumes "create_write e actor key fingerprint requestId b store calculated d = Inr (r, d')"
  obtains a lines where "amounts_of calculated = Inr a"
    and "mapE (new_line e) (enumerate 0 (ca_items calculated)) = Inr lines"
    and "list_all fst (invoice_constraints d (new_invoice e actor b store a))"
    and "r = toResponse (new_invoice e actor b store a)"
    and "findIdempotency d (act_actorMerchantId actor) key = None"
    and "d' = d\<lparr>invoices := invoices d @ [new_invoice e actor b store a],
      invoice_lines := invoice_lines d @ lines,
      outbox_events := outbox_events d @
        [issued_event e (length (ca_items calculated)) (new_invoice e actor b store a)],
      idempotency_records := idempotency_records d @
        [key_record e (length (ca_items calculated)) actor key fingerprint r],
      audit_events := audit_events d @
        [created_audit e (length (ca_items calculated)) actor requestId b store
          (new_invoice e actor b store a)]\<rparr>"
    and "fresh_event d (issued_event e (length (ca_items calculated)) (new_invoice e actor b store a))"
proof -
  from assms obtain a d1 lines d2 d3 d4 where a: "amounts_of calculated = Inr a"
    and i: "insert_invoice (new_invoice e actor b store a) d = Inr d1"
    and m: "mapE (new_line e) (enumerate 0 (ca_items calculated)) = Inr lines"
    and l: "foldE insert_line d1 lines = Inr d2"
    and ob: "insert_outbox (issued_event e (length (ca_items calculated)) (new_invoice e actor b store a)) d2 = Inr d3"
    and k: "insert_idempotency (key_record e (length (ca_items calculated)) actor key fingerprint r) d3 = Inr d4"
    and au: "insert_audit (created_audit e (length (ca_items calculated)) actor requestId b store
          (new_invoice e actor b store a)) d4 = Inr d'"
    and r: "r = toResponse (new_invoice e actor b store a)"
    unfolding create_write_def Let_def bindE_Inr_conv issued_event_def key_record_def
      created_audit_def audit_record_def by (auto simp: new_invoice_def)
  have d3: "d3 = d\<lparr>invoices := invoices d @ [new_invoice e actor b store a],
      invoice_lines := invoice_lines d @ lines,
      outbox_events := outbox_events d @
        [issued_event e (length (ca_items calculated)) (new_invoice e actor b store a)]\<rparr>"
    using i ob foldE_insert_line [OF l] by (auto simp: res_simps)
  have none: "findIdempotency d (act_actorMerchantId actor) key = None"
    using idempotency_table.ins_fresh [OF k]
    unfolding findIdempotency_def find_None_iff idempotency_key_def image_iff sql_eq_def
    by (auto simp: key_record_def d3)
  have "collation d2 = collation d" "outbox_events d2 = outbox_events d"
    using i foldE_insert_line [OF l] by (auto simp: res_simps)
  note fresh = insert_outbox_fresh [OF ob, unfolded fresh_event_cong [OF this]]
  show ?thesis
    by (rule that [OF a m _ r none _ fresh]) (use i k au d3 in \<open>auto simp: res_simps\<close>)
qed

text \<open>A creation that returns has replayed a stored response or written a new invoice.\<close>

definition replays ::
  "(string \<Rightarrow> char list) \<Rightarrow> ActorTokenPayload \<Rightarrow> string \<Rightarrow> CreateInvoiceDto \<Rightarrow> database \<Rightarrow> InvoiceResponse \<Rightarrow> bool"
  where
  "replays sha256 actor key b d r \<longleftrightarrow>
     (\<exists>x. findIdempotency d (act_actorMerchantId actor) key = Some x \<and>
        idm_requestHash x = requestFingerprint sha256 (dto_json b) \<and> idm_responseBody x = r)"

lemma create_read_Replay:
  "create_read actor key (requestFingerprint sha256 (dto_json b)) b d = Inr (Replay r) \<longleftrightarrow>
     replays sha256 actor key b d r"
  by (auto simp: create_read_def replays_def res_simps split: option.splits)

lemma create_read_Proceed:
  "create_read actor key fp b d = Inr (Proceed store c) \<longleftrightarrow>
     findIdempotency d (act_actorMerchantId actor) key = None \<and>
     authorizeStore d (act_actorMerchantId actor) (dto_storeId b) = Inr store \<and>
     calculateInvoice (calc_of b) = Inr c"
  by (auto simp: create_read_def bindE_Inr_conv domainInput_Inr split: option.splits)

lemma create_read_no_duplicate: "create_read actor key fp b d = Inl err \<Longrightarrow> \<not> isDuplicateKey err"
  by (auto simp: create_read_def authorizeStore_def domainInput_def bindE_Inl_conv someE_def
      guardE_Inl_conv catchE_def dest!: calculateInvoice_Inl split: option.splits if_splits sum.splits)

lemma create_from_Inr_iff:
  "create_from sha256 e actor rawKey requestId b d_read d_write d_retry = (Inr r, d', ms) \<longleftrightarrow>
     (\<exists>key. normalizeIdempotencyKey rawKey = Inr key \<and>
       (replays sha256 actor key b d_read r \<and> d' = d_write \<and> ms = [InvoicesInc ''replayed''] \<or>
        (\<exists>store c. create_read actor key (requestFingerprint sha256 (dto_json b)) b d_read
             = Inr (Proceed store c) \<and>
           create_write e actor key (requestFingerprint sha256 (dto_json b)) requestId b store c d_write
             = Inr (r, d')) \<and> ms = [InvoicesInc ''created''] \<or>
        (\<exists>store c err. create_read actor key (requestFingerprint sha256 (dto_json b)) b d_read
             = Inr (Proceed store c) \<and>
           create_write e actor key (requestFingerprint sha256 (dto_json b)) requestId b store c d_write
             = Inl err \<and> isDuplicateKey err) \<and>
          replays sha256 actor key b d_retry r \<and> d' = d_write \<and> ms = [InvoicesInc ''replayed'']))"
  (is "?L \<longleftrightarrow> ?R")
proof (cases "normalizeIdempotencyKey rawKey")
  case (Inl err)
  then show ?thesis by (simp add: create_from_def domainInput_def)
next
  case (Inr key)
  let ?fp = "requestFingerprint sha256 (dto_json b)"
  have norm: "domainInput (normalizeIdempotencyKey rawKey) = Inr key"
    using Inr by (simp add: domainInput_Inr)
  note no_dup = create_read_no_duplicate [of actor key ?fp b d_read]
  show ?thesis
  proof (cases "create_read actor key ?fp b d_read")
    case (Inl err)
    then show ?thesis using no_dup [OF Inl] norm Inr
      by (auto simp: create_from_def simp flip: create_read_Replay)
  next
    case read: (Inr plan)
    show ?thesis
    proof (cases plan)
      case (Replay x1)
      then show ?thesis using read norm Inr
        by (auto simp: create_from_def simp flip: create_read_Replay)
    next
      case (Proceed store c)
      then have none: "findIdempotency d_read (act_actorMerchantId actor) key = None"
        using read by (simp add: create_read_Proceed)
      show ?thesis
      proof (cases "create_write e actor key ?fp requestId b store c d_write")
        case (Inl err)
        then show ?thesis using read norm Inr Proceed
          by (auto simp: create_from_def replays_def none split: option.splits)
      next
        case (Inr p)
        then show ?thesis using read norm \<open>normalizeIdempotencyKey rawKey = Inr key\<close> Proceed
          by (cases p) (auto simp: create_from_def simp flip: create_read_Replay)
      qed
    qed
  qed
qed

lemma create_Inr_iff:
  "create sha256 e actor rawKey requestId b d = (Inr r, d', ms) \<longleftrightarrow>
     (\<exists>key. normalizeIdempotencyKey rawKey = Inr key \<and>
       (replays sha256 actor key b d r \<and> d' = d \<and> ms = [InvoicesInc ''replayed''] \<or>
        (\<exists>store c. create_read actor key (requestFingerprint sha256 (dto_json b)) b d
             = Inr (Proceed store c) \<and>
           create_write e actor key (requestFingerprint sha256 (dto_json b)) requestId b store c d
             = Inr (r, d')) \<and> ms = [InvoicesInc ''created'']))"
  unfolding create_def create_from_Inr_iff
  by (auto simp: replays_def create_read_Proceed)

section \<open>The stored amounts\<close>

definition dto_subtotal :: "CreateInvoiceDto \<Rightarrow> int" where
  "dto_subtotal b = sum_list (map (\<lambda>l. dln_quantity l * dln_unitPriceMinor l) (dto_items b))"

definition dto_taxable :: "CreateInvoiceDto \<Rightarrow> int" where
  "dto_taxable b = dto_subtotal b - dto_discountMinor b"

definition dto_tax :: "CreateInvoiceDto \<Rightarrow> int" where
  "dto_tax b = half_up (dto_taxable b) (dto_taxRateBasisPoints b)"

lemma calc_of_amounts:
  "subtotal (calc_of b) = dto_subtotal b" "discount (calc_of b) = dto_discountMinor b"
  "rate (calc_of b) = dto_taxRateBasisPoints b" "taxable (calc_of b) = dto_taxable b"
  by (simp_all add: subtotal_def discount_def rate_def taxable_def calc_of_def dto_subtotal_def
      dto_taxable_def opt_num_def line_total_def o_def)

lemma new_invoice_amounts:
  assumes c: "calculateInvoice (calc_of b) = Inr c" and a: "amounts_of c = Inr a"
    and ok: "list_all fst (invoice_constraints d (new_invoice e actor b store a))"
  shows "amt_subtotalMinor a = dto_subtotal b" "amt_discountMinor a = dto_discountMinor b"
    "amt_taxRateBasisPoints a = dto_taxRateBasisPoints b" "amt_taxMinor a = dto_tax b"
    "amt_totalMinor a = dto_taxable b + dto_tax b"
    "0 \<le> dto_tax b" "dto_tax b \<le> dto_taxable b" "dto_taxable b + dto_tax b < 2 ^ 32"
proof -
  from c have inp: "input_ok (calc_of b)" and res: "c = result_of (calc_of b)"
    by (simp_all add: calculateInvoice_Inr)
  note am = amounts_of_Inr [OF a, unfolded res]
  show s: "amt_subtotalMinor a = dto_subtotal b" and "amt_discountMinor a = dto_discountMinor b"
    and "amt_taxRateBasisPoints a = dto_taxRateBasisPoints b"
    using am by (simp_all add: result_of_def calc_of_amounts)
  from ok s have sub: "dto_subtotal b < 2 ^ 32"
    by (simp add: constraint_defs column_defs new_invoice_def)
  note b = input_ok_bounds [OF inp, unfolded calc_of_amounts]
  have t: "0 \<le> dto_tax b" "dto_tax b \<le> dto_taxable b"
    using half_up_bounds [of "dto_taxable b" "dto_taxRateBasisPoints b"] b by (auto simp: dto_tax_def)
  then show "0 \<le> dto_tax b" "dto_tax b \<le> dto_taxable b" .
  have "dto_taxable b * dto_taxRateBasisPoints b \<le> 2 ^ 32 * 10000"
    using b sub by (intro mult_mono) auto
  then have small: "taxable (calc_of b) * rate (calc_of b) \<le> 2 ^ 53"
    by (simp add: calc_of_amounts)
  have "taxable (calc_of b) + half_up (taxable (calc_of b)) (rate (calc_of b)) \<le> 2 ^ 53"
    using t b sub by (simp add: calc_of_amounts dto_tax_def)
  note exact = total_exact [OF inp small this]
  show "amt_taxMinor a = dto_tax b" and tot: "amt_totalMinor a = dto_taxable b + dto_tax b"
    using am exact by (simp_all add: calc_of_amounts dto_tax_def)
  from ok tot show "dto_taxable b + dto_tax b < 2 ^ 32"
    by (simp add: constraint_defs column_defs new_invoice_def)
qed

lemma new_line_Inr:
  "new_line e ix = Inr l \<Longrightarrow>
     lin_invoiceId l = uuid e 0 \<and> lin_position l = int (fst ix) + 1 \<and>
     lin_description l = cl_description (snd ix) \<and>
     lin_quantity l = num_int (cl_quantity (snd ix)) \<and>
     lin_unitPriceMinor l = num_int (cl_unitPriceMinor (snd ix)) \<and>
     lin_lineTotalMinor l = num_int (cl_lineTotalMinor (snd ix))"
  by (auto simp: new_line_def res_simps)

text \<open>The stored lines mirror the requested ones.\<close>

definition line_stored :: "string \<Rightarrow> nat \<Rightarrow> CreateInvoiceLineDto \<Rightarrow> invoice_line \<Rightarrow> bool" where
  "line_stored invoiceId i l r \<longleftrightarrow> lin_invoiceId r = invoiceId \<and> lin_position r = int i + 1 \<and>
     lin_description r = js_trim (dln_description l) \<and> lin_quantity r = dln_quantity l \<and>
     lin_unitPriceMinor r = dln_unitPriceMinor l \<and>
     lin_lineTotalMinor r = dln_quantity l * dln_unitPriceMinor l"

lemma new_lines_stored:
  assumes c: "calculateInvoice (calc_of b) = Inr c"
    and m: "mapE (new_line e) (enumerate 0 (ca_items c)) = Inr lines"
  shows "length lines = length (dto_items b)"
    and "i < length lines \<Longrightarrow> line_stored (uuid e 0) i (dto_items b ! i) (lines ! i)"
proof -
  have items: "ca_items c = map normal_line (ci_items (calc_of b))"
    using c by (simp add: calculateInvoice_Inr result_of_def)
  show len: "length lines = length (dto_items b)"
    using mapE_Inr_length [OF m] by (simp add: items calc_of_def)
  assume i: "i < length lines"
  then have "new_line e (enumerate 0 (ca_items c) ! i) = Inr (lines ! i)"
    using mapE_Inr_nth [OF m, of i] len by (simp add: items calc_of_def)
  from new_line_Inr [OF this] show "line_stored (uuid e 0) i (dto_items b ! i) (lines ! i)"
    using i len by (simp add: line_stored_def nth_enumerate_eq items calc_of_def normal_line_def
        line_total_def flip: of_int_mult)
qed

section \<open>Properties of creation\<close>

definition sample_actor :: ActorTokenPayload where
  "sample_actor = \<lparr>act_actorMerchantId = ''m1'', act_roles = [''invoice:write''],
     act_exp = 2000, act_subject = None\<rparr>"

definition sample_dto :: CreateInvoiceDto where
  "sample_dto = \<lparr>dto_storeId = ''s1'', dto_customerName = '' Asha '',
     dto_customerContact = ''Asha@Example.IN'', dto_currency = ''INR'', dto_discountMinor = 100,
     dto_taxRateBasisPoints = 1800,
     dto_items = [\<lparr>dln_description = ''Tea'', dln_quantity = 2, dln_unitPriceMinor = 550\<rparr>]\<rparr>"

definition sample_key :: string where
  "sample_key = ''order-0000000001''"

definition sample_calculated :: calculated where
  "sample_calculated = \<lparr>ca_items = [\<lparr>cl_description = ''Tea'', cl_quantity = JInt 2,
       cl_unitPriceMinor = JInt 550, cl_lineTotalMinor = JInt 1100\<rparr>],
     ca_subtotalMinor = JInt 1100, ca_discountMinor = JInt 100, ca_taxableMinor = JInt 1000,
     ca_taxRateBasisPoints = JInt 1800, ca_taxMinor = JInt 180, ca_totalMinor = JInt 1180\<rparr>"

lemma sample_calculates: "calculateInvoice (calc_of sample_dto) = Inr sample_calculated"
proof -
  have am: "subtotal (calc_of sample_dto) = 1100" "discount (calc_of sample_dto) = 100"
    "rate (calc_of sample_dto) = 1800" "taxable (calc_of sample_dto) = 1000"
    by (simp_all add: calc_of_amounts dto_subtotal_def dto_taxable_def sample_dto_def)
  have tea: "js_trim ''Tea'' = ''Tea''" by code_simp
  have ok: "input_ok (calc_of sample_dto)"
    unfolding input_ok_def am by (simp add: calc_of_def sample_dto_def line_ok_def nonneg_safe_def
        opt_num_def line_total_def max_safe_def tea)
  have items: "map normal_line (ci_items (calc_of sample_dto)) = ca_items sample_calculated"
    by (simp add: calc_of_def sample_dto_def normal_line_def line_total_def tea sample_calculated_def)
  have tax: "tax_amount 1000 1800 = JInt 180" by (simp add: tax_amount_exact half_up_def)
  have "1000 + half_up 1000 1800 = 1180" by (simp add: half_up_def)
  then have "ca_totalMinor (result_of (calc_of sample_dto)) = JInt 1180"
    using total_exact(2) [OF ok] by (simp add: am)
  with ok tax items am show ?thesis
    unfolding calculateInvoice_Inr by (simp add: result_of_def sample_calculated_def)
qed

definition sample_fingerprint :: string where
  "sample_fingerprint = requestFingerprint sample_hash (dto_json sample_dto)"

definition sample_write :: "exn + InvoiceResponse \<times> database" where
  "sample_write = create_write (sample_env 0) sample_actor sample_key sample_fingerprint ''r''
     sample_dto sample_store sample_calculated sample_db"

text \<open>What the sample creation stores.\<close>

definition created_response :: InvoiceResponse where
  "created_response = \<lparr>rsp_id = ''0'', rsp_storeId = ''s1'', rsp_status = ISSUED,
     rsp_currency = ''INR'', rsp_subtotalMinor = 1100, rsp_discountMinor = 100, rsp_taxMinor = 180,
     rsp_totalMinor = 1180, rsp_issuedAt = 1000, rsp_version = 1\<rparr>"

definition created_invoice :: invoice where
  "created_invoice = \<lparr>inv_id = ''0'', inv_merchantId = ''m2'', inv_storeId = ''s1'',
     inv_createdBy = ''m1'', inv_customerName = ''Asha'', inv_customerContact = ''asha@example.in'',
     inv_currency = ''INR'', inv_subtotalMinor = 1100, inv_discountMinor = 100,
     inv_taxRateBasisPoints = 1800, inv_taxMinor = 180, inv_totalMinor = 1180, inv_status = ISSUED,
     inv_issuedAt = 1000, inv_version = 1, inv_createdAt = 1000\<rparr>"

definition created_line :: invoice_line where
  "created_line = \<lparr>lin_id = ''1'', lin_invoiceId = ''0'', lin_position = 1,
     lin_description = ''Tea'', lin_quantity = 2, lin_unitPriceMinor = 550,
     lin_lineTotalMinor = 1100\<rparr>"

definition created_event :: outbox_event where
  "created_event = pending_event ''2'' created_invoice ''invoice.issued.v1''
     (invoice_payload ''2'' created_invoice ISSUED) 1000 1000"

definition created_key :: idempotency_record where
  "created_key = \<lparr>idm_id = ''3'', idm_actorMerchantId = ''m1'', idm_operation = ''invoice.create'',
     idm_idempotencyKey = sample_key,
     idm_requestHash = ''3a227331222c22746178526174654261736973506f696e7473223a313830307d'',
     idm_responseStatus = 201, idm_responseBody = created_response, idm_createdAt = 1000\<rparr>"

definition created_audit_row :: audit_event where
  "created_audit_row = \<lparr>aud_id = ''4'', aud_merchantId = ''m2'', aud_actorSubject = ''m1'',
     aud_action = ''invoice.created'', aud_resourceType = ''invoice'', aud_resourceId = ''0'',
     aud_requestId = Some ''r'',
     aud_details = JSObj [(''storeId'', JSStr ''s1''), (''currency'', JSStr ''INR''),
       (''totalMinor'', JSNum 1180)], aud_createdAt = 1000\<rparr>"

definition created_db :: database where
  "created_db = sample_db\<lparr>invoices := [created_invoice], invoice_lines := [created_line],
     outbox_events := [created_event], idempotency_records := [created_key],
     audit_events := [created_audit_row]\<rparr>"

lemma sample_key_ok: "normalizeIdempotencyKey (Some sample_key) = Inr sample_key"
  by code_simp

lemma sample_write_ok: "sample_write = Inr (created_response, created_db)"
proof -
  have run: "case sample_write of Inl _ \<Rightarrow> False
    | Inr (r, d) \<Rightarrow> r = created_response \<and> invoices d = [created_invoice] \<and>
        invoice_lines d = [created_line] \<and> outbox_events d = [created_event] \<and>
        idempotency_records d = [created_key] \<and> audit_events d = [created_audit_row]"
    by code_simp
  then obtain r d where w: "sample_write = Inr (r, d)" by (auto split: sum.splits)
  note eqs = run [unfolded w sum.case prod.case]
  have rows: "d' = s\<lparr>invoices := x1, invoice_lines := x2, outbox_events := x3,
      idempotency_records := x4, audit_events := x5\<rparr> \<Longrightarrow>
    invoices d' = y1 \<Longrightarrow> invoice_lines d' = y2 \<Longrightarrow> outbox_events d' = y3 \<Longrightarrow>
    idempotency_records d' = y4 \<Longrightarrow> audit_events d' = y5 \<Longrightarrow>
    d' = s\<lparr>invoices := y1, invoice_lines := y2, outbox_events := y3,
      idempotency_records := y4, audit_events := y5\<rparr>"
    for d' s :: database and x1 x2 x3 x4 x5 y1 y2 y3 y4 y5 by simp
  have "d = created_db"
    using w [unfolded sample_write_def]
  proof (rule create_write_Inr, goal_cases)
    case (1 a lines)
    show ?case unfolding created_db_def by (rule rows [OF 1(6)]) (use eqs in blast)+
  qed
  moreover have "r = created_response" using eqs by blast
  ultimately show ?thesis unfolding w by blast
qed

lemma sample_read:
  "create_read sample_actor sample_key sample_fingerprint sample_dto sample_db =
     Inr (Proceed sample_store sample_calculated)"
proof -
  have none: "findIdempotency sample_db (act_actorMerchantId sample_actor) sample_key = None"
    by code_simp
  have "case authorizeStore sample_db (act_actorMerchantId sample_actor) (dto_storeId sample_dto) of
      Inl _ \<Rightarrow> False | Inr s \<Rightarrow> s = sample_store" by code_simp
  with none sample_calculates show ?thesis by (simp add: create_read_Proceed split: sum.splits)
qed

lemma sample_created:
  "create sample_hash (sample_env 0) sample_actor (Some sample_key) ''r'' sample_dto sample_db =
     (Inr created_response, created_db, [InvoicesInc ''created''])"
  unfolding create_Inr_iff sample_fingerprint_def [symmetric]
  using sample_key_ok sample_read sample_write_ok unfolding sample_write_def by blast

lemma created_Inr:
  assumes "create sha256 e actor rawKey requestId b d = (Inr r, d', [InvoicesInc ''created''])"
  obtains key store c where "normalizeIdempotencyKey rawKey = Inr key"
    and "findIdempotency d (act_actorMerchantId actor) key = None"
    and "authorizeStore d (act_actorMerchantId actor) (dto_storeId b) = Inr store"
    and "calculateInvoice (calc_of b) = Inr c"
    and "create_write e actor key (requestFingerprint sha256 (dto_json b)) requestId b store c d
      = Inr (r, d')"
  using assms unfolding create_Inr_iff create_read_Proceed by auto

text \<open>C1: A successful, non-replayed creation adds exactly one invoice, issued and at version 1,
  one line per requested item in order, one pending \<open>invoice.issued.v1\<close> event about it, one
  idempotency record holding the returned response and one audit event; no other row of any
  table changes.\<close>

theorem create_adds_one_invoice:
  assumes "create sha256 e actor rawKey requestId b d = (Inr r, d', [InvoicesInc ''created''])"
  shows "\<exists>ivc lines ob key aud.
    d' = d\<lparr>invoices := invoices d @ [ivc], invoice_lines := invoice_lines d @ lines,
      outbox_events := outbox_events d @ [ob], idempotency_records := idempotency_records d @ [key],
      audit_events := audit_events d @ [aud]\<rparr> \<and>
    r = toResponse ivc \<and> inv_status ivc = ISSUED \<and> inv_version ivc = 1 \<and>
    length lines = length (dto_items b) \<and>
    (\<forall>i < length lines. line_stored (inv_id ivc) i (dto_items b ! i) (lines ! i)) \<and>
    obx_aggregateId ob = inv_id ivc \<and> obx_eventType ob = ''invoice.issued.v1'' \<and>
    obx_status ob = PENDING \<and> obx_payload ob = invoice_payload (obx_id ob) ivc ISSUED \<and>
    idm_responseBody key = r \<and> idm_requestHash key = requestFingerprint sha256 (dto_json b) \<and>
    aud_action aud = ''invoice.created'' \<and> aud_resourceId aud = inv_id ivc \<and>
    aud_actorSubject aud = actor_subject actor"
proof -
  from assms obtain key store c where c: "calculateInvoice (calc_of b) = Inr c"
    and w: "create_write e actor key (requestFingerprint sha256 (dto_json b)) requestId b store c d
      = Inr (r, d')" by (rule created_Inr)
  from w show ?thesis
  proof (rule create_write_Inr, goal_cases)
    case (1 a lines)
    let ?ivc = "new_invoice e actor b store a" and ?n = "length (ca_items c)"
    let ?fp = "requestFingerprint sha256 (dto_json b)"
    note stored = new_lines_stored [OF c 1(2)]
    show ?case
      by (rule exI [of _ ?ivc], rule exI [of _ lines], rule exI [of _ "issued_event e ?n ?ivc"],
          rule exI [of _ "key_record e ?n actor key ?fp r"],
          rule exI [of _ "created_audit e ?n actor requestId b store ?ivc"])
        (use 1 stored in \<open>simp add: issued_event_def pending_event_def key_record_def
          created_audit_def audit_row_def new_invoice_def\<close>)
  qed
qed

theorem create_adds_one_invoice_witness:
  "\<exists>ivc lines ob key aud.
    created_db = sample_db\<lparr>invoices := invoices sample_db @ [ivc],
      invoice_lines := invoice_lines sample_db @ lines,
      outbox_events := outbox_events sample_db @ [ob],
      idempotency_records := idempotency_records sample_db @ [key],
      audit_events := audit_events sample_db @ [aud]\<rparr> \<and> created_response = toResponse ivc"
  using create_adds_one_invoice [OF sample_created] by blast

text \<open>C2: The amounts of a created invoice are exactly those of the request: the subtotal is the
  sum of quantity times price, the discount and the rate are the requested ones, the tax is
  the rate of the discounted subtotal rounded half up to the minor unit, and the total is
  their sum and fits the column; no rounding of the floating-point arithmetic shows.\<close>

theorem create_amounts_exact:
  assumes "create sha256 e actor rawKey requestId b d = (Inr r, d', [InvoicesInc ''created''])"
  shows "rsp_subtotalMinor r = dto_subtotal b \<and> rsp_discountMinor r = dto_discountMinor b \<and>
    rsp_taxMinor r = (dto_taxable b * dto_taxRateBasisPoints b + 5000) div 10000 \<and>
    rsp_totalMinor r = dto_taxable b + rsp_taxMinor r \<and>
    0 \<le> rsp_taxMinor r \<and> rsp_taxMinor r \<le> dto_taxable b \<and> rsp_totalMinor r < 2 ^ 32"
proof -
  from assms obtain key store c where c: "calculateInvoice (calc_of b) = Inr c"
    and w: "create_write e actor key (requestFingerprint sha256 (dto_json b)) requestId b store c d
      = Inr (r, d')" by (rule created_Inr)
  from w show ?thesis
  proof (rule create_write_Inr, goal_cases)
    case (1 a lines)
    from new_invoice_amounts [OF c 1(1,3)] 1(4) show ?case
      by (simp add: toResponse_def new_invoice_def dto_tax_def half_up_def)
  qed
qed

theorem create_amounts_exact_witness:
  "rsp_totalMinor created_response = 1180 \<and> rsp_taxMinor created_response = 180"
proof -
  have "dto_subtotal sample_dto = 1100" "dto_taxable sample_dto = 1000"
    "dto_taxRateBasisPoints sample_dto = 1800" by code_simp+
  then show ?thesis using create_amounts_exact [OF sample_created] by simp
qed

subsection \<open>Retries\<close>

lemma line_json_inj:
  assumes "canon (line_json l) = canon (line_json l')"
  shows "l = l'"
proof -
  note look = canon_lookup [OF assms [unfolded line_json_def]]
  show ?thesis
    using look [of "''description''"] look [of "''quantity''"] look [of "''unitPriceMinor''"]
    by (cases l; cases l') simp
qed

lemma dto_text_inj:
  assumes "stableJson (dto_json b) = stableJson (dto_json b')"
  shows "b = b'"
proof -
  have lines: "ls = ms" if "map (canon \<circ> line_json) ls = map (canon \<circ> line_json) ms" for ls ms
    by (rule map_injective [OF that], rule injI) (simp add: line_json_inj)
  note look = canon_lookup [OF assms [unfolded stableJson_iff_canon dto_json_def]]
  show ?thesis
    using look [of "''currency''"] look [of "''discountMinor''"] look [of "''taxRateBasisPoints''"]
      look [of "''storeId''"] look [of "''customerName''"] look [of "''customerContact''"]
      look [of "''items''"]
    by (cases b; cases b') (auto intro: lines)
qed

lemma find_key_record:
  "findIdempotency d' actor k = Some x \<Longrightarrow>
     collation d'' = collation d' \<Longrightarrow> prefix (idempotency_records d') (idempotency_records d'') \<Longrightarrow>
     findIdempotency d'' actor k = Some x"
  by (auto simp: findIdempotency_def sql_eq_def prefix_def find_append)

text \<open>Once a creation has returned, its key is recorded with the request's fingerprint and the
  response.\<close>

lemma create_recorded:
  assumes "create sha256 e actor rawKey requestId b d = (Inr r, d', ms)"
  obtains key x where "normalizeIdempotencyKey rawKey = Inr key"
    and "findIdempotency d' (act_actorMerchantId actor) key = Some x"
    and "idm_requestHash x = requestFingerprint sha256 (dto_json b)" and "idm_responseBody x = r"
proof -
  from assms consider (old) key where "normalizeIdempotencyKey rawKey = Inr key"
      "replays sha256 actor key b d r" "d' = d"
    | (new) key store c where "normalizeIdempotencyKey rawKey = Inr key"
      "create_write e actor key (requestFingerprint sha256 (dto_json b)) requestId b store c d
        = Inr (r, d')"
    unfolding create_Inr_iff by blast
  then show ?thesis
  proof cases
    case old
    then show ?thesis using that by (auto simp: replays_def)
  next
    case new
    from new(2) show ?thesis
    proof (rule create_write_Inr, goal_cases)
      case (1 a lines)
      let ?rec = "key_record e (length (ca_items c)) actor key
        (requestFingerprint sha256 (dto_json b)) r"
      have "findIdempotency d' (act_actorMerchantId actor) key = Some ?rec"
        using 1 by (simp add: findIdempotency_def find_append sql_eq_def key_record_def)
      then show ?thesis using that new(1) by (simp add: key_record_def)
    qed
  qed
qed

text \<open>C8: Creation is idempotent: once a request has returned, every later request of the same
  merchant with the same key and body, whatever its clock and identifiers, returns the same
  response and changes nothing, on every later database that still has the key records.\<close>

theorem create_retry_replays:
  assumes "create sha256 e actor rawKey requestId b d = (Inr r, d', ms)"
    and "normalizeIdempotencyKey rawKey' = normalizeIdempotencyKey rawKey"
    and "act_actorMerchantId actor' = act_actorMerchantId actor"
    and "collation d'' = collation d'"
    and "prefix (idempotency_records d') (idempotency_records d'')"
  shows "create sha256 e' actor' rawKey' requestId' b d'' = (Inr r, d'', [InvoicesInc ''replayed''])"
proof -
  from assms(1) obtain key x where key: "normalizeIdempotencyKey rawKey = Inr key"
    and x: "findIdempotency d' (act_actorMerchantId actor) key = Some x"
      "idm_requestHash x = requestFingerprint sha256 (dto_json b)" "idm_responseBody x = r"
    by (rule create_recorded)
  have "findIdempotency d'' (act_actorMerchantId actor') key = Some x"
    using find_key_record [OF x(1) assms(4,5)] assms(3) by simp
  then have "replays sha256 actor' key b d'' r" using x by (simp add: replays_def)
  then show ?thesis unfolding create_Inr_iff using key assms(2) by auto
qed

theorem create_retry_replays_witness:
  "create sample_hash (sample_env 7) sample_actor (Some sample_key) ''again'' sample_dto created_db =
     (Inr created_response, created_db, [InvoicesInc ''replayed''])"
  by (rule create_retry_replays [OF sample_created]) simp_all

text \<open>A used key protects its first request: a later request of the same merchant that gives
  the key with a different body is refused as a conflict and changes nothing, provided the hash
  does not collide on the two bodies' texts.\<close>

theorem create_key_reuse_refused:
  assumes "create sha256 e actor rawKey requestId b d = (Inr r, d', ms)"
    and "normalizeIdempotencyKey rawKey' = normalizeIdempotencyKey rawKey"
    and "act_actorMerchantId actor' = act_actorMerchantId actor"
    and "collation d'' = collation d'"
    and "prefix (idempotency_records d') (idempotency_records d'')"
    and "b' \<noteq> b"
    and collision_free: "utf8 (stableJson (dto_json b')) \<noteq> utf8 (stableJson (dto_json b)) \<Longrightarrow>
      sha256 (utf8 (stableJson (dto_json b'))) \<noteq> sha256 (utf8 (stableJson (dto_json b)))"
  shows "create sha256 e' actor' rawKey' requestId' b' d'' =
    (Inl (ConflictException ''Idempotency key was already used with a different request''), d'',
     [InvoicesInc ''failed''])"
proof -
  from assms(1) obtain key x where key: "normalizeIdempotencyKey rawKey = Inr key"
    and x: "findIdempotency d' (act_actorMerchantId actor) key = Some x"
      "idm_requestHash x = requestFingerprint sha256 (dto_json b)"
    by (rule create_recorded)
  have f: "findIdempotency d'' (act_actorMerchantId actor') key = Some x"
    using find_key_record [OF x(1) assms(4,5)] assms(3) by simp
  have "utf8 (stableJson (dto_json b')) \<noteq> utf8 (stableJson (dto_json b))"
    using dto_text_inj utf8_inj assms(6) by blast
  then have "idm_requestHash x \<noteq> requestFingerprint sha256 (dto_json b')"
    using collision_free hex_of_bytes_inj x(2) by (metis requestFingerprint_def sha256_hex_def)
  then show ?thesis
    using key assms(2) f by (simp add: create_def create_from_def domainInput_def create_read_def)
qed

definition other_dto :: CreateInvoiceDto where
  "other_dto = sample_dto\<lparr>dto_taxRateBasisPoints := 1200\<rparr>"

theorem create_key_reuse_refused_witness:
  "create sample_hash (sample_env 7) sample_actor (Some sample_key) ''again'' other_dto created_db =
     (Inl (ConflictException ''Idempotency key was already used with a different request''),
      created_db, [InvoicesInc ''failed''])"
proof (rule create_key_reuse_refused [OF sample_created])
  show "other_dto \<noteq> sample_dto" by (simp add: other_dto_def sample_dto_def)
  have "(sample_hash (utf8 (stableJson (dto_json other_dto))) =
      sample_hash (utf8 (stableJson (dto_json sample_dto)))) = False" by code_simp
  then show "sample_hash (utf8 (stableJson (dto_json other_dto))) \<noteq>
      sample_hash (utf8 (stableJson (dto_json sample_dto)))" by simp
qed simp_all

subsection \<open>Concurrent requests\<close>

text \<open>
  What other requests may have done between two reads of one request: stores and merchants
  stay, and invoices keep their identity and carry a higher version once they change.
\<close>

definition later :: "database \<Rightarrow> database \<Rightarrow> bool" where
  "later d d' \<longleftrightarrow> collation d' = collation d \<and> merchants d' = merchants d \<and> stores d' = stores d \<and>
     (\<forall>i. case find_invoice d i of None \<Rightarrow> True
        | Some r \<Rightarrow> (case find_invoice d' i of None \<Rightarrow> False
            | Some r' \<Rightarrow> r' = r \<or> inv_version r < inv_version r'))"

lemma authorizeStore_cong:
  assumes "collation d' = collation d" "merchants d' = merchants d" "stores d' = stores d"
  shows "authorizeStore d' a s = authorizeStore d a s"
proof -
  have "sql_eq d' = sql_eq d" by (simp add: sql_eq_def fun_eq_iff assms)
  then have "parent_of d' = parent_of d"
    by (simp add: parent_of_def active_merchant_def fun_eq_iff assms)
  then have "climb d' a n vs c = climb d a n vs c" for n vs c
    by (induction d a n vs c rule: climb.induct) auto
  then show ?thesis
    by (simp add: authorizeStore_def \<open>sql_eq d' = sql_eq d\<close> assms)
qed

lemma later_refl [simp]: "later d d"
  by (simp add: later_def split: option.splits)

lemma create_write_later:
  assumes "create_write e actor key fp requestId b store c d = Inr (r, d')"
  shows "later d d'"
  using assms
  by (rule create_write_Inr) (auto simp: later_def find_invoice_def sql_eq_def find_append split: option.splits)

lemma create_linearizable_answer:
  assumes "create_from sha256 e actor rawKey requestId b d_read d_write d_retry = (Inr r, d', ms)"
    and "later d_read d_write" and "later d_write d_retry"
  shows "d' = d_write \<and> create sha256 e actor rawKey requestId b d_read = (Inr r, d_read, ms) \<or>
    create sha256 e actor rawKey requestId b d_write = (Inr r, d', ms) \<and>
      (\<forall>key. normalizeIdempotencyKey rawKey = Inr key \<longrightarrow>
         findIdempotency d_write (act_actorMerchantId actor) key = None) \<or>
    d' = d_write \<and> create sha256 e actor rawKey requestId b d_retry = (Inr r, d_retry, ms)"
proof -
  from assms(1) obtain key where key: "normalizeIdempotencyKey rawKey = Inr key"
    and cases: "replays sha256 actor key b d_read r \<and> d' = d_write \<and> ms = [InvoicesInc ''replayed''] \<or>
        (\<exists>store c. create_read actor key (requestFingerprint sha256 (dto_json b)) b d_read
             = Inr (Proceed store c) \<and>
           create_write e actor key (requestFingerprint sha256 (dto_json b)) requestId b store c d_write
             = Inr (r, d')) \<and> ms = [InvoicesInc ''created''] \<or>
        replays sha256 actor key b d_retry r \<and> d' = d_write \<and> ms = [InvoicesInc ''replayed'']"
    unfolding create_from_Inr_iff by blast
  from cases consider (read) "replays sha256 actor key b d_read r" "d' = d_write"
      "ms = [InvoicesInc ''replayed'']"
    | (wrote) store c where
      "create_read actor key (requestFingerprint sha256 (dto_json b)) b d_read = Inr (Proceed store c)"
      "create_write e actor key (requestFingerprint sha256 (dto_json b)) requestId b store c d_write
        = Inr (r, d')" "ms = [InvoicesInc ''created'']"
    | (retry) "replays sha256 actor key b d_retry r" "d' = d_write" "ms = [InvoicesInc ''replayed'']"
    by blast
  then show ?thesis
  proof cases
    case wrote
    have none: "findIdempotency d_write (act_actorMerchantId actor) key = None"
      using wrote(2) by (rule create_write_Inr)
    have "create_read actor key (requestFingerprint sha256 (dto_json b)) b d_write
        = Inr (Proceed store c)"
      using wrote(1) none assms(2) authorizeStore_cong [of d_write d_read]
      by (simp add: create_read_Proceed later_def)
    then have "create sha256 e actor rawKey requestId b d_write = (Inr r, d', ms)"
      unfolding create_Inr_iff using key wrote by blast
    then show ?thesis using none key by auto
  qed (auto simp: create_Inr_iff key)
qed

lemma create_linearizable_error:
  assumes "create_from sha256 e actor rawKey requestId b d_read d_write d_retry = (Inl err, d', ms)"
    and "later d_read d_write"
  shows "d' = d_write \<and>
    (create sha256 e actor rawKey requestId b d_read = (Inl err, d_read, ms) \<or>
     create sha256 e actor rawKey requestId b d_write = (Inl err, d_write, ms) \<or>
     (\<exists>key x. normalizeIdempotencyKey rawKey = Inr key \<and>
        findIdempotency d_read (act_actorMerchantId actor) key = None \<and>
        findIdempotency d_write (act_actorMerchantId actor) key = Some x \<and>
        (err = ConflictException ''Concurrent idempotency-key conflict'' \<and>
           \<not> (\<exists>r. replays sha256 actor key b d_retry r) \<or> ms = [InvoicesInc ''failed''])))"
proof (cases "normalizeIdempotencyKey rawKey")
  case (Inl e')
  then show ?thesis using assms(1) by (auto simp: create_def create_from_def domainInput_def)
next
  case (Inr key)
  let ?fp = "requestFingerprint sha256 (dto_json b)" and ?find = "\<lambda>d. findIdempotency d (act_actorMerchantId actor) key"
  have norm: "domainInput (normalizeIdempotencyKey rawKey) = Inr key" using Inr by (simp add: domainInput_Inr)
  show ?thesis
  proof (cases "create_read actor key ?fp b d_read")
    case (Inl e')
    with create_read_no_duplicate [OF Inl] assms(1) norm show ?thesis by (auto simp: create_def create_from_def)
  next
    case read: (Inr plan)
    then obtain store c where plan: "plan = Proceed store c" and none: "?find d_read = None"
      using assms(1) norm by (cases plan) (auto simp: create_from_def create_read_Proceed)
    obtain e' where w: "create_write e actor key ?fp requestId b store c d_write = Inl e'"
      using assms(1) norm read plan
      by (cases "create_write e actor key ?fp requestId b store c d_write") (auto simp: create_from_def)
    show ?thesis
    proof (cases "?find d_write")
      case None
      have "create_read actor key ?fp b d_write = Inr (Proceed store c)"
        using read [unfolded plan] None assms(2) authorizeStore_cong [of d_write d_read]
        by (simp add: create_read_Proceed later_def)
      then have "create sha256 e actor rawKey requestId b d_write = (Inl err, d_write, ms)"
        using assms(1) norm read plan w None
        by (auto simp: create_def create_from_def split: if_splits option.splits)
      then show ?thesis using assms(1) norm read plan w by (auto simp: create_from_def split: if_splits option.splits)
    next
      case (Some x)
      have "d' = d_write \<and> (err = ConflictException ''Concurrent idempotency-key conflict'' \<and>
          \<not> (\<exists>r. replays sha256 actor key b d_retry r) \<or> ms = [InvoicesInc ''failed''])"
        using assms(1) norm read plan w
        by (auto simp: create_from_def replays_def split: if_splits option.splits)
      with Inr none Some show ?thesis by blast
    qed
  qed
qed



subsection \<open>Tenancy and rejected amounts\<close>

text \<open>An invoice is only created for a store of a merchant the actor manages: the actor is
  at most fifteen active parents above the store's merchant, the store is active, and the
  invoice is filed under the store and its merchant.\<close>

theorem create_within_tenant:
  assumes "create sha256 e actor rawKey requestId b d = (Inr r, d', [InvoicesInc ''created''])"
    and "canonical_ids d (act_actorMerchantId actor)"
  shows "\<exists>store ivc. store \<in> set (stores d) \<and> sto_active store \<and> sql_eq d (sto_id store) (dto_storeId b) \<and>
    manages_within d 15 (act_actorMerchantId actor) (sto_merchantId store) \<and>
    invoices d' = invoices d @ [ivc] \<and> inv_storeId ivc = sto_id store \<and>
    inv_merchantId ivc = sto_merchantId store"
proof -
  from assms(1) obtain key store c where
    auth: "authorizeStore d (act_actorMerchantId actor) (dto_storeId b) = Inr store"
    and w: "create_write e actor key (requestFingerprint sha256 (dto_json b)) requestId b store c d
      = Inr (r, d')" by (rule created_Inr)
  from w obtain ivc where "invoices d' = invoices d @ [ivc]" "inv_storeId ivc = sto_id store"
      "inv_merchantId ivc = sto_merchantId store"
    by (rule create_write_Inr) (simp add: new_invoice_def)
  with auth show ?thesis
    unfolding authorizeStore_Inr [OF assms(2)] by (blast dest: find_Some_D)
qed

theorem create_within_tenant_witness:
  "\<exists>store. store \<in> set (stores sample_db) \<and> manages_within sample_db 15 ''m1'' (sto_merchantId store)"
proof -
  have "canonical_ids sample_db (act_actorMerchantId sample_actor)" by code_simp
  from create_within_tenant [OF sample_created this] show ?thesis by (auto simp: sample_actor_def)
qed

text \<open>A request whose amounts the pricing rules refuse (an empty item list, a blank
  description, a number that is not a safe integer in range, a discount above the subtotal or
  a rate above 100 percent) is answered with a bad-request error and stores nothing, and no
  other request is.\<close>

theorem create_invalid_amounts:
  assumes "normalizeIdempotencyKey rawKey = Inr key"
    and "findIdempotency d (act_actorMerchantId actor) key = None"
    and "authorizeStore d (act_actorMerchantId actor) (dto_storeId b) = Inr store"
  shows "(\<exists>s. create sha256 e actor rawKey requestId b d =
      (Inl (BadRequestException s), d, [InvoicesInc ''failed''])) \<longleftrightarrow> \<not> input_ok (calc_of b)"
proof (cases "calculateInvoice (calc_of b)")
  case (Inl err)
  then obtain s where "err = TypeErr s \<or> err = RangeErr s" using calculateInvoice_Inl by blast
  moreover have "\<not> input_ok (calc_of b)"
    using Inl calculateInvoice_Inr [of "calc_of b" "result_of (calc_of b)"] by auto
  ultimately show ?thesis
    using assms Inl by (auto simp: create_def create_from_def create_read_def domainInput_def)
next
  case (Inr c)
  then have "input_ok (calc_of b)" by (simp add: calculateInvoice_Inr)
  moreover have "fst (create sha256 e actor rawKey requestId b d) \<noteq> Inl (BadRequestException s)" for s
  proof -
    have line: "foldE insert_line dd ls \<noteq> Inl (BadRequestException s)" for dd ls
      by (induction ls arbitrary: dd) (auto simp: bindE_Inl_conv insert_line_def insert_row_def split: option.splits)
    have ints: "mapE (new_line e) xs \<noteq> Inl (BadRequestException s)" for xs
      by (induction xs) (auto simp: bindE_Inl_conv new_line_def int_column_def split: if_splits)
    have "create_write e actor key fp requestId b store c d \<noteq> Inl (BadRequestException s)" for fp
      unfolding create_write_def Let_def bindE_Inl_conv amounts_of_def
      using line ints
      by (auto simp: int_column_def insert_defs insert_row_def audit_record_def bindE_Inl_conv
          split: if_splits option.splits)
    then show ?thesis
      using assms Inr
      by (cases "create_write e actor key (requestFingerprint sha256 (dto_json b)) requestId b store c d")
        (auto simp: create_def create_from_def create_read_def domainInput_def split: option.splits)
  qed
  ultimately show ?thesis by (metis fst_conv)
qed

theorem create_invalid_amounts_witness:
  "\<exists>s. create sample_hash (sample_env 0) sample_actor (Some sample_key) ''r''
     (sample_dto\<lparr>dto_discountMinor := 2000\<rparr>) sample_db =
     (Inl (BadRequestException s), sample_db, [InvoicesInc ''failed''])"
proof -
  let ?b = "sample_dto\<lparr>dto_discountMinor := 2000\<rparr>"
  have none: "findIdempotency sample_db (act_actorMerchantId sample_actor) sample_key = None"
    and auth: "authorizeStore sample_db (act_actorMerchantId sample_actor) (dto_storeId ?b)
      = Inr sample_store"
    using sample_read by (simp_all add: create_read_Proceed)
  have "discount (calc_of ?b) = 2000" "subtotal (calc_of ?b) = 1100"
    by (simp_all add: calc_of_amounts dto_subtotal_def sample_dto_def)
  then have "\<not> input_ok (calc_of ?b)" by (simp add: input_ok_def)
  then show ?thesis using create_invalid_amounts [OF sample_key_ok none auth] by blast
qed

end
