(* ===== verification/InvoiceQueries.thy ===== *)
theory InvoiceQueries
  imports InvoiceService
begin

text \<open>
  Properties of the other methods of \<open>InvoiceService\<close>: the status change with its optimistic
  version check, and the scoped queries.
\<close>

section \<open>Changing a status\<close>

lemma transition_read_Inr [res_simps]:
  "transition_read actor invoiceId b d = Inr ivc \<longleftrightarrow>
     find_invoice d invoiceId = Some ivc \<and>
     (\<exists>store. authorizeStore d (act_actorMerchantId actor) (inv_storeId ivc) = Inr store) \<and>
     may_become (inv_status ivc) (upd_status b) \<and> inv_version ivc = upd_expectedVersion b"
  by (auto simp: transition_read_def res_simps may_become_def assertInvoiceTransition_def
      split: if_splits)

definition status_event :: "env \<Rightarrow> UpdateInvoiceStatusDto \<Rightarrow> invoice \<Rightarrow> outbox_event" where
  "status_event e b ivc =
     pending_event (uuid e 0) ivc ''invoice.status-changed.v1''
       (invoice_payload (uuid e 0) ivc (upd_status b)) (clock e 0) (db_now e)"

definition status_audit ::
  "env \<Rightarrow> ActorTokenPayload \<Rightarrow> string \<Rightarrow> UpdateInvoiceStatusDto \<Rightarrow> invoice \<Rightarrow> audit_event" where
  "status_audit e actor requestId b ivc =
     audit_row (uuid e 1) (db_now e)
       \<lparr>ari_merchantId = inv_merchantId ivc, ari_actorSubject = actor_subject actor,
        ari_action = ''invoice.status_changed'', ari_resourceType = ''invoice'',
        ari_resourceId = inv_id ivc, ari_requestId = Some requestId,
        ari_details = Some (JSObj [(''from'', JSStr (status_name (inv_status ivc))),
          (''to'', JSStr (status_name (upd_status b))),
          (''expectedVersion'', JSNum (upd_expectedVersion b))])\<rparr>"

definition moved :: "InvoiceStatus \<Rightarrow> invoice \<Rightarrow> invoice" where
  "moved s r = r\<lparr>inv_status := s, inv_version := inv_version r + 1\<rparr>"

lemma moved_simps [simp]:
  "inv_id (moved s r) = inv_id r" "inv_status (moved s r) = s"
  "inv_version (moved s r) = inv_version r + 1" "inv_totalMinor (moved s r) = inv_totalMinor r"
  "inv_merchantId (moved s r) = inv_merchantId r" "inv_storeId (moved s r) = inv_storeId r"
  "inv_createdAt (moved s r) = inv_createdAt r" "inv_currency (moved s r) = inv_currency r"
  by (simp_all add: moved_def)

lemma moved_other: "inv_totalMinor (moved s r) = inv_totalMinor r \<and> moved s r \<noteq> r"
proof -
  have "inv_version (moved s r) \<noteq> inv_version r" by simp
  then show ?thesis by (metis moved_simps(4))
qed

lemma transition_write_Inr:
  "transition_write e actor invoiceId requestId b ivc d = Inr (r, d') \<Longrightarrow>
     count_where (\<lambda>x. sql_eq d (inv_id x) invoiceId \<and> inv_version x = upd_expectedVersion b)
       (invoices d) = 1 \<and>
     d' = d\<lparr>invoices := update_where (\<lambda>x. sql_eq d (inv_id x) invoiceId \<and>
         inv_version x = upd_expectedVersion b) (moved (upd_status b)) (invoices d),
       outbox_events := outbox_events d @ [status_event e b ivc],
       audit_events := audit_events d @ [status_audit e actor requestId b ivc]\<rparr> \<and>
     r = toResponse (moved (upd_status b) ivc) \<and> fresh_event d (status_event e b ivc)"
  by (auto simp: fresh_event_def outbox_key_def outbox_constraints_def unique_key_def transition_write_def res_simps audit_record_def status_event_def status_audit_def
      moved_def [abs_def])

text \<open>The primary key of the invoices table.\<close>

definition invoice_ids_unique :: "database \<Rightarrow> bool" where
  "invoice_ids_unique d \<longleftrightarrow> distinct (map (invoice_key d) (invoices d))"

lemma find_invoice_key: "find_invoice d i = find (\<lambda>r. invoice_key d r = collation d i) (invoices d)"
  by (simp add: find_invoice_def sql_eq_def invoice_key_def)

lemma find_invoice_iff:
  assumes "invoice_ids_unique d"
  shows "find_invoice d i = Some r \<longleftrightarrow> r \<in> set (invoices d) \<and> sql_eq d (inv_id r) i"
proof
  assume "r \<in> set (invoices d) \<and> sql_eq d (inv_id r) i"
  then have r: "r \<in> set (invoices d)" and k: "collation d i = invoice_key d r"
    by (simp_all add: sql_eq_def invoice_key_def)
  show "find_invoice d i = Some r"
    unfolding find_invoice_key k by (rule find_unique [OF assms [unfolded invoice_ids_unique_def] r])
qed (auto simp: find_invoice_def dest: find_Some_D)

lemma count_where_one: "count_where P rs = 1 \<Longrightarrow> \<exists>r \<in> set rs. P r"
  by (cases "filter P rs") (auto simp: count_where_def filter_empty_conv dest: filter_eq_ConsD)

text \<open>The row that an update guarded by identity and version changed.\<close>

lemma versioned_row:
  assumes "invoice_ids_unique d" and "find_invoice d i = Some x"
  shows "sql_eq d (inv_id y) i \<and> inv_version y = inv_version x \<and> y \<in> set (invoices d) \<longleftrightarrow> y = x"
  using find_invoice_iff [OF assms(1), of i x] find_invoice_iff [OF assms(1), of i y] assms(2) by auto

lemma update_row:
  assumes "invoice_ids_unique d" and "find_invoice d i = Some x" and "inv_version x = v"
  shows "update_where (\<lambda>y. sql_eq d (inv_id y) i \<and> inv_version y = v) f (invoices d) =
    map (\<lambda>y. if y = x then f x else y) (invoices d)"
  using versioned_row [OF assms(1,2)] assms(3) by (auto simp: update_where_def)

lemma find_moved:
  assumes "invoice_ids_unique d" and "find_invoice d i = Some x"
    and "collation d' = collation d"
    and "invoices d' = map (\<lambda>y. if y = x then moved s x else y) (invoices d)"
  shows "invoice_ids_unique d'"
    and "find_invoice d' j = (if sql_eq d j i then Some (moved s x) else find_invoice d j)"
proof -
  let ?f = "\<lambda>y. if y = x then moved s x else y"
  have key: "invoice_key d' (?f y) = invoice_key d y" for y
    by (simp add: invoice_key_def assms(3))
  then show u: "invoice_ids_unique d'"
    using assms(1) by (simp add: invoice_ids_unique_def assms(4) o_def)
  have x: "x \<in> set (invoices d)" "sql_eq d (inv_id x) i"
    using assms(2) find_invoice_iff [OF assms(1)] by auto
  have "find (\<lambda>r. invoice_key d' r = c) (map ?f rs) =
      map_option ?f (find (\<lambda>r. invoice_key d r = c) rs)" for c rs
    by (induction rs) (auto simp: key invoice_key_def assms(3))
  then have "find_invoice d' j = map_option ?f (find_invoice d j)"
    by (simp add: find_invoice_key assms(3,4))
  moreover have "sql_eq d j i \<longleftrightarrow> find_invoice d j = Some x"
    using x find_invoice_iff [OF assms(1), of j x] by (auto simp: sql_eq_def)
  ultimately show "find_invoice d' j = (if sql_eq d j i then Some (moved s x) else find_invoice d j)"
    by (cases "find_invoice d j") auto
qed

lemma transition_Inr:
  assumes "transition_from e actor invoiceId requestId b d_read d = (Inr r, d')"
    and "invoice_ids_unique d"
  obtains ivc x where "find_invoice d_read invoiceId = Some ivc"
    and "may_become (inv_status ivc) (upd_status b)" and "inv_version ivc = upd_expectedVersion b"
    and "transition_read actor invoiceId b d_read = Inr ivc"
    and "transition_write e actor invoiceId requestId b ivc d = Inr (r, d')"
    and "find_invoice d invoiceId = Some x" and "inv_version x = upd_expectedVersion b"
    and "d' = d\<lparr>invoices := map (\<lambda>y. if y = x then moved (upd_status b) x else y) (invoices d),
       outbox_events := outbox_events d @ [status_event e b ivc],
       audit_events := audit_events d @ [status_audit e actor requestId b ivc]\<rparr>"
    and "r = toResponse (moved (upd_status b) ivc)"
proof -
  from assms(1) obtain ivc where rd: "transition_read actor invoiceId b d_read = Inr ivc"
    and w: "transition_write e actor invoiceId requestId b ivc d = Inr (r, d')"
    by (auto simp: transition_from_def res_simps)
  from transition_write_Inr [OF w] obtain x where x: "x \<in> set (invoices d)"
    "sql_eq d (inv_id x) invoiceId" "inv_version x = upd_expectedVersion b"
    using count_where_one by blast
  then have f: "find_invoice d invoiceId = Some x" using find_invoice_iff [OF assms(2)] by simp
  show ?thesis
    by (rule that [OF _ _ _ rd w f x(3)])
      (use rd transition_write_Inr [OF w] update_row [OF assms(2) f x(3)] in \<open>simp_all add: res_simps\<close>)
qed

lemma transition_ids_unique:
  assumes "transition_from e actor invoiceId requestId b d_read d = (Inr r, d')"
    and "invoice_ids_unique d"
  shows "invoice_ids_unique d'"
  using assms
  by (rule transition_Inr) (rule find_moved(1) [OF assms(2), where s = "upd_status b"], auto)

definition changed_db :: database where
  "changed_db = snd (transition (sample_env 8) sample_actor ''0'' ''r8''
     \<lparr>upd_status = CANCELLED, upd_expectedVersion = 1\<rparr> created_db)"

definition changed_response :: InvoiceResponse where
  "changed_response = projr (fst (transition (sample_env 8) sample_actor ''0'' ''r8''
     \<lparr>upd_status = CANCELLED, upd_expectedVersion = 1\<rparr> created_db))"

lemma sample_changed:
  "transition (sample_env 8) sample_actor ''0'' ''r8''
     \<lparr>upd_status = CANCELLED, upd_expectedVersion = 1\<rparr> created_db = (Inr changed_response, changed_db)"
proof -
  have "isl (fst (transition (sample_env 8) sample_actor ''0'' ''r8''
     \<lparr>upd_status = CANCELLED, upd_expectedVersion = 1\<rparr> created_db)) = False" by code_simp
  then show ?thesis
    unfolding changed_response_def changed_db_def
    by (cases "transition (sample_env 8) sample_actor ''0'' ''r8''
     \<lparr>upd_status = CANCELLED, upd_expectedVersion = 1\<rparr> created_db") (auto simp: isl_def)
qed

lemma created_ids_unique: "invoice_ids_unique created_db"
  by code_simp

text \<open>A successful status change moves exactly the invoice asked for, from a status the
  lifecycle allows, whose version was the expected one, to the requested status with the next
  version; it adds one status-changed event and one audit event and changes nothing else, and it
  returns the changed invoice.\<close>

theorem transition_changes_one_invoice:
  assumes "transition e actor invoiceId requestId b d = (Inr r, d')" and "invoice_ids_unique d"
  shows "\<exists>ivc ob aud. find_invoice d invoiceId = Some ivc \<and>
    upd_status b \<in> set (invoiceTransitions (inv_status ivc)) \<and>
    inv_version ivc = upd_expectedVersion b \<and>
    d' = d\<lparr>invoices := map (\<lambda>y. if y = ivc then
        ivc\<lparr>inv_status := upd_status b, inv_version := inv_version ivc + 1\<rparr> else y) (invoices d),
      outbox_events := outbox_events d @ [ob], audit_events := audit_events d @ [aud]\<rparr> \<and>
    r = toResponse (ivc\<lparr>inv_status := upd_status b, inv_version := inv_version ivc + 1\<rparr>) \<and>
    obx_aggregateId ob = inv_id ivc \<and> obx_eventType ob = ''invoice.status-changed.v1'' \<and>
    obx_status ob = PENDING \<and> evp_status (obx_payload ob) = upd_status b \<and>
    aud_action aud = ''invoice.status_changed'' \<and> aud_resourceId aud = inv_id ivc"
proof -
  from assms obtain ivc where "find_invoice d invoiceId = Some ivc"
    "may_become (inv_status ivc) (upd_status b)" "inv_version ivc = upd_expectedVersion b"
    "d' = d\<lparr>invoices := map (\<lambda>y. if y = ivc then moved (upd_status b) ivc else y) (invoices d),
       outbox_events := outbox_events d @ [status_event e b ivc],
       audit_events := audit_events d @ [status_audit e actor requestId b ivc]\<rparr>"
    "r = toResponse (moved (upd_status b) ivc)"
    unfolding transition_def by (rule transition_Inr) simp
  then show ?thesis
    by (intro exI [of _ ivc] exI [of _ "status_event e b ivc"]
        exI [of _ "status_audit e actor requestId b ivc"])
      (simp add: moved_def may_become_iff status_event_def pending_event_def invoice_payload_def
        status_audit_def audit_row_def)
qed

theorem transition_changes_one_invoice_witness:
  "\<exists>ivc. find_invoice created_db ''0'' = Some ivc \<and> inv_version ivc = 1 \<and>
     CANCELLED \<in> set (invoiceTransitions (inv_status ivc)) \<and>
     length (audit_events changed_db) = length (audit_events created_db) + 1"
proof -
  from transition_changes_one_invoice [OF sample_changed created_ids_unique]
  obtain ivc obs aud ivcs where i: "find_invoice created_db ''0'' = Some ivc" "inv_version ivc = 1"
      "CANCELLED \<in> set (invoiceTransitions (inv_status ivc))"
    and db: "changed_db = created_db\<lparr>invoices := ivcs, outbox_events := obs,
      audit_events := audit_events created_db @ [aud]\<rparr>"
    by auto
  have "audit_events changed_db = audit_events created_db @ [aud]" by (subst db) simp
  with i show ?thesis by auto
qed

lemma transition_from_later:
  assumes "transition_from e actor invoiceId requestId b d_read d_write = (Inr r, d')"
    and "later d_read d_write" and "invoice_ids_unique d_write"
  shows "transition e actor invoiceId requestId b d_write = (Inr r, d')"
proof -
  from assms(1,3) obtain ivc x where f: "find_invoice d_read invoiceId = Some ivc"
    and v: "inv_version ivc = upd_expectedVersion b" "inv_version x = upd_expectedVersion b"
    and rd: "transition_read actor invoiceId b d_read = Inr ivc"
    and w: "transition_write e actor invoiceId requestId b ivc d_write = Inr (r, d')"
    and x: "find_invoice d_write invoiceId = Some x" by (rule transition_Inr)
  have "x = ivc \<or> inv_version ivc < inv_version x"
    using assms(2) f x unfolding later_def by (auto dest!: spec [of _ invoiceId])
  with v have "x = ivc" by simp
  with rd x have "transition_read actor invoiceId b d_write = Inr ivc"
    using assms(2) authorizeStore_cong [of d_write d_read] by (auto simp: res_simps later_def)
  with w show ?thesis by (simp add: transition_def transition_from_def res_simps)
qed

text \<open>Status changes are linearizable: although the invoice is read before other requests
  commit and written after, a change that succeeds is one that run alone on the database its
  update met gives the same answer and the same database.\<close>

theorem transition_linearizable:
  assumes "transition_from e actor invoiceId requestId b d_read d_write = (Inr r, d')"
    and "later d_read d_write" and "invoice_ids_unique d_write"
  shows "transition e actor invoiceId requestId b d_write = (Inr r, d')"
  using assms by (rule transition_from_later)

theorem transition_linearizable_witness:
  "transition (sample_env 8) sample_actor ''0'' ''r8''
     \<lparr>upd_status = CANCELLED, upd_expectedVersion = 1\<rparr> created_db = (Inr changed_response, changed_db)"
  by (rule transition_linearizable [OF sample_changed [unfolded transition_def] later_refl
        created_ids_unique])

text \<open>C17: No update is lost: after a request has changed an invoice, no other request that
  expects the same version of it succeeds, whatever it read before and whatever was committed
  in between; it is refused and leaves the database as it is.\<close>

theorem transition_no_lost_update:
  assumes "transition_from e actor invoiceId requestId b d0 d1 = (Inr r, d2)"
    and "invoice_ids_unique d1" and "later d2 d3" and "invoice_ids_unique d3"
    and "sql_eq d1 invoiceId' invoiceId" and "upd_expectedVersion b' = upd_expectedVersion b"
  shows "\<exists>err. transition_from e' actor' invoiceId' requestId' b' d0' d3 = (Inl err, d3)"
proof (cases "transition_from e' actor' invoiceId' requestId' b' d0' d3")
  case (Pair res d4)
  show ?thesis
  proof (cases res)
    case (Inl err)
    then show ?thesis using Pair by (simp add: transition_from_def transaction_Inl)
  next
    case (Inr r')
    from assms(1,2) obtain ivc x where x: "find_invoice d1 invoiceId = Some x"
      "inv_version x = upd_expectedVersion b"
      and d2: "d2 = d1\<lparr>invoices := map (\<lambda>y. if y = x then moved (upd_status b) x else y) (invoices d1),
       outbox_events := outbox_events d1 @ [status_event e b ivc],
       audit_events := audit_events d1 @ [status_audit e actor requestId b ivc]\<rparr>"
      by (rule transition_Inr)
    have f2: "find_invoice d2 invoiceId' = Some (moved (upd_status b) x)"
      using find_moved(2) [OF assms(2) x(1), of d2 "upd_status b" invoiceId'] assms(5) by (simp add: d2)
    from Pair Inr assms(4) obtain y where y: "find_invoice d3 invoiceId' = Some y"
      "inv_version y = upd_expectedVersion b'" by (metis transition_Inr)
    have "y = moved (upd_status b) x \<or> inv_version x + 1 < inv_version y"
      using assms(3) f2 y(1) unfolding later_def by (auto dest!: spec [of _ invoiceId'])
    with x(2) y(2) assms(6) have False by auto
    then show ?thesis ..
  qed
qed

theorem transition_no_lost_update_witness:
  "\<exists>err. transition_from (sample_env 9) sample_actor ''0'' ''r9''
     \<lparr>upd_status = PAID, upd_expectedVersion = 1\<rparr> created_db changed_db = (Inl err, changed_db)"
proof (rule transition_no_lost_update [OF sample_changed [unfolded transition_def] created_ids_unique
      later_refl])
  show "invoice_ids_unique changed_db"
    by (rule transition_ids_unique [OF sample_changed [unfolded transition_def] created_ids_unique])
qed simp_all

section \<open>Queries\<close>

lemma sorted_newest: "sorted (map (\<lambda>r. - f r) (newest_first f rs))"
  by (simp add: newest_first_def)

lemma take_limit_bounds: "1 \<le> take_limit n" "take_limit n \<le> 100"
  by (auto simp: take_limit_def)

lemma scoped_page_set:
  "set (scoped_page d actor n m f rows) \<subseteq> {r \<in> set rows. in_scope d actor (m r)}"
  using set_take_subset by (fastforce simp: scoped_page_def newest_first_def)

lemma scoped_page_sorted: "sorted (map (\<lambda>r. - f r) (scoped_page d actor n m f rows))"
  unfolding scoped_page_def take_map [symmetric] by (rule sorted_wrt_take) (rule sorted_newest)

text \<open>Rows left out of a page are out of scope or not newer than every row of a full page.\<close>

lemma scoped_page_complete:
  assumes "r \<in> set rows" and "in_scope d actor (m r)" and "r \<notin> set (scoped_page d actor n m f rows)"
  shows "length (scoped_page d actor n m f rows) = take_limit n \<and>
    (\<forall>x \<in> set (scoped_page d actor n m f rows). f r \<le> f x)"
proof -
  let ?s = "newest_first f (filter (\<lambda>r. in_scope d actor (m r)) rows)" and ?k = "take_limit n"
  have r: "r \<in> set ?s" using assms(1,2) by (simp add: newest_first_def)
  then have split: "r \<in> set (take ?k ?s) \<union> set (drop ?k ?s)" by (metis append_take_drop_id set_append)
  then have dr: "r \<in> set (drop ?k ?s)" using assms(3) by (simp add: scoped_page_def)
  then have len: "?k \<le> length ?s" by (metis drop_all empty_iff empty_set linear)
  have "sorted (map (\<lambda>r. - f r) (take ?k ?s @ drop ?k ?s))" by (simp add: sorted_newest)
  then have "\<forall>x \<in> set (take ?k ?s). f r \<le> f x"
    using dr by (auto simp: sorted_append simp del: append_take_drop_id)
  with len show ?thesis by (simp add: scoped_page_def)
qed

text \<open>The invoice list shows an actor only invoices of merchants it manages (at most sixteen
  active parents below it), newest first and at most a hundred; an invoice of such a merchant is
  missing only from a full page whose invoices are all at least as new.\<close>

theorem list_invoices_scoped:
  assumes "canonical_ids d (act_actorMerchantId actor)"
    and "\<forall>ivc \<in> set (invoices d). \<exists>m \<in> set (merchants d). mer_id m = inv_merchantId ivc"
  shows "\<exists>page. list_invoices d actor limit = map toResponse page \<and>
    set page \<subseteq> {ivc \<in> set (invoices d).
      manages_within d 16 (act_actorMerchantId actor) (inv_merchantId ivc)} \<and>
    sorted (map (\<lambda>ivc. - inv_createdAt ivc) page) \<and> length page \<le> 100 \<and>
    (\<forall>ivc \<in> set (invoices d) - set page.
      manages_within d 16 (act_actorMerchantId actor) (inv_merchantId ivc) \<longrightarrow>
      page \<noteq> [] \<and> int (length page) = min (max limit 1) 100 \<and>
      (\<forall>x \<in> set page. inv_createdAt ivc \<le> inv_createdAt x))"
proof -
  let ?a = "act_actorMerchantId actor"
  let ?page = "scoped_page d ?a limit inv_merchantId inv_createdAt (invoices d)"
  have scope: "in_scope d ?a (inv_merchantId ivc) \<longleftrightarrow> manages_within d 16 ?a (inv_merchantId ivc)"
    if "ivc \<in> set (invoices d)" for ivc
  proof (rule in_scope_iff [OF assms(1)])
    from assms(2) that obtain m where "m \<in> set (merchants d)" "mer_id m = inv_merchantId ivc" by blast
    then show "inv_merchantId ivc \<in> set (?a # hierarchy_ids d)" using mer_id_in by fastforce
  qed
  have sub: "set ?page \<subseteq> {ivc \<in> set (invoices d). manages_within d 16 ?a (inv_merchantId ivc)}"
    using scoped_page_set [of d ?a limit inv_merchantId inv_createdAt "invoices d"] scope by auto
  have len: "length ?page \<le> 100" using take_limit_bounds(2) [of limit] by (simp add: scoped_page_def)
  have full: "?page \<noteq> [] \<and> int (length ?page) = min (max limit 1) 100"
    if "length ?page = take_limit limit"
    using that take_limit_bounds [of limit] by (auto simp: take_limit_def)
  show ?thesis
  proof (intro exI [of _ ?page] conjI ballI impI)
    fix ivc assume i: "ivc \<in> set (invoices d) - set ?page"
      and "manages_within d 16 ?a (inv_merchantId ivc)"
    then have "length ?page = take_limit limit \<and>
        (\<forall>x \<in> set ?page. inv_createdAt ivc \<le> inv_createdAt x)"
      using scope by (intro scoped_page_complete) auto
    then show "?page \<noteq> []" "int (length ?page) = min (max limit 1) 100"
      and "x \<in> set ?page \<Longrightarrow> inv_createdAt ivc \<le> inv_createdAt x" for x
      using full by auto
  qed (use sub len in \<open>simp_all add: list_invoices_def scoped_page_sorted\<close>)
qed

theorem list_invoices_scoped_witness:
  "\<exists>page. list_invoices created_db sample_actor 50 = map toResponse page \<and>
    set page \<subseteq> {ivc \<in> set (invoices created_db). manages_within created_db 16 ''m1'' (inv_merchantId ivc)}"
proof -
  have "canonical_ids created_db (act_actorMerchantId sample_actor)" by code_simp
  moreover have "list_all (\<lambda>ivc. list_ex (\<lambda>m. mer_id m = inv_merchantId ivc) (merchants created_db))
      (invoices created_db)" by code_simp
  then have "\<forall>ivc \<in> set (invoices created_db). \<exists>m \<in> set (merchants created_db). mer_id m = inv_merchantId ivc"
    by (simp add: list_all_iff list_ex_iff)
  ultimately show ?thesis
    using list_invoices_scoped [of created_db sample_actor 50] by (auto simp: sample_actor_def)
qed

text \<open>A single invoice is shown exactly when it exists, its store is active, and the actor is
  the store's merchant or at most fifteen active parents above it; the answer is the stored
  invoice.\<close>

theorem get_invoice_scoped:
  assumes "canonical_ids d (act_actorMerchantId actor)"
  shows "get_invoice d actor i = Inr r \<longleftrightarrow>
    (\<exists>ivc store. find_invoice d i = Some ivc \<and> r = toResponse ivc \<and>
       find (\<lambda>s. sql_eq d (sto_id s) (inv_storeId ivc) \<and> sto_active s) (stores d) = Some store \<and>
       manages_within d 15 (act_actorMerchantId actor) (sto_merchantId store))"
  unfolding get_invoice_def by (auto simp: res_simps authorizeStore_Inr [OF assms])

theorem get_invoice_scoped_witness:
  "get_invoice created_db sample_actor ''0'' = Inr created_response"
proof -
  have c: "canonical_ids created_db (act_actorMerchantId sample_actor)" by code_simp
  have "case get_invoice created_db sample_actor ''0'' of Inl _ \<Rightarrow> False | Inr r \<Rightarrow> r = created_response"
    by code_simp
  then have "get_invoice created_db sample_actor ''0'' = Inr created_response"
    by (auto split: sum.splits)
  with get_invoice_scoped [OF c] show ?thesis by metis
qed


text \<open>A chain of seventeen merchants, each the parent of the next, and an invoice of the last.\<close>

definition chain_merchant :: "nat \<Rightarrow> merchant" where
  "chain_merchant n = \<lparr>mer_id = CHR ''m'' # show_nat n,
     mer_parentMerchantId = (if n = 0 then None else Some (CHR ''m'' # show_nat (n - 1))),
     mer_name = ''M'', mer_active = True, mer_createdAt = 0\<rparr>"

definition chain_invoice :: invoice where
  "chain_invoice = \<lparr>inv_id = ''i1'', inv_merchantId = ''m16'', inv_storeId = ''s1'',
     inv_createdBy = ''m16'', inv_customerName = ''C'', inv_customerContact = ''c@example.in'',
     inv_currency = ''INR'', inv_subtotalMinor = 100, inv_discountMinor = 0,
     inv_taxRateBasisPoints = 0, inv_taxMinor = 0, inv_totalMinor = 100, inv_status = ISSUED,
     inv_issuedAt = 0, inv_version = 1, inv_createdAt = 0\<rparr>"

definition chain_db :: database where
  "chain_db = empty_database\<lparr>collation := (\<lambda>s. s), merchants := map chain_merchant [0..<17],
     stores := [sample_store\<lparr>sto_merchantId := ''m16''\<rparr>], invoices := [chain_invoice]\<rparr>"

definition chain_actor :: ActorTokenPayload where
  "chain_actor = sample_actor\<lparr>act_actorMerchantId := ''m0''\<rparr>"


end
