(* ===== verification/Signatures.thy ===== *)
theory Signatures
  imports StableJson Samples
begin

text \<open>
  The webhook signatures of the domain package. HMAC-SHA-256 and SHA-256 are parameters, from
  bytes to the bytes of the digest; a text is hashed as its UTF-8 bytes.
\<close>

section \<open>The code\<close>

definition webhookError :: "string \<Rightarrow> exn" where
  "webhookError message = CodedErr message ''INVALID_WEBHOOK_SIGNATURE''"

definition validateTokenSecret :: "string \<Rightarrow> exn + unit" where
  "validateTokenSecret secret =
     guardE (\<not> length secret < 32) (TypeErr ''Actor token secret must contain at least 32 characters'')"

text \<open>\<open>timingSafeEqual\<close> of the two digests.\<close>

definition constantTimeEqual :: "(char list \<Rightarrow> char list) \<Rightarrow> string \<Rightarrow> string \<Rightarrow> bool" where
  "constantTimeEqual sha256 left right \<longleftrightarrow> sha256 (utf8 left) = sha256 (utf8 right)"

definition requireTolerance :: "jsnum \<Rightarrow> exn + unit" where
  "requireTolerance v =
     guardE (\<not> (\<not> is_safe_integer v \<or> js_lt v (JInt 1)))
       (TypeErr ''toleranceSeconds must be a safe integer greater than or equal to 1'')"

text \<open>The timestamp is the number the caller's text or number converts to.\<close>

definition createWebhookSignature ::
  "(string \<Rightarrow> char list \<Rightarrow> char list) \<Rightarrow> char list \<Rightarrow> string \<Rightarrow> jsnum \<Rightarrow> exn + string" where
  "createWebhookSignature hmac rawBody secret parsedTimestamp =
     bindE (validateTokenSecret secret) (\<lambda>_.
     bindE (guardE (\<not> (\<not> is_safe_integer parsedTimestamp \<or> js_lt parsedTimestamp (JInt 1)))
       (TypeErr ''Webhook timestamp must be a positive epoch second'')) (\<lambda>_.
     Inr (hex_of_bytes (hmac secret (show_int (num_int parsedTimestamp) @ ''.'' @ rawBody)))))"

definition verifyWebhookSignature ::
  "(string \<Rightarrow> char list \<Rightarrow> char list) \<Rightarrow> (char list \<Rightarrow> char list) \<Rightarrow> char list \<Rightarrow> string \<Rightarrow> string \<Rightarrow>
   string \<Rightarrow> int \<Rightarrow> jsnum \<Rightarrow> exn + bool" where
  "verifyWebhookSignature hmac sha256 rawBody secret timestamp signature nowEpochSeconds
     toleranceSeconds =
     (let parsedTimestamp = js_number timestamp in
      bindE (guardE (\<not> (\<not> is_safe_integer parsedTimestamp \<or> js_lt parsedTimestamp (JInt 1)))
        (webhookError ''Invalid webhook timestamp'')) (\<lambda>_.
      bindE (requireTolerance toleranceSeconds) (\<lambda>_.
      bindE (guardE (\<not> js_lt toleranceSeconds (js_abs (js_sub (JInt nowEpochSeconds) parsedTimestamp)))
        (webhookError ''Webhook timestamp is outside the replay window'')) (\<lambda>_.
      bindE (guardE (class_between is_hex_i 64 64 signature)
        (webhookError ''Invalid webhook signature format'')) (\<lambda>_.
      bindE (createWebhookSignature hmac rawBody secret parsedTimestamp) (\<lambda>expected.
      bindE (guardE (constantTimeEqual sha256 (js_lower expected) (js_lower signature))
        (webhookError ''Invalid webhook signature'')) (\<lambda>_.
      Inr True)))))))"

section \<open>Properties\<close>

lemma positive_timestamp:
  "is_safe_integer n \<and> \<not> js_lt n (JInt m) \<longleftrightarrow> (\<exists>t. n = JInt t \<and> m \<le> t \<and> \<bar>t\<bar> \<le> max_safe)"
proof
  assume a: "is_safe_integer n \<and> \<not> js_lt n (JInt m)"
  then have n: "n = JInt (num_int n)" "\<bar>num_int n\<bar> \<le> max_safe" using is_safe_integer_JInt by blast+
  with a have "\<not> js_lt (JInt (num_int n)) (JInt m)" by metis
  then have "m \<le> num_int n" by (simp add: not_less)
  with n show "\<exists>t. n = JInt t \<and> m \<le> t \<and> \<bar>t\<bar> \<le> max_safe" by blast
next
  assume "\<exists>t. n = JInt t \<and> m \<le> t \<and> \<bar>t\<bar> \<le> max_safe"
  then show "is_safe_integer n \<and> \<not> js_lt n (JInt m)"
    by (auto simp: not_less simp del: is_safe_integer.simps)
qed

lemma createWebhookSignature_Inr:
  "createWebhookSignature hmac body secret n = Inr s \<longleftrightarrow>
     32 \<le> length secret \<and> (\<exists>t. n = JInt t \<and> 1 \<le> t \<and> t \<le> max_safe \<and>
       s = hex_of_bytes (hmac secret (show_int t @ ''.'' @ body)))"
proof -
  have "createWebhookSignature hmac body secret n = Inr s \<longleftrightarrow> 32 \<le> length secret \<and>
      (is_safe_integer n \<and> \<not> js_lt n (JInt 1)) \<and>
      s = hex_of_bytes (hmac secret (show_int (num_int n) @ ''.'' @ body))"
    unfolding createWebhookSignature_def validateTokenSecret_def bindE_Inr_conv guardE_Inr_conv
    by (auto simp: not_less)
  then show ?thesis unfolding positive_timestamp by auto
qed

lemma window_iff:
  assumes "\<bar>now - t\<bar> \<le> 2 ^ 53"
  shows "js_lt (JInt tol) (js_abs (js_sub (JInt now) (JInt t))) \<longleftrightarrow> tol < \<bar>now - t\<bar>"
  using round64_int [OF assms] by (simp add: js_sub_def flip: of_int_diff of_int_abs)

lemma signature_verifies:
  assumes "createWebhookSignature hmac body secret (JInt t) = Inr s"
    and digest: "\<And>m. length (hmac secret m) = 32"
    and "js_number timestamp = JInt t" and "\<bar>now - t\<bar> \<le> tolerance"
    and "1 \<le> tolerance" and "tolerance \<le> max_safe"
  shows "verifyWebhookSignature hmac sha256 body secret timestamp s now (JInt tolerance) = Inr True"
proof -
  from assms(1) have s: "s = hex_of_bytes (hmac secret (show_int t @ ''.'' @ body))"
    and t: "1 \<le> t" "t \<le> max_safe" "32 \<le> length secret"
    by (auto simp: createWebhookSignature_Inr)
  have fmt: "class_between is_hex_i 64 64 s"
    using hex_of_bytes_hex [of "hmac secret (show_int t @ ''.'' @ body)"] digest
    by (auto simp: s class_between_def list_all_iff is_hex_imp_is_hex_i)
  have ok: "is_safe_integer (JInt i) \<and> \<not> js_lt (JInt i) (JInt 1)" if "1 \<le> i" "i \<le> max_safe" for i
    using that unfolding positive_timestamp by auto
  have win: "\<not> js_lt (JInt tolerance) (js_abs (js_sub (JInt now) (JInt t)))"
    using assms(4,6) by (subst window_iff) (auto simp: max_safe_def)
  show ?thesis
    unfolding verifyWebhookSignature_def Let_def requireTolerance_def assms(3)
    using ok [OF t(1,2)] ok [OF assms(5,6)] win fmt assms(1)
    by (simp only: guardE_True bindE_simps simp_thms constantTimeEqual_def)
qed

text \<open>A webhook signed with the shared secret is accepted: a signature created for a body and a
  positive timestamp verifies for that body, in the header's decimal form, whenever the clock is
  within the tolerance of the timestamp.\<close>

theorem webhook_signature_round_trip:
  assumes "createWebhookSignature hmac body secret (JInt t) = Inr s"
    and digest: "\<And>m. length (hmac secret m) = 32"
    and "js_number timestamp = JInt t" and "\<bar>now - t\<bar> \<le> tolerance"
    and "1 \<le> tolerance" and "tolerance \<le> max_safe"
  shows "verifyWebhookSignature hmac sha256 body secret timestamp s now (JInt tolerance) = Inr True"
  using assms by (rule signature_verifies)

definition sample_hmac :: "string \<Rightarrow> char list \<Rightarrow> char list" where
  "sample_hmac secret m = take 32 (rev m @ replicate 32 CHR ''0'')"

definition sample_secret :: string where
  "sample_secret = ''0123456789abcdef0123456789abcdef''"

definition sample_signature :: string where
  "sample_signature = hex_of_bytes (sample_hmac sample_secret (show_int 1000 @ ''.'' @ ''body''))"

lemma sample_signed:
  "createWebhookSignature sample_hmac ''body'' sample_secret (JInt 1000) = Inr sample_signature"
  unfolding createWebhookSignature_Inr sample_signature_def
  by (rule conjI, simp add: sample_secret_def, rule exI [of _ 1000], simp add: max_safe_def)

lemma sample_timestamp: "js_number ''1000'' = JInt 1000"
proof -
  have "val_in_base 10 0 ''1000'' = 1000" "list_all is_digit ''1000''" by code_simp+
  then show ?thesis using js_number_digits [of "''1000''"] by simp
qed

theorem webhook_signature_round_trip_witness:
  "verifyWebhookSignature sample_hmac sample_hash ''body'' sample_secret ''1000'' sample_signature
     1100 (JInt 300) = Inr True"
  by (rule webhook_signature_round_trip [OF sample_signed _ sample_timestamp])
    (simp_all add: sample_hmac_def max_safe_def)

lemma signature_sound:
  assumes "verifyWebhookSignature hmac sha256 body secret timestamp s now (JInt tolerance) = Inr True"
    and collision_free: "\<And>t digest. js_number timestamp = JInt t \<Longrightarrow>
      digest = hex_of_bytes (hmac secret (show_int t @ ''.'' @ body)) \<Longrightarrow>
      sha256 (utf8 digest) = sha256 (utf8 (js_lower s)) \<Longrightarrow> utf8 digest = utf8 (js_lower s)"
    and "0 \<le> now" and "now \<le> max_safe"
  shows "32 \<le> length secret \<and> (\<exists>t. js_number timestamp = JInt t \<and> 1 \<le> t \<and>
    \<bar>now - t\<bar> \<le> tolerance \<and>
    js_lower s = hex_of_bytes (hmac secret (show_int t @ ''.'' @ body)))"
proof -
  from assms(1) obtain ex where
    ts: "is_safe_integer (js_number timestamp) \<and> \<not> js_lt (js_number timestamp) (JInt 1)"
    and win: "\<not> js_lt (JInt tolerance) (js_abs (js_sub (JInt now) (js_number timestamp)))"
    and cre: "createWebhookSignature hmac body secret (js_number timestamp) = Inr ex"
    and eq: "constantTimeEqual sha256 (js_lower ex) (js_lower s)"
    unfolding verifyWebhookSignature_def Let_def bindE_Inr_conv guardE_Inr_conv by blast
  from ts obtain t where t: "js_number timestamp = JInt t" "1 \<le> t" "t \<le> max_safe"
    unfolding positive_timestamp by auto
  from cre t(1) have ex: "32 \<le> length secret"
    "ex = hex_of_bytes (hmac secret (show_int t @ ''.'' @ body))"
    unfolding createWebhookSignature_Inr by auto
  have "\<bar>now - t\<bar> \<le> tolerance"
    using win t assms(3,4) by (subst (asm) t(1), subst (asm) window_iff) (auto simp: max_safe_def)
  moreover have "js_lower ex = ex" unfolding ex(2) by (rule js_lower_hex [OF hex_of_bytes_hex])
  ultimately show ?thesis
    using eq collision_free [OF t(1) ex(2)] utf8_inj ex t
    unfolding constantTimeEqual_def by auto
qed

text \<open>Only signed webhooks are accepted: when a signature verifies, the secret has at least 32
  characters, the header is a positive integer within the tolerance of the clock, and the
  signature is, up to letter case, the hexadecimal HMAC of exactly this timestamp and this body
  under the secret, provided the comparison hash does not collide on the two.\<close>

theorem webhook_signature_sound:
  assumes "verifyWebhookSignature hmac sha256 body secret timestamp s now (JInt tolerance) = Inr True"
    and collision_free: "\<And>t digest. js_number timestamp = JInt t \<Longrightarrow>
      digest = hex_of_bytes (hmac secret (show_int t @ ''.'' @ body)) \<Longrightarrow>
      sha256 (utf8 digest) = sha256 (utf8 (js_lower s)) \<Longrightarrow> utf8 digest = utf8 (js_lower s)"
    and "0 \<le> now" and "now \<le> max_safe"
  shows "32 \<le> length secret \<and> (\<exists>t. js_number timestamp = JInt t \<and> 1 \<le> t \<and>
    \<bar>now - t\<bar> \<le> tolerance \<and>
    js_lower s = hex_of_bytes (hmac secret (show_int t @ ''.'' @ body)))"
  using assms by (rule signature_sound)

theorem webhook_signature_sound_witness:
  "\<exists>t. js_number ''1000'' = JInt t \<and> \<bar>1100 - t\<bar> \<le> 300 \<and>
     js_lower sample_signature = hex_of_bytes (sample_hmac sample_secret (show_int t @ ''.'' @ ''body''))"
proof -
  have "class_between is_hex_i 64 64 sample_signature" by code_simp
  moreover have "js_lower sample_signature = sample_signature"
    unfolding sample_signature_def by (rule js_lower_hex [OF hex_of_bytes_hex])
  moreover have "is_safe_integer (JInt 1000) \<and> \<not> js_lt (JInt 1000) (JInt 1)"
    "is_safe_integer (JInt 300) \<and> \<not> js_lt (JInt 300) (JInt 1)"
    unfolding positive_timestamp by (auto simp: max_safe_def)
  moreover have "\<not> js_lt (JInt 300) (js_abs (js_sub (JInt 1100) (JInt 1000)))"
    by (subst window_iff) auto
  ultimately have "verifyWebhookSignature sample_hmac sample_hash ''body'' sample_secret ''1000''
      sample_signature 1100 (JInt 300) = Inr True"
    unfolding verifyWebhookSignature_def Let_def requireTolerance_def sample_timestamp
    using sample_signed by (simp only: guardE_True bindE_simps simp_thms constantTimeEqual_def)
  note verified = this
  have "utf8 digest = utf8 (js_lower sample_signature)"
    if "js_number ''1000'' = JInt t"
      and "digest = hex_of_bytes (sample_hmac sample_secret (show_int t @ ''.'' @ ''body''))" for t digest
  proof -
    from that(1) have "t = 1000" unfolding sample_timestamp by simp
    with that(2) show ?thesis
      using \<open>js_lower sample_signature = sample_signature\<close> by (simp only: sample_signature_def)
  qed
  then have "32 \<le> length sample_secret \<and> (\<exists>t. js_number ''1000'' = JInt t \<and> 1 \<le> t \<and>
      \<bar>1100 - t\<bar> \<le> 300 \<and>
      js_lower sample_signature = hex_of_bytes (sample_hmac sample_secret (show_int t @ ''.'' @ ''body'')))"
    by (intro webhook_signature_sound [OF verified]) (simp_all add: max_safe_def)
  then show ?thesis by blast
qed

text \<open>A signature belongs to one timestamp and one body: two calls with the same secret that give
  the same signature signed the same timestamp and the same body, so a captured signature cannot
  be replayed with another timestamp or a changed body, provided the keyed hash does not collide
  on the two messages.\<close>

theorem webhook_signature_binds:
  assumes "createWebhookSignature hmac body secret (JInt t) = Inr s"
    and "createWebhookSignature hmac body' secret (JInt t') = Inr s"
    and collision_free: "hmac secret (show_int t @ ''.'' @ body) = hmac secret (show_int t' @ ''.'' @ body') \<Longrightarrow>
      show_int t @ ''.'' @ body = show_int t' @ ''.'' @ body'"
  shows "t = t' \<and> body = body'"
proof -
  have "hex_of_bytes (hmac secret (show_int t @ ''.'' @ body)) =
      hex_of_bytes (hmac secret (show_int t' @ ''.'' @ body'))"
    using assms(1,2) by (auto simp: createWebhookSignature_Inr)
  from hex_of_bytes_inj [OF this] have "show_int t @ ''.'' @ body = show_int t' @ ''.'' @ body'"
    by (rule collision_free)
  from show_int_prefix [OF this] show ?thesis by (simp add: ends_def)
qed

theorem webhook_signature_binds_witness:
  "createWebhookSignature (\<lambda>k m. m) ''body'' sample_secret (JInt 1000) \<noteq>
   createWebhookSignature (\<lambda>k m. m) ''ody'' sample_secret (JInt 1001)"
proof
  assume eq: "createWebhookSignature (\<lambda>k m. m) ''body'' sample_secret (JInt 1000) =
    createWebhookSignature (\<lambda>k m. m) ''ody'' sample_secret (JInt 1001)"
  have "\<exists>s. createWebhookSignature (\<lambda>k m. m) ''body'' sample_secret (JInt 1000) = Inr s"
    unfolding createWebhookSignature_Inr by (simp add: sample_secret_def max_safe_def)
  then obtain s where "createWebhookSignature (\<lambda>k m. m) ''body'' sample_secret (JInt 1000) = Inr s" ..
  from webhook_signature_binds [OF this, of "''ody''" 1001] this eq show False by auto
qed

end
