(* ===== verification/PaymentService.thy ===== *)
theory PaymentService
  imports InvoiceService Signatures Config
begin

text \<open>
  \<open>PaymentService\<close>: the payment provider's webhooks, which capture payments and refund them, and
  the payment list. The handler's transaction is \<open>SERIALIZABLE\<close> and locks the rows it reads, so it is one
  function of the database it meets. The second read after a duplicate key happens outside the
  transaction; the form \<open>handleWebhook_from\<close> takes the database it sees as an argument.

  How \<open>new Date\<close> reads a text is a parameter, \<open>None\<close> being the invalid date, whose time is not a
  number and compares with nothing. HMAC and SHA-256 are parameters as in \<open>Signatures\<close>.
\<close>

section \<open>Requests and responses\<close>

record PaymentWebhookResponse =
  pwr_providerEventId :: string
  pwr_duplicate :: bool
  pwr_invoiceId :: "string option"
  pwr_invoiceStatus :: "InvoiceStatus option"
  pwr_paymentId :: "string option"

record PaymentWebhookDto =
  pwd_providerEventId :: string
  pwd_eventType :: string
  pwd_providerPaymentId :: string
  pwd_providerRefundId :: "string option"
  pwd_invoiceId :: string
  pwd_amountMinor :: int
  pwd_currency :: string
  pwd_occurredAt :: string

text \<open>\<open>/^[A-Za-z0-9._:-]{8,120}$/\<close>, and the other decorators of the body; whether a text is a
  UUID or an ISO 8601 date is decided by the validator library, a parameter.\<close>

definition provider_id_format :: "string \<Rightarrow> bool" where
  "provider_id_format s \<longleftrightarrow> class_between is_key_char 8 120 s"

definition webhook_dto_valid :: "(string \<Rightarrow> bool) \<Rightarrow> (string \<Rightarrow> bool) \<Rightarrow> PaymentWebhookDto \<Rightarrow> bool" where
  "webhook_dto_valid is_uuid is_iso8601 b \<longleftrightarrow>
     provider_id_format (pwd_providerEventId b) \<and>
     pwd_eventType b \<in> {''payment.captured'', ''payment.refunded''} \<and>
     provider_id_format (pwd_providerPaymentId b) \<and>
     (case pwd_providerRefundId b of None \<Rightarrow> True | Some s \<Rightarrow> provider_id_format s) \<and>
     is_uuid (pwd_invoiceId b) \<and> 1 \<le> pwd_amountMinor b \<and> pwd_amountMinor b \<le> 100000000 \<and>
     pwd_currency b = ''INR'' \<and> is_iso8601 (pwd_occurredAt b) \<and> length (pwd_occurredAt b) \<le> 40"

text \<open>The invalid date is written as \<open>NULL\<close>, which a date column refuses.\<close>

definition date_column :: "int option \<Rightarrow> exn + int" where
  "date_column t = someE (QueryFailed ''ER_BAD_NULL_ERROR'') t"

section \<open>Parts of the transaction\<close>

definition lockInvoice :: "database \<Rightarrow> string \<Rightarrow> exn + invoice" where
  "lockInvoice d invoiceId = someE (NotFoundException ''Invoice not found'') (find_invoice d invoiceId)"

definition payments_of :: "database \<Rightarrow> string \<Rightarrow> payment list" where
  "payments_of d invoiceId = filter (\<lambda>p. sql_eq d (pay_invoiceId p) invoiceId) (payments d)"

text \<open>The sums of the \<open>INT UNSIGNED\<close> columns come back as decimal text, which \<open>Number\<close> reads
  exactly up to \<open>2^53\<close>.\<close>

definition capturedTotal :: "database \<Rightarrow> string \<Rightarrow> jsnum" where
  "capturedTotal d invoiceId = round64 (of_int (sum_list (map pay_amountMinor (payments_of d invoiceId))))"

definition refundedTotal :: "database \<Rightarrow> string \<Rightarrow> jsnum" where
  "refundedTotal d invoiceId = round64 (of_int (sum_list (map pay_refundedMinor (payments_of d invoiceId))))"

definition payment_payload ::
  "string \<Rightarrow> invoice \<Rightarrow> PaymentWebhookDto \<Rightarrow> InvoiceStatus \<Rightarrow> event_payload" where
  "payment_payload eventId ivc b status =
     (invoice_payload eventId ivc status)\<lparr>evp_providerEventId := Some (pwd_providerEventId b),
       evp_paymentAmountMinor := Some (pwd_amountMinor b)\<rparr>"

text \<open>\<open>emit\<close>, with the number of its identifier and of its clock reading.\<close>

definition emit ::
  "env \<Rightarrow> nat \<Rightarrow> nat \<Rightarrow> invoice \<Rightarrow> string \<Rightarrow> PaymentWebhookDto \<Rightarrow> InvoiceStatus \<Rightarrow> database \<Rightarrow>
   exn + database" where
  "emit e i c ivc eventType b status d =
     insert_outbox (pending_event (uuid e i) ivc eventType (payment_payload (uuid e i) ivc b status)
       (clock e c) (db_now e)) d"

definition set_status_of :: "string \<Rightarrow> InvoiceStatus \<Rightarrow> database \<Rightarrow> exn + nat \<times> database" where
  "set_status_of invoiceId status d =
     set_invoice_status (\<lambda>r. sql_eq d (inv_id r) invoiceId) status d"

definition provider_subject :: "string \<Rightarrow> string" where
  "provider_subject provider = ''payment-provider:'' @ provider"

section \<open>Capturing a payment\<close>

text \<open>Identifiers: 0 the payment, 1 the event, 2 the audit record. Clock: 0 and 1 are read by the
  handler, 2 by \<open>emit\<close>.\<close>

definition capture ::
  "(string \<Rightarrow> int option) \<Rightarrow> env \<Rightarrow> string \<Rightarrow> PaymentWebhookDto \<Rightarrow> string \<Rightarrow> database \<Rightarrow>
   exn + PaymentWebhookResponse \<times> database" where
  "capture date_of e provider b requestId d =
     bindE (lockInvoice d (pwd_invoiceId b)) (\<lambda>ivc.
     bindE (guardE (inv_status ivc \<in> {ISSUED, PARTIALLY_PAID})
       (ConflictException (''Invoice in '' @ status_name (inv_status ivc) @
          '' state cannot accept a captured payment''))) (\<lambda>_.
     bindE (guardE (inv_currency ivc = pwd_currency b)
       (ConflictException ''Payment currency does not match invoice'')) (\<lambda>_.
     bindE (guardE (find (\<lambda>p. sql_eq d (pay_provider p) provider \<and>
         sql_eq d (pay_providerPaymentId p) (pwd_providerPaymentId b)) (payments d) = None)
       (ConflictException ''Provider payment ID already exists'')) (\<lambda>_.
     let alreadyCaptured = capturedTotal d (inv_id ivc);
         captured = js_add alreadyCaptured (JInt (pwd_amountMinor b));
         paymentId = uuid e 0
     in
     bindE (guardE (\<not> js_lt (JInt (inv_totalMinor ivc)) captured)
       (ConflictException ''Captured payment would exceed the invoice total'')) (\<lambda>_.
     bindE (date_column (date_of (pwd_occurredAt b))) (\<lambda>capturedAt.
     bindE (insert_payment
       \<lparr>pay_id = paymentId, pay_merchantId = inv_merchantId ivc, pay_invoiceId = inv_id ivc,
        pay_provider = provider, pay_providerPaymentId = pwd_providerPaymentId b,
        pay_amountMinor = pwd_amountMinor b, pay_refundedMinor = 0, pay_currency = pwd_currency b,
        pay_status = Pay_CAPTURED, pay_capturedAt = capturedAt, pay_version = 1,
        pay_createdAt = db_now e\<rparr> d) (\<lambda>d.
     let invoiceStatus = (if captured = JInt (inv_totalMinor ivc) then PAID else PARTIALLY_PAID) in
     bindE (set_status_of (inv_id ivc) invoiceStatus d) (\<lambda>(_, d).
     bindE (emit e 1 2 ivc ''payment.captured.v1'' b invoiceStatus d) (\<lambda>d.
     bindE (audit_record (uuid e 2) (db_now e)
       \<lparr>ari_merchantId = inv_merchantId ivc, ari_actorSubject = provider_subject provider,
        ari_action = ''payment.captured'', ari_resourceType = ''payment'',
        ari_resourceId = paymentId, ari_requestId = Some requestId,
        ari_details = Some (JSObj [(''invoiceId'', JSStr (inv_id ivc)),
          (''providerEventId'', JSStr (pwd_providerEventId b)),
          (''amountMinor'', JSNum (pwd_amountMinor b)), (''currency'', JSStr (pwd_currency b))])\<rparr> d) (\<lambda>d.
     Inr (\<lparr>pwr_providerEventId = pwd_providerEventId b, pwr_duplicate = False,
           pwr_invoiceId = Some (inv_id ivc), pwr_invoiceStatus = Some invoiceStatus,
           pwr_paymentId = Some paymentId\<rparr>, d)))))))))))"

section \<open>Refunding a payment\<close>

definition refund_payment ::
  "(string \<Rightarrow> int option) \<Rightarrow> env \<Rightarrow> string \<Rightarrow> PaymentWebhookDto \<Rightarrow> string \<Rightarrow> database \<Rightarrow>
   exn + PaymentWebhookResponse \<times> database" where
  "refund_payment date_of e provider b requestId d =
     bindE (guardE (truthy_opt (pwd_providerRefundId b))
       (ConflictException ''providerRefundId is required for refunds'')) (\<lambda>_.
     let providerRefundId = the (pwd_providerRefundId b) in
     bindE (someE (NotFoundException ''Captured payment not found'')
       (find (\<lambda>p. sql_eq d (pay_provider p) provider \<and>
          sql_eq d (pay_providerPaymentId p) (pwd_providerPaymentId b)) (payments d))) (\<lambda>payment.
     bindE (lockInvoice d (pwd_invoiceId b)) (\<lambda>ivc.
     bindE (guardE (pay_invoiceId payment = inv_id ivc)
       (ConflictException ''Refund invoice does not match payment'')) (\<lambda>_.
     bindE (guardE (inv_status ivc \<in> {PAID, PARTIALLY_REFUNDED})
       (ConflictException (''Invoice in '' @ status_name (inv_status ivc) @
          '' state cannot accept a refund''))) (\<lambda>_.
     bindE (guardE (pay_currency payment = pwd_currency b)
       (ConflictException ''Refund currency does not match payment'')) (\<lambda>_.
     bindE (guardE (\<not> pay_amountMinor payment < pay_refundedMinor payment + pwd_amountMinor b)
       (ConflictException ''Refund would exceed the captured payment amount'')) (\<lambda>_.
     bindE (guardE (find (\<lambda>r. sql_eq d (rfd_provider r) provider \<and>
         sql_eq d (rfd_providerRefundId r) providerRefundId) (refunds d) = None)
       (ConflictException ''Provider refund ID already exists'')) (\<lambda>_.
     let refundId = uuid e 0 in
     bindE (date_column (date_of (pwd_occurredAt b))) (\<lambda>refundedAt.
     bindE (insert_refund
       \<lparr>rfd_id = refundId, rfd_merchantId = inv_merchantId ivc, rfd_paymentId = pay_id payment,
        rfd_provider = provider, rfd_providerRefundId = providerRefundId,
        rfd_amountMinor = pwd_amountMinor b, rfd_refundedAt = refundedAt,
        rfd_createdAt = db_now e\<rparr> d) (\<lambda>d.
     let paymentRefundedMinor = pay_refundedMinor payment + pwd_amountMinor b;
         paymentStatus = (if paymentRefundedMinor = pay_amountMinor payment then Pay_REFUNDED
           else Pay_PARTIALLY_REFUNDED)
     in
     bindE (set_payment_refunded (\<lambda>p. sql_eq d (pay_id p) (pay_id payment) \<and>
         pay_version p = pay_version payment) paymentRefundedMinor paymentStatus d) (\<lambda>d.
     let totalCaptured = capturedTotal d (inv_id ivc);
         totalRefunded = refundedTotal d (inv_id ivc);
         invoiceStatus = (if totalRefunded = totalCaptured then REFUNDED else PARTIALLY_REFUNDED)
     in
     bindE (set_status_of (inv_id ivc) invoiceStatus d) (\<lambda>(_, d).
     bindE (emit e 1 2 ivc ''payment.refunded.v1'' b invoiceStatus d) (\<lambda>d.
     bindE (audit_record (uuid e 2) (db_now e)
       \<lparr>ari_merchantId = inv_merchantId ivc, ari_actorSubject = provider_subject provider,
        ari_action = ''payment.refunded'', ari_resourceType = ''refund'',
        ari_resourceId = refundId, ari_requestId = Some requestId,
        ari_details = Some (JSObj [(''invoiceId'', JSStr (inv_id ivc)),
          (''paymentId'', JSStr (pay_id payment)),
          (''providerEventId'', JSStr (pwd_providerEventId b)),
          (''amountMinor'', JSNum (pwd_amountMinor b)), (''currency'', JSStr (pwd_currency b))])\<rparr> d) (\<lambda>d.
     Inr (\<lparr>pwr_providerEventId = pwd_providerEventId b, pwr_duplicate = False,
           pwr_invoiceId = Some (inv_id ivc), pwr_invoiceStatus = Some invoiceStatus,
           pwr_paymentId = Some (pay_id payment)\<rparr>, d)))))))))))))))"

section \<open>The webhook handler\<close>

definition find_receipt :: "database \<Rightarrow> string \<Rightarrow> string \<Rightarrow> webhook_receipt option" where
  "find_receipt d provider providerEventId =
     find (\<lambda>r. sql_eq d (rcp_provider r) provider \<and> sql_eq d (rcp_providerEventId r) providerEventId)
       (webhook_receipts d)"

definition duplicate_response :: "PaymentWebhookDto \<Rightarrow> PaymentWebhookResponse" where
  "duplicate_response b =
     \<lparr>pwr_providerEventId = pwd_providerEventId b, pwr_duplicate = True, pwr_invoiceId = None,
      pwr_invoiceStatus = None, pwr_paymentId = None\<rparr>"

text \<open>\<open>Date.now()\<close> is the clock in milliseconds; the invalid date is outside no window.\<close>

definition outside_window :: "int option \<Rightarrow> int \<Rightarrow> bool" where
  "outside_window occurredAt now \<longleftrightarrow>
     (case occurredAt of None \<Rightarrow> False
      | Some t \<Rightarrow> now + 5 * 60000 < t \<or> t < now - 90 * 24 * 60 * 60000)"

text \<open>The body of the transaction.\<close>

definition process_event ::
  "(string \<Rightarrow> int option) \<Rightarrow> env \<Rightarrow> string \<Rightarrow> string \<Rightarrow> PaymentWebhookDto \<Rightarrow> string \<Rightarrow> database \<Rightarrow>
   exn + PaymentWebhookResponse \<times> database" where
  "process_event date_of e provider payloadHash b requestId d =
     (case find_receipt d provider (pwd_providerEventId b) of
        Some receipt \<Rightarrow>
          if rcp_payloadHash receipt \<noteq> payloadHash
          then Inl (ConflictException ''Provider event ID was reused with a different payload'')
          else Inr (duplicate_response b, d)
      | None \<Rightarrow>
          bindE (if pwd_eventType b = ''payment.captured''
                 then capture date_of e provider b requestId d
                 else refund_payment date_of e provider b requestId d) (\<lambda>(response, d).
          bindE (insert_receipt
            \<lparr>rcp_id = uuid e 3, rcp_provider = provider,
             rcp_providerEventId = pwd_providerEventId b, rcp_eventType = pwd_eventType b,
             rcp_payloadHash = payloadHash, rcp_receivedAt = db_now e\<rparr> d) (\<lambda>d.
          Inr (response, d))))"

definition handleWebhook_from ::
  "(string \<Rightarrow> char list \<Rightarrow> char list) \<Rightarrow> (char list \<Rightarrow> char list) \<Rightarrow> (string \<Rightarrow> int option) \<Rightarrow> env \<Rightarrow>
   ApiConfig \<Rightarrow> string \<Rightarrow> string option \<Rightarrow> string option \<Rightarrow> char list \<Rightarrow> PaymentWebhookDto \<Rightarrow> string \<Rightarrow>
   database \<Rightarrow> database \<Rightarrow> (exn + PaymentWebhookResponse) \<times> database \<times> metric list" where
  "handleWebhook_from hmac sha256 date_of e config provider timestamp signature rawBody b requestId
     d d_retry =
     (if provider \<noteq> cfg_paymentProvider config
      then (Inl (NotFoundException ''Payment provider is not configured''), d, [])
      else
        let text = (\<lambda>h. case h of None \<Rightarrow> [] | Some s \<Rightarrow> s);
            inc = (\<lambda>outcome. [PaymentWebhooksInc outcome (pwd_eventType b)])
        in case verifyWebhookSignature hmac sha256 rawBody (cfg_paymentWebhookSecret config)
                  (text timestamp) (text signature) (clock e 0 div 1000)
                  (JInt (cfg_paymentWebhookToleranceSeconds config)) of
             Inl _ \<Rightarrow> (Inl (UnauthorizedException ''Invalid payment webhook signature''), d,
               inc ''signature_rejected'')
           | Inr _ \<Rightarrow>
               let payloadHash = hex_of_bytes (sha256 rawBody) in
               if outside_window (date_of (pwd_occurredAt b)) (clock e 1)
               then (Inl (BadRequestException ''Payment event time is outside the accepted window''), d,
                 inc ''invalid_event_time'')
               else case transaction (process_event date_of e provider payloadHash b requestId) d of
                   (Inr result, d') \<Rightarrow>
                     (Inr result, d', inc (if pwr_duplicate result then ''duplicate'' else ''accepted''))
                 | (Inl err, d') \<Rightarrow>
                     if isDuplicateKey err \<and>
                       (case find_receipt d_retry provider (pwd_providerEventId b) of
                          None \<Rightarrow> False
                        | Some receipt \<Rightarrow> rcp_payloadHash receipt = payloadHash)
                     then (Inr (duplicate_response b), d', inc ''duplicate'')
                     else (Inl err, d', inc ''rejected''))"

definition handleWebhook ::
  "(string \<Rightarrow> char list \<Rightarrow> char list) \<Rightarrow> (char list \<Rightarrow> char list) \<Rightarrow> (string \<Rightarrow> int option) \<Rightarrow> env \<Rightarrow>
   ApiConfig \<Rightarrow> string \<Rightarrow> string option \<Rightarrow> string option \<Rightarrow> char list \<Rightarrow> PaymentWebhookDto \<Rightarrow> string \<Rightarrow>
   database \<Rightarrow> (exn + PaymentWebhookResponse) \<times> database \<times> metric list" where
  "handleWebhook hmac sha256 date_of e config provider timestamp signature rawBody b requestId d =
     handleWebhook_from hmac sha256 date_of e config provider timestamp signature rawBody b requestId d d"

definition payment_list :: "database \<Rightarrow> ActorTokenPayload \<Rightarrow> int \<Rightarrow> payment list" where
  "payment_list d actor limit =
     scoped_page d (act_actorMerchantId actor) limit pay_merchantId pay_createdAt (payments d)"

section \<open>What a successful event stores\<close>

definition captured_payment ::
  "env \<Rightarrow> string \<Rightarrow> PaymentWebhookDto \<Rightarrow> invoice \<Rightarrow> int \<Rightarrow> payment" where
  "captured_payment e provider b ivc capturedAt =
     \<lparr>pay_id = uuid e 0, pay_merchantId = inv_merchantId ivc, pay_invoiceId = inv_id ivc,
      pay_provider = provider, pay_providerPaymentId = pwd_providerPaymentId b,
      pay_amountMinor = pwd_amountMinor b, pay_refundedMinor = 0, pay_currency = pwd_currency b,
      pay_status = Pay_CAPTURED, pay_capturedAt = capturedAt, pay_version = 1,
      pay_createdAt = db_now e\<rparr>"

definition issued_refund ::
  "env \<Rightarrow> string \<Rightarrow> PaymentWebhookDto \<Rightarrow> invoice \<Rightarrow> payment \<Rightarrow> int \<Rightarrow> refund" where
  "issued_refund e provider b ivc p refundedAt =
     \<lparr>rfd_id = uuid e 0, rfd_merchantId = inv_merchantId ivc, rfd_paymentId = pay_id p,
      rfd_provider = provider, rfd_providerRefundId = the (pwd_providerRefundId b),
      rfd_amountMinor = pwd_amountMinor b, rfd_refundedAt = refundedAt, rfd_createdAt = db_now e\<rparr>"

definition payment_event ::
  "env \<Rightarrow> invoice \<Rightarrow> string \<Rightarrow> PaymentWebhookDto \<Rightarrow> InvoiceStatus \<Rightarrow> outbox_event" where
  "payment_event e ivc eventType b status =
     pending_event (uuid e 1) ivc eventType (payment_payload (uuid e 1) ivc b status) (clock e 2) (db_now e)"

definition refunded_to :: "int \<Rightarrow> payment \<Rightarrow> payment" where
  "refunded_to n p = p\<lparr>pay_refundedMinor := n,
     pay_status := (if n = pay_amountMinor p then Pay_REFUNDED else Pay_PARTIALLY_REFUNDED),
     pay_version := pay_version p + 1\<rparr>"

definition captured_sum :: "database \<Rightarrow> string \<Rightarrow> int" where
  "captured_sum d i = sum_list (map pay_amountMinor (payments_of d i))"

definition refunded_sum :: "database \<Rightarrow> string \<Rightarrow> int" where
  "refunded_sum d i = sum_list (map pay_refundedMinor (payments_of d i))"

section \<open>A sample delivery\<close>

definition sample_config :: ApiConfig where
  "sample_config = \<lparr>cfg_nodeEnv = ''test'', cfg_port = 8080, cfg_platformApiKey = ''0123456789abcdef'',
     cfg_actorTokenSecret = Some sample_secret, cfg_actorJwksUrl = None, cfg_actorIssuer = None,
     cfg_actorAudience = None, cfg_paymentProvider = ''sandboxpay'',
     cfg_paymentWebhookSecret = sample_secret, cfg_paymentWebhookToleranceSeconds = 300,
     cfg_releaseVersion = ''unknown''\<rparr>"

definition sample_date :: "string \<Rightarrow> int option" where
  "sample_date s = Some 1000"

definition capture_event :: PaymentWebhookDto where
  "capture_event = \<lparr>pwd_providerEventId = ''evt-00000001'', pwd_eventType = ''payment.captured'',
     pwd_providerPaymentId = ''pay-00000001'', pwd_providerRefundId = None, pwd_invoiceId = ''0'',
     pwd_amountMinor = 1180, pwd_currency = ''INR'', pwd_occurredAt = ''2026-01-01''\<rparr>"

definition refund_event :: PaymentWebhookDto where
  "refund_event = capture_event\<lparr>pwd_providerEventId := ''evt-00000002'',
     pwd_eventType := ''payment.refunded'', pwd_providerRefundId := Some ''ref-00000001'',
     pwd_amountMinor := 500\<rparr>"

definition header_signature :: "char list \<Rightarrow> string" where
  "header_signature body = hex_of_bytes (sample_hmac sample_secret (show_int 7 @ ''.'' @ body))"

lemma sample_verifies:
  "verifyWebhookSignature sample_hmac sample_hash body sample_secret ''7'' (header_signature body) 1
     (JInt 300) = Inr True"
proof (rule signature_verifies)
  show "createWebhookSignature sample_hmac body sample_secret (JInt 7) = Inr (header_signature body)"
    unfolding createWebhookSignature_Inr header_signature_def
    by (rule conjI, simp add: sample_secret_def, rule exI [of _ 7], simp add: max_safe_def)
qed (simp_all add: sample_hmac_def sample_numbers max_safe_def)

lemma webhook_accepted:
  assumes "process_event sample_date (sample_env n) ''sandboxpay'' (hex_of_bytes (sample_hash body)) b
    requestId d = Inr (resp, d')"
  shows "handleWebhook_from sample_hmac sample_hash sample_date (sample_env n) sample_config
    ''sandboxpay'' (Some ''7'') (Some (header_signature body)) body b requestId d d_retry =
    (Inr resp, d', [PaymentWebhooksInc (if pwr_duplicate resp then ''duplicate'' else ''accepted'')
       (pwd_eventType b)])"
  using assms sample_verifies [of body]
  by (simp add: handleWebhook_from_def sample_config_def sample_env_def Let_def outside_window_def
      sample_date_def transaction_def)

lemma run_result:
  "(case x of Inl _ \<Rightarrow> False | Inr (r, d) \<Rightarrow> P r) \<Longrightarrow>
     x = Inr (fst (projr x), snd (projr x)) \<and> P (fst (projr x))"
  by (auto split: sum.splits prod.splits)

definition paid_result :: "exn + PaymentWebhookResponse \<times> database" where
  "paid_result = process_event sample_date (sample_env 2) ''sandboxpay''
     (hex_of_bytes (sample_hash ''one'')) capture_event ''r2'' created_db"

definition paid_response :: PaymentWebhookResponse where
  "paid_response = fst (projr paid_result)"

definition paid_db :: database where
  "paid_db = snd (projr paid_result)"

lemma paid_result_ok: "paid_result = Inr (paid_response, paid_db) \<and> \<not> pwr_duplicate paid_response"
  unfolding paid_response_def paid_db_def by (rule run_result) code_simp

lemma sample_paid:
  "handleWebhook_from sample_hmac sample_hash sample_date (sample_env 2) sample_config
    ''sandboxpay'' (Some ''7'') (Some (header_signature ''one'')) ''one'' capture_event ''r2''
    created_db d_retry = (Inr paid_response, paid_db, [PaymentWebhooksInc ''accepted'' ''payment.captured''])"
  using webhook_accepted [OF conjunct1 [OF paid_result_ok, unfolded paid_result_def]] paid_result_ok
  by (simp add: capture_event_def)

definition refunded_result :: "exn + PaymentWebhookResponse \<times> database" where
  "refunded_result = process_event sample_date (sample_env 3) ''sandboxpay''
     (hex_of_bytes (sample_hash ''two'')) refund_event ''r3'' paid_db"

definition refunded_response :: PaymentWebhookResponse where
  "refunded_response = fst (projr refunded_result)"

definition refunded_db :: database where
  "refunded_db = snd (projr refunded_result)"

lemma refunded_result_ok:
  "refunded_result = Inr (refunded_response, refunded_db) \<and> \<not> pwr_duplicate refunded_response"
  unfolding refunded_response_def refunded_db_def by (rule run_result) code_simp

lemma sample_refunded:
  "handleWebhook_from sample_hmac sample_hash sample_date (sample_env 3) sample_config
    ''sandboxpay'' (Some ''7'') (Some (header_signature ''two'')) ''two'' refund_event ''r3''
    paid_db d_retry = (Inr refunded_response, refunded_db, [PaymentWebhooksInc ''accepted'' ''payment.refunded''])"
  using webhook_accepted [OF conjunct1 [OF refunded_result_ok, unfolded refunded_result_def]]
    refunded_result_ok by (simp add: refund_event_def)

end
