(* ===== verification/Ledger.thy ===== *)
theory Ledger
  imports InvoiceQueries PaymentService
begin

text \<open>
  The invoices and their payments as one system: the steps the API takes on the database, the
  invariant that ties an invoice's status to the money captured and refunded for it, and what
  every step leaves behind in the outbox and the audit log.
\<close>

section \<open>What a payment event changes\<close>

definition payment_audit ::
  "env \<Rightarrow> string \<Rightarrow> string \<Rightarrow> string \<Rightarrow> string \<Rightarrow> string \<Rightarrow> invoice \<Rightarrow> json \<Rightarrow> audit_event" where
  "payment_audit e provider action resourceType resourceId requestId ivc details =
     audit_row (uuid e 2) (db_now e)
       \<lparr>ari_merchantId = inv_merchantId ivc, ari_actorSubject = provider_subject provider,
        ari_action = action, ari_resourceType = resourceType, ari_resourceId = resourceId,
        ari_requestId = Some requestId, ari_details = Some details\<rparr>"

definition same_id :: "database \<Rightarrow> invoice \<Rightarrow> invoice \<Rightarrow> bool" where
  "same_id d ivc r \<longleftrightarrow> sql_eq d (inv_id r) (inv_id ivc)"

text \<open>The status and the effect of a captured payment.\<close>

definition captured_status :: "database \<Rightarrow> PaymentWebhookDto \<Rightarrow> invoice \<Rightarrow> InvoiceStatus" where
  "captured_status d b ivc =
     (if js_add (capturedTotal d (inv_id ivc)) (JInt (pwd_amountMinor b)) = JInt (inv_totalMinor ivc)
      then PAID else PARTIALLY_PAID)"

lemma capture_Inr:
  assumes "capture date_of e provider b requestId d = Inr (resp, d')"
  obtains ivc t aud where "find_invoice d (pwd_invoiceId b) = Some ivc"
    and "inv_status ivc \<in> {ISSUED, PARTIALLY_PAID}" and "inv_currency ivc = pwd_currency b"
    and "\<not> js_lt (JInt (inv_totalMinor ivc))
      (js_add (capturedTotal d (inv_id ivc)) (JInt (pwd_amountMinor b)))"
    and "insert_payment (captured_payment e provider b ivc t) d
      = Inr (d\<lparr>payments := payments d @ [captured_payment e provider b ivc t]\<rparr>)"
    and "d' = d\<lparr>invoices := update_where (same_id d ivc) (moved (captured_status d b ivc)) (invoices d),
      payments := payments d @ [captured_payment e provider b ivc t],
      outbox_events := outbox_events d @
        [payment_event e ivc ''payment.captured.v1'' b (captured_status d b ivc)],
      audit_events := audit_events d @ [aud]\<rparr>"
    and "aud_merchantId aud = inv_merchantId ivc" and "aud_action aud = ''payment.captured''"
    and "resp = \<lparr>pwr_providerEventId = pwd_providerEventId b, pwr_duplicate = False,
      pwr_invoiceId = Some (inv_id ivc), pwr_invoiceStatus = Some (captured_status d b ivc),
      pwr_paymentId = Some (uuid e 0)\<rparr>"
    and "fresh_event d (payment_event e ivc ''payment.captured.v1'' b (captured_status d b ivc))"
proof -
  from assms obtain ivc t d1 n d2 d3 details where
    pre: "find_invoice d (pwd_invoiceId b) = Some ivc"
      "inv_status ivc \<in> {ISSUED, PARTIALLY_PAID}" "inv_currency ivc = pwd_currency b"
      "\<not> js_lt (JInt (inv_totalMinor ivc))
        (js_add (capturedTotal d (inv_id ivc)) (JInt (pwd_amountMinor b)))"
    and p: "insert_payment (captured_payment e provider b ivc t) d = Inr d1"
    and s: "set_status_of (inv_id ivc) (captured_status d b ivc) d1 = Inr (n, d2)"
    and ob: "emit e 1 2 ivc ''payment.captured.v1'' b (captured_status d b ivc) d2 = Inr d3"
    and au: "insert_audit (payment_audit e provider ''payment.captured'' ''payment'' (uuid e 0)
        requestId ivc details) d3 = Inr d'"
    and resp: "resp = \<lparr>pwr_providerEventId = pwd_providerEventId b, pwr_duplicate = False,
      pwr_invoiceId = Some (inv_id ivc), pwr_invoiceStatus = Some (captured_status d b ivc),
      pwr_paymentId = Some (uuid e 0)\<rparr>"
    unfolding capture_def Let_def bindE_Inr_conv guardE_Inr_conv someE_Inr_conv lockInvoice_def
      captured_payment_def [symmetric] captured_status_def [symmetric] payment_audit_def audit_record_def
    by (auto simp: bindE_Inr_conv)
  have d1: "d1 = d\<lparr>payments := payments d @ [captured_payment e provider b ivc t]\<rparr>"
    using p by (simp add: insert_payment_Inr)
  show ?thesis
    by (rule that [where aud = "payment_audit e provider ''payment.captured'' ''payment'' (uuid e 0)
          requestId ivc details", OF pre p [unfolded d1] _ _ _ resp])
      (use s ob au insert_outbox_fresh [OF ob [unfolded emit_def]] in \<open>simp_all add: d1 fresh_event_def outbox_key_def set_status_of_def emit_def set_invoice_status_Inr insert_outbox_Inr
        insert_audit_Inr payment_event_def same_id_def [abs_def] sql_eq_def moved_def [abs_def]
        payment_audit_def audit_row_def\<close>)
qed

text \<open>The status and the effect of a refund.\<close>

definition refund_target :: "database \<Rightarrow> payment \<Rightarrow> payment \<Rightarrow> bool" where
  "refund_target d p x \<longleftrightarrow> sql_eq d (pay_id x) (pay_id p) \<and> pay_version x = pay_version p"

definition after_refund :: "database \<Rightarrow> payment \<Rightarrow> int \<Rightarrow> database" where
  "after_refund d p n = d\<lparr>payments := update_where (refund_target d p)
     (\<lambda>x. x\<lparr>pay_refundedMinor := n,
        pay_status := (if n = pay_amountMinor p then Pay_REFUNDED else Pay_PARTIALLY_REFUNDED),
        pay_version := pay_version x + 1\<rparr>) (payments d)\<rparr>"

definition refunded_status :: "database \<Rightarrow> invoice \<Rightarrow> InvoiceStatus" where
  "refunded_status d ivc =
     (if refundedTotal d (inv_id ivc) = capturedTotal d (inv_id ivc) then REFUNDED
      else PARTIALLY_REFUNDED)"

lemma refund_payment_Inr:
  assumes "refund_payment date_of e provider b requestId d = Inr (resp, d')"
  obtains ivc p t aud d1 where "find_invoice d (pwd_invoiceId b) = Some ivc"
    and "p \<in> set (payments d)" and "pay_invoiceId p = inv_id ivc"
    and "inv_status ivc \<in> {PAID, PARTIALLY_REFUNDED}" and "pay_currency p = pwd_currency b"
    and "pay_refundedMinor p + pwd_amountMinor b \<le> pay_amountMinor p"
    and "insert_refund (issued_refund e provider b ivc p t) d
      = Inr (d\<lparr>refunds := refunds d @ [issued_refund e provider b ivc p t]\<rparr>)"
    and "d1 = after_refund d p (pay_refundedMinor p + pwd_amountMinor b)"
    and "d' = d\<lparr>invoices := update_where (same_id d ivc) (moved (refunded_status d1 ivc)) (invoices d),
      payments := payments d1, refunds := refunds d @ [issued_refund e provider b ivc p t],
      outbox_events := outbox_events d @
        [payment_event e ivc ''payment.refunded.v1'' b (refunded_status d1 ivc)],
      audit_events := audit_events d @ [aud]\<rparr>"
    and "aud_merchantId aud = inv_merchantId ivc" and "aud_action aud = ''payment.refunded''"
    and "resp = \<lparr>pwr_providerEventId = pwd_providerEventId b, pwr_duplicate = False,
      pwr_invoiceId = Some (inv_id ivc), pwr_invoiceStatus = Some (refunded_status d1 ivc),
      pwr_paymentId = Some (pay_id p)\<rparr>"
    and "fresh_event d (payment_event e ivc ''payment.refunded.v1'' b (refunded_status d1 ivc))"
proof -
  let ?n = "\<lambda>p. pay_refundedMinor p + pwd_amountMinor b"
  from assms obtain ivc p t d1 d2 n d3 d4 details where
    pre: "find_invoice d (pwd_invoiceId b) = Some ivc"
    and fp: "find (\<lambda>p. sql_eq d (pay_provider p) provider \<and>
          sql_eq d (pay_providerPaymentId p) (pwd_providerPaymentId b)) (payments d) = Some p"
    and pre2: "pay_invoiceId p = inv_id ivc"
      "inv_status ivc \<in> {PAID, PARTIALLY_REFUNDED}" "pay_currency p = pwd_currency b"
      "pay_refundedMinor p + pwd_amountMinor b \<le> pay_amountMinor p"
    and r: "insert_refund (issued_refund e provider b ivc p t) d = Inr d1"
    and s: "set_payment_refunded (\<lambda>x. sql_eq d1 (pay_id x) (pay_id p) \<and>
         pay_version x = pay_version p) (?n p)
         (if ?n p = pay_amountMinor p then Pay_REFUNDED else Pay_PARTIALLY_REFUNDED) d1 = Inr d2"
    and st: "set_status_of (inv_id ivc) (refunded_status d2 ivc) d2 = Inr (n, d3)"
    and ob: "emit e 1 2 ivc ''payment.refunded.v1'' b (refunded_status d2 ivc) d3 = Inr d4"
    and au: "insert_audit (payment_audit e provider ''payment.refunded'' ''refund'' (uuid e 0)
        requestId ivc details) d4 = Inr d'"
    and resp: "resp = \<lparr>pwr_providerEventId = pwd_providerEventId b, pwr_duplicate = False,
      pwr_invoiceId = Some (inv_id ivc), pwr_invoiceStatus = Some (refunded_status d2 ivc),
      pwr_paymentId = Some (pay_id p)\<rparr>"
    unfolding refund_payment_def Let_def bindE_Inr_conv guardE_Inr_conv someE_Inr_conv lockInvoice_def
      issued_refund_def [symmetric] refunded_status_def [symmetric] payment_audit_def audit_record_def
      not_less
    by (auto simp: bindE_Inr_conv)
  have d1: "d1 = d\<lparr>refunds := refunds d @ [issued_refund e provider b ivc p t]\<rparr>"
    using r by (simp add: insert_refund_Inr)
  let ?a = "after_refund d p (?n p)"
  have d2: "d2 = ?a\<lparr>refunds := refunds d @ [issued_refund e provider b ivc p t]\<rparr>"
    using s by (simp add: d1 set_payment_refunded_Inr after_refund_def refund_target_def [abs_def] sql_eq_def)
  define s2 where "s2 = refunded_status d2 ivc"
  have same: "s2 = refunded_status ?a ivc"
    by (simp add: s2_def refunded_status_def refundedTotal_def capturedTotal_def payments_of_def d2 sql_eq_def)
  let ?aud = "payment_audit e provider ''payment.refunded'' ''refund'' (uuid e 0) requestId ivc details"
  have d2': "d2 = d\<lparr>payments := payments ?a,
      refunds := refunds d @ [issued_refund e provider b ivc p t]\<rparr>"
    by (simp add: d2 after_refund_def)
  have d3: "d3 = d2\<lparr>invoices := update_where (same_id d ivc) (moved s2) (invoices d)\<rparr>"
    using st [folded s2_def] by (simp add: set_status_of_def set_invoice_status_Inr d2' sql_eq_def
        same_id_def [abs_def] moved_def [abs_def])
  have d4: "d4 = d3\<lparr>outbox_events := outbox_events d3 @
      [payment_event e ivc ''payment.refunded.v1'' b s2]\<rparr>"
    using ob [folded s2_def] by (simp add: emit_def insert_outbox_Inr payment_event_def)
  have "collation d3 = collation d" "outbox_events d3 = outbox_events d" by (simp_all add: d3 d2')
  note fresh = insert_outbox_fresh [OF ob [folded s2_def, unfolded emit_def], unfolded fresh_event_cong [OF this]]
  have d': "d' = d4\<lparr>audit_events := audit_events d4 @ [?aud]\<rparr>"
    using au by (simp add: insert_audit_Inr)
  have p: "p \<in> set (payments d)" using fp find_Some_D by fast
  show ?thesis
    by (rule that [OF pre p pre2 r [unfolded d1] refl _ _ _
        resp [folded s2_def, unfolded same], where aud = ?aud])
      (use fresh in \<open>simp_all add: d' d4 d3 d2' same payment_audit_def audit_row_def payment_event_def\<close>)
qed

section \<open>The invariant\<close>

text \<open>
  How much of an invoice's total may have been captured, and how much of that refunded, in each
  status. A manager may mark an invoice paid by hand, so a paid invoice need not be covered by
  captured payments.
\<close>

fun money_ok :: "InvoiceStatus \<Rightarrow> int \<Rightarrow> int \<Rightarrow> int \<Rightarrow> bool" where
  "money_ok DRAFT t c r \<longleftrightarrow> c = 0 \<and> r = 0"
| "money_ok ISSUED t c r \<longleftrightarrow> c = 0 \<and> r = 0"
| "money_ok CANCELLED t c r \<longleftrightarrow> c = 0 \<and> r = 0"
| "money_ok PARTIALLY_PAID t c r \<longleftrightarrow>
     0 < c \<and> c < t \<and> r = 0"
| "money_ok PAID t c r \<longleftrightarrow> 0 \<le> c \<and> c \<le> t \<and> r = 0"
| "money_ok PARTIALLY_REFUNDED t c r \<longleftrightarrow>
     0 < r \<and> r < c \<and> c \<le> t"
| "money_ok REFUNDED t c r \<longleftrightarrow>
     0 < r \<and> r = c \<and> c \<le> t"

definition payment_status_of :: "int \<Rightarrow> int \<Rightarrow> PaymentStatus" where
  "payment_status_of amount refunded =
     (if refunded = 0 then Pay_CAPTURED else if refunded = amount then Pay_REFUNDED
      else Pay_PARTIALLY_REFUNDED)"

definition refunds_of :: "database \<Rightarrow> payment \<Rightarrow> refund list" where
  "refunds_of d p = filter (\<lambda>r. sql_eq d (rfd_paymentId r) (pay_id p)) (refunds d)"

definition payment_ok :: "database \<Rightarrow> payment \<Rightarrow> bool" where
  "payment_ok d p \<longleftrightarrow> 0 < pay_amountMinor p \<and> 0 \<le> pay_refundedMinor p \<and>
     pay_refundedMinor p \<le> pay_amountMinor p \<and>
     pay_status p = payment_status_of (pay_amountMinor p) (pay_refundedMinor p) \<and>
     sum_list (map rfd_amountMinor (refunds_of d p)) = pay_refundedMinor p \<and>
     (\<exists>ivc \<in> set (invoices d). inv_id ivc = pay_invoiceId p)"

definition invoice_ok :: "database \<Rightarrow> invoice \<Rightarrow> bool" where
  "invoice_ok d ivc \<longleftrightarrow> 0 \<le> inv_totalMinor ivc \<and> inv_totalMinor ivc < 2 ^ 32 \<and>
     money_ok (inv_status ivc) (inv_totalMinor ivc) (captured_sum d (inv_id ivc))
       (refunded_sum d (inv_id ivc))"

definition payment_ids_unique :: "database \<Rightarrow> bool" where
  "payment_ids_unique d \<longleftrightarrow> distinct (map (payment_key d) (payments d))"

definition refunds_ok :: "database \<Rightarrow> bool" where
  "refunds_ok d \<longleftrightarrow> (\<forall>r \<in> set (refunds d). \<exists>p \<in> set (payments d). pay_id p = rfd_paymentId r)"

definition ledger_ok :: "database \<Rightarrow> bool" where
  "ledger_ok d \<longleftrightarrow> invoice_ids_unique d \<and> payment_ids_unique d \<and>
     (\<forall>ivc \<in> set (invoices d). invoice_ok d ivc) \<and> (\<forall>p \<in> set (payments d). payment_ok d p) \<and>
     refunds_ok d"

lemma sql_eq_cong: "collation d' = collation d \<Longrightarrow> sql_eq d' = sql_eq d"
  by (simp add: sql_eq_def fun_eq_iff)

lemma same_invoice:
  assumes "invoice_ids_unique d" "x \<in> set (invoices d)" "y \<in> set (invoices d)"
  shows "sql_eq d (inv_id x) (inv_id y) \<longleftrightarrow> x = y"
  using find_invoice_iff [OF assms(1), of "inv_id y" x] find_invoice_iff [OF assms(1), of "inv_id y" y]
    assms(2,3) by auto

lemma update_same_id:
  assumes "invoice_ids_unique d" "x \<in> set (invoices d)"
  shows "update_where (same_id d x) f (invoices d) = map (\<lambda>y. if y = x then f x else y) (invoices d)"
  using same_invoice [OF assms(1) _ assms(2)] by (auto simp: update_where_def same_id_def)

lemma update_target:
  assumes "payment_ids_unique d" "p \<in> set (payments d)"
  shows "filter (refund_target d p) (payments d) = [p]"
proof -
  have "filter (\<lambda>x. payment_key d x = payment_key d p) (payments d) = [p]"
    using assms unfolding payment_ids_unique_def by (rule filter_distinct_key)
  then have "filter (\<lambda>x. pay_version x = pay_version p)
      (filter (\<lambda>x. payment_key d x = payment_key d p) (payments d)) = [p]" by simp
  then show ?thesis by (simp add: refund_target_def [abs_def] payment_key_def sql_eq_def conj_commute)
qed

lemma refund_target_iff:
  assumes "payment_ids_unique d" "p \<in> set (payments d)" "x \<in> set (payments d)"
  shows "refund_target d p x \<longleftrightarrow> x = p"
proof -
  have "x \<in> set (filter (refund_target d p) (payments d)) \<longleftrightarrow> x \<in> set [p]"
    by (simp only: update_target [OF assms(1,2)])
  with assms(3) show ?thesis by simp
qed

text \<open>The sums of an invoice's payments under an insert and under a refund.\<close>

lemma captured_sum_cong:
  "payments d' = payments d \<Longrightarrow> collation d' = collation d \<Longrightarrow> captured_sum d' i = captured_sum d i"
  "payments d' = payments d \<Longrightarrow> collation d' = collation d \<Longrightarrow> refunded_sum d' i = refunded_sum d i"
  by (simp_all add: captured_sum_def refunded_sum_def payments_of_def sql_eq_def)

lemma sums_insert:
  assumes "payments d' = payments d @ [p]" "collation d' = collation d"
  shows "captured_sum d' i = captured_sum d i + (if sql_eq d (pay_invoiceId p) i then pay_amountMinor p else 0)"
    and "refunded_sum d' i = refunded_sum d i + (if sql_eq d (pay_invoiceId p) i then pay_refundedMinor p else 0)"
  using assms by (simp_all add: captured_sum_def refunded_sum_def payments_of_def sql_eq_def)

lemma payments_after_refund:
  assumes "payment_ids_unique d" "p \<in> set (payments d)"
  shows "payments (after_refund d p n) = map (\<lambda>x. if x = p then refunded_to n p else x) (payments d)"
  using refund_target_iff [OF assms] by (auto simp: after_refund_def update_where_def refunded_to_def)

lemma sum_list_replace:
  fixes g :: "'r \<Rightarrow> int"
  shows "distinct xs \<Longrightarrow> p \<in> set xs \<Longrightarrow>
    sum_list (map g (map (\<lambda>x. if x = p then q else x) xs)) = sum_list (map g xs) - g p + g q"
proof (induction xs)
  case (Cons x xs)
  show ?case
  proof (cases "x = p")
    case True
    with Cons.prems have "map (\<lambda>y. if y = p then q else y) xs = xs" by (auto intro: map_idI)
    with True show ?thesis by (simp del: list.map_comp)
  qed (use Cons in auto)
qed simp

lemma filter_map_replace:
  assumes "P q = P p"
  shows "filter P (map (\<lambda>x. if x = p then q else x) xs) = map (\<lambda>x. if x = p then q else x) (filter P xs)"
  using assms by (induction xs) auto

lemma sums_refund:
  assumes "payment_ids_unique d" "p \<in> set (payments d)"
    and "payments d' = payments (after_refund d p n)" "collation d' = collation d"
  shows "captured_sum d' i = captured_sum d i"
    and "refunded_sum d' i = refunded_sum d i +
      (if sql_eq d (pay_invoiceId p) i then n - pay_refundedMinor p else 0)"
proof -
  let ?r = "\<lambda>x. if x = p then refunded_to n p else x"
  let ?P = "\<lambda>x. sql_eq d (pay_invoiceId x) i"
  have same: "pay_invoiceId (refunded_to n p) = pay_invoiceId p"
    "pay_amountMinor (refunded_to n p) = pay_amountMinor p" "pay_refundedMinor (refunded_to n p) = n"
    by (simp_all add: refunded_to_def)
  have of: "payments_of d' i = map ?r (payments_of d i)"
    using filter_map_replace [of ?P "refunded_to n p" p "payments d"] same
    by (simp add: payments_of_def assms(3) payments_after_refund [OF assms(1,2)] sql_eq_cong [OF assms(4)])
  have "map pay_amountMinor (map ?r xs) = map pay_amountMinor xs" for xs using same by auto
  then show "captured_sum d' i = captured_sum d i" by (simp only: captured_sum_def of)
  have dist: "distinct (payments_of d i)"
    using assms(1) unfolding payment_ids_unique_def payments_of_def by (metis distinct_filter distinct_map)
  show "refunded_sum d' i = refunded_sum d i +
      (if sql_eq d (pay_invoiceId p) i then n - pay_refundedMinor p else 0)"
  proof (cases "p \<in> set (payments_of d i)")
    case True
    then have "sql_eq d (pay_invoiceId p) i" by (simp add: payments_of_def)
    then show ?thesis
      using sum_list_replace [OF dist True, of pay_refundedMinor "refunded_to n p"] same
      by (simp only: refunded_sum_def of) simp
  next
    case False
    then have "map ?r (payments_of d i) = payments_of d i" by (auto intro: map_idI)
    moreover have "\<not> sql_eq d (pay_invoiceId p) i" using False assms(2) by (simp add: payments_of_def)
    ultimately show ?thesis by (simp only: refunded_sum_def of) simp
  qed
qed

section \<open>Every operation keeps the invariant\<close>

lemma payments_nonneg:
  assumes "ledger_ok d"
  shows "0 \<le> refunded_sum d i" and "refunded_sum d i \<le> captured_sum d i"
proof -
  have "payment_ok d p" if "p \<in> set (payments_of d i)" for p
    using assms that by (simp add: ledger_ok_def payments_of_def)
  then have ok: "0 \<le> pay_refundedMinor p \<and> pay_refundedMinor p \<le> pay_amountMinor p"
    if "p \<in> set (payments_of d i)" for p using that by (simp add: payment_ok_def)
  show "0 \<le> refunded_sum d i" unfolding refunded_sum_def using ok by (auto intro!: sum_list_nonneg)
  show "refunded_sum d i \<le> captured_sum d i"
    unfolding refunded_sum_def captured_sum_def using ok by (intro sum_list_mono) auto
qed

lemma captured_sum_bounds:
  assumes "ledger_ok d" "x \<in> set (invoices d)"
  shows "0 \<le> captured_sum d (inv_id x)" and "captured_sum d (inv_id x) \<le> inv_totalMinor x"
proof -
  show c: "0 \<le> captured_sum d (inv_id x)" using payments_nonneg [OF assms(1), of "inv_id x"] by simp
  have "invoice_ok d x" using assms by (simp add: ledger_ok_def)
  then show "captured_sum d (inv_id x) \<le> inv_totalMinor x"
    by (cases "inv_status x") (simp_all add: invoice_ok_def)
qed

text \<open>A payment row whose clauses survive a change of other tables.\<close>

lemma payment_ok_cong:
  assumes "payment_ok d p" and "collation d' = collation d" and "refunds d' = refunds d"
    and "inv_id ` set (invoices d) \<subseteq> inv_id ` set (invoices d')"
  shows "payment_ok d' p"
proof -
  from assms(1) obtain ivc where "ivc \<in> set (invoices d)" "inv_id ivc = pay_invoiceId p"
    unfolding payment_ok_def by blast
  then have "pay_invoiceId p \<in> inv_id ` set (invoices d)" by (metis imageI)
  with assms(4) have "pay_invoiceId p \<in> inv_id ` set (invoices d')" by blast
  then have "\<exists>ivc \<in> set (invoices d'). inv_id ivc = pay_invoiceId p" by auto
  then show ?thesis
    using assms(1) unfolding payment_ok_def refunds_of_def assms(3) sql_eq_cong [OF assms(2)] by blast
qed

text \<open>Replacing one invoice by itself in another status.\<close>

lemma moved_ids: "inv_id ` set (map (\<lambda>y. if y = x then moved s x else y) ivcs) = inv_id ` set ivcs"
proof -
  have "map inv_id (map (\<lambda>y. if y = x then moved s x else y) ivcs) = map inv_id ivcs" by auto
  then show ?thesis by (metis list.set_map)
qed

lemma ledger_move:
  assumes ok: "ledger_ok d" and x: "x \<in> set (invoices d)" and col: "collation d' = collation d"
    and ivcs: "invoices d' = map (\<lambda>y. if y = x then moved s x else y) (invoices d)"
    and others: "\<And>y. y \<in> set (invoices d) \<Longrightarrow> y \<noteq> x \<Longrightarrow>
      captured_sum d' (inv_id y) = captured_sum d (inv_id y) \<and>
      refunded_sum d' (inv_id y) = refunded_sum d (inv_id y)"
    and money: "money_ok s (inv_totalMinor x) (captured_sum d' (inv_id x)) (refunded_sum d' (inv_id x))"
    and pays: "payment_ids_unique d'" "\<forall>p \<in> set (payments d'). payment_ok d' p" "refunds_ok d'"
  shows "ledger_ok d'"
proof -
  have "map (invoice_key d') (invoices d') = map (invoice_key d) (invoices d)"
    by (auto simp: ivcs invoice_key_def col)
  then have "invoice_ids_unique d'" using ok by (simp add: ledger_ok_def invoice_ids_unique_def)
  moreover have "invoice_ok d' y" if "y \<in> set (invoices d')" for y
  proof -
    from that consider "y = moved s x" | "y \<in> set (invoices d)" "y \<noteq> x"
      unfolding ivcs by (auto split: if_splits)
    then show ?thesis
    proof cases
      case 1
      moreover have "invoice_ok d x" using ok x by (simp add: ledger_ok_def)
      ultimately show ?thesis using money by (simp add: invoice_ok_def)
    next
      case 2
      then have "invoice_ok d y" using ok by (simp add: ledger_ok_def)
      then show ?thesis using others [OF 2] by (simp add: invoice_ok_def)
    qed
  qed
  ultimately show ?thesis using pays by (simp add: ledger_ok_def)
qed

text \<open>A status change that touches no money.\<close>

lemma ledger_status_change:
  assumes "ledger_ok d" "x \<in> set (invoices d)" "may_become (inv_status x) s" "s \<in> {PAID, CANCELLED}"
    and "d' = d\<lparr>invoices := map (\<lambda>y. if y = x then moved s x else y) (invoices d),
      outbox_events := obs, audit_events := auds\<rparr>"
  shows "ledger_ok d'"
proof -
  have same: "captured_sum d' i = captured_sum d i" "refunded_sum d' i = refunded_sum d i" for i
    by (rule captured_sum_cong; simp add: assms(5))+
  have money: "money_ok (inv_status x) (inv_totalMinor x) (captured_sum d (inv_id x)) (refunded_sum d (inv_id x))"
    "0 \<le> inv_totalMinor x"
    using assms(1,2) by (auto simp: ledger_ok_def invoice_ok_def)
  show ?thesis
  proof (rule ledger_move [OF assms(1,2), where s = s])
    show "money_ok s (inv_totalMinor x) (captured_sum d' (inv_id x)) (refunded_sum d' (inv_id x))"
      using money assms(3,4) unfolding same by (cases "inv_status x") (auto simp: may_become_iff)
    show "\<forall>p \<in> set (payments d'). payment_ok d' p"
    proof
      fix p assume "p \<in> set (payments d')"
      then have "payment_ok d p" using assms(1) by (simp add: ledger_ok_def assms(5))
      then show "payment_ok d' p"
        by (rule payment_ok_cong) (simp_all add: assms(5) moved_ids del: set_map)
    qed
  qed (use assms(1) same in \<open>simp_all add: assms(5) ledger_ok_def payment_ids_unique_def
    payment_key_def [abs_def] refunds_ok_def\<close>)
qed

text \<open>A captured payment.\<close>

lemma captured_exact:
  assumes "ledger_ok d" "x \<in> set (invoices d)"
  shows "capturedTotal d (inv_id x) = JInt (captured_sum d (inv_id x))"
proof -
  have "inv_totalMinor x < 2 ^ 32" using assms by (simp add: ledger_ok_def invoice_ok_def)
  then show ?thesis
    using captured_sum_bounds [OF assms] unfolding capturedTotal_def captured_sum_def
    by (intro round64_int) simp
qed

lemma js_add_JInt: "\<bar>a + b\<bar> \<le> 2 ^ 53 \<Longrightarrow> js_add (JInt a) (JInt b) = JInt (a + b)"
  using round64_int [of "a + b"] by simp

lemma ledger_capture:
  assumes ok: "ledger_ok d" and x: "x \<in> set (invoices d)"
    and status: "inv_status x \<in> {ISSUED, PARTIALLY_PAID}"
    and room: "\<not> js_lt (JInt (inv_totalMinor x)) (js_add (capturedTotal d (inv_id x)) (JInt (pwd_amountMinor b)))"
    and amount: "1 \<le> pwd_amountMinor b" "pwd_amountMinor b \<le> 100000000"
    and ins: "insert_payment (captured_payment e provider b x t) d
      = Inr (d\<lparr>payments := payments d @ [captured_payment e provider b x t]\<rparr>)"
    and d': "d' = d\<lparr>invoices := update_where (same_id d x) (moved (captured_status d b x)) (invoices d),
      payments := payments d @ [captured_payment e provider b x t],
      outbox_events := obs, audit_events := auds\<rparr>"
  shows "ledger_ok d'" and "captured_sum d (inv_id x) + pwd_amountMinor b \<le> inv_totalMinor x"
    and "captured_status d b x =
      (if captured_sum d (inv_id x) + pwd_amountMinor b = inv_totalMinor x then PAID else PARTIALLY_PAID)"
proof -
  let ?p = "captured_payment e provider b x t" and ?c = "captured_sum d (inv_id x)"
  note cb = captured_sum_bounds [OF ok x]
  have ivc: "invoice_ok d x" and t32: "inv_totalMinor x < 2 ^ 32"
    using ok x by (simp_all add: ledger_ok_def invoice_ok_def)
  have add: "js_add (capturedTotal d (inv_id x)) (JInt (pwd_amountMinor b)) = JInt (?c + pwd_amountMinor b)"
    unfolding captured_exact [OF ok x] by (rule js_add_JInt) (use cb t32 amount in simp)
  show le: "?c + pwd_amountMinor b \<le> inv_totalMinor x"
    using room unfolding add by (simp flip: of_int_add)
  show st: "captured_status d b x =
      (if ?c + pwd_amountMinor b = inv_totalMinor x then PAID else PARTIALLY_PAID)"
    unfolding captured_status_def add by (simp flip: of_int_add)
  have col: "collation d' = collation d" by (simp add: d')
  have sums: "captured_sum d' i = captured_sum d i + (if sql_eq d (inv_id x) i then pwd_amountMinor b else 0)"
    "refunded_sum d' i = refunded_sum d i" for i
    using sums_insert [of d' d ?p i] by (simp_all add: d' captured_payment_def)
  have u: "invoice_ids_unique d" using ok by (simp add: ledger_ok_def)
  have ivcs: "invoices d' = map (\<lambda>y. if y = x then moved (captured_status d b x) x else y) (invoices d)"
    by (simp add: d' update_same_id [OF u x])
  have ids: "inv_id ` set (invoices d) \<subseteq> inv_id ` set (invoices d')"
    unfolding ivcs moved_ids ..
  have no_refunds: "refunds_of d ?p = []"
  proof -
    have "payment_key d ?p \<notin> payment_key d ` set (payments d)"
      by (rule payment_table.ins_fresh [OF ins])
    then have "\<not> sql_eq d (pay_id q) (pay_id ?p)" if "q \<in> set (payments d)" for q
      using that by (auto simp: payment_key_def sql_eq_def image_iff)
    then show ?thesis
      using ok by (fastforce simp: refunds_of_def ledger_ok_def refunds_ok_def filter_empty_conv)
  qed
  show "ledger_ok d'"
  proof (rule ledger_move [OF ok x col ivcs])
    show "captured_sum d' (inv_id y) = captured_sum d (inv_id y) \<and>
        refunded_sum d' (inv_id y) = refunded_sum d (inv_id y)" if "y \<in> set (invoices d)" "y \<noteq> x" for y
      using that same_invoice [OF u x] by (simp add: sums)
    show "money_ok (captured_status d b x) (inv_totalMinor x) (captured_sum d' (inv_id x))
        (refunded_sum d' (inv_id x))"
      using ivc status le cb amount by (auto simp: st sums invoice_ok_def)
    have "payment_ids_unique (d\<lparr>payments := payments d @ [?p]\<rparr>)"
      using payment_table.ins_distinct [OF ins] ok by (simp add: ledger_ok_def payment_ids_unique_def)
    then show "payment_ids_unique d'"
      by (simp add: d' payment_ids_unique_def payment_key_def [abs_def])
    show "\<forall>p \<in> set (payments d'). payment_ok d' p"
    proof
      fix p assume "p \<in> set (payments d')"
      then consider "p \<in> set (payments d)" | "p = ?p" by (auto simp: d')
      then show "payment_ok d' p"
      proof cases
        case 1
        then have "payment_ok d p" using ok by (simp add: ledger_ok_def)
        then show ?thesis by (rule payment_ok_cong [OF _ col _ ids]) (simp add: d')
      next
        case 2
        have "inv_id x \<in> inv_id ` set (invoices d')" using ids x by blast
        then have "\<exists>ivc \<in> set (invoices d'). inv_id ivc = inv_id x" by auto
        moreover have "refunds_of d' ?p = []" using no_refunds by (simp add: refunds_of_def d' sql_eq_def)
        ultimately show ?thesis
          using amount 2 by (simp add: payment_ok_def captured_payment_def payment_status_of_def)
      qed
    qed
    show "refunds_ok d'" using ok by (auto simp: d' ledger_ok_def refunds_ok_def)
  qed
qed

text \<open>A refund.\<close>

lemma refunds_of_key:
  assumes "payment_ids_unique d" "p \<in> set (payments d)" "q \<in> set (payments d)"
    and "rfd_paymentId r = pay_id p"
  shows "sql_eq d (rfd_paymentId r) (pay_id q) \<longleftrightarrow> q = p"
  using assms unfolding payment_ids_unique_def
  by (metis (mono_tags) distinct_map inj_onD payment_key_def sql_eq_def)

lemma ledger_refund:
  assumes ok: "ledger_ok d" and x: "x \<in> set (invoices d)" and p: "p \<in> set (payments d)"
    and px: "pay_invoiceId p = inv_id x" and status: "inv_status x \<in> {PAID, PARTIALLY_REFUNDED}"
    and room: "pay_refundedMinor p + pwd_amountMinor b \<le> pay_amountMinor p"
    and amount: "1 \<le> pwd_amountMinor b"
    and d1: "d1 = after_refund d p (pay_refundedMinor p + pwd_amountMinor b)"
    and d': "d' = d\<lparr>invoices := update_where (same_id d x) (moved (refunded_status d1 x)) (invoices d),
      payments := payments d1, refunds := refunds d @ [issued_refund e provider b x p t],
      outbox_events := obs, audit_events := auds\<rparr>"
  shows "ledger_ok d'" and "refunded_sum d' (inv_id x) = refunded_sum d (inv_id x) + pwd_amountMinor b"
    and "captured_sum d' i = captured_sum d i"
    and "refunded_status d1 x =
      (if refunded_sum d' (inv_id x) = captured_sum d (inv_id x) then REFUNDED else PARTIALLY_REFUNDED)"
proof -
  let ?n = "pay_refundedMinor p + pwd_amountMinor b" and ?c = "captured_sum d (inv_id x)"
  let ?r = "issued_refund e provider b x p t"
  note cb = captured_sum_bounds [OF ok x]
  have u: "invoice_ids_unique d" and pu: "payment_ids_unique d" and ivc: "invoice_ok d x"
    and rok: "refunds_ok d" and pok: "payment_ok d p"
    using ok x p by (simp_all add: ledger_ok_def)
  have col: "collation d' = collation d" by (simp add: d')
  have pays: "payments d' = payments (after_refund d p ?n)" by (simp add: d' d1)
  have sums: "captured_sum d' i = captured_sum d i"
    "refunded_sum d' i = refunded_sum d i + (if sql_eq d (inv_id x) i then pwd_amountMinor b else 0)" for i
    using sums_refund [OF pu p pays col, of i] px by simp_all
  show "captured_sum d' i = captured_sum d i" by (rule sums)
  show rs: "refunded_sum d' (inv_id x) = refunded_sum d (inv_id x) + pwd_amountMinor b" by (simp add: sums)
  have same1: "captured_sum d1 i = captured_sum d i" "refunded_sum d1 i = refunded_sum d' i" for i
    using sums_refund [OF pu p, of d1 ?n i] px by (simp_all add: d1 sums after_refund_def)
  have r_le: "refunded_sum d' (inv_id x) \<le> ?c"
  proof -
    have "refunded_sum d' (inv_id x) \<le> captured_sum d' (inv_id x)"
      unfolding refunded_sum_def captured_sum_def
    proof (rule sum_list_mono)
      fix q assume "q \<in> set (payments_of d' (inv_id x))"
      then have "q \<in> set (payments d')" by (simp add: payments_of_def)
      then consider "q = refunded_to ?n p" | "q \<in> set (payments d)"
        unfolding pays payments_after_refund [OF pu p] by (auto split: if_splits)
      then show "pay_refundedMinor q \<le> pay_amountMinor q"
      proof cases
        case 1
        then show ?thesis using room by (simp add: refunded_to_def)
      next
        case 2
        then have "payment_ok d q" using ok by (simp add: ledger_ok_def)
        then show ?thesis by (simp add: payment_ok_def)
      qed
    qed
    then show ?thesis by (simp add: sums)
  qed
  have r_pos: "0 < refunded_sum d' (inv_id x)"
    using payments_nonneg(1) [OF ok, of "inv_id x"] amount by (simp add: rs)
  have t32: "inv_totalMinor x < 2 ^ 32" using ivc by (simp add: invoice_ok_def)
  have exact: "capturedTotal d1 (inv_id x) = JInt ?c"
    "refundedTotal d1 (inv_id x) = JInt (refunded_sum d' (inv_id x))"
  proof -
    have "\<bar>captured_sum d1 (inv_id x)\<bar> \<le> 2 ^ 53" "\<bar>refunded_sum d1 (inv_id x)\<bar> \<le> 2 ^ 53"
      using cb r_pos r_le t32 by (simp_all add: same1)
    from this [THEN round64_int] show "capturedTotal d1 (inv_id x) = JInt ?c"
      "refundedTotal d1 (inv_id x) = JInt (refunded_sum d' (inv_id x))"
      unfolding same1 by (simp_all add: capturedTotal_def refundedTotal_def flip: captured_sum_def refunded_sum_def add: same1)
  qed
  show st: "refunded_status d1 x =
      (if refunded_sum d' (inv_id x) = ?c then REFUNDED else PARTIALLY_REFUNDED)"
    unfolding refunded_status_def exact by simp
  have ivcs: "invoices d' = map (\<lambda>y. if y = x then moved (refunded_status d1 x) x else y) (invoices d)"
    by (simp add: d' update_same_id [OF u x])
  have ids: "inv_id ` set (invoices d) \<subseteq> inv_id ` set (invoices d')" unfolding ivcs moved_ids ..
  have plist: "payments d' = map (\<lambda>y. if y = p then refunded_to ?n p else y) (payments d)"
    unfolding pays by (rule payments_after_refund [OF pu p])
  show "ledger_ok d'"
  proof (rule ledger_move [OF ok x col ivcs])
    show "captured_sum d' (inv_id y) = captured_sum d (inv_id y) \<and>
        refunded_sum d' (inv_id y) = refunded_sum d (inv_id y)" if "y \<in> set (invoices d)" "y \<noteq> x" for y
      using that same_invoice [OF u x] by (simp add: sums)
    show "money_ok (refunded_status d1 x) (inv_totalMinor x) (captured_sum d' (inv_id x))
        (refunded_sum d' (inv_id x))"
      using r_pos r_le cb by (simp add: st sums(1))
    have "map (payment_key d') (payments d') = map (payment_key d) (payments d)"
      by (auto simp: plist payment_key_def col refunded_to_def)
    then show "payment_ids_unique d'" using pu by (simp add: payment_ids_unique_def)
    show "refunds_ok d'"
      unfolding refunds_ok_def
    proof
      fix r assume "r \<in> set (refunds d')"
      then have "\<exists>q \<in> set (payments d). pay_id q = rfd_paymentId r"
        using rok p by (auto simp: d' refunds_ok_def issued_refund_def)
      moreover have "pay_id ` set (payments d') = pay_id ` set (payments d)"
      proof -
        have "map pay_id (payments d') = map pay_id (payments d)" by (auto simp: plist refunded_to_def)
        then show ?thesis by (metis list.set_map)
      qed
      ultimately show "\<exists>q \<in> set (payments d'). pay_id q = rfd_paymentId r"
        by (metis (no_types, lifting) imageE imageI)
    qed
    have refs: "refunds_of d' q = refunds_of d q @ (if q = p then [?r] else [])"
      if "q \<in> set (payments d)" for q
      using refunds_of_key [OF pu p that, of ?r] by (simp add: refunds_of_def d' sql_eq_def issued_refund_def)
    show "\<forall>q \<in> set (payments d'). payment_ok d' q"
    proof
      fix q assume "q \<in> set (payments d')"
      then consider "q = refunded_to ?n p" | "q \<in> set (payments d)" "q \<noteq> p"
        unfolding plist by (auto split: if_splits)
      then show "payment_ok d' q"
      proof cases
        case 1
        have "inv_id x \<in> inv_id ` set (invoices d')" using ids x by blast
        then have "\<exists>ivc \<in> set (invoices d'). inv_id ivc = inv_id x" by auto
        moreover have "refunds_of d' q = refunds_of d p @ [?r]"
          using refs [OF p] 1 by (simp add: refunds_of_def refunded_to_def)
        ultimately show ?thesis
          using 1 pok room amount px
          by (simp add: payment_ok_def refunded_to_def payment_status_of_def issued_refund_def)
      next
        case 2
        then have "payment_ok d q" using ok by (simp add: ledger_ok_def)
        then have "payment_ok (d'\<lparr>refunds := refunds d\<rparr>) q"
          by (rule payment_ok_cong) (simp_all add: d' ids [unfolded d', simplified])
        then show ?thesis using refs [OF 2(1)] 2(2)
          by (simp add: payment_ok_def refunds_of_def sql_eq_def col)
      qed
    qed
  qed
qed

section \<open>The steps of the API\<close>

text \<open>
  One request that changes the database, with any interference its reads allow: a creation
  whose reads and retry see any state, a status change whose read came earlier, and a webhook whose
  retry sees any state. Requests are validated by their DTO classes first.
\<close>

inductive api_step ::
  "(string \<Rightarrow> char list \<Rightarrow> char list) \<Rightarrow> (char list \<Rightarrow> char list) \<Rightarrow> (string \<Rightarrow> int option) \<Rightarrow> ApiConfig \<Rightarrow>
   database \<Rightarrow> database \<Rightarrow> bool"
  for hmac sha256 date_of config where
  step_create:
    "create_from sha256 e actor rawKey requestId b d_read d d_retry = (res, d', ms) \<Longrightarrow>
       api_step hmac sha256 date_of config d d'"
| step_transition:
    "transition_from e actor invoiceId requestId b d_read d = (res, d') \<Longrightarrow> update_dto_valid b \<Longrightarrow>
       later d_read d \<Longrightarrow> api_step hmac sha256 date_of config d d'"
| step_webhook:
    "handleWebhook_from hmac sha256 date_of e config provider timestamp signature rawBody b requestId
       d d_retry = (res, d', ms) \<Longrightarrow> webhook_dto_valid is_uuid is_iso8601 b \<Longrightarrow>
       api_step hmac sha256 date_of config d d'"

inductive_cases api_step_E: "api_step hmac sha256 date_of config d d'"

definition ledger_start :: "database \<Rightarrow> bool" where
  "ledger_start d \<longleftrightarrow> invoices d = [] \<and> payments d = [] \<and> refunds d = []"

lemma create_from_cases:
  assumes "create_from sha256 e actor rawKey requestId b d_read d d_retry = (res, d', ms)"
  obtains "d' = d"
  | key store c r where "calculateInvoice (calc_of b) = Inr c" and "res = Inr r"
    "create_write e actor key (requestFingerprint sha256 (dto_json b)) requestId b store c d = Inr (r, d')"
proof (cases res)
  case (Inl err)
  then show ?thesis
    using assms that(1)
    by (auto simp: create_from_def Let_def split: sum.splits if_splits option.splits prod.splits)
next
  case (Inr r)
  then show ?thesis
    using assms that unfolding Inr create_from_Inr_iff create_read_Proceed by blast
qed

lemma transition_from_cases:
  assumes "transition_from e actor invoiceId requestId b d_read d = (res, d')"
  obtains "d' = d" | r where "res = Inr r"
    "transition_from e actor invoiceId requestId b d_read d = (Inr r, d')"
  using assms that by (cases res) (auto simp: transition_from_def transaction_Inl)

lemma handleWebhook_cases:
  assumes "handleWebhook_from hmac sha256 date_of e config provider timestamp signature rawBody b requestId
       d d_retry = (res, d', ms)"
  obtains "d' = d" | resp where "res = Inr resp"
    "process_event date_of e provider (hex_of_bytes (sha256 rawBody)) b requestId d = Inr (resp, d')"
  using assms that
  by (auto simp: handleWebhook_from_def Let_def res_simps transaction_Inl
      split: if_splits sum.splits prod.splits)

lemma process_event_Inr:
  assumes "process_event date_of e provider hash b requestId d = Inr (resp, d')"
  obtains "d' = d" and "resp = duplicate_response b"
    | d1 rcp where "find_receipt d provider (pwd_providerEventId b) = None"
    and "pwd_eventType b = ''payment.captured'' \<and> capture date_of e provider b requestId d = Inr (resp, d1) \<or>
      pwd_eventType b \<noteq> ''payment.captured'' \<and> refund_payment date_of e provider b requestId d = Inr (resp, d1)"
    and "insert_receipt rcp d1 = Inr d'" and "d' = d1\<lparr>webhook_receipts := webhook_receipts d1 @ [rcp]\<rparr>"
    and "rcp_provider rcp = provider" "rcp_providerEventId rcp = pwd_providerEventId b"
      "rcp_payloadHash rcp = hash"
proof (cases "find_receipt d provider (pwd_providerEventId b)")
  case (Some r)
  then show ?thesis using assms that(1) by (auto simp: process_event_def split: if_splits)
next
  case None
  define rcp where "rcp = \<lparr>rcp_id = uuid e 3, rcp_provider = provider,
     rcp_providerEventId = pwd_providerEventId b, rcp_eventType = pwd_eventType b,
     rcp_payloadHash = hash, rcp_receivedAt = db_now e\<rparr>"
  from assms None obtain d1 where
    "(if pwd_eventType b = ''payment.captured'' then capture date_of e provider b requestId d
      else refund_payment date_of e provider b requestId d) = Inr (resp, d1)"
    and ins: "insert_receipt rcp d1 = Inr d'"
    unfolding process_event_def rcp_def by (auto simp: bindE_Inr_conv)
  then show ?thesis
    using that(2) [OF None _ ins] by (auto simp: insert_receipt_Inr rcp_def split: if_splits)
qed

lemma ledger_receipts:
  "ledger_ok (d\<lparr>webhook_receipts := rs\<rparr>) \<longleftrightarrow> ledger_ok d"
  by (simp add: ledger_ok_def invoice_ids_unique_def invoice_key_def [abs_def] payment_ids_unique_def
      payment_key_def [abs_def] invoice_ok_def captured_sum_def refunded_sum_def payments_of_def
      sql_eq_def payment_ok_def refunds_of_def refunds_ok_def)

lemma ledger_create:
  assumes ok: "ledger_ok d" and c: "calculateInvoice (calc_of b) = Inr c"
    and w: "create_write e actor key fp requestId b store c d = Inr (r, d')"
  shows "ledger_ok d'"
  using w
proof (rule create_write_Inr, goal_cases)
  case (1 a lines)
  let ?ivc = "new_invoice e actor b store a"
  note am = new_invoice_amounts [OF c 1(1,3)]
  have col: "collation d' = collation d" and ivcs: "invoices d' = invoices d @ [?ivc]"
    and pays: "payments d' = payments d" and refs: "refunds d' = refunds d"
    using 1(6) by simp_all
  have ins: "insert_invoice ?ivc d = Inr (d\<lparr>invoices := invoices d @ [?ivc]\<rparr>)"
    using 1(3) by (simp add: insert_invoice_Inr)
  have sums: "captured_sum d' i = captured_sum d i" "refunded_sum d' i = refunded_sum d i" for i
    by (rule captured_sum_cong [OF pays col])+
  have "\<not> sql_eq d (pay_invoiceId p) (inv_id ?ivc)" if "p \<in> set (payments d)" for p
  proof
    assume eq: "sql_eq d (pay_invoiceId p) (inv_id ?ivc)"
    have "payment_ok d p" using ok that by (simp add: ledger_ok_def)
    then obtain y where y: "y \<in> set (invoices d)" "inv_id y = pay_invoiceId p"
      unfolding payment_ok_def by blast
    then have "invoice_key d y = invoice_key d ?ivc" using eq by (simp add: invoice_key_def sql_eq_def)
    then show False using invoice_table.ins_fresh [OF ins] y(1) by (metis imageI)
  qed
  then have "payments_of d (inv_id ?ivc) = []" by (simp add: payments_of_def filter_empty_conv)
  then have zero: "captured_sum d (inv_id ?ivc) = 0" "refunded_sum d (inv_id ?ivc) = 0"
    by (simp_all add: captured_sum_def refunded_sum_def)
  have tot: "inv_totalMinor ?ivc = dto_taxable b + dto_tax b" "inv_status ?ivc = ISSUED"
    using am by (simp_all add: new_invoice_def)
  have "invoice_ok d' ?ivc"
    unfolding invoice_ok_def sums zero tot using am(6-8) by simp
  moreover have "invoice_ids_unique d'"
    using invoice_table.ins_distinct [OF ins] ok
    by (simp add: ledger_ok_def invoice_ids_unique_def invoice_key_def [abs_def] ivcs col)
  moreover have "payment_ok d' p" if "p \<in> set (payments d)" for p
  proof -
    have "payment_ok d p" using ok that by (simp add: ledger_ok_def)
    then show ?thesis by (rule payment_ok_cong [OF _ col refs]) (auto simp: ivcs)
  qed
  ultimately show ?case
    using ok by (auto simp: ledger_ok_def ivcs pays refs payment_ids_unique_def payment_key_def [abs_def]
        col refunds_ok_def invoice_ok_def sums)
qed

lemma ledger_step:
  assumes ok: "ledger_ok d" and step: "api_step hmac sha256 date_of config d d'"
  shows "ledger_ok d'"
  using step
proof (cases rule: api_step.cases)
  case (step_create e actor rawKey requestId b d_read d_retry res ms)
  from step_create(1) show ?thesis
    by (rule create_from_cases) (use ok ledger_create in auto)
next
  case (step_transition e actor invoiceId requestId b d_read res)
  have u: "invoice_ids_unique d" using ok by (simp add: ledger_ok_def)
  from step_transition(1) show ?thesis
  proof (rule transition_from_cases)
    fix r assume "transition_from e actor invoiceId requestId b d_read d = (Inr r, d')"
    then have "transition e actor invoiceId requestId b d = (Inr r, d')"
      using step_transition(3) u by (rule transition_from_later)
    then show ?thesis
      unfolding transition_def using u
    proof (rule transition_Inr, goal_cases)
      case (1 ivc x)
      then have "x = ivc" by simp
      with 1 have "may_become (inv_status x) (upd_status b)" by simp
      moreover have "x \<in> set (invoices d)" using 1(6) find_invoice_iff [OF u] by blast
      moreover have "upd_status b \<in> {PAID, CANCELLED}"
        using step_transition(2) by (simp add: update_dto_valid_def)
      ultimately show ?thesis by (intro ledger_status_change [OF ok _ _ _ 1(8)])
    qed
  qed (use ok in simp)
next
  case (step_webhook e provider timestamp signature rawBody b requestId d_retry res ms is_uuid is_iso8601)
  have u: "invoice_ids_unique d" using ok by (simp add: ledger_ok_def)
  have amount: "1 \<le> pwd_amountMinor b" "pwd_amountMinor b \<le> 100000000"
    using step_webhook(2) by (simp_all add: webhook_dto_valid_def)
  from step_webhook(1) show ?thesis
  proof (rule handleWebhook_cases)
    fix resp assume "process_event date_of e provider (hex_of_bytes (sha256 rawBody)) b requestId d = Inr (resp, d')"
    then show ?thesis
    proof (rule process_event_Inr)
      fix d1 rcp assume d': "d' = d1\<lparr>webhook_receipts := webhook_receipts d1 @ [rcp]\<rparr>"
        and "pwd_eventType b = ''payment.captured'' \<and> capture date_of e provider b requestId d = Inr (resp, d1) \<or>
          pwd_eventType b \<noteq> ''payment.captured'' \<and> refund_payment date_of e provider b requestId d = Inr (resp, d1)"
      then consider "capture date_of e provider b requestId d = Inr (resp, d1)"
        | "refund_payment date_of e provider b requestId d = Inr (resp, d1)" by blast
      then have "ledger_ok d1"
      proof cases
        case 1
        then show ?thesis
        proof (rule capture_Inr, goal_cases)
          case (1 ivc t aud)
          then have "ivc \<in> set (invoices d)" using find_invoice_iff [OF u] by blast
          then show ?thesis using ledger_capture(1) [OF ok _ 1(2,4) amount 1(5,6)] by blast
        qed
      next
        case 2
        then show ?thesis
        proof (rule refund_payment_Inr, goal_cases)
          case (1 ivc p t aud d2)
          then have "ivc \<in> set (invoices d)" using find_invoice_iff [OF u] by blast
          then show ?thesis using ledger_refund(1) [OF ok _ 1(2,3,4,6) amount(1) 1(8,9)] by blast
        qed
      qed
      then show ?thesis by (simp add: d' ledger_receipts)
    qed (use ok in simp)
  qed (use ok in simp)
qed

interpretation ledger: inductive_invariant ledger_start "api_step hmac sha256 date_of config" ledger_ok
  for hmac sha256 date_of config
proof
  show "ledger_start d \<Longrightarrow> ledger_ok d" for d
    by (simp add: ledger_start_def ledger_ok_def invoice_ids_unique_def payment_ids_unique_def refunds_ok_def)
qed (rule ledger_step)

section \<open>What becomes of one invoice\<close>

text \<open>The row of an invoice before and after a step.\<close>

definition same_or_moved :: "invoice \<Rightarrow> invoice \<Rightarrow> bool" where
  "same_or_moved x y \<longleftrightarrow> y = x \<or> (\<exists>s. y = moved s x \<and>
     (may_become (inv_status x) s \<or> s = inv_status x \<and> s \<in> {PARTIALLY_PAID, PARTIALLY_REFUNDED}))"

lemma moved_row:
  assumes u: "invoice_ids_unique d" and x: "x \<in> set (invoices d)"
    and col: "collation d' = collation d"
    and ivcs: "invoices d' = map (\<lambda>y. if y = x then moved s x else y) (invoices d)"
    and ok: "may_become (inv_status x) s \<or> s = inv_status x \<and> s \<in> {PARTIALLY_PAID, PARTIALLY_REFUNDED}"
    and f: "find_invoice d i = Some r"
  shows "\<exists>y. find_invoice d' i = Some y \<and> same_or_moved r y"
proof -
  have fx: "find_invoice d (inv_id x) = Some x" using find_invoice_iff [OF u] x by simp
  show ?thesis
  proof (cases "sql_eq d i (inv_id x)")
    case True
    then have "r = x" using f fx by (simp add: find_invoice_def sql_eq_def)
    then show ?thesis
      using find_moved(2) [OF u fx col ivcs, of i] True ok by (auto simp: same_or_moved_def)
  next
    case False
    then show ?thesis
      using find_moved(2) [OF u fx col ivcs, of i] f by (auto simp: same_or_moved_def)
  qed
qed

lemma captured_status_ok:
  "inv_status x \<in> {ISSUED, PARTIALLY_PAID} \<Longrightarrow> may_become (inv_status x) (captured_status d b x) \<or>
     captured_status d b x = inv_status x \<and> captured_status d b x \<in> {PARTIALLY_PAID, PARTIALLY_REFUNDED}"
  by (auto simp: captured_status_def may_become_iff)

lemma refunded_status_ok:
  "inv_status x \<in> {PAID, PARTIALLY_REFUNDED} \<Longrightarrow> may_become (inv_status x) (refunded_status d x) \<or>
     refunded_status d x = inv_status x \<and> refunded_status d x \<in> {PARTIALLY_PAID, PARTIALLY_REFUNDED}"
  by (auto simp: refunded_status_def may_become_iff)

lemma event_row:
  assumes u: "invoice_ids_unique d"
    and run: "process_event date_of e provider hash b requestId d = Inr (resp, d')"
    and f: "find_invoice d i = Some r"
  shows "\<exists>y. find_invoice d' i = Some y \<and> same_or_moved r y"
  using run
proof (rule process_event_Inr)
  fix d1 rcp assume d': "d' = d1\<lparr>webhook_receipts := webhook_receipts d1 @ [rcp]\<rparr>"
    and "pwd_eventType b = ''payment.captured'' \<and> capture date_of e provider b requestId d = Inr (resp, d1) \<or>
      pwd_eventType b \<noteq> ''payment.captured'' \<and> refund_payment date_of e provider b requestId d = Inr (resp, d1)"
  then consider "capture date_of e provider b requestId d = Inr (resp, d1)"
    | "refund_payment date_of e provider b requestId d = Inr (resp, d1)" by blast
  then have "\<exists>y. find_invoice d1 i = Some y \<and> same_or_moved r y"
  proof cases
    case 1
    then show ?thesis
    proof (rule capture_Inr, goal_cases)
      case (1 x t aud)
      then have x: "x \<in> set (invoices d)" using find_invoice_iff [OF u] by blast
      show ?thesis
        by (rule moved_row [OF u x _ _ captured_status_ok [OF 1(2), of d b] f])
          (simp_all add: 1(6) update_same_id [OF u x])
    qed
  next
    case 2
    then show ?thesis
    proof (rule refund_payment_Inr, goal_cases)
      case (1 x p t aud d2)
      then have x: "x \<in> set (invoices d)" using find_invoice_iff [OF u] by blast
      show ?thesis
        by (rule moved_row [OF u x _ _ refunded_status_ok [OF 1(4), of d2] f])
          (simp_all add: 1(9) update_same_id [OF u x])
    qed
  qed
  then show ?thesis by (simp add: d' find_invoice_def sql_eq_def)
qed (use f in \<open>auto simp: same_or_moved_def\<close>)

lemma step_row:
  assumes ok: "ledger_ok d" and step: "api_step hmac sha256 date_of config d d'"
    and f: "find_invoice d i = Some r"
  shows "\<exists>y. find_invoice d' i = Some y \<and> same_or_moved r y"
  using step
proof (cases rule: api_step.cases)
  case (step_create e actor rawKey requestId b d_read d_retry res ms)
  from step_create(1) show ?thesis
  proof (rule create_from_cases)
    fix key store c r' assume "create_write e actor key (requestFingerprint sha256 (dto_json b)) requestId
      b store c d = Inr (r', d')"
    then show ?thesis
      by (rule create_write_Inr)
        (use f in \<open>auto simp: find_invoice_def sql_eq_def find_append same_or_moved_def\<close>)
  qed (use f in \<open>auto simp: same_or_moved_def\<close>)
next
  case (step_transition e actor invoiceId requestId b d_read res)
  have u: "invoice_ids_unique d" using ok by (simp add: ledger_ok_def)
  from step_transition(1) show ?thesis
  proof (rule transition_from_cases)
    fix r' assume "transition_from e actor invoiceId requestId b d_read d = (Inr r', d')"
    then have "transition e actor invoiceId requestId b d = (Inr r', d')"
      using step_transition(3) u by (rule transition_from_later)
    then show ?thesis
      unfolding transition_def using u
    proof (rule transition_Inr, goal_cases)
      case (1 ivc x)
      then have x: "x = ivc" "x \<in> set (invoices d)" using find_invoice_iff [OF u] by auto
      with 1(2) have "may_become (inv_status x) (upd_status b)" by simp
      then show ?thesis
        by (intro moved_row [OF u x(2) _ _ _ f, where s = "upd_status b"]) (simp_all add: 1(8))
    qed
  qed (use f in \<open>auto simp: same_or_moved_def\<close>)
next
  case (step_webhook e provider timestamp signature rawBody b requestId d_retry res ms is_uuid is_iso8601)
  have u: "invoice_ids_unique d" using ok by (simp add: ledger_ok_def)
  from step_webhook(1) show ?thesis
    by (rule handleWebhook_cases) (use f event_row [OF u _ f] in \<open>auto simp: same_or_moved_def\<close>)
qed

lemma same_or_moved_stage: "same_or_moved x y \<Longrightarrow> stage (inv_status x) \<le> stage (inv_status y) \<and>
    inv_totalMinor y = inv_totalMinor x \<and> inv_version x \<le> inv_version y"
  by (auto simp: same_or_moved_def dest: may_become_stage)

lemma same_or_moved_end:
  "same_or_moved x y \<Longrightarrow> inv_status x \<in> {REFUNDED, CANCELLED} \<Longrightarrow> y = x"
  by (auto simp: same_or_moved_def may_become_iff)

lemma steps_row:
  assumes "(api_step hmac sha256 date_of config)\<^sup>*\<^sup>* d d'" and "ledger_ok d"
    and "find_invoice d i = Some x"
  shows "\<exists>y. find_invoice d' i = Some y \<and> same_or_moved\<^sup>*\<^sup>* x y"
  using assms
proof (induction rule: rtranclp_induct)
  case base
  then show ?case by auto
next
  case (step d1 d2)
  then obtain y where y: "find_invoice d1 i = Some y" "same_or_moved\<^sup>*\<^sup>* x y" by blast
  have "ledger_ok d1" using ledger.steps_inv [OF step(1)] step.prems by blast
  from step_row [OF this step(2) y(1)] obtain z where "find_invoice d2 i = Some z" "same_or_moved y z"
    by blast
  with y(2) show ?case by (auto intro: rtranclp.rtrancl_into_rtrancl)
qed

section \<open>Every change is accounted for\<close>

text \<open>
  The contract of the operations that write: one that throws leaves the database as it was, and one
  that returns has either changed nothing or added exactly one event to the outbox, still to be
  published, and one entry to the audit log, both filed under the same merchant.
\<close>

definition one_log_entry :: "database \<Rightarrow> database \<Rightarrow> bool" where
  "one_log_entry d d' \<longleftrightarrow> (\<exists>ob aud. outbox_events d' = outbox_events d @ [ob] \<and>
     audit_events d' = audit_events d @ [aud] \<and> obx_status ob = PENDING \<and>
     obx_merchantId ob = aud_merchantId aud \<and> evp_eventId (obx_payload ob) = obx_id ob \<and>
     fresh_event d ob) \<and> collation d' = collation d"

locale accountable_operation =
  fixes run :: "'q \<Rightarrow> database \<Rightarrow> (exn + 'r) \<times> database"
  assumes failure_keeps: "run q d = (Inl e, d') \<Longrightarrow> d' = d"
    and success_logs: "run q d = (Inr r, d') \<Longrightarrow> d' = d \<or> one_log_entry d d'"
begin

lemma outcome: "run q d = (res, d') \<Longrightarrow> d' = d \<or> one_log_entry d d'"
  by (cases res) (auto dest: failure_keeps success_logs)

lemma audit_grows: "run q d = (res, d') \<Longrightarrow> prefix (audit_events d) (audit_events d')"
  by (drule outcome) (auto simp: one_log_entry_def)

lemma outbox_grows: "run q d = (res, d') \<Longrightarrow> prefix (outbox_events d) (outbox_events d')"
  by (drule outcome) (auto simp: one_log_entry_def)

lemma logs_balance:
  "run q d = (res, d') \<Longrightarrow> length (outbox_events d') + length (audit_events d) =
     length (outbox_events d) + length (audit_events d')"
  by (drule outcome) (auto simp: one_log_entry_def)

end

lemma create_write_logged:
  assumes "create_write e actor key fp requestId b store c d = Inr (r, d')"
  shows "one_log_entry d d'"
  using assms
  by (rule create_write_Inr)
    (simp add: one_log_entry_def issued_event_def pending_event_def created_audit_def audit_row_def
      new_invoice_def invoice_payload_def)

text \<open>The result and the database a method leaves, without its counter increments.\<close>

definition outcome_of :: "'r \<times> database \<times> metric list \<Rightarrow> 'r \<times> database" where
  "outcome_of x = (fst x, fst (snd x))"

lemma outcome_of_eq: "outcome_of x = (r, d') \<longleftrightarrow> (\<exists>ms. x = (r, d', ms))"
  by (cases x) (simp add: outcome_of_def)

interpretation creation: accountable_operation
  "\<lambda>(d_read, d_retry) d. outcome_of (create_from sha256 e actor rawKey requestId b d_read d d_retry)"
  for sha256 e actor rawKey requestId b
proof (unfold_locales, goal_cases)
  case (1 q d err d')
  obtain d_read d_retry where q: "q = (d_read, d_retry)" by (cases q)
  from 1 q obtain ms where
    "create_from sha256 e actor rawKey requestId b d_read d d_retry = (Inl err, d', ms)"
    by (auto simp: outcome_of_eq)
  then show ?case by (rule create_from_cases) auto
next
  case (2 q d r d')
  obtain d_read d_retry where q: "q = (d_read, d_retry)" by (cases q)
  from 2 q obtain ms where
    "create_from sha256 e actor rawKey requestId b d_read d d_retry = (Inr r, d', ms)"
    by (auto simp: outcome_of_eq)
  then show ?case by (rule create_from_cases) (auto dest: create_write_logged)
qed

lemma transition_logged:
  assumes "transition_from e actor invoiceId requestId b d_read d = (Inr r, d')"
  shows "one_log_entry d d'"
proof -
  from assms obtain ivc where "transition_write e actor invoiceId requestId b ivc d = Inr (r, d')"
    by (auto simp: transition_from_def res_simps)
  from transition_write_Inr [OF this] show ?thesis
    by (simp add: one_log_entry_def status_event_def pending_event_def status_audit_def audit_row_def
        invoice_payload_def)
qed

interpretation status_change: accountable_operation
  "\<lambda>d_read d. transition_from e actor invoiceId requestId b d_read d"
  for e actor invoiceId requestId b
proof (unfold_locales, goal_cases)
  case (1 d_read d err d')
  then show ?case by (simp add: transition_from_def transaction_Inl)
qed (simp add: transition_logged)

lemma payment_event_fields:
  "obx_status (payment_event e ivc t b s) = PENDING"
  "obx_merchantId (payment_event e ivc t b s) = inv_merchantId ivc"
  "evp_eventId (obx_payload (payment_event e ivc t b s)) = obx_id (payment_event e ivc t b s)"
  by (simp_all add: payment_event_def pending_event_def payment_payload_def invoice_payload_def)

lemma payment_logged:
  "capture date_of e provider b requestId d = Inr (resp, d') \<Longrightarrow> one_log_entry d d'"
  "refund_payment date_of e provider b requestId d = Inr (resp, d') \<Longrightarrow> one_log_entry d d'"
  by (erule capture_Inr, simp add: one_log_entry_def payment_event_fields)
    (erule refund_payment_Inr, simp add: one_log_entry_def payment_event_fields)

lemma process_event_logged:
  assumes "process_event date_of e provider hash b requestId d = Inr (resp, d')"
  shows "d' = d \<or> one_log_entry d d'"
  using assms
proof (rule process_event_Inr)
  fix d1 rcp assume d': "d' = d1\<lparr>webhook_receipts := webhook_receipts d1 @ [rcp]\<rparr>"
    and "pwd_eventType b = ''payment.captured'' \<and> capture date_of e provider b requestId d = Inr (resp, d1) \<or>
      pwd_eventType b \<noteq> ''payment.captured'' \<and> refund_payment date_of e provider b requestId d = Inr (resp, d1)"
  then consider "capture date_of e provider b requestId d = Inr (resp, d1)"
    | "refund_payment date_of e provider b requestId d = Inr (resp, d1)" by blast
  then have "one_log_entry d d1"
    by cases (rule payment_logged, assumption)+
  then show ?thesis by (simp add: d' one_log_entry_def)
qed simp

interpretation webhook: accountable_operation
  "\<lambda>d_retry d. outcome_of (handleWebhook_from hmac sha256 date_of e config provider timestamp signature
     rawBody b requestId d d_retry)"
  for hmac sha256 date_of e config provider timestamp signature rawBody b requestId
proof (unfold_locales, goal_cases)
  case (1 d_retry d err d')
  then obtain ms where "handleWebhook_from hmac sha256 date_of e config provider timestamp signature
      rawBody b requestId d d_retry = (Inl err, d', ms)" by (auto simp: outcome_of_eq)
  then show ?case by (rule handleWebhook_cases) auto
next
  case (2 d_retry d r d')
  then obtain ms where "handleWebhook_from hmac sha256 date_of e config provider timestamp signature
      rawBody b requestId d d_retry = (Inr r, d', ms)" by (auto simp: outcome_of_eq)
  then show ?case by (rule handleWebhook_cases) (auto dest: process_event_logged)
qed

lemma step_outcome:
  assumes "api_step hmac sha256 date_of config d d'"
  shows "d' = d \<or> one_log_entry d d'"
  using assms
proof (cases rule: api_step.cases)
  case (step_create e actor rawKey requestId b d_read d_retry res ms)
  then show ?thesis
    using creation.outcome [of sha256 e actor rawKey requestId b "(d_read, d_retry)" d res d']
    by (simp add: outcome_of_def)
next
  case (step_transition e actor invoiceId requestId b d_read res)
  then show ?thesis by (intro status_change.outcome)
next
  case (step_webhook e provider timestamp signature rawBody b requestId d_retry res ms is_uuid is_iso8601)
  then have "outcome_of (handleWebhook_from hmac sha256 date_of e config provider
      timestamp signature rawBody b requestId d d_retry) = (res, d')" by (simp add: outcome_of_def)
  then show ?thesis by (rule webhook.outcome)
qed

section \<open>Properties of the reachable databases\<close>

text \<open>A run of the sample: an invoice is created, paid and partly refunded.\<close>

lemma events_valid:
  "webhook_dto_valid (\<lambda>_. True) (\<lambda>_. True) capture_event"
  "webhook_dto_valid (\<lambda>_. True) (\<lambda>_. True) refund_event"
  by code_simp+

lemma sample_start: "ledger_start sample_db"
  by (simp add: ledger_start_def sample_db_def empty_database_def)

lemma sample_steps:
  "api_step sample_hmac sample_hash sample_date sample_config sample_db created_db"
  "api_step sample_hmac sample_hash sample_date sample_config created_db paid_db"
  "api_step sample_hmac sample_hash sample_date sample_config paid_db refunded_db"
  by (rule step_create [OF sample_created [unfolded create_def]],
      rule step_webhook [OF sample_paid events_valid(1)],
      rule step_webhook [OF sample_refunded events_valid(2)])

lemma sample_reach:
  "reach ledger_start (api_step sample_hmac sample_hash sample_date sample_config) created_db"
  "reach ledger_start (api_step sample_hmac sample_hash sample_date sample_config) paid_db"
  "reach ledger_start (api_step sample_hmac sample_hash sample_date sample_config) refunded_db"
  by (meson reach.intros sample_start sample_steps)+

lemma find_invoice_mem: "find_invoice d i = Some ivc \<Longrightarrow> ivc \<in> set (invoices d)"
  by (auto simp: find_invoice_def find_Some_iff)

lemma refunded_found: "\<exists>ivc. find_invoice refunded_db ''0'' = Some ivc \<and> inv_id ivc = ''0''"
proof -
  have "(case find_invoice refunded_db ''0'' of None \<Rightarrow> False | Some ivc \<Rightarrow> inv_id ivc = ''0'')"
    by code_simp
  then show ?thesis by (auto split: option.splits)
qed

lemma refunded_payment: "\<exists>p. p \<in> set (payments refunded_db) \<and> 0 < pay_refundedMinor p"
proof -
  have "list_ex (\<lambda>p. 0 < pay_refundedMinor p) (payments refunded_db)" by code_simp
  then show ?thesis by (auto simp: list_ex_iff)
qed

lemma captured_sample: "captured_sum refunded_db ''0'' = 1180"
  by code_simp

text \<open>C9: An invoice's status tells the state of its money: nothing is captured for an issued or
  cancelled invoice, something but not all for a partially paid one, nothing is refunded before
  the refund statuses, part of the captured amount for a partially refunded and all of it for a
  refunded invoice.\<close>

theorem status_reflects_money:
  assumes "reach ledger_start (api_step hmac sha256 date_of config) d"
    and "ivc \<in> set (invoices d)"
  shows "money_ok (inv_status ivc) (inv_totalMinor ivc) (captured_sum d (inv_id ivc))
    (refunded_sum d (inv_id ivc))"
  using ledger.reach_inv [OF assms(1)] assms(2) by (simp add: ledger_ok_def invoice_ok_def)

theorem status_reflects_money_witness:
  "\<exists>ivc. find_invoice refunded_db ''0'' = Some ivc \<and>
     money_ok (inv_status ivc) (inv_totalMinor ivc) 1180 (refunded_sum refunded_db ''0'')"
proof -
  obtain ivc where i: "find_invoice refunded_db ''0'' = Some ivc" "inv_id ivc = ''0''"
    using refunded_found by blast
  from status_reflects_money [OF sample_reach(3) find_invoice_mem [OF i(1)]] i captured_sample
  show ?thesis by simp
qed

text \<open>The refunds of a payment add up: the refunded amount a payment row carries is the sum of
  its refund rows and at most its amount, and its status says whether none, some or all of it
  was refunded.\<close>

theorem refunds_add_up:
  assumes "reach ledger_start (api_step hmac sha256 date_of config) d" and "p \<in> set (payments d)"
  shows "sum_list (map rfd_amountMinor (filter (\<lambda>r. sql_eq d (rfd_paymentId r) (pay_id p)) (refunds d)))
      = pay_refundedMinor p \<and>
    pay_refundedMinor p \<le> pay_amountMinor p \<and>
    pay_status p = (if pay_refundedMinor p = 0 then Pay_CAPTURED
      else if pay_refundedMinor p = pay_amountMinor p then Pay_REFUNDED else Pay_PARTIALLY_REFUNDED)"
  using ledger.reach_inv [OF assms(1)] assms(2)
  by (simp add: ledger_ok_def payment_ok_def refunds_of_def payment_status_of_def)

theorem refunds_add_up_witness:
  "\<exists>p. p \<in> set (payments refunded_db) \<and> 0 < pay_refundedMinor p \<and>
     pay_refundedMinor p \<le> pay_amountMinor p"
proof -
  obtain p where p: "p \<in> set (payments refunded_db)" "0 < pay_refundedMinor p"
    using refunded_payment by blast
  with refunds_add_up [OF sample_reach(3) p(1)] show ?thesis by blast
qed

text \<open>C36: Invoices only move along the lifecycle: a step leaves an invoice as it was or gives it the
  next version and a status its lifecycle allows (a further partial payment or refund keeps the
  status); its identity, owner and amounts never change and it never disappears.\<close>

theorem step_follows_lifecycle:
  assumes "reach ledger_start (api_step hmac sha256 date_of config) d"
    and "api_step hmac sha256 date_of config d d'" and "find_invoice d i = Some x"
  shows "\<exists>y. find_invoice d' i = Some y \<and> (y = x \<or>
    (\<exists>s. y = x\<lparr>inv_status := s, inv_version := inv_version x + 1\<rparr> \<and>
      (s \<in> set (invoiceTransitions (inv_status x)) \<or>
       s = inv_status x \<and> s \<in> {PARTIALLY_PAID, PARTIALLY_REFUNDED})))"
  using step_row [OF ledger.reach_inv [OF assms(1)] assms(2,3)]
  by (simp add: same_or_moved_def moved_def may_become_iff)

lemma created_found: "find_invoice created_db ''0'' = Some created_invoice"
  by (simp add: find_invoice_def created_db_def sql_eq_def created_invoice_def)

theorem step_follows_lifecycle_witness:
  "\<exists>y. find_invoice paid_db ''0'' = Some y \<and> inv_totalMinor y = 1180"
proof -
  have "inv_totalMinor created_invoice = 1180" by (simp add: created_invoice_def)
  then show ?thesis
    using step_follows_lifecycle [OF sample_reach(1) sample_steps(2) created_found] by auto
qed

text \<open>Refunded and cancelled are final: whatever requests follow, such an invoice stays exactly
  as it is, so no payment is ever captured for it again.\<close>

theorem final_status_is_final:
  assumes "reach ledger_start (api_step hmac sha256 date_of config) d"
    and "(api_step hmac sha256 date_of config)\<^sup>*\<^sup>* d d'" and "find_invoice d i = Some x"
    and "inv_status x \<in> {REFUNDED, CANCELLED}"
  shows "find_invoice d' i = Some x"
proof -
  obtain y where y: "find_invoice d' i = Some y" "same_or_moved\<^sup>*\<^sup>* x y"
    using steps_row [OF assms(2) ledger.reach_inv [OF assms(1)] assms(3)] by blast
  from y(2) have "y = x"
    by (induction rule: rtranclp_induct) (use assms(4) same_or_moved_end in blast)+
  with y(1) show ?thesis by simp
qed

lemma changed_step:
  "api_step sample_hmac sample_hash sample_date sample_config created_db changed_db"
  by (rule step_transition [OF sample_changed [unfolded transition_def] _ later_refl])
    (simp add: update_dto_valid_def)

theorem final_status_is_final_witness:
  "\<exists>x. find_invoice changed_db ''0'' = Some x \<and> inv_status x = CANCELLED \<and>
     (\<forall>d'. (api_step sample_hmac sample_hash sample_date sample_config)\<^sup>*\<^sup>* changed_db d' \<longrightarrow>
        find_invoice d' ''0'' = Some x)"
proof -
  have "case find_invoice changed_db ''0'' of None \<Rightarrow> False | Some x \<Rightarrow> inv_status x = CANCELLED"
    by code_simp
  then obtain x where x: "find_invoice changed_db ''0'' = Some x" "inv_status x = CANCELLED"
    by (auto split: option.splits)
  have "reach ledger_start (api_step sample_hmac sample_hash sample_date sample_config) changed_db"
    using sample_reach(1) changed_step by (rule reach_step)
  from final_status_is_final [OF this _ x(1)] x show ?thesis by blast
qed

text \<open>C37: Nothing happens off the record: over any run of requests the audit log and the outbox only
  grow, by equally many entries, and a run that adds none has changed nothing.\<close>

theorem changes_are_recorded:
  assumes "(api_step hmac sha256 date_of config)\<^sup>*\<^sup>* d d'"
  shows "prefix (audit_events d) (audit_events d') \<and> prefix (outbox_events d) (outbox_events d') \<and>
    length (audit_events d') - length (audit_events d) =
      length (outbox_events d') - length (outbox_events d) \<and>
    (length (audit_events d') = length (audit_events d) \<longrightarrow> d' = d)"
  using assms
proof (induction rule: rtranclp_induct)
  case (step d1 d2)
  have le: "length (audit_events d) \<le> length (audit_events d1)"
    "length (outbox_events d) \<le> length (outbox_events d1)"
    using step.IH by (auto dest: prefix_length_le)
  from step_outcome [OF step(2)] consider "d2 = d1"
    | ob aud where "outbox_events d2 = outbox_events d1 @ [ob]" "audit_events d2 = audit_events d1 @ [aud]"
    by (auto simp: one_log_entry_def)
  then show ?case
  proof cases
    case 2
    then show ?thesis using step.IH le by (auto simp: Suc_diff_le)
  qed (use step.IH in simp)
qed simp

theorem changes_are_recorded_witness:
  "prefix (audit_events sample_db) (audit_events refunded_db) \<and>
   prefix (outbox_events sample_db) (outbox_events refunded_db)"
proof -
  have "(api_step sample_hmac sample_hash sample_date sample_config)\<^sup>*\<^sup>* sample_db refunded_db"
    by (meson converse_rtranclp_into_rtranclp rtranclp.rtrancl_refl sample_steps)
  from changes_are_recorded [OF this] show ?thesis by blast
qed

end
