(* ===== verification/PaymentEvents.thy ===== *)
theory PaymentEvents
  imports Ledger
begin

text \<open>
  What the webhook handler does with one delivery: the effect of an accepted capture and refund,
  redelivery of a processed event, and the deliveries it refuses.
\<close>

section \<open>Accepted events\<close>

lemma handled_event:
  assumes "handleWebhook hmac sha256 date_of e config provider timestamp signature rawBody b requestId d
      = (Inr resp, d', ms)"
    and "\<not> pwr_duplicate resp"
  shows "process_event date_of e provider (hex_of_bytes (sha256 rawBody)) b requestId d = Inr (resp, d')"
  using assms
  by (auto simp: handleWebhook_def handleWebhook_from_def Let_def res_simps duplicate_response_def
      split: if_splits sum.splits prod.splits)

lemma handled_change:
  assumes "handleWebhook hmac sha256 date_of e config provider timestamp signature rawBody b requestId d
      = (Inr resp, d', ms)"
    and "\<not> pwr_duplicate resp"
  obtains d1 rcp where
    "pwd_eventType b = ''payment.captured'' \<and> capture date_of e provider b requestId d = Inr (resp, d1) \<or>
      pwd_eventType b \<noteq> ''payment.captured'' \<and> refund_payment date_of e provider b requestId d = Inr (resp, d1)"
    and "d' = d1\<lparr>webhook_receipts := webhook_receipts d1 @ [rcp]\<rparr>"
    and "rcp_provider rcp = provider" "rcp_providerEventId rcp = pwd_providerEventId b"
      "rcp_payloadHash rcp = hex_of_bytes (sha256 rawBody)"
  using handled_event [OF assms]
  by (rule process_event_Inr) (use assms(2) that in \<open>auto simp: duplicate_response_def\<close>)

lemma receipts_irrelevant:
  "find_invoice (d\<lparr>webhook_receipts := rs\<rparr>) i = find_invoice d i"
  "captured_sum (d\<lparr>webhook_receipts := rs\<rparr>) i = captured_sum d i"
  "refunded_sum (d\<lparr>webhook_receipts := rs\<rparr>) i = refunded_sum d i"
  by (simp_all add: find_invoice_def sql_eq_def captured_sum_def refunded_sum_def payments_of_def)

lemma moved_find:
  assumes ok: "ledger_ok d" and x: "x \<in> set (invoices d)"
    and "collation d' = collation d"
    and "invoices d' = update_where (same_id d x) (moved s) (invoices d)"
  shows "find_invoice d' (inv_id x) = Some (moved s x)"
proof -
  have u: "invoice_ids_unique d" using ok by (simp add: ledger_ok_def)
  have fx: "find_invoice d (inv_id x) = Some x" using find_invoice_iff [OF u] x by simp
  show ?thesis
    using find_moved(2) [OF u fx assms(3), of s "inv_id x"] by (simp add: assms(4) update_same_id [OF u x])
qed

text \<open>C31: An accepted capture adds one payment of the event's amount to an issued or partially paid
  invoice of the event's currency, within its total, and makes the invoice paid exactly when the
  payments now reach the total, partially paid otherwise; no refund is touched.\<close>

theorem capture_effect:
  assumes "reach ledger_start (api_step hmac sha256 date_of config) d"
    and "handleWebhook hmac sha256 date_of e config provider timestamp signature rawBody b requestId d
      = (Inr resp, d', ms)"
    and "\<not> pwr_duplicate resp" and "pwd_eventType b = ''payment.captured''"
    and "webhook_dto_valid is_uuid is_iso8601 b"
  shows "\<exists>ivc p. find_invoice d (pwd_invoiceId b) = Some ivc \<and>
    inv_status ivc \<in> {ISSUED, PARTIALLY_PAID} \<and> inv_currency ivc = pwd_currency b \<and>
    payments d' = payments d @ [p] \<and> pay_invoiceId p = inv_id ivc \<and>
    pay_amountMinor p = pwd_amountMinor b \<and> pay_refundedMinor p = 0 \<and> refunds d' = refunds d \<and>
    captured_sum d' (inv_id ivc) = captured_sum d (inv_id ivc) + pwd_amountMinor b \<and>
    captured_sum d' (inv_id ivc) \<le> inv_totalMinor ivc \<and>
    find_invoice d' (inv_id ivc) = Some (ivc\<lparr>
      inv_status := if captured_sum d' (inv_id ivc) = inv_totalMinor ivc then PAID else PARTIALLY_PAID,
      inv_version := inv_version ivc + 1\<rparr>)"
proof -
  have ok: "ledger_ok d" using assms(1) by (rule ledger.reach_inv)
  then have u: "invoice_ids_unique d" by (simp add: ledger_ok_def)
  have amount: "1 \<le> pwd_amountMinor b" "pwd_amountMinor b \<le> 100000000"
    using assms(5) by (simp_all add: webhook_dto_valid_def)
  from assms(2,3) obtain d1 rcp where d': "d' = d1\<lparr>webhook_receipts := webhook_receipts d1 @ [rcp]\<rparr>"
    and "capture date_of e provider b requestId d = Inr (resp, d1)"
    by (rule handled_change) (use assms(4) in auto)
  from this(2) show ?thesis
  proof (rule capture_Inr, goal_cases)
    case (1 x t aud)
    let ?p = "captured_payment e provider b x t"
    have x: "x \<in> set (invoices d)" using 1(1) find_invoice_iff [OF u] by blast
    note cap = ledger_capture(2,3) [OF ok x 1(2,4) amount 1(5,6)]
    have sum: "captured_sum d1 (inv_id x) = captured_sum d (inv_id x) + pwd_amountMinor b"
      using sums_insert(1) [of d1 d ?p "inv_id x"] by (simp add: 1(6) captured_payment_def)
    have "find_invoice d1 (inv_id x) = Some (moved (captured_status d b x) x)"
      by (rule moved_find [OF ok x]) (simp_all add: 1(6))
    then show ?case
      using 1(1-3) cap sum
      by (intro exI [of _ x] exI [of _ ?p])
        (simp add: d' receipts_irrelevant 1(6) captured_payment_def moved_def)
  qed
qed

theorem capture_effect_witness:
  "find_invoice paid_db ''0'' = Some (created_invoice\<lparr>inv_status := PAID, inv_version := 2\<rparr>) \<and>
   captured_sum paid_db ''0'' = 1180"
proof -
  have id: "inv_id created_invoice = ''0''" "inv_totalMinor created_invoice = 1180"
    "inv_version created_invoice = 1" by (simp_all add: created_invoice_def)
  have ev: "pwd_invoiceId capture_event = ''0''" "pwd_amountMinor capture_event = 1180"
    "pwd_eventType capture_event = ''payment.captured''" by (simp_all add: capture_event_def)
  have zero: "captured_sum created_db ''0'' = 0"
    by (simp add: captured_sum_def payments_of_def created_db_def sample_db_def empty_database_def)
  show ?thesis
    using capture_effect [OF sample_reach(1) sample_paid [of created_db, folded handleWebhook_def]
        conjunct2 [OF paid_result_ok] ev(3) events_valid(1)]
    by (auto simp: ev id created_found zero)
qed

text \<open>The payment a refund is about is the one with the provider's identifiers.\<close>

lemma refund_payment_names:
  assumes "refund_payment date_of e provider b requestId d = Inr (resp, d')"
  obtains p i where "find (\<lambda>x. sql_eq d (pay_provider x) provider \<and>
      sql_eq d (pay_providerPaymentId x) (pwd_providerPaymentId b)) (payments d) = Some p"
    and "pwr_paymentId resp = Some (pay_id p)" and "pwd_providerRefundId b = Some i"
  using assms by (auto simp: refund_payment_def Let_def res_simps truthy_opt_def split: option.splits)

text \<open>C32: An accepted refund adds one refund of the event's amount, under the provider's refund identifier, to the
  payment with the event's provider and provider payment identifier. That payment belongs to the event's invoice and
  the refund stays within its amount; it now counts as refunded by that much more, wholly or in part, and no other
  payment changes. The invoice becomes refunded exactly when
  everything captured for it is now refunded, partially refunded otherwise; nothing captured
  changes.\<close>

theorem refund_effect:
  assumes "reach ledger_start (api_step hmac sha256 date_of config) d"
    and "handleWebhook hmac sha256 date_of e config provider timestamp signature rawBody b requestId d
      = (Inr resp, d', ms)"
    and "\<not> pwr_duplicate resp" and "pwd_eventType b \<noteq> ''payment.captured''"
    and "webhook_dto_valid is_uuid is_iso8601 b"
  shows "\<exists>ivc p r. find_invoice d (pwd_invoiceId b) = Some ivc \<and>
    inv_status ivc \<in> {PAID, PARTIALLY_REFUNDED} \<and>
    find (\<lambda>x. sql_eq d (pay_provider x) provider \<and>
      sql_eq d (pay_providerPaymentId x) (pwd_providerPaymentId b)) (payments d) = Some p \<and>
    pay_invoiceId p = inv_id ivc \<and> pay_currency p = pwd_currency b \<and>
    pay_refundedMinor p + pwd_amountMinor b \<le> pay_amountMinor p \<and>
    refunds d' = refunds d @ [r] \<and> rfd_paymentId r = pay_id p \<and> rfd_amountMinor r = pwd_amountMinor b \<and>
    rfd_provider r = provider \<and> pwd_providerRefundId b = Some (rfd_providerRefundId r) \<and>
    payments d' = map (\<lambda>x. if x = p then p\<lparr>pay_refundedMinor := pay_refundedMinor p + pwd_amountMinor b,
        pay_status := (if pay_refundedMinor p + pwd_amountMinor b = pay_amountMinor p then Pay_REFUNDED
          else Pay_PARTIALLY_REFUNDED), pay_version := pay_version p + 1\<rparr> else x) (payments d) \<and>
    captured_sum d' (inv_id ivc) = captured_sum d (inv_id ivc) \<and>
    refunded_sum d' (inv_id ivc) = refunded_sum d (inv_id ivc) + pwd_amountMinor b \<and>
    find_invoice d' (inv_id ivc) = Some (ivc\<lparr>
      inv_status := if refunded_sum d' (inv_id ivc) = captured_sum d (inv_id ivc) then REFUNDED
        else PARTIALLY_REFUNDED, inv_version := inv_version ivc + 1\<rparr>)"
proof -
  have ok: "ledger_ok d" using assms(1) by (rule ledger.reach_inv)
  then have u: "invoice_ids_unique d" and pu: "payment_ids_unique d" by (simp_all add: ledger_ok_def)
  have amount: "1 \<le> pwd_amountMinor b" using assms(5) by (simp add: webhook_dto_valid_def)
  from assms(2,3) obtain d1 rcp where d': "d' = d1\<lparr>webhook_receipts := webhook_receipts d1 @ [rcp]\<rparr>"
    and pay: "refund_payment date_of e provider b requestId d = Inr (resp, d1)"
    by (rule handled_change) (use assms(4) in auto)
  from pay obtain q i where q: "find (\<lambda>x. sql_eq d (pay_provider x) provider \<and>
      sql_eq d (pay_providerPaymentId x) (pwd_providerPaymentId b)) (payments d) = Some q"
    and named: "pwr_paymentId resp = Some (pay_id q)" "pwd_providerRefundId b = Some i"
    by (rule refund_payment_names)
  from pay show ?thesis
  proof (rule refund_payment_Inr, goal_cases)
    case (1 x p t aud d2)
    have x: "x \<in> set (invoices d)" using 1(1) find_invoice_iff [OF u] by blast
    note ref = ledger_refund(2,3,4) [OF ok x 1(2,3,4,6) amount 1(8,9)]
    have "pay_id q = pay_id p" using named(1) 1(12) by simp
    then have "payment_key d q = payment_key d p" by (simp add: payment_key_def)
    then have "q = p"
      using pu 1(2) find_Some_D [OF q] by (auto simp: payment_ids_unique_def distinct_map dest: inj_onD)
    moreover have "payments d' = map (\<lambda>x. if x = p then refunded_to (pay_refundedMinor p + pwd_amountMinor b) p else x) (payments d)"
      using payments_after_refund [OF pu 1(2)] by (simp add: d' 1(8,9))
    moreover have "rfd_provider (issued_refund e provider b x p t) = provider"
      "pwd_providerRefundId b = Some (rfd_providerRefundId (issued_refund e provider b x p t))"
      using named(2) by (simp_all add: issued_refund_def)
    moreover have "find_invoice d1 (inv_id x) = Some (moved (refunded_status d2 x) x)"
      by (rule moved_find [OF ok x]) (simp_all add: 1(9))
    moreover have "refunds d' = refunds d @ [issued_refund e provider b x p t]"
      by (simp add: d' 1(9))
    moreover have "rfd_paymentId (issued_refund e provider b x p t) = pay_id p"
      "rfd_amountMinor (issued_refund e provider b x p t) = pwd_amountMinor b"
      by (simp_all add: issued_refund_def)
    moreover have "refunded_sum d' i = refunded_sum d1 i" "captured_sum d' i = captured_sum d1 i"
      "find_invoice d' i = find_invoice d1 i" for i
      unfolding d' by (rule receipts_irrelevant)+
    ultimately show ?case
      using 1(1-6) ref(1,3) ref(2) [of "inv_id x"] q unfolding moved_def refunded_to_def
      by (intro exI [of _ x] exI [of _ p] exI [of _ "issued_refund e provider b x p t"] conjI) simp_all
  qed
qed

theorem refund_effect_witness:
  "\<exists>r. refunds refunded_db = refunds paid_db @ [r] \<and> rfd_amountMinor r = 500 \<and> rfd_providerRefundId r = ''ref-00000001''"
proof -
  have ev: "pwd_eventType refund_event \<noteq> ''payment.captured''" "pwd_amountMinor refund_event = 500"
    "pwd_providerRefundId refund_event = Some ''ref-00000001''"
    by (simp_all add: refund_event_def)
  from refund_effect [OF sample_reach(2) sample_refunded [of paid_db, folded handleWebhook_def]
      conjunct2 [OF refunded_result_ok] ev(1) events_valid(2)]
  obtain r where "refunds refunded_db = refunds paid_db @ [r]" "rfd_amountMinor r = pwd_amountMinor refund_event"
    "pwd_providerRefundId refund_event = Some (rfd_providerRefundId r)" by blast
  with ev(2,3) show ?thesis by auto
qed

section \<open>Redelivery\<close>



section \<open>Refused deliveries\<close>

text \<open>A delivery without a signature verifies for no secret.\<close>

lemma js_number_Nil: "js_number [] = JInt 0"
  by (simp add: js_number_def js_trim_def Let_def)

lemma unsigned_refused: "verifyWebhookSignature hmac sha256 body secret ts [] now tol \<noteq> Inr u"
  by (simp add: verifyWebhookSignature_def Let_def bindE_Inr_conv class_between_def)

text \<open>C10: Only authentic, timely deliveries change anything: when a delivery, with whatever headers or none, changes the
  database, it came for the configured provider with a timestamp and a signature header, the signature is the
  HMAC, under the configured secret, of
  its own timestamp and body, that timestamp is within the tolerance of the clock, and the event's
  own time, where it can be read, lies between 90 days back and 5 minutes ahead. The signatures are compared
  by their hashes, which are taken not to collide.
  The clock's seconds are a safe integer.\<close>

theorem only_signed_deliveries_change:
  assumes "handleWebhook hmac sha256 date_of e config provider timestamp signature rawBody b requestId d
      = (res, d', ms)"
    and "d' \<noteq> d"
    and "0 \<le> clock e 0 div 1000" and "clock e 0 div 1000 \<le> max_safe"
    and collision_free: "\<And>s t digest. signature = Some s \<Longrightarrow>
      js_number (case timestamp of None \<Rightarrow> [] | Some x \<Rightarrow> x) = JInt t \<Longrightarrow>
      digest = hex_of_bytes (hmac (cfg_paymentWebhookSecret config) (show_int t @ ''.'' @ rawBody)) \<Longrightarrow>
      sha256 (utf8 digest) = sha256 (utf8 (js_lower s)) \<Longrightarrow> utf8 digest = utf8 (js_lower s)"
  shows "provider = cfg_paymentProvider config \<and>
    (\<exists>x s t. timestamp = Some x \<and> signature = Some s \<and> js_number x = JInt t \<and>
      \<bar>clock e 0 div 1000 - t\<bar> \<le> cfg_paymentWebhookToleranceSeconds config \<and>
      js_lower s = hex_of_bytes (hmac (cfg_paymentWebhookSecret config) (show_int t @ ''.'' @ rawBody))) \<and>
    (\<forall>t. date_of (pwd_occurredAt b) = Some t \<longrightarrow>
      clock e 1 - 90 * 24 * 60 * 60000 \<le> t \<and> t \<le> clock e 1 + 5 * 60000)"
proof -
  let ?ts = "case timestamp of None \<Rightarrow> [] | Some x \<Rightarrow> x" and ?s = "case signature of None \<Rightarrow> [] | Some x \<Rightarrow> x"
  let ?v = "verifyWebhookSignature hmac sha256 rawBody (cfg_paymentWebhookSecret config) ?ts ?s
    (clock e 0 div 1000) (JInt (cfg_paymentWebhookToleranceSeconds config))"
  from assms(1,2) obtain u where p: "provider = cfg_paymentProvider config"
    and v: "?v = Inr u" and w: "\<not> outside_window (date_of (pwd_occurredAt b)) (clock e 1)"
    by (cases ?v) (auto simp: handleWebhook_def handleWebhook_from_def Let_def split: if_splits)
  from v have "u = True"
    unfolding verifyWebhookSignature_def Let_def bindE_Inr_conv by auto
  with v have v: "?v = Inr True" by simp
  then obtain s where s: "signature = Some s" using unsigned_refused by (cases signature) auto
  have "\<exists>t. js_number ?ts = JInt t \<and> 1 \<le> t \<and>
      \<bar>clock e 0 div 1000 - t\<bar> \<le> cfg_paymentWebhookToleranceSeconds config \<and>
      js_lower s = hex_of_bytes (hmac (cfg_paymentWebhookSecret config) (show_int t @ ''.'' @ rawBody))"
    using signature_sound [OF v [unfolded s option.case] _ assms(3,4)] collision_free [OF s] by blast
  moreover have "timestamp \<noteq> None" using calculation by (cases timestamp) (auto simp: js_number_Nil)
  ultimately have "\<exists>x s t. timestamp = Some x \<and> signature = Some s \<and> js_number x = JInt t \<and>
      \<bar>clock e 0 div 1000 - t\<bar> \<le> cfg_paymentWebhookToleranceSeconds config \<and>
      js_lower s = hex_of_bytes (hmac (cfg_paymentWebhookSecret config) (show_int t @ ''.'' @ rawBody))"
    using s by auto
  with p w show ?thesis by (auto simp: outside_window_def)
qed

lemma paid_differs: "paid_db \<noteq> created_db"
proof
  assume "paid_db = created_db"
  then have "length (payments paid_db) = length (payments created_db)" by simp
  moreover have "length (payments paid_db) = 1" "length (payments created_db) = 0" by code_simp+
  ultimately show False by simp
qed

theorem only_signed_deliveries_change_witness:
  "\<exists>t. js_number ''7'' = JInt t \<and> \<bar>1 - t\<bar> \<le> 300 \<and>
     js_lower (header_signature ''one'') =
       hex_of_bytes (sample_hmac sample_secret (show_int t @ ''.'' @ ''one''))"
proof -
  have low: "js_lower (header_signature ''one'') = header_signature ''one''"
    unfolding header_signature_def by (rule js_lower_hex [OF hex_of_bytes_hex])
  have digest: "utf8 digest = utf8 (js_lower (header_signature ''one''))"
    if "js_number (case Some ''7'' of None \<Rightarrow> [] | Some x \<Rightarrow> x) = JInt t"
      and "digest = hex_of_bytes (sample_hmac (cfg_paymentWebhookSecret sample_config)
        (show_int t @ ''.'' @ ''one''))" for t digest
  proof -
    from that(1) have "t = 7" using sample_numbers(8) by simp
    with that(2) show ?thesis unfolding low by (simp only: header_signature_def sample_config_def ApiConfig.simps)
  qed
  have digest': "utf8 digest = utf8 (js_lower s)" if "Some (header_signature ''one'') = Some s"
      and "js_number (case Some ''7'' of None \<Rightarrow> [] | Some x \<Rightarrow> x) = JInt t"
      and "digest = hex_of_bytes (sample_hmac (cfg_paymentWebhookSecret sample_config) (show_int t @ ''.'' @ ''one''))" for s t digest
    using digest [OF that(2,3)] that(1) by simp
  have "clock (sample_env 2) 0 div 1000 = 1" by (simp add: sample_env_def)
  then show ?thesis
    using only_signed_deliveries_change [OF sample_paid [of created_db, folded handleWebhook_def]
        paid_differs _ _ digest']
    by (auto simp add: sample_config_def max_safe_def)
qed

end
