(* ===== verification/Selection.thy ===== *)
theory Selection
  imports Prelude
begin

text \<open>
  What the worker's queries share: \<open>SELECT ... WHERE P ORDER BY k LIMIT n\<close> returns the first \<open>n\<close> of
  the selected rows by key. Rows with equal keys keep the table's order.
\<close>

definition oldest :: "nat \<Rightarrow> ('r \<Rightarrow> int) \<Rightarrow> ('r \<Rightarrow> bool) \<Rightarrow> 'r list \<Rightarrow> 'r list" where
  "oldest n k P rows = take n (sort_key k (filter P rows))"

lemma oldest_mem: "x \<in> set (oldest n k P rows) \<Longrightarrow> x \<in> set rows \<and> P x"
  using set_take_subset [of n "sort_key k (filter P rows)"] by (auto simp: oldest_def)

lemma length_oldest: "length (oldest n k P rows) = min n (count_where P rows)"
  by (simp add: oldest_def count_where_def min.commute)

lemma oldest_all: "count_where P rows \<le> n \<Longrightarrow> set (oldest n k P rows) = {r \<in> set rows. P r}"
  by (simp add: oldest_def count_where_def)

lemma distinct_map_filter_key: "distinct (map f xs) \<Longrightarrow> distinct (map f (filter P xs))"
  by (induction xs) auto

lemma distinct_map_sort_key: "distinct (map f xs) \<Longrightarrow> distinct (map f (sort_key k xs))"
  by (auto simp: distinct_map)

lemma distinct_oldest: "distinct (map f rows) \<Longrightarrow> distinct (map f (oldest n k P rows))"
  unfolding oldest_def take_map [symmetric]
  by (intro distinct_take distinct_map_sort_key distinct_map_filter_key)

text \<open>Nothing that was left is older than something that was taken.\<close>

lemma oldest_before:
  assumes "x \<in> set (oldest n k P rows)" and "y \<in> set rows" and "P y" and "y \<notin> set (oldest n k P rows)"
  shows "k x \<le> k y"
proof -
  let ?s = "sort_key k (filter P rows)"
  have "y \<in> set (take n ?s @ drop n ?s)" using assms(2,3) by simp
  with assms(4) have y: "y \<in> set (drop n ?s)" by (simp only: oldest_def set_append Un_iff) blast
  have "sorted (map k (take n ?s @ drop n ?s))" by simp
  then have "sorted (map k (take n ?s) @ map k (drop n ?s))" by (simp only: map_append)
  with assms(1) y show ?thesis by (auto simp: sorted_append oldest_def)
qed

text \<open>Removing the first \<open>n\<close> rows leaves the others, in the same order.\<close>

lemma filter_notin_take: "distinct xs \<Longrightarrow> filter (\<lambda>x. x \<notin> set (take n xs)) xs = drop n xs"
proof (induction xs arbitrary: n)
  case Nil
  then show ?case by simp
next
  case (Cons x xs)
  show ?case
  proof (cases n)
    case 0
    then show ?thesis by simp
  next
    case (Suc m)
    have "filter (\<lambda>y. y \<noteq> x \<and> y \<notin> set (take m xs)) xs = filter (\<lambda>y. y \<notin> set (take m xs)) xs"
      using Cons.prems by (intro filter_cong) auto
    with Suc Cons show ?thesis by simp
  qed
qed

definition drop_oldest :: "nat \<Rightarrow> ('r \<Rightarrow> int) \<Rightarrow> ('r \<Rightarrow> bool) \<Rightarrow> 'r list \<Rightarrow> 'r list" where
  "drop_oldest n k P rows = filter (\<lambda>r. r \<notin> set (oldest n k P rows)) rows"

lemma sort_drop_oldest:
  assumes "distinct rows"
  shows "sort_key k (filter P (drop_oldest n k P rows)) = drop n (sort_key k (filter P rows))"
proof -
  let ?s = "sort_key k (filter P rows)"
  have "sort_key k (filter P (drop_oldest n k P rows)) =
      sort_key k (filter (\<lambda>r. r \<notin> set (take n ?s)) (filter P rows))"
    by (simp add: drop_oldest_def oldest_def conj_commute)
  also have "\<dots> = filter (\<lambda>r. r \<notin> set (take n ?s)) ?s" by (rule filter_sort [symmetric])
  also have "\<dots> = drop n ?s" using assms by (intro filter_notin_take) simp
  finally show ?thesis .
qed

lemma drop_oldest_drop_oldest:
  assumes "distinct rows"
  shows "drop_oldest m k P (drop_oldest n k P rows) = drop_oldest (n + m) k P rows"
proof -
  let ?s = "sort_key k (filter P rows)"
  have "oldest m k P (drop_oldest n k P rows) = take m (drop n ?s)"
    by (simp add: oldest_def sort_drop_oldest [OF assms])
  then have "drop_oldest m k P (drop_oldest n k P rows) =
      filter (\<lambda>r. r \<notin> set (take n ?s) \<and> r \<notin> set (take m (drop n ?s))) rows"
    by (simp add: drop_oldest_def oldest_def conj_commute)
  also have "\<dots> = drop_oldest (n + m) k P rows"
    by (simp add: drop_oldest_def oldest_def take_add)
  finally show ?thesis .
qed

lemma count_drop_oldest:
  "distinct rows \<Longrightarrow> count_where P (drop_oldest n k P rows) = count_where P rows - n"
  using arg_cong [OF sort_drop_oldest, of rows length k P n] by (simp add: count_where_def)

lemma drop_oldest_0 [simp]: "drop_oldest 0 k P rows = rows"
  by (simp add: drop_oldest_def oldest_def)

lemma drop_oldest_none: "count_where P rows = 0 \<Longrightarrow> drop_oldest n k P rows = rows"
  by (auto simp: drop_oldest_def oldest_def count_where_def)

lemma distinct_drop_oldest: "distinct rows \<Longrightarrow> distinct (drop_oldest n k P rows)"
  by (simp add: drop_oldest_def)

lemma drop_oldest_beyond:
  "distinct rows \<Longrightarrow> count_where P rows \<le> n \<Longrightarrow> drop_oldest (n + m) k P rows = drop_oldest n k P rows"
  by (simp add: drop_oldest_def oldest_def count_where_def)

lemma drop_oldest_all:
  "count_where P rows \<le> n \<Longrightarrow> drop_oldest n k P rows = filter (\<lambda>r. \<not> P r) rows"
  unfolding drop_oldest_def by (rule filter_cong) (auto simp: oldest_all)

end
