(* ===== verification/Relay.thy ===== *)
theory Relay
  imports Selection Config Samples
begin

text \<open>
  The outbox relay of the worker, \<open>apps/worker/src/outbox-relay.ts\<close>: every poll claims up to 25
  outbox events under a lock of 30 seconds, hands each to the job queue and marks it published, or
  releases it for a later poll when the queue refused; then it hands events again that were
  published but never settled by a delivery. The queue is outside the code: what its \<open>i\<close>-th call
  answers is an argument, and the calls that were made are part of the result.
\<close>

section \<open>Jobs and errors\<close>

record queue_job =
  job_id :: string
  job_data :: event_payload
  job_attempts :: int
  job_backoffDelay :: int

definition delivery_job :: "WorkerConfig \<Rightarrow> outbox_event \<Rightarrow> queue_job" where
  "delivery_job config event =
     \<lparr>job_id = obx_id event, job_data = obx_payload event, job_attempts = wcf_maxAttempts config,
      job_backoffDelay = wcf_baseDelayMs config\<rparr>"

text \<open>The text of a server error is not the code's: \<open>sql_text\<close> gives it for an error code.\<close>

fun message :: "(string \<Rightarrow> string) \<Rightarrow> exn \<Rightarrow> string" where
  "message sql_text (TypeErr m) = m"
| "message sql_text (RangeErr m) = m"
| "message sql_text (PlainErr m) = m"
| "message sql_text (CodedErr m c) = m"
| "message sql_text (QueryFailed c) = sql_text c"
| "message sql_text (BadRequestException m) = m"
| "message sql_text (UnauthorizedException m) = m"
| "message sql_text (ForbiddenException m) = m"
| "message sql_text (NotFoundException m) = m"
| "message sql_text (ConflictException m) = m"
| "message sql_text (ServiceUnavailableException m) = m"

datatype worker_metric =
    OutboxClaimedInc nat
  | OutboxOldestAgeSet jsnum
  | QueueWaitingSet int
  | QueueFailedSet int
  | DeliveriesInc string

section \<open>Claiming\<close>

text \<open>A comparison with a \<open>NULL\<close> lock time is not true.\<close>

definition claimable :: "int \<Rightarrow> outbox_event \<Rightarrow> bool" where
  "claimable now r \<longleftrightarrow> obx_availableAt r \<le> now \<and>
     (obx_status r = PENDING \<or>
      obx_status r = PROCESSING \<and> (case obx_lockUntil r of None \<Rightarrow> False | Some t \<Rightarrow> t < now))"

definition claimed :: "int \<Rightarrow> outbox_event \<Rightarrow> outbox_event" where
  "claimed lockUntil r =
     r\<lparr>obx_status := PROCESSING, obx_lockUntil := Some lockUntil, obx_attempts := obx_attempts r + 1\<rparr>"

definition among_ids :: "database \<Rightarrow> outbox_event list \<Rightarrow> outbox_event \<Rightarrow> bool" where
  "among_ids d events r \<longleftrightarrow> list_ex (\<lambda>ev. sql_eq d (obx_id r) (obx_id ev)) events"

text \<open>
  The claim reads the clock twice and skips the rows \<open>skipped\<close> that other transactions hold. It
  returns the rows as it read them.
\<close>

definition claim ::
  "nat \<Rightarrow> int \<Rightarrow> int \<Rightarrow> (outbox_event \<Rightarrow> bool) \<Rightarrow> database \<Rightarrow> exn + outbox_event list \<times> database" where
  "claim limit now lockNow skipped d =
     (let events = oldest limit obx_createdAt (\<lambda>r. claimable now r \<and> \<not> skipped r) (outbox_events d);
          mine = among_ids d events
      in if events = [] then Inr ([], d)
         else if list_all (\<lambda>r. fst (uint_col 16 (obx_attempts r + 1))) (filter mine (outbox_events d))
         then Inr (events, d\<lparr>outbox_events :=
           update_where mine (claimed (lockNow + 30000)) (outbox_events d)\<rparr>)
         else Inl (QueryFailed ''ER_WARN_DATA_OUT_OF_RANGE''))"

section \<open>Publishing\<close>

definition published :: "int \<Rightarrow> outbox_event \<Rightarrow> outbox_event" where
  "published now r =
     r\<lparr>obx_status := PUBLISHED, obx_publishedAt := Some now, obx_lockUntil := None, obx_lastError := None\<rparr>"

definition released :: "int \<Rightarrow> string \<Rightarrow> outbox_event \<Rightarrow> outbox_event" where
  "released availableAt err r =
     r\<lparr>obx_status := PENDING, obx_availableAt := availableAt, obx_lockUntil := None,
       obx_lastError := Some err\<rparr>"

definition update_claimed :: "outbox_event \<Rightarrow> (outbox_event \<Rightarrow> outbox_event) \<Rightarrow> database \<Rightarrow> database" where
  "update_claimed event f d = d\<lparr>outbox_events :=
     update_where (\<lambda>r. sql_eq d (obx_id r) (obx_id event) \<and> obx_status r = PROCESSING) f (outbox_events d)\<rparr>"

text \<open>How a claimed row is settled at time \<open>now\<close>: the reply is what was thrown, if anything.\<close>

definition settle ::
  "WorkerConfig \<Rightarrow> (string \<Rightarrow> string) \<Rightarrow> exn option \<Rightarrow> int \<Rightarrow> outbox_event \<Rightarrow> outbox_event" where
  "settle config sql_text reply now =
     (case reply of
        None \<Rightarrow> published now
      | Some err \<Rightarrow> released (now + wcf_baseDelayMs config) (slice_to 1000 (message sql_text err)))"

text \<open>
  The loop over the claimed events, the \<open>i\<close>-th of which reads the clock once, after its call of the
  queue. The reply \<open>i\<close> is what the inner \<open>try\<close> of the \<open>i\<close>-th event throws, if anything: the call of the queue, or the
  update after it, whose failure is caught by the same handler and releases the row like a refusal. The time is
  then that of the handler. A call that fails is logged like one that succeeds: the job may have been
  stored. An update that fails in the handler itself ends the poll, as in \<open>process_step\<close>.
\<close>

fun publish_all ::
  "WorkerConfig \<Rightarrow> (string \<Rightarrow> string) \<Rightarrow> (nat \<Rightarrow> exn option) \<Rightarrow> (nat \<Rightarrow> int) \<Rightarrow> nat \<Rightarrow> outbox_event list \<Rightarrow>
   database \<Rightarrow> database" where
  "publish_all config sql_text reply now i [] d = d"
| "publish_all config sql_text reply now i (event # events) d =
     publish_all config sql_text reply now (Suc i) events
       (update_claimed event (settle config sql_text (reply i) (now i)) d)"

section \<open>Handing over again\<close>

definition settled_delivery :: "database \<Rightarrow> outbox_event \<Rightarrow> bool" where
  "settled_delivery d event \<longleftrightarrow>
     list_ex (\<lambda>a. sql_eq d (dlv_eventId a) (obx_id event) \<and> dlv_status a \<in> {SUCCEEDED, DEAD_LETTERED})
       (delivery_attempts d)"

definition published_before :: "int \<Rightarrow> outbox_event \<Rightarrow> bool" where
  "published_before cutoff event \<longleftrightarrow>
     obx_status event = PUBLISHED \<and> (case obx_publishedAt event of None \<Rightarrow> False | Some t \<Rightarrow> t < cutoff)"

definition published_at :: "outbox_event \<Rightarrow> int" where
  "published_at event = (case obx_publishedAt event of None \<Rightarrow> 0 | Some t \<Rightarrow> t)"

definition unsettled :: "nat \<Rightarrow> int \<Rightarrow> database \<Rightarrow> outbox_event list" where
  "unsettled limit cutoff d =
     oldest limit published_at (\<lambda>r. published_before cutoff r \<and> \<not> settled_delivery d r) (outbox_events d)"

text \<open>The calls made, up to the first that throws, and the exception it threw.\<close>

fun add_all :: "(nat \<Rightarrow> exn option) \<Rightarrow> nat \<Rightarrow> queue_job list \<Rightarrow> queue_job list \<times> exn option" where
  "add_all reply i [] = ([], None)"
| "add_all reply i (j # js) =
     (case reply i of
        Some err \<Rightarrow> ([j], Some err)
      | None \<Rightarrow> let (calls, err) = add_all reply (Suc i) js in (j # calls, err))"

definition reconcilePublished ::
  "WorkerConfig \<Rightarrow> nat \<Rightarrow> (nat \<Rightarrow> exn option) \<Rightarrow> nat \<Rightarrow> int \<Rightarrow> database \<Rightarrow> queue_job list \<times> exn option" where
  "reconcilePublished config limit reply i now d =
     add_all reply i (map (delivery_job config) (unsettled limit (now - 30000) d))"

section \<open>Metrics and the poll\<close>

definition oldest_pending :: "int \<Rightarrow> database \<Rightarrow> outbox_event option" where
  "oldest_pending now d =
     (case oldest 1 obx_createdAt (\<lambda>r. obx_status r = PENDING \<and> obx_createdAt r < now) (outbox_events d) of
        [] \<Rightarrow> None
      | r # _ \<Rightarrow> Some r)"

definition updateMetrics :: "int \<Rightarrow> int \<Rightarrow> int \<times> int \<Rightarrow> database \<Rightarrow> worker_metric list" where
  "updateMetrics now1 now2 counts d =
     [OutboxOldestAgeSet (case oldest_pending now1 d of
        None \<Rightarrow> JInt 0
      | Some r \<Rightarrow> js_div (JInt (now2 - obx_createdAt r)) (JInt 1000)),
      QueueWaitingSet (fst counts), QueueFailedSet (snd counts)]"

record relay_run =
  run_db :: database
  run_calls :: "queue_job list"
  run_metrics :: "worker_metric list"
  run_error :: "exn option"

text \<open>
  One poll. The clock is read twice by the claim, once for every claimed event, once by
  \<open>reconcilePublished\<close> and twice by \<open>updateMetrics\<close>; \<open>reply i\<close> is what comes of the \<open>i\<close>-th call of the queue. A
  poll that finds another in progress returns at once.
\<close>

definition poll ::
  "WorkerConfig \<Rightarrow> (string \<Rightarrow> string) \<Rightarrow> (nat \<Rightarrow> int) \<Rightarrow> (nat \<Rightarrow> exn option) \<Rightarrow> int \<times> int \<Rightarrow>
   (outbox_event \<Rightarrow> bool) \<Rightarrow> bool \<Rightarrow> database \<Rightarrow> relay_run" where
  "poll config sql_text now reply counts skipped polling d =
     (if polling then \<lparr>run_db = d, run_calls = [], run_metrics = [], run_error = None\<rparr>
      else case claim 25 (now 0) (now 1) skipped d of
          Inl err \<Rightarrow> \<lparr>run_db = d, run_calls = [], run_metrics = [], run_error = Some err\<rparr>
        | Inr (events, d1) \<Rightarrow>
            let n = length events;
                d2 = publish_all config sql_text reply (\<lambda>i. now (2 + i)) 0 events d1;
                (again, err) = reconcilePublished config 100 reply n (now (2 + n)) d2
            in \<lparr>run_db = d2, run_calls = map (delivery_job config) events @ again,
                run_metrics = OutboxClaimedInc n #
                  (case err of None \<Rightarrow> updateMetrics (now (3 + n)) (now (4 + n)) counts d2 | Some _ \<Rightarrow> []),
                run_error = err\<rparr>)"

section \<open>What a poll does to the outbox\<close>

definition outbox_ids_unique :: "database \<Rightarrow> bool" where
  "outbox_ids_unique d \<longleftrightarrow> distinct (map (outbox_key d) (outbox_events d))"

definition claim_candidates :: "nat \<Rightarrow> int \<Rightarrow> (outbox_event \<Rightarrow> bool) \<Rightarrow> database \<Rightarrow> outbox_event list" where
  "claim_candidates limit now skipped d =
     oldest limit obx_createdAt (\<lambda>r. claimable now r \<and> \<not> skipped r) (outbox_events d)"

definition claimed_rows :: "outbox_event list \<Rightarrow> int \<Rightarrow> database \<Rightarrow> database" where
  "claimed_rows events lockUntil d = d\<lparr>outbox_events :=
     map (\<lambda>r. if r \<in> set events then claimed lockUntil r else r) (outbox_events d)\<rparr>"

lemma sql_eq_outbox_key: "sql_eq d (obx_id r) (obx_id s) \<longleftrightarrow> outbox_key d r = outbox_key d s"
  by (simp add: sql_eq_def outbox_key_def)

lemma among_ids_iff:
  assumes "outbox_ids_unique d" and "set events \<subseteq> set (outbox_events d)" and "r \<in> set (outbox_events d)"
  shows "among_ids d events r \<longleftrightarrow> r \<in> set events"
  using assms by (auto simp: among_ids_def list_ex_iff sql_eq_outbox_key outbox_ids_unique_def
    distinct_map dest: inj_onD)

lemma claim_candidates_mem:
  "r \<in> set (claim_candidates limit now skipped d) \<Longrightarrow>
     r \<in> set (outbox_events d) \<and> claimable now r \<and> \<not> skipped r"
  by (auto simp: claim_candidates_def dest: oldest_mem)

lemma claim_candidates_subset: "set (claim_candidates limit now skipped d) \<subseteq> set (outbox_events d)"
  by (auto dest: claim_candidates_mem)

lemma claim_candidates_distinct:
  "outbox_ids_unique d \<Longrightarrow> distinct (map (outbox_key d) (claim_candidates limit now skipped d))"
  by (simp add: claim_candidates_def outbox_ids_unique_def distinct_oldest)

lemma claimed_rows_Nil [simp]: "claimed_rows [] lockUntil d = d"
  by (simp add: claimed_rows_def)

lemma claim_Inr:
  assumes "outbox_ids_unique d"
  shows "claim limit now lockNow skipped d = Inr (events, d') \<longleftrightarrow>
    events = claim_candidates limit now skipped d \<and>
    (\<forall>r \<in> set events. 0 \<le> obx_attempts r + 1 \<and> obx_attempts r + 1 < 2 ^ 16) \<and>
    d' = claimed_rows events (lockNow + 30000) d"
proof -
  let ?c = "claim_candidates limit now skipped d"
  have eq: "among_ids d ?c r \<longleftrightarrow> r \<in> set ?c" if "r \<in> set (outbox_events d)" for r
    using among_ids_iff [OF assms claim_candidates_subset that] .
  have "update_where (among_ids d ?c) f (outbox_events d) =
      map (\<lambda>r. if r \<in> set ?c then f r else r) (outbox_events d)" for f
    using eq by (auto simp: update_where_def)
  moreover have "list_all P (filter (among_ids d ?c) (outbox_events d)) \<longleftrightarrow> (\<forall>r \<in> set ?c. P r)" for P
    using eq claim_candidates_subset [of limit now skipped d] by (auto simp: list_all_iff)
  ultimately show ?thesis
    unfolding claim_def Let_def claim_candidates_def [symmetric]
    by (auto simp: claimed_rows_def uint_col_def)
qed

lemma claim_refused: "claim limit now lockNow skipped d = Inl err \<Longrightarrow> err = QueryFailed ''ER_WARN_DATA_OUT_OF_RANGE''"
  by (auto simp: claim_def Let_def split: if_splits)

text \<open>The place of an event among the claimed ones, and what the loop makes of a row.\<close>

definition turn :: "outbox_event list \<Rightarrow> outbox_event \<Rightarrow> nat" where
  "turn events r = length (takeWhile (\<lambda>x. x \<noteq> r) events)"

lemma turn_Cons [simp]: "turn (x # xs) r = (if x = r then 0 else Suc (turn xs r))"
  by (simp add: turn_def)

lemma nth_turn: "r \<in> set events \<Longrightarrow> turn events r < length events \<and> events ! turn events r = r"
  by (induction events) auto

lemma collation_update_claimed [simp]: "collation (update_claimed ev f d) = collation d"
  by (simp add: update_claimed_def)

lemma update_claimed_rows:
  "outbox_events (update_claimed ev f d) =
     map (\<lambda>r. if outbox_key d r = outbox_key d ev \<and> obx_status r = PROCESSING then f r else r) (outbox_events d)"
  by (simp add: update_claimed_def update_where_def sql_eq_outbox_key)

lemma settle_fields [simp]:
  "obx_id (settle config sql_text reply now r) = obx_id r"
  "obx_status (settle config sql_text reply now r) \<noteq> PROCESSING"
  "obx_payload (settle config sql_text reply now r) = obx_payload r"
  "obx_createdAt (settle config sql_text reply now r) = obx_createdAt r"
  by (auto simp: settle_def published_def released_def split: option.splits)

lemma claimed_fields [simp]:
  "obx_id (claimed t r) = obx_id r" "obx_status (claimed t r) = PROCESSING"
  "obx_payload (claimed t r) = obx_payload r" "obx_createdAt (claimed t r) = obx_createdAt r"
  by (simp_all add: claimed_def)

fun settled_row ::
  "WorkerConfig \<Rightarrow> (string \<Rightarrow> string) \<Rightarrow> (nat \<Rightarrow> exn option) \<Rightarrow> (nat \<Rightarrow> int) \<Rightarrow> nat \<Rightarrow> outbox_event list \<Rightarrow>
   (outbox_event \<Rightarrow> string) \<Rightarrow> outbox_event \<Rightarrow> outbox_event" where
  "settled_row config sql_text reply now i [] key r = r"
| "settled_row config sql_text reply now i (event # events) key r =
     (if key r = key event \<and> obx_status r = PROCESSING
      then settle config sql_text (reply i) (now i) r
      else settled_row config sql_text reply now (Suc i) events key r)"

lemma settled_row_idle: "obx_status r \<noteq> PROCESSING \<Longrightarrow> settled_row config sql_text reply now i events key r = r"
  by (induction events arbitrary: i) auto

lemma settled_row_other:
  "key r \<notin> key ` set events \<Longrightarrow> settled_row config sql_text reply now i events key r = r"
  by (induction events arbitrary: i) auto

lemma settled_row_turn:
  assumes "distinct (map key events)" and "r \<in> set events" and "key (claimed t r) = key r"
  shows "settled_row config sql_text reply now i events key (claimed t r) =
    settle config sql_text (reply (i + turn events r)) (now (i + turn events r)) (claimed t r)"
  using assms
proof (induction events arbitrary: i)
  case (Cons ev evs)
  show ?case
  proof (cases "r = ev")
    case False
    with Cons.prems have r: "r \<in> set evs" by simp
    then have "key r \<in> key ` set evs" by (rule imageI)
    with Cons.prems(1) have "key r \<noteq> key ev" by auto
    with Cons r False show ?thesis by auto
  qed (use Cons.prems(3) in simp)
qed simp

lemma outbox_key_update_claimed: "outbox_key (update_claimed ev f d) = outbox_key d"
  by (simp add: outbox_key_def fun_eq_iff)

lemma publish_all_rows:
  "publish_all config sql_text reply now i events d = d\<lparr>outbox_events :=
     map (settled_row config sql_text reply now i events (outbox_key d)) (outbox_events d)\<rparr>"
proof (induction events arbitrary: i d)
  case Nil
  then show ?case by (simp cong: map_cong)
next
  case (Cons ev evs)
  let ?f = "settle config sql_text (reply i) (now i)"
  let ?d = "update_claimed ev ?f d"
  have "publish_all config sql_text reply now i (ev # evs) d =
      ?d\<lparr>outbox_events := map (settled_row config sql_text reply now (Suc i) evs (outbox_key d))
        (outbox_events ?d)\<rparr>"
    by (simp add: Cons.IH outbox_key_update_claimed)
  also have "map (settled_row config sql_text reply now (Suc i) evs (outbox_key d)) (outbox_events ?d) =
      map (settled_row config sql_text reply now i (ev # evs) (outbox_key d)) (outbox_events d)"
    by (auto simp: update_claimed_rows settled_row_idle)
  also have "?d\<lparr>outbox_events := map (settled_row config sql_text reply now i (ev # evs) (outbox_key d))
      (outbox_events d)\<rparr> = d\<lparr>outbox_events :=
      map (settled_row config sql_text reply now i (ev # evs) (outbox_key d)) (outbox_events d)\<rparr>"
    by (simp add: update_claimed_def)
  finally show ?case .
qed

text \<open>A claimed event after its poll.\<close>

definition after_poll ::
  "WorkerConfig \<Rightarrow> (string \<Rightarrow> string) \<Rightarrow> (nat \<Rightarrow> int) \<Rightarrow> (nat \<Rightarrow> exn option) \<Rightarrow> outbox_event list \<Rightarrow>
   outbox_event \<Rightarrow> outbox_event" where
  "after_poll config sql_text now reply events r =
     (if r \<in> set events
      then settle config sql_text (reply (turn events r)) (now (2 + turn events r))
        (claimed (now 1 + 30000) r)
      else r)"

lemma publish_claimed:
  assumes "outbox_ids_unique d" and "events = claim_candidates limit t skipped d"
  shows "publish_all config sql_text reply (\<lambda>i. now (2 + i)) 0 events (claimed_rows events (now 1 + 30000) d) =
    d\<lparr>outbox_events := map (after_poll config sql_text now reply events) (outbox_events d)\<rparr>"
proof -
  have dist: "distinct (map (outbox_key d) events)"
    using assms by (simp add: claim_candidates_distinct)
  have sub: "set events \<subseteq> set (outbox_events d)"
    using claim_candidates_subset assms(2) by blast
  have inj: "inj_on (outbox_key d) (set (outbox_events d))"
    using assms(1) by (simp add: outbox_ids_unique_def distinct_map)
  have key: "outbox_key (claimed_rows events t d) = outbox_key d" for t
    by (simp add: outbox_key_def claimed_rows_def fun_eq_iff)
  have ckey: "outbox_key d (claimed t r) = outbox_key d r" for t r
    by (simp add: outbox_key_def)
  let ?s = "settled_row config sql_text reply (\<lambda>i. now (2 + i)) 0 events (outbox_key d)"
  have row: "?s (if r \<in> set events then claimed (now 1 + 30000) r else r) =
      after_poll config sql_text now reply events r" if "r \<in> set (outbox_events d)" for r
  proof (cases "r \<in> set events")
    case True
    have "?s (claimed (now 1 + 30000) r) = settle config sql_text (reply (0 + turn events r))
        (now (2 + (0 + turn events r))) (claimed (now 1 + 30000) r)"
      by (rule settled_row_turn) (use dist True ckey in auto)
    then show ?thesis unfolding after_poll_def if_P [OF True] add_0_left .
  next
    case False
    then have "outbox_key d r \<notin> outbox_key d ` set events"
      using inj_on_image_mem_iff [OF inj that sub] by simp
    then have "?s r = r" by (rule settled_row_other)
    with False show ?thesis by (simp add: after_poll_def)
  qed
  have "map ?s (outbox_events (claimed_rows events (now 1 + 30000) d)) =
      map (after_poll config sql_text now reply events) (outbox_events d)"
    unfolding claimed_rows_def by (simp del: add_2_eq_Suc add_2_eq_Suc' One_nat_def add: row)
  then show ?thesis by (simp only: publish_all_rows key) (simp add: claimed_rows_def)
qed

lemma poll_run:
  assumes "outbox_ids_unique d"
    and "events = claim_candidates 25 (now 0) skipped d"
    and "\<forall>r \<in> set events. 0 \<le> obx_attempts r \<and> obx_attempts r < 65535"
  shows "run_db (poll config sql_text now reply counts skipped False d) =
      d\<lparr>outbox_events := map (after_poll config sql_text now reply events) (outbox_events d)\<rparr>"
    and "\<exists>again. run_calls (poll config sql_text now reply counts skipped False d) =
      map (delivery_job config) events @ again"
proof -
  have "claim 25 (now 0) (now 1) skipped d = Inr (events, claimed_rows events (now 1 + 30000) d)"
    using assms by (auto simp: claim_Inr)
  then show "run_db (poll config sql_text now reply counts skipped False d) =
      d\<lparr>outbox_events := map (after_poll config sql_text now reply events) (outbox_events d)\<rparr>"
    "\<exists>again. run_calls (poll config sql_text now reply counts skipped False d) =
      map (delivery_job config) events @ again"
    by (simp_all only: poll_def if_False sum.case prod.case publish_claimed [OF assms(1,2)] Let_def)
      (auto split: prod.splits)
qed

lemma after_poll_fields [simp]:
  "obx_id (after_poll config sql_text now reply events r) = obx_id r"
  "obx_createdAt (after_poll config sql_text now reply events r) = obx_createdAt r"
  "obx_payload (after_poll config sql_text now reply events r) = obx_payload r"
  by (simp_all add: after_poll_def)

lemma outbox_ids_unique_map:
  "(\<And>r. obx_id (f r) = obx_id r) \<Longrightarrow>
     outbox_ids_unique (d\<lparr>outbox_events := map f (outbox_events d)\<rparr>) \<longleftrightarrow> outbox_ids_unique d"
  by (simp add: outbox_ids_unique_def outbox_key_def [abs_def] o_def)

lemma outbox_same:
  assumes "outbox_ids_unique d" and "x \<in> set (outbox_events d)" and "y \<in> set (outbox_events d)"
    and "sql_eq d (obx_id x) (obx_id y)"
  shows "x = y"
  using assms by (simp add: outbox_ids_unique_def distinct_map inj_on_def sql_eq_outbox_key)

lemma claim_disjoint:
  assumes "outbox_ids_unique d" and "claim limit now lockNow skipped d = Inr (events, d1)"
    and "now' \<le> lockNow + 30000" and "claim limit' now' lockNow' skipped' d1 = Inr (events', d2)"
  shows "obx_id ` set events \<inter> obx_id ` set events' = {}"
proof -
  have c1: "events = claim_candidates limit now skipped d" "d1 = claimed_rows events (lockNow + 30000) d"
    using assms(2) by (auto simp: claim_Inr [OF assms(1)])
  have u1: "outbox_ids_unique d1"
    unfolding c1(2) claimed_rows_def by (rule iffD2 [OF outbox_ids_unique_map assms(1)]) simp
  have c2: "events' = claim_candidates limit' now' skipped' d1"
    using assms(4) by (auto simp: claim_Inr [OF u1])
  have "False" if r: "r \<in> set events" and r': "r' \<in> set events'" and eq: "obx_id r = obx_id r'" for r r'
  proof -
    from r' c2 have m: "r' \<in> set (outbox_events d1)" "claimable now' r'" by (auto dest: claim_candidates_mem)
    from r c1 have "claimed (lockNow + 30000) r \<in> set (outbox_events d1)"
      by (auto simp: claimed_rows_def dest: claim_candidates_mem)
    from outbox_same [OF u1 m(1) this] eq have "r' = claimed (lockNow + 30000) r" by simp
    with m(2) assms(3) show False by (simp add: claimable_def claimed_def)
  qed
  then show ?thesis by blast
qed

lemma after_poll_eq:
  "after_poll config sql_text now reply events = (\<lambda>r.
     if r \<notin> set events then r
     else let i = turn events r; r = r\<lparr>obx_attempts := obx_attempts r + 1, obx_lockUntil := None\<rparr> in
       case reply i of
         None \<Rightarrow> r\<lparr>obx_status := PUBLISHED, obx_publishedAt := Some (now (2 + i)), obx_lastError := None\<rparr>
       | Some err \<Rightarrow> r\<lparr>obx_status := PENDING, obx_availableAt := now (2 + i) + wcf_baseDelayMs config,
           obx_lastError := Some (slice_to 1000 (message sql_text err))\<rparr>)"
  by (rule ext) (simp add: after_poll_def settle_def published_def released_def claimed_def Let_def
      split: option.split)

text \<open>A sample: two events, the older of which the queue refuses.\<close>

definition sample_payload :: "string \<Rightarrow> event_payload" where
  "sample_payload i =
     \<lparr>evp_eventId = i, evp_invoiceId = ''0'', evp_merchantId = ''m2'', evp_storeId = ''s1'',
      evp_customerName = ''Asha'', evp_customerContact = ''a@b.in'', evp_currency = ''INR'',
      evp_totalMinor = 1180, evp_status = ISSUED, evp_issuedAt = 1000, evp_providerEventId = None,
      evp_paymentAmountMinor = None\<rparr>"

definition sample_event :: "string \<Rightarrow> int \<Rightarrow> outbox_event" where
  "sample_event i t =
     \<lparr>obx_id = i, obx_aggregateType = ''invoice'', obx_aggregateId = ''0'', obx_merchantId = ''m2'',
      obx_eventType = ''invoice.issued.v1'', obx_payload = sample_payload i, obx_status = PENDING,
      obx_attempts = 0, obx_availableAt = t, obx_lockUntil = None, obx_publishedAt = None,
      obx_lastError = None, obx_createdAt = t\<rparr>"

definition outbox_db :: database where
  "outbox_db = sample_db\<lparr>outbox_events := [sample_event ''e1'' 2, sample_event ''e2'' 1]\<rparr>"

definition sample_worker :: WorkerConfig where
  "sample_worker =
     \<lparr>wcf_redisHost = ''redis'', wcf_redisPort = 6379, wcf_redisTls = False, wcf_redisPassword = None,
      wcf_pollIntervalMs = 1000, wcf_maxAttempts = 3, wcf_baseDelayMs = 500, wcf_concurrency = 8,
      wcf_metricsPort = 9091, wcf_provider = LogProvider, wcf_providerUrl = None,
      wcf_providerApiKey = None, wcf_releaseVersion = ''v1'', wcf_idempotencyRetentionDays = 7,
      wcf_outboxRetentionDays = 30, wcf_webhookReceiptRetentionDays = 400\<rparr>"

lemma outbox_db_unique: "outbox_ids_unique outbox_db"
  by code_simp

lemma outbox_db_candidates:
  "[sample_event ''e2'' 1, sample_event ''e1'' 2] =
     oldest 25 obx_createdAt (\<lambda>r. claimable 10 r \<and> \<not> False) (outbox_events outbox_db)"
  by (simp add: oldest_def outbox_db_def claimable_def sample_event_def)

text \<open>C19: No event is in two hands: two relays that claim one after the other, the second within the thirty
  seconds of the first one's locks, get different events, in any number and whatever rows each had to
  skip.\<close>

theorem claims_do_not_overlap:
  assumes "outbox_ids_unique d" and "claim limit now lockNow skipped d = Inr (events, d1)"
    and "now' \<le> lockNow + 30000" and "claim limit' now' lockNow' skipped' d1 = Inr (events', d2)"
  shows "obx_id ` set events \<inter> obx_id ` set events' = {}"
  using assms by (rule claim_disjoint)

theorem claims_do_not_overlap_witness:
  "\<exists>d1 d2. claim 1 10 10 (\<lambda>_. False) outbox_db = Inr ([sample_event ''e2'' 1], d1) \<and>
     claim 25 11 11 (\<lambda>_. False) d1 = Inr ([sample_event ''e1'' 2], d2) \<and>
     {''e2''} \<inter> obx_id ` set [sample_event ''e1'' 2] = {}"
proof -
  have ok: "(case claim 1 10 10 (\<lambda>_. False) outbox_db of Inl _ \<Rightarrow> False | Inr (evs, d1) \<Rightarrow>
      evs = [sample_event ''e2'' 1] \<and> (case claim 25 11 11 (\<lambda>_. False) d1 of Inl _ \<Rightarrow> False
        | Inr (evs', d2) \<Rightarrow> evs' = [sample_event ''e1'' 2]))"
    by code_simp
  then obtain d1 where c1: "claim 1 10 10 (\<lambda>_. False) outbox_db = Inr ([sample_event ''e2'' 1], d1)"
    by (cases "claim 1 10 10 (\<lambda>_. False) outbox_db") auto
  with ok obtain d2 where c2: "claim 25 11 11 (\<lambda>_. False) d1 = Inr ([sample_event ''e1'' 2], d2)"
    by (cases "claim 25 11 11 (\<lambda>_. False) d1") auto
  from claims_do_not_overlap [OF outbox_db_unique c1 _ c2] c1 c2 show ?thesis
    by (auto simp: sample_event_def)
qed

text \<open>C18: One poll settles exactly the events it claims: the up to 25 oldest ones that are due and not
  held elsewhere. Each is offered to the queue in that order; an accepted one is published at the
  time after its call, a refused one is due again after the base delay with the error recorded,
  both have one attempt more, and no other row or table changes.\<close>

theorem poll_settles_claimed:
  assumes "outbox_ids_unique d"
    and "events = oldest 25 obx_createdAt (\<lambda>r. claimable (now 0) r \<and> \<not> skipped r) (outbox_events d)"
    and "\<forall>r \<in> set events. 0 \<le> obx_attempts r \<and> obx_attempts r < 65535"
  shows "run_db (poll config sql_text now reply counts skipped False d) = d\<lparr>outbox_events := map (\<lambda>r.
      if r \<notin> set events then r
      else let i = turn events r; r = r\<lparr>obx_attempts := obx_attempts r + 1, obx_lockUntil := None\<rparr> in
        case reply i of
          None \<Rightarrow> r\<lparr>obx_status := PUBLISHED, obx_publishedAt := Some (now (2 + i)), obx_lastError := None\<rparr>
        | Some err \<Rightarrow> r\<lparr>obx_status := PENDING, obx_availableAt := now (2 + i) + wcf_baseDelayMs config,
            obx_lastError := Some (slice_to 1000 (message sql_text err))\<rparr>) (outbox_events d)\<rparr> \<and>
    (\<exists>again. run_calls (poll config sql_text now reply counts skipped False d) =
      map (delivery_job config) events @ again)"
proof -
  have c: "events = claim_candidates 25 (now 0) skipped d" by (simp add: assms(2) claim_candidates_def)
  show ?thesis
    unfolding poll_run(1) [where now = now, OF assms(1) c assms(3)]
    using poll_run(2) [where now = now, OF assms(1) c assms(3)]
    by (simp add: after_poll_eq)
qed

theorem poll_settles_claimed_witness:
  "obx_status (outbox_events (run_db (poll sample_worker (\<lambda>c. c) (\<lambda>i. 10)
       (\<lambda>i. if i = 0 then Some (PlainErr ''down'') else None) (0, 0) (\<lambda>r. False) False outbox_db)) ! 0) =
     PUBLISHED \<and>
   obx_availableAt (outbox_events (run_db (poll sample_worker (\<lambda>c. c) (\<lambda>i. 10)
       (\<lambda>i. if i = 0 then Some (PlainErr ''down'') else None) (0, 0) (\<lambda>r. False) False outbox_db)) ! 1) = 510"
proof -
  have "\<forall>r \<in> set [sample_event ''e2'' 1, sample_event ''e1'' 2]. 0 \<le> obx_attempts r \<and> obx_attempts r < 65535"
    by (simp add: sample_event_def)
  note poll_settles_claimed [where d = outbox_db and now = "\<lambda>i. 10" and skipped = "\<lambda>r. False"
      and events = "[sample_event ''e2'' 1, sample_event ''e1'' 2]" and config = sample_worker
      and sql_text = "\<lambda>c. c" and reply = "\<lambda>i. if i = 0 then Some (PlainErr ''down'') else None"
      and counts = "(0, 0)", OF outbox_db_unique outbox_db_candidates this, THEN conjunct1]
  then show ?thesis
    by (simp add: outbox_db_def sample_event_def sample_worker_def)
qed

section \<open>Draining the outbox\<close>

text \<open>Events left to publish that every poll from time \<open>t\<close> on may claim.\<close>

definition unpublished :: "outbox_event \<Rightarrow> bool" where
  "unpublished r \<longleftrightarrow> obx_status r \<noteq> PUBLISHED"

definition drainable :: "int \<Rightarrow> database \<Rightarrow> bool" where
  "drainable t d \<longleftrightarrow> outbox_ids_unique d \<and>
     (\<forall>r \<in> set (outbox_events d). unpublished r \<longrightarrow>
        claimable t r \<and> 0 \<le> obx_attempts r \<and> obx_attempts r < 65535)"

lemma claimable_mono: "claimable t r \<Longrightarrow> t \<le> now \<Longrightarrow> claimable now r"
  by (auto simp: claimable_def split: option.splits)

lemma claimable_unpublished: "claimable t r \<Longrightarrow> unpublished r"
  by (auto simp: claimable_def unpublished_def)

lemma after_poll_accepted:
  "unpublished (after_poll config sql_text now (\<lambda>_. None) events r) \<longleftrightarrow> unpublished r \<and> r \<notin> set events"
  by (auto simp: after_poll_def settle_def published_def unpublished_def)

lemma count_where_map: "count_where P (map f rows) = count_where (\<lambda>r. P (f r)) rows"
  by (simp add: count_where_def filter_map o_def)

lemma poll_drains:
  assumes "drainable t d" and "\<forall>i. t \<le> now i"
  shows "drainable t (run_db (poll config sql_text now (\<lambda>_. None) counts (\<lambda>_. False) False d))"
    and "count_where unpublished (outbox_events
        (run_db (poll config sql_text now (\<lambda>_. None) counts (\<lambda>_. False) False d))) =
      count_where unpublished (outbox_events d) - 25"
proof -
  let ?c = "claim_candidates 25 (now 0) (\<lambda>_. False) d"
  let ?d = "run_db (poll config sql_text now (\<lambda>_. None) counts (\<lambda>_. False) False d)"
  have u: "outbox_ids_unique d" using assms(1) by (simp add: drainable_def)
  have att: "\<forall>r \<in> set ?c. 0 \<le> obx_attempts r \<and> obx_attempts r < 65535"
    using assms(1) claimable_unpublished by (auto simp: drainable_def dest!: claim_candidates_mem)
  have run: "?d = d\<lparr>outbox_events := map (after_poll config sql_text now (\<lambda>_. None) ?c) (outbox_events d)\<rparr>"
    using poll_run(1) [where now = now, OF u refl att] .
  have "outbox_ids_unique ?d" unfolding run using u by (subst outbox_ids_unique_map) simp_all
  moreover have "after_poll config sql_text now (\<lambda>_. None) ?c r = r"
    if "unpublished (after_poll config sql_text now (\<lambda>_. None) ?c r)" for r
    using that by (simp add: after_poll_accepted) (simp add: after_poll_def)
  ultimately show "drainable t ?d"
    using assms(1) unfolding drainable_def run by (fastforce simp: after_poll_accepted)
  have due: "claimable (now 0) r \<and> \<not> False \<longleftrightarrow> unpublished r" if "r \<in> set (outbox_events d)" for r
    using that assms claimable_unpublished claimable_mono by (auto simp: drainable_def)
  have "filter (\<lambda>r. claimable (now 0) r \<and> \<not> False) (outbox_events d) = filter unpublished (outbox_events d)"
    using due by (intro filter_cong) auto
  then have c: "?c = oldest 25 obx_createdAt unpublished (outbox_events d)"
    by (simp add: claim_candidates_def oldest_def)
  have "count_where unpublished (outbox_events ?d) =
      count_where unpublished (drop_oldest 25 obx_createdAt unpublished (outbox_events d))"
    unfolding run c by (simp add: count_where_map after_poll_accepted)
      (simp add: count_where_def drop_oldest_def conj_commute)
  also have "\<dots> = count_where unpublished (outbox_events d) - 25"
    using u by (intro count_drop_oldest) (simp add: outbox_ids_unique_def distinct_map)
  finally show "count_where unpublished (outbox_events ?d) = count_where unpublished (outbox_events d) - 25" .
qed

text \<open>C20: The outbox drains: when every unpublished event is due and the queue accepts, each poll
  publishes up to 25 of them, so as many polls as the backlog has batches of 25 leave nothing
  unpublished.\<close>

theorem polls_drain_outbox:
  assumes "drainable t d" and "\<forall>now \<in> set clocks. \<forall>i. t \<le> now i"
    and "count_where unpublished (outbox_events d) \<le> 25 * length clocks"
  shows "\<forall>r \<in> set (outbox_events (fold (\<lambda>now d. run_db
    (poll config sql_text now (\<lambda>_. None) counts (\<lambda>_. False) False d)) clocks d)). obx_status r = PUBLISHED"
  using assms
proof (induction clocks arbitrary: d)
  case Nil
  then show ?case by (auto simp: count_where_def unpublished_def filter_empty_conv)
next
  case (Cons now clocks)
  have "drainable t (run_db (poll config sql_text now (\<lambda>_. None) counts (\<lambda>_. False) False d))"
    and "count_where unpublished (outbox_events
        (run_db (poll config sql_text now (\<lambda>_. None) counts (\<lambda>_. False) False d))) \<le> 25 * length clocks"
    using poll_drains [OF Cons.prems(1), of now] Cons.prems(2,3) by simp_all
  then show ?case using Cons.IH Cons.prems(2) by simp
qed

theorem polls_drain_outbox_witness:
  "list_all (\<lambda>r. obx_status r = PUBLISHED) (outbox_events
     (run_db (poll sample_worker (\<lambda>c. c) (\<lambda>i. 10) (\<lambda>_. None) (0, 0) (\<lambda>_. False) False outbox_db)))"
proof -
  have "drainable 10 outbox_db"
    using outbox_db_unique by (auto simp: drainable_def outbox_db_def sample_event_def claimable_def)
  from polls_drain_outbox [OF this, where clocks = "[\<lambda>i. 10]" and config = sample_worker
      and sql_text = "\<lambda>c. c" and counts = "(0, 0)"]
  show ?thesis by (simp add: list_all_iff outbox_db_def count_where_def)
qed

end
