(* ===== verification/Delivery.thy ===== *)
theory Delivery
  imports Relay StableJson
begin

text \<open>
  The notification deliveries of the worker, \<open>apps/worker/src/main.ts\<close> and \<open>provider.ts\<close>: the job
  handler asks whether the event was delivered before, sends it to the configured provider, records
  the attempt, and rethrows a failure so that the queue retries it; a job that failed for the last
  time goes to the dead-letter queue. What the provider's server answers is an argument.
\<close>

section \<open>Providers\<close>

text \<open>The answer of the server: an exception of \<open>fetch\<close>, or a status and the request id header.\<close>

type_synonym http_reply = "exn + nat \<times> string option"

datatype provider_call =
    HttpPost string string string event_payload
  | LogLine string string string

definition log_send ::
  "(string \<Rightarrow> char list) \<Rightarrow> event_payload \<Rightarrow> (exn + string) \<times> provider_call list" where
  "log_send sha256 event =
     (let contactHash = slice_to 12 (sha256_hex sha256 (evp_customerContact event)) in
      (Inr (''log:'' @ evp_eventId event),
       [LogLine (evp_eventId event) (evp_invoiceId event) contactHash]))"

definition webhook_send ::
  "string \<Rightarrow> string \<Rightarrow> http_reply \<Rightarrow> event_payload \<Rightarrow> (exn + string) \<times> provider_call list" where
  "webhook_send url apiKey reply event =
     (bindE reply (\<lambda>(status, requestId).
        if \<not> (200 \<le> status \<and> status \<le> 299)
        then Inl (CodedErr (''Notification provider returned HTTP '' @ show_nat status)
          (''PROVIDER_HTTP_'' @ show_nat status))
        else Inr (case requestId of None \<Rightarrow> evp_eventId event | Some r \<Rightarrow> r)),
      [HttpPost url (''Bearer '' @ apiKey) (evp_eventId event) event])"

text \<open>The configuration of a webhook provider has its URL and key, by \<open>loadWorkerConfig\<close>.\<close>

definition provider_send ::
  "(string \<Rightarrow> char list) \<Rightarrow> WorkerConfig \<Rightarrow> http_reply \<Rightarrow> event_payload \<Rightarrow>
   (exn + string) \<times> provider_call list" where
  "provider_send sha256 config reply event =
     (case wcf_provider config of
        WebhookProvider \<Rightarrow>
          webhook_send (the (wcf_providerUrl config)) (the (wcf_providerApiKey config)) reply event
      | LogProvider \<Rightarrow> log_send sha256 event)"

section \<open>The delivery attempts table\<close>

definition opt_text :: "string option \<Rightarrow> string" where
  "opt_text s = (case s of None \<Rightarrow> [] | Some t \<Rightarrow> t)"

definition delivery_constraints :: "delivery_attempt \<Rightarrow> (bool \<times> string) list" where
  "delivery_constraints r =
     [text_col 36 (dlv_eventId r), uint_col 16 (dlv_attemptNumber r),
      text_col 160 (opt_text (dlv_providerReference r)), text_col 80 (opt_text (dlv_errorCode r)),
      text_col 1000 (opt_text (dlv_errorMessage r))]"

definition same_attempt :: "database \<Rightarrow> delivery_attempt \<Rightarrow> delivery_attempt \<Rightarrow> bool" where
  "same_attempt d r s \<longleftrightarrow> sql_eq d (dlv_eventId s) (dlv_eventId r) \<and> dlv_attemptNumber s = dlv_attemptNumber r"

text \<open>
  \<open>upsert\<close> by event and attempt number: the row is inserted, or the row with its key takes the other
  values and keeps its id and creation time.
\<close>

definition overwrite :: "delivery_attempt \<Rightarrow> delivery_attempt \<Rightarrow> delivery_attempt" where
  "overwrite r s = s\<lparr>dlv_status := dlv_status r, dlv_providerReference := dlv_providerReference r,
     dlv_errorCode := dlv_errorCode r, dlv_errorMessage := dlv_errorMessage r\<rparr>"

definition upsert_delivery :: "delivery_attempt \<Rightarrow> database \<Rightarrow> exn + database" where
  "upsert_delivery r d =
     (case find (\<lambda>c. \<not> fst c) (delivery_constraints r) of
        Some c \<Rightarrow> Inl (QueryFailed (snd c))
      | None \<Rightarrow> Inr (d\<lparr>delivery_attempts :=
          if list_ex (same_attempt d r) (delivery_attempts d)
          then update_where (same_attempt d r) (overwrite r) (delivery_attempts d)
          else delivery_attempts d @ [r]\<rparr>))"

section \<open>The job handler\<close>

fun error_code :: "exn \<Rightarrow> string" where
  "error_code (CodedErr m c) = c"
| "error_code (QueryFailed c) = c"
| "error_code _ = ''DELIVERY_FAILED''"

definition delivered :: "database \<Rightarrow> string \<Rightarrow> bool" where
  "delivered d eventId \<longleftrightarrow>
     find (\<lambda>a. sql_eq d (dlv_eventId a) eventId \<and> dlv_status a = SUCCEEDED) (delivery_attempts d) \<noteq> None"

definition job_limit :: "int option \<Rightarrow> int" where
  "job_limit attempts = (case attempts of None \<Rightarrow> 1 | Some n \<Rightarrow> n)"

record delivery_run =
  dlr_result :: "exn + unit"
  dlr_db :: database
  dlr_calls :: "provider_call list"
  dlr_metrics :: "worker_metric list"

definition sent_attempt :: "int \<Rightarrow> int \<Rightarrow> int \<Rightarrow> event_payload \<Rightarrow> string \<Rightarrow> delivery_attempt" where
  "sent_attempt newId now attemptNumber event providerReference =
     \<lparr>dlv_id = newId, dlv_eventId = evp_eventId event, dlv_attemptNumber = attemptNumber,
      dlv_status = SUCCEEDED, dlv_providerReference = Some providerReference,
      dlv_errorCode = None, dlv_errorMessage = None, dlv_createdAt = now\<rparr>"

definition failed_attempt ::
  "(string \<Rightarrow> string) \<Rightarrow> int \<Rightarrow> int \<Rightarrow> int \<Rightarrow> bool \<Rightarrow> event_payload \<Rightarrow> exn \<Rightarrow> delivery_attempt" where
  "failed_attempt sql_text newId now attemptNumber finalAttempt event err =
     \<lparr>dlv_id = newId, dlv_eventId = evp_eventId event, dlv_attemptNumber = attemptNumber,
      dlv_status = (if finalAttempt then DEAD_LETTERED else RETRYING),
      dlv_providerReference = None, dlv_errorCode = Some (error_code err),
      dlv_errorMessage = Some (slice_to 1000 (message sql_text err)), dlv_createdAt = now\<rparr>"

text \<open>\<open>newId 0\<close> and \<open>newId 1\<close> are what the auto-increment column gives the two inserts.\<close>

definition handle_job ::
  "(string \<Rightarrow> char list) \<Rightarrow> (string \<Rightarrow> string) \<Rightarrow> WorkerConfig \<Rightarrow> http_reply \<Rightarrow> (nat \<Rightarrow> int) \<Rightarrow> int \<Rightarrow>
   int \<Rightarrow> int option \<Rightarrow> event_payload \<Rightarrow> database \<Rightarrow> delivery_run" where
  "handle_job sha256 sql_text config reply newId now attemptsMade attempts event d =
     (let attemptNumber = attemptsMade + 1 in
      if delivered d (evp_eventId event)
      then \<lparr>dlr_result = Inr (), dlr_db = d, dlr_calls = [], dlr_metrics = [DeliveriesInc ''deduplicated'']\<rparr>
      else
        let (result, calls) = provider_send sha256 config reply event in
        case bindE result (\<lambda>providerReference.
            upsert_delivery (sent_attempt (newId 0) now attemptNumber event providerReference) d) of
          Inr d' \<Rightarrow> \<lparr>dlr_result = Inr (), dlr_db = d', dlr_calls = calls,
            dlr_metrics = [DeliveriesInc ''succeeded'']\<rparr>
        | Inl err \<Rightarrow>
            let finalAttempt = (job_limit attempts \<le> attemptNumber) in
            case upsert_delivery (failed_attempt sql_text (newId 1) now attemptNumber finalAttempt event err) d of
              Inr d' \<Rightarrow> \<lparr>dlr_result = Inl err, dlr_db = d', dlr_calls = calls,
                dlr_metrics = [DeliveriesInc (if finalAttempt then ''dead_lettered'' else ''retrying'')]\<rparr>
            | Inl err' \<Rightarrow> \<lparr>dlr_result = Inl err', dlr_db = d, dlr_calls = calls, dlr_metrics = []\<rparr>)"

text \<open>The listener of failed jobs, told the attempts made so far: the dead letter it adds.\<close>

definition on_failed :: "int \<Rightarrow> int option \<Rightarrow> event_payload \<Rightarrow> (string \<times> event_payload) option" where
  "on_failed attemptsMade attempts event =
     (if job_limit attempts \<le> attemptsMade then Some (evp_eventId event, event) else None)"

section \<open>Recording an attempt\<close>

lemma upsert_delivery_Inr [res_simps]:
  "upsert_delivery r d = Inr d' \<longleftrightarrow> list_all fst (delivery_constraints r) \<and>
     d' = d\<lparr>delivery_attempts :=
       if list_ex (same_attempt d r) (delivery_attempts d)
       then update_where (same_attempt d r) (overwrite r) (delivery_attempts d)
       else delivery_attempts d @ [r]\<rparr>"
  unfolding upsert_delivery_def by (auto simp flip: find_None_list_all split: option.splits)

lemma delivered_iff:
  "delivered d i \<longleftrightarrow> (\<exists>a \<in> set (delivery_attempts d). sql_eq d (dlv_eventId a) i \<and> dlv_status a = SUCCEEDED)"
  by (auto simp: delivered_def find_None_iff)

lemma upsert_collation: "upsert_delivery r d = Inr d' \<Longrightarrow> collation d' = collation d"
  by (auto simp: upsert_delivery_Inr)

lemma upsert_frame:
  "upsert_delivery r d = Inr d' \<Longrightarrow> d' = d\<lparr>delivery_attempts := delivery_attempts d'\<rparr>"
  by (auto simp: upsert_delivery_Inr)

text \<open>After the upsert a row of this event and attempt carries the recorded values.\<close>

lemma upsert_records:
  assumes "upsert_delivery r d = Inr d'"
  shows "\<exists>x \<in> set (delivery_attempts d'). same_attempt d r x \<and> dlv_status x = dlv_status r \<and>
    dlv_providerReference x = dlv_providerReference r \<and> dlv_errorCode x = dlv_errorCode r \<and>
    dlv_errorMessage x = dlv_errorMessage r"
proof (cases "list_ex (same_attempt d r) (delivery_attempts d)")
  case True
  then obtain y where y: "y \<in> set (delivery_attempts d)" "same_attempt d r y"
    by (auto simp: list_ex_iff)
  then have "overwrite r y \<in> set (delivery_attempts d')"
    using assms True by (auto simp: upsert_delivery_Inr set_update_where)
  with y(2) show ?thesis by (intro bexI [of _ "overwrite r y"]) (auto simp: overwrite_def same_attempt_def)
qed (use assms in \<open>auto simp: upsert_delivery_Inr same_attempt_def\<close>)

lemma upsert_delivered:
  assumes "upsert_delivery r d = Inr d'" and "dlv_status r = SUCCEEDED"
  shows "delivered d' (dlv_eventId r)"
proof -
  obtain x where "x \<in> set (delivery_attempts d')" "same_attempt d r x" "dlv_status x = dlv_status r"
    using upsert_records [OF assms(1)] by blast
  then show ?thesis
    using upsert_collation [OF assms(1)] assms(2)
    by (auto simp: delivered_iff same_attempt_def sql_eq_def)
qed

text \<open>A success is never overwritten by the attempts of another event.\<close>

lemma upsert_keeps:
  assumes "upsert_delivery r d = Inr d'" and "\<not> delivered d (dlv_eventId r)"
    and "x \<in> set (delivery_attempts d)" and "dlv_status x = SUCCEEDED"
  shows "x \<in> set (delivery_attempts d')"
proof -
  have "\<not> same_attempt d r x"
    using assms(2-4) by (auto simp: delivered_iff same_attempt_def)
  then show ?thesis using assms(1,3) by (auto simp: upsert_delivery_Inr set_update_where)
qed

section \<open>What a run of the handler does\<close>

lemma handle_job_delivered:
  "delivered d (evp_eventId event) \<Longrightarrow>
     handle_job sha256 sql_text config reply newId now attemptsMade attempts event d =
       \<lparr>dlr_result = Inr (), dlr_db = d, dlr_calls = [], dlr_metrics = [DeliveriesInc ''deduplicated'']\<rparr>"
  by (simp add: handle_job_def)

text \<open>A run changes the database by at most one upsert, of an event not delivered before.\<close>

lemma handle_job_db:
  assumes "run = handle_job sha256 sql_text config reply newId now attemptsMade attempts event d"
  obtains "dlr_db run = d" and "delivered d (evp_eventId event)" and "dlr_result run = Inr ()"
  | "dlr_db run = d" and "dlr_result run \<noteq> Inr ()"
  | r where "upsert_delivery r d = Inr (dlr_db run)" and "\<not> delivered d (dlv_eventId r)"
      and "dlv_eventId r = evp_eventId event" and "dlr_result run = Inr () \<Longrightarrow> dlv_status r = SUCCEEDED"
proof (cases "delivered d (evp_eventId event)")
  case True
  with assms that(1) show ?thesis by (simp add: handle_job_delivered)
next
  case False
  with assms that show ?thesis
    by (auto simp: handle_job_def Let_def split: sum.splits prod.splits)
      (auto simp: bindE_Inr_conv sent_attempt_def failed_attempt_def)
qed

lemma handle_job_keeps:
  assumes "run = handle_job sha256 sql_text config reply newId now attemptsMade attempts event d"
    and "x \<in> set (delivery_attempts d)" and "dlv_status x = SUCCEEDED"
  shows "x \<in> set (delivery_attempts (dlr_db run))"
  using assms(1) by (rule handle_job_db) (use assms(2,3) upsert_keeps in auto)

lemma handle_job_frame:
  assumes "run = handle_job sha256 sql_text config reply newId now attemptsMade attempts event d"
  shows "dlr_db run = d\<lparr>delivery_attempts := delivery_attempts (dlr_db run)\<rparr>"
  using assms by (rule handle_job_db) (use upsert_frame in auto)

lemma handle_job_success:
  assumes "run = handle_job sha256 sql_text config reply newId now attemptsMade attempts event d"
    and "dlr_result run = Inr ()"
  shows "delivered (dlr_db run) (evp_eventId event)"
  using assms(1)
proof (rule handle_job_db)
  fix r
  assume "upsert_delivery r d = Inr (dlr_db run)" and "dlv_eventId r = evp_eventId event"
    and "dlr_result run = Inr () \<Longrightarrow> dlv_status r = SUCCEEDED"
  with upsert_delivered assms(2) show ?thesis by metis
qed (use assms(2) in auto)

lemma delivered_keeps:
  assumes "run = handle_job sha256 sql_text config reply newId now attemptsMade attempts event d"
    and "delivered d i"
  shows "delivered (dlr_db run) i"
proof -
  obtain x where x: "x \<in> set (delivery_attempts d)" "sql_eq d (dlv_eventId x) i" "dlv_status x = SUCCEEDED"
    using assms(2) by (auto simp: delivered_iff)
  moreover have "collation (dlr_db run) = collation d"
    by (subst handle_job_frame [OF assms(1)]) simp
  ultimately show ?thesis
    using handle_job_keeps [OF assms(1) x(1,3)] by (auto simp: delivered_iff sql_eq_def)
qed

text \<open>Any number of runs, of any jobs.\<close>

inductive delivery_step :: "database \<Rightarrow> database \<Rightarrow> bool" where
  delivery_run: "delivery_step d
    (dlr_db (handle_job sha256 sql_text config reply newId now attemptsMade attempts event d))"

inductive_simps delivery_step_iff: "delivery_step d d'"

lemma steps_keep_delivered: "delivery_step\<^sup>*\<^sup>* d d' \<Longrightarrow> delivered d i \<Longrightarrow> delivered d' i"
  by (induction rule: rtranclp_induct) (auto simp: delivery_step_iff intro: delivered_keeps [OF refl])

section \<open>Properties\<close>

text \<open>A sample delivery by the log provider.\<close>

definition delivered_run :: delivery_run where
  "delivered_run = handle_job sample_hash (\<lambda>c. c) sample_worker (Inr (200, None)) int 5 0 (Some 3)
     (sample_payload ''e1'') outbox_db"

lemma delivered_run_result: "dlr_result delivered_run = Inr ()"
  by code_simp

text \<open>C12: A notification is delivered once: after a run of the handler succeeded for an event, whatever
  other jobs run in between, every later run for that event succeeds without calling the provider and
  without changing the database.\<close>

theorem delivered_once:
  assumes "dlr_result run = Inr ()"
    and "run = handle_job sha256 sql_text config reply newId now attemptsMade attempts event d"
    and "delivery_step\<^sup>*\<^sup>* (dlr_db run) d'" and "evp_eventId event' = evp_eventId event"
  shows "handle_job sha256' sql_text' config' reply' newId' now' attemptsMade' attempts' event' d' =
    \<lparr>dlr_result = Inr (), dlr_db = d', dlr_calls = [], dlr_metrics = [DeliveriesInc ''deduplicated'']\<rparr>"
  using handle_job_delivered steps_keep_delivered [OF assms(3) handle_job_success [OF assms(2,1)]] assms(4)
  by metis

theorem delivered_once_witness:
  "dlr_calls (handle_job sample_hash (\<lambda>c. c) sample_worker (Inr (500, None)) int 9 1 (Some 3)
     (sample_payload ''e1'') (dlr_db delivered_run)) = []"
  using delivered_once [OF delivered_run_result delivered_run_def rtranclp.rtrancl_refl refl] by simp

text \<open>The sent reference, or the failure the attempt is recorded with.\<close>

definition attempt_outcome :: "exn + string \<Rightarrow> exn + string" where
  "attempt_outcome result = bindE result (\<lambda>reference.
     if length reference \<le> 160 then Inr reference else Inl (QueryFailed ''ER_DATA_TOO_LONG''))"

lemma upsert_sent:
  assumes "length (evp_eventId event) \<le> 36" and "0 \<le> n" and "n < 65536"
  shows "\<not> length reference \<le> 160 \<Longrightarrow>
      upsert_delivery (sent_attempt i now n event reference) d = Inl (QueryFailed ''ER_DATA_TOO_LONG'')"
    and "length reference \<le> 160 \<Longrightarrow> \<exists>d'. upsert_delivery (sent_attempt i now n event reference) d = Inr d'"
  using assms
  by (simp_all add: upsert_delivery_def delivery_constraints_def sent_attempt_def text_col_def
      uint_col_def opt_text_def)

lemma upsert_failed:
  assumes "length (evp_eventId event) \<le> 36" and "0 \<le> n" and "n < 65536" and "length (error_code err) \<le> 80"
  shows "\<exists>d'. upsert_delivery (failed_attempt sql_text i now n final event err) d = Inr d'"
  using assms
  by (simp add: upsert_delivery_def delivery_constraints_def failed_attempt_def text_col_def
      uint_col_def opt_text_def slice_to_def)

lemma send_and_record:
  assumes "length (evp_eventId event) \<le> 36" and "0 \<le> n" and "n < 65536"
  shows "bindE result (\<lambda>reference. upsert_delivery (sent_attempt i now n event reference) d) =
    bindE (attempt_outcome result) (\<lambda>reference. upsert_delivery (sent_attempt i now n event reference) d)"
  by (cases result) (use upsert_sent(1) [OF assms] in \<open>auto simp: attempt_outcome_def\<close>)

lemma attempt_outcome_cases:
  obtains reference where "attempt_outcome result = Inr reference" and "length reference \<le> 160"
  | err where "attempt_outcome result = Inl err" and "err = QueryFailed ''ER_DATA_TOO_LONG'' \<or> result = Inl err"
  by (cases "attempt_outcome result"; cases result)
    (auto simp: attempt_outcome_def split: if_splits)

text \<open>C34: Every attempt is recorded: a run for an event not delivered before calls the provider and
  leaves a row for the event and attempt number, succeeded with the provider's reference or, when the
  provider or the reference's column refused, dead-lettered at the last attempt and retrying before,
  with the error's code and text; the job fails exactly when the attempt did. A reference of more
  than 160 characters is thus recorded as a failure, although the provider took the event.\<close>

theorem handle_job_records:
  assumes "\<not> delivered d (evp_eventId event)" and "length (evp_eventId event) \<le> 36"
    and "0 \<le> attemptsMade" and "attemptsMade < 65535"
    and "provider_send sha256 config reply event = (result, calls)"
    and "\<And>err. result = Inl err \<Longrightarrow> length (error_code err) \<le> 80"
    and "run = handle_job sha256 sql_text config reply newId now attemptsMade attempts event d"
  shows "dlr_calls run = calls \<and> dlr_result run = bindE (attempt_outcome result) (\<lambda>_. Inr ()) \<and>
    (\<exists>x \<in> set (delivery_attempts (dlr_db run)). sql_eq d (dlv_eventId x) (evp_eventId event) \<and>
      dlv_attemptNumber x = attemptsMade + 1 \<and>
      (case attempt_outcome result of
        Inr reference \<Rightarrow> dlv_status x = SUCCEEDED \<and> dlv_providerReference x = Some reference
      | Inl err \<Rightarrow>
          dlv_status x = (if job_limit attempts \<le> attemptsMade + 1 then DEAD_LETTERED else RETRYING) \<and>
          dlv_errorCode x = Some (error_code err) \<and>
          dlv_errorMessage x = Some (take 1000 (message sql_text err))))"
proof -
  have n: "0 \<le> attemptsMade + 1" "attemptsMade + 1 < 65536" using assms(3,4) by simp_all
  note rec = send_and_record [OF assms(2) n, of result "newId 0" now d]
  show ?thesis
  proof (cases result rule: attempt_outcome_cases)
    case (1 reference)
    obtain d1 where d1: "upsert_delivery (sent_attempt (newId 0) now (attemptsMade + 1) event reference) d = Inr d1"
      using upsert_sent(2) [OF assms(2) n 1(2)] by blast
    have "run = \<lparr>dlr_result = Inr (), dlr_db = d1, dlr_calls = calls, dlr_metrics = [DeliveriesInc ''succeeded'']\<rparr>"
      using assms(1,5,7) 1 d1 rec
      by (simp add: handle_job_def)
    then show ?thesis
      using upsert_records [OF d1] 1 by (auto simp: sent_attempt_def same_attempt_def)
  next
    case (2 err)
    define final where "final = (job_limit attempts \<le> attemptsMade + 1)"
    have "length (error_code err) \<le> 80" using 2(2) assms(6) by auto
    then obtain d1 where d1: "upsert_delivery (failed_attempt sql_text (newId 1) now (attemptsMade + 1) final
        event err) d = Inr d1"
      using upsert_failed [OF assms(2) n] by blast
    have "run = \<lparr>dlr_result = Inl err, dlr_db = d1, dlr_calls = calls,
        dlr_metrics = [DeliveriesInc (if final then ''dead_lettered'' else ''retrying'')]\<rparr>"
      using assms(1,5,7) 2 d1 rec
      by (simp add: handle_job_def final_def Let_def)
    then show ?thesis
      using upsert_records [OF d1] 2
      by (auto simp: failed_attempt_def same_attempt_def final_def slice_to_def)
  qed
qed

definition webhook_worker :: WorkerConfig where
  "webhook_worker = sample_worker\<lparr>wcf_provider := WebhookProvider, wcf_providerUrl := Some ''https://n.in'',
     wcf_providerApiKey := Some ''key''\<rparr>"

theorem handle_job_records_witness:
  "\<exists>x \<in> set (delivery_attempts (dlr_db (handle_job sample_hash (\<lambda>c. c) webhook_worker
     (Inr (200, Some (replicate 161 CHR ''r''))) int 5 0 (Some 3) (sample_payload ''e1'') outbox_db))).
     dlv_attemptNumber x = 1 \<and> dlv_status x = RETRYING \<and> dlv_errorCode x = Some ''ER_DATA_TOO_LONG''"
proof -
  let ?r = "replicate 161 CHR ''r''"
  have s: "provider_send sample_hash webhook_worker (Inr (200, Some ?r)) (sample_payload ''e1'') =
      (Inr ?r, [HttpPost ''https://n.in'' (''Bearer '' @ ''key'') ''e1'' (sample_payload ''e1'')])"
    by (simp add: provider_send_def webhook_worker_def webhook_send_def sample_payload_def)
  have o: "attempt_outcome (Inr ?r) = Inl (QueryFailed ''ER_DATA_TOO_LONG'')"
    by (simp add: attempt_outcome_def)
  have l: "length (evp_eventId (sample_payload ''e1'')) \<le> 36" by (simp add: sample_payload_def)
  have n: "\<not> delivered outbox_db (evp_eventId (sample_payload ''e1''))" by code_simp
  show ?thesis
    using handle_job_records [OF n l _ _ s _ refl, where attemptsMade = 0 and attempts = "Some 3"
        and sql_text = "\<lambda>c. c" and newId = int and now = 5]
    unfolding o by (auto simp: job_limit_def)
qed

section \<open>The attempts of one job\<close>

text \<open>
  The runs of one job, attempt \<open>m\<close> first, until one succeeds or \<open>k\<close> were made; each attempt has its own
  answer of the server, ids and time.
\<close>

fun run_attempts ::
  "(string \<Rightarrow> char list) \<Rightarrow> (string \<Rightarrow> string) \<Rightarrow> WorkerConfig \<Rightarrow> (nat \<Rightarrow> http_reply) \<Rightarrow> (nat \<Rightarrow> nat \<Rightarrow> int) \<Rightarrow>
   (nat \<Rightarrow> int) \<Rightarrow> int \<Rightarrow> event_payload \<Rightarrow> nat \<Rightarrow> nat \<Rightarrow> database \<Rightarrow> database \<times> provider_call list" where
  "run_attempts sha256 sql_text config reply newId now attempts event 0 m d = (d, [])"
| "run_attempts sha256 sql_text config reply newId now attempts event (Suc k) m d =
     (let run = handle_job sha256 sql_text config (reply m) (newId m) (now m) (int m) (Some attempts) event d
      in if dlr_result run = Inr () then (dlr_db run, dlr_calls run)
         else let (d', calls) =
             run_attempts sha256 sql_text config reply newId now attempts event k (Suc m) (dlr_db run)
           in (d', dlr_calls run @ calls))"

lemma handle_job_calls:
  "length (dlr_calls (handle_job sha256 sql_text config reply newId now attemptsMade attempts event d)) \<le> 1"
  by (auto simp: handle_job_def provider_send_def log_send_def webhook_send_def Let_def
      split: sum.splits prod.splits notification_provider.splits)

lemma run_attempts_calls:
  "run_attempts sha256 sql_text config reply newId now attempts event k m d = (d', calls) \<Longrightarrow> length calls \<le> k"
proof (induction k arbitrary: m d d' calls)
  case (Suc k)
  let ?run = "handle_job sha256 sql_text config (reply m) (newId m) (now m) (int m) (Some attempts) event d"
  obtain d2 cs where rest: "run_attempts sha256 sql_text config reply newId now attempts event k (Suc m)
      (dlr_db ?run) = (d2, cs)" by fastforce
  then have "length cs \<le> k" by (rule Suc.IH)
  moreover have "length (dlr_calls ?run) \<le> 1" by (rule handle_job_calls)
  ultimately show ?case using Suc.prems rest by (auto simp: Let_def split: if_splits)
qed simp

text \<open>Errors whose code fits its column.\<close>

definition coded_errors :: "(string \<Rightarrow> char list) \<Rightarrow> WorkerConfig \<Rightarrow> (nat \<Rightarrow> http_reply) \<Rightarrow> event_payload \<Rightarrow> bool" where
  "coded_errors sha256 config reply event \<longleftrightarrow>
     (\<forall>m err. fst (provider_send sha256 config (reply m) event) = Inl err \<longrightarrow> length (error_code err) \<le> 80)"

lemma last_attempt_settles:
  assumes "length (evp_eventId event) \<le> 36" and "coded_errors sha256 config reply event" and "m < 65535"
    and "run = handle_job sha256 sql_text config (reply m) newId now (int m) (Some (int m + 1)) event d"
  shows "\<exists>x \<in> set (delivery_attempts (dlr_db run)). sql_eq (dlr_db run) (dlv_eventId x) (evp_eventId event) \<and>
    dlv_status x \<in> {SUCCEEDED, DEAD_LETTERED}"
proof (cases "delivered d (evp_eventId event)")
  case True
  with delivered_keeps [OF assms(4)] show ?thesis by (auto simp: delivered_iff)
next
  case False
  obtain result calls where s: "provider_send sha256 config (reply m) event = (result, calls)" by fastforce
  have c: "length (error_code err) \<le> 80" if "result = Inl err" for err
    using that assms(2) s by (auto simp: coded_errors_def dest: spec [of _ m])
  have "collation (dlr_db run) = collation d"
    by (subst handle_job_frame [OF assms(4)]) simp
  with handle_job_records [OF False assms(1) _ _ s c assms(4)] assms(3) show ?thesis
    by (cases result rule: attempt_outcome_cases) (auto simp: job_limit_def sql_eq_def)
qed

lemma run_attempts_settle:
  assumes "length (evp_eventId event) \<le> 36" and "coded_errors sha256 config reply event"
    and "0 < k" and "k + m \<le> 65535"
    and "run_attempts sha256 sql_text config reply newId now (int (k + m)) event k m d = (d', calls)"
  shows "\<exists>x \<in> set (delivery_attempts d'). sql_eq d' (dlv_eventId x) (evp_eventId event) \<and>
    dlv_status x \<in> {SUCCEEDED, DEAD_LETTERED}"
  using assms(3-5)
proof (induction k arbitrary: m d calls)
  case (Suc k)
  let ?run = "handle_job sha256 sql_text config (reply m) (newId m) (now m) (int m)
    (Some (int (Suc k + m))) event d"
  show ?case
  proof (cases "dlr_result ?run = Inr ()")
    case True
    then have "d' = dlr_db ?run" using Suc.prems(3) by (simp add: Let_def)
    then show ?thesis using handle_job_success [OF refl True] by (auto simp: delivered_iff)
  next
    case False
    then obtain cs where rest: "run_attempts sha256 sql_text config reply newId now (int (Suc k + m)) event k
        (Suc m) (dlr_db ?run) = (d', cs)"
      using Suc.prems(3) by (auto simp: Let_def split: prod.splits)
    show ?thesis
    proof (cases k)
      case 0
      have "?run = handle_job sha256 sql_text config (reply m) (newId m) (now m) (int m) (Some (int m + 1)) event d"
        using 0 by (simp add: add.commute)
      moreover have "d' = dlr_db ?run" using rest 0 by simp
      ultimately show ?thesis
        using last_attempt_settles [OF assms(1,2)] Suc.prems(2) by simp
    next
      case (Suc j)
      then show ?thesis using Suc.IH [of "Suc m" "dlr_db ?run" cs] Suc.prems(2) rest by simp
    qed
  qed
qed simp

text \<open>C27: The attempts of a job come to an end: run until one succeeds or the configured number is used up,
  they call the provider at most that often and leave the event settled, as delivered or dead-lettered,
  so that the relay does not hand it to the queue again.\<close>

theorem job_attempts_settle:
  assumes "length (evp_eventId event) \<le> 36" and "coded_errors sha256 config reply event"
    and "0 < n" and "n \<le> 65535"
    and "run_attempts sha256 sql_text config reply newId now (int n) event n 0 d = (d', calls)"
    and "obx_id ev = evp_eventId event"
  shows "length calls \<le> n \<and> settled_delivery d' ev \<and> ev \<notin> set (unsettled limit cutoff d')"
proof -
  have "settled_delivery d' ev"
    using run_attempts_settle [of event sha256 config reply n 0] assms
    by (auto simp: settled_delivery_def list_ex_iff)
  then show ?thesis using run_attempts_calls [OF assms(5)] by (auto simp: unsettled_def dest: oldest_mem)
qed

theorem job_attempts_settle_witness:
  "settled_delivery (fst (run_attempts sample_hash (\<lambda>c. c) webhook_worker (\<lambda>m. Inr (503, None))
     (\<lambda>m. int) int (int 3) (sample_payload ''e1'') 3 0 outbox_db)) (sample_event ''e1'' 2)"
proof -
  have "length (show_nat 503) = 3" by code_simp
  then have c: "coded_errors sample_hash webhook_worker (\<lambda>m. Inr (503, None)) (sample_payload ''e1'')"
    by (simp add: coded_errors_def provider_send_def webhook_worker_def webhook_send_def)
  have l: "length (evp_eventId (sample_payload ''e1'')) \<le> 36" by (simp add: sample_payload_def)
  obtain d' calls where r: "run_attempts sample_hash (\<lambda>c. c) webhook_worker (\<lambda>m. Inr (503, None))
      (\<lambda>m. int) int (int 3) (sample_payload ''e1'') 3 0 outbox_db = (d', calls)" by fastforce
  have "obx_id (sample_event ''e1'' 2) = evp_eventId (sample_payload ''e1'')"
    by (simp add: sample_event_def sample_payload_def)
  from job_attempts_settle [OF l c _ _ r this] show ?thesis unfolding r by simp
qed

end
