(* ===== verification/Retention.thy ===== *)
theory Retention
  imports Relay
begin

text \<open>
  The worker's retention, \<open>runRetention\<close> and \<open>purgeInBatches\<close> of \<open>apps/worker/src/main.ts\<close>: four
  tables are purged of what is older than their cutoffs, in batches of 1000 rows, at most 20 batches
  each. The locale \<open>batch_purge\<close> states what one \<open>DELETE\<close> promises and proves what the loop does
  with it; every table is an interpretation.
\<close>

section \<open>Purging in batches\<close>

text \<open>One \<open>DELETE\<close> returns the changed state and the number of rows it deleted.\<close>

fun purge_loop :: "nat \<Rightarrow> ('d \<Rightarrow> 'd \<times> nat) \<Rightarrow> 'd \<Rightarrow> nat \<times> 'd" where
  "purge_loop 0 del d = (0, d)"
| "purge_loop (Suc batches) del d =
     (let (d', affected) = del d in
      if affected < 1000 then (affected, d')
      else let (total, d'') = purge_loop batches del d' in (affected + total, d''))"

definition purgeInBatches :: "('d \<Rightarrow> 'd \<times> nat) \<Rightarrow> 'd \<Rightarrow> nat \<times> 'd" where
  "purgeInBatches del d = purge_loop 20 del d"

text \<open>\<open>DELETE FROM t WHERE id IN (SELECT id FROM t WHERE P ORDER BY k LIMIT 1000)\<close>.\<close>

definition delete_batch :: "('r \<Rightarrow> 'i) \<Rightarrow> ('r \<Rightarrow> int) \<Rightarrow> ('r \<Rightarrow> bool) \<Rightarrow> 'r list \<Rightarrow> 'r list" where
  "delete_batch ident k P rows =
     filter (\<lambda>r. ident r \<notin> set (map ident (oldest 1000 k P rows))) rows"

section \<open>The four statements\<close>

definition purgeable_outbox :: "int \<Rightarrow> database \<Rightarrow> outbox_event \<Rightarrow> bool" where
  "purgeable_outbox cutoff d r \<longleftrightarrow> published_before cutoff r \<and> settled_delivery d r"

definition delete_outbox :: "int \<Rightarrow> database \<Rightarrow> database \<times> nat" where
  "delete_outbox cutoff d =
     (let rows = delete_batch (outbox_key d) published_at (purgeable_outbox cutoff d) (outbox_events d)
      in (d\<lparr>outbox_events := rows\<rparr>, length (outbox_events d) - length rows))"

definition purgeable_delivery :: "int \<Rightarrow> database \<Rightarrow> delivery_attempt \<Rightarrow> bool" where
  "purgeable_delivery cutoff d a \<longleftrightarrow>
     \<not> list_ex (\<lambda>ev. sql_eq d (obx_id ev) (dlv_eventId a)) (outbox_events d) \<and> dlv_createdAt a < cutoff"

definition delete_deliveries :: "int \<Rightarrow> database \<Rightarrow> database \<times> nat" where
  "delete_deliveries cutoff d =
     (let rows = delete_batch dlv_id dlv_createdAt (purgeable_delivery cutoff d) (delivery_attempts d)
      in (d\<lparr>delivery_attempts := rows\<rparr>, length (delivery_attempts d) - length rows))"

definition idempotency_id :: "database \<Rightarrow> idempotency_record \<Rightarrow> string" where
  "idempotency_id d r = collation d (idm_id r)"

definition delete_idempotency :: "int \<Rightarrow> database \<Rightarrow> database \<times> nat" where
  "delete_idempotency cutoff d =
     (let rows = delete_batch (idempotency_id d) idm_createdAt (\<lambda>r. idm_createdAt r < cutoff)
        (idempotency_records d)
      in (d\<lparr>idempotency_records := rows\<rparr>, length (idempotency_records d) - length rows))"

definition receipt_id :: "database \<Rightarrow> webhook_receipt \<Rightarrow> string" where
  "receipt_id d r = collation d (rcp_id r)"

definition delete_receipts :: "int \<Rightarrow> database \<Rightarrow> database \<times> nat" where
  "delete_receipts cutoff d =
     (let rows = delete_batch (receipt_id d) rcp_receivedAt (\<lambda>r. rcp_receivedAt r < cutoff)
        (webhook_receipts d)
      in (d\<lparr>webhook_receipts := rows\<rparr>, length (webhook_receipts d) - length rows))"

text \<open>The clock is read once for every cutoff. The counts are what the run logs.\<close>

record retention_counts =
  rtc_outbox :: nat
  rtc_delivery :: nat
  rtc_idempotency :: nat
  rtc_webhookReceipts :: nat

definition runRetention :: "WorkerConfig \<Rightarrow> (nat \<Rightarrow> int) \<Rightarrow> database \<Rightarrow> retention_counts \<times> database" where
  "runRetention config now d =
     (let idempotencyCutoff = now 0 - wcf_idempotencyRetentionDays config * 86400000;
          outboxCutoff = now 1 - wcf_outboxRetentionDays config * 86400000;
          webhookCutoff = now 2 - wcf_webhookReceiptRetentionDays config * 86400000;
          (outbox, d) = purgeInBatches (delete_outbox outboxCutoff) d;
          (delivery, d) = purgeInBatches (delete_deliveries outboxCutoff) d;
          (idempotency, d) = purgeInBatches (delete_idempotency idempotencyCutoff) d;
          (webhookReceipts, d) = purgeInBatches (delete_receipts webhookCutoff) d
      in (\<lparr>rtc_outbox = outbox, rtc_delivery = delivery, rtc_idempotency = idempotency,
           rtc_webhookReceipts = webhookReceipts\<rparr>, d))"

section \<open>What the loop does with a well-behaved statement\<close>

text \<open>
  The contract: on a table whose rows are distinct, the statement deletes the oldest 1000 eligible
  rows and nothing else, and which rows are eligible does not depend on the table's other rows.
\<close>

locale batch_purge =
  fixes rows :: "'d \<Rightarrow> 'r list"
    and set_rows :: "'r list \<Rightarrow> 'd \<Rightarrow> 'd"
    and wf :: "'d \<Rightarrow> bool"
    and k :: "'r \<Rightarrow> int"
    and eligible :: "'d \<Rightarrow> 'r \<Rightarrow> bool"
    and del :: "'d \<Rightarrow> 'd \<times> nat"
  assumes wf_distinct: "wf d \<Longrightarrow> distinct (rows d)"
    and rows_set: "rows (set_rows rs d) = rs"
    and set_set: "set_rows rs (set_rows rs' d) = set_rows rs d"
    and set_same: "set_rows (rows d) d = d"
    and eligible_set: "eligible (set_rows rs d) = eligible d"
    and wf_drop: "wf d \<Longrightarrow> wf (set_rows (drop_oldest n k (eligible d) (rows d)) d)"
    and del_effect: "wf d \<Longrightarrow> del d =
      (set_rows (drop_oldest 1000 k (eligible d) (rows d)) d, min 1000 (count_where (eligible d) (rows d)))"
begin

lemma purge_loop_effect:
  assumes "wf d"
  shows "purge_loop n del d =
    (min (1000 * n) (count_where (eligible d) (rows d)),
     set_rows (drop_oldest (1000 * n) k (eligible d) (rows d)) d)"
  using assms
proof (induction n arbitrary: d)
  case 0
  then show ?case by (simp add: set_same)
next
  case (Suc n)
  let ?P = "eligible d" and ?c = "count_where (eligible d) (rows d)"
  let ?d = "set_rows (drop_oldest 1000 k ?P (rows d)) d"
  note dist = wf_distinct [OF Suc.prems]
  have IH: "purge_loop n del ?d =
      (min (1000 * n) (count_where ?P (rows ?d)), set_rows (drop_oldest (1000 * n) k ?P (rows ?d)) ?d)"
    using Suc.IH [OF wf_drop [OF Suc.prems]] by (simp add: eligible_set)
  have cnt: "count_where ?P (rows ?d) = ?c - 1000"
    by (simp add: rows_set count_drop_oldest [OF dist])
  have drop: "drop_oldest (1000 * n) k ?P (rows ?d) = drop_oldest (1000 + 1000 * n) k ?P (rows d)"
    by (simp only: rows_set drop_oldest_drop_oldest [OF dist])
  show ?case
  proof (cases "?c < 1000")
    case True
    then have "drop_oldest (1000 + 1000 * n) k ?P (rows d) = drop_oldest 1000 k ?P (rows d)"
      by (intro drop_oldest_beyond [OF dist]) simp
    with True show ?thesis by (simp add: del_effect [OF Suc.prems])
  next
    case False
    then have "del d = (?d, 1000)" by (simp add: del_effect [OF Suc.prems])
    with False IH [unfolded drop cnt] show ?thesis by (simp add: set_set)
  qed
qed

lemma purge_effect:
  "wf d \<Longrightarrow> purgeInBatches del d =
    (min 20000 (count_where (eligible d) (rows d)),
     set_rows (drop_oldest 20000 k (eligible d) (rows d)) d)"
  by (simp add: purgeInBatches_def purge_loop_effect)

end

lemma delete_batch_drop:
  assumes "distinct (map ident rows)"
  shows "delete_batch ident k P rows = drop_oldest 1000 k P rows"
proof -
  have "ident r \<in> ident ` set (oldest 1000 k P rows) \<longleftrightarrow> r \<in> set (oldest 1000 k P rows)" if "r \<in> set rows" for r
  proof (rule inj_on_image_mem_iff [OF _ that])
    show "inj_on ident (set rows)" using assms by (simp add: distinct_map)
  qed (auto dest: oldest_mem)
  then show ?thesis unfolding delete_batch_def drop_oldest_def by (intro filter_cong) simp_all
qed

lemma length_drop_oldest:
  assumes "distinct rows"
  shows "length rows - length (drop_oldest n k P rows) = min n (count_where P rows)"
proof -
  have "distinct (oldest n k P rows)" using distinct_oldest [of id rows n k P] assms by simp
  moreover have "set (filter (\<lambda>r. r \<in> set (oldest n k P rows)) rows) = set (oldest n k P rows)"
    using oldest_mem [of _ n k P rows] by auto
  ultimately have "length (filter (\<lambda>r. r \<in> set (oldest n k P rows)) rows) = length (oldest n k P rows)"
    using assms by (metis distinct_card distinct_filter)
  moreover have "length (filter (\<lambda>r. r \<in> set (oldest n k P rows)) rows) + length (drop_oldest n k P rows) =
      length rows"
    unfolding drop_oldest_def by (rule sum_length_filter_compl)
  ultimately show ?thesis by (simp add: length_oldest)
qed

section \<open>The four tables\<close>

definition delivery_ids_unique :: "database \<Rightarrow> bool" where
  "delivery_ids_unique d \<longleftrightarrow> distinct (map dlv_id (delivery_attempts d))"

definition idempotency_ids_unique :: "database \<Rightarrow> bool" where
  "idempotency_ids_unique d \<longleftrightarrow> distinct (map (idempotency_id d) (idempotency_records d))"

definition receipt_ids_unique :: "database \<Rightarrow> bool" where
  "receipt_ids_unique d \<longleftrightarrow> distinct (map (receipt_id d) (webhook_receipts d))"

lemmas unique_defs = outbox_ids_unique_def delivery_ids_unique_def idempotency_ids_unique_def
  receipt_ids_unique_def

lemma distinct_mapD: "distinct (map f xs) \<Longrightarrow> distinct xs"
  by (simp add: distinct_map)

lemma distinct_map_drop_oldest: "distinct (map f rows) \<Longrightarrow> distinct (map f (drop_oldest n k P rows))"
  by (simp add: drop_oldest_def distinct_map_filter_key)

lemma key_frames [simp]:
  "outbox_key (d\<lparr>outbox_events := rs\<rparr>) = outbox_key d"
  "idempotency_id (d\<lparr>idempotency_records := is\<rparr>) = idempotency_id d"
  "receipt_id (d\<lparr>webhook_receipts := ws\<rparr>) = receipt_id d"
  by (simp_all add: outbox_key_def idempotency_id_def receipt_id_def fun_eq_iff)

lemmas delete_defs = delete_outbox_def delete_deliveries_def delete_idempotency_def delete_receipts_def

interpretation outbox_purge: batch_purge outbox_events "\<lambda>rs d. d\<lparr>outbox_events := rs\<rparr>" outbox_ids_unique
  published_at "purgeable_outbox cutoff" "delete_outbox cutoff"
  by unfold_locales
    (auto simp: unique_defs distinct_map_drop_oldest delete_defs delete_batch_drop Let_def
      length_drop_oldest [OF distinct_mapD] purgeable_outbox_def settled_delivery_def sql_eq_def fun_eq_iff
      dest: distinct_mapD)

interpretation delivery_purge: batch_purge delivery_attempts "\<lambda>rs d. d\<lparr>delivery_attempts := rs\<rparr>"
  delivery_ids_unique dlv_createdAt "purgeable_delivery cutoff" "delete_deliveries cutoff"
  by unfold_locales
    (auto simp: unique_defs distinct_map_drop_oldest delete_defs delete_batch_drop Let_def
      length_drop_oldest [OF distinct_mapD] purgeable_delivery_def sql_eq_def fun_eq_iff
      dest: distinct_mapD)

interpretation idempotency_purge: batch_purge idempotency_records "\<lambda>rs d. d\<lparr>idempotency_records := rs\<rparr>"
  idempotency_ids_unique idm_createdAt "\<lambda>d r. idm_createdAt r < cutoff" "delete_idempotency cutoff"
  by unfold_locales
    (auto simp: unique_defs distinct_map_drop_oldest delete_defs delete_batch_drop Let_def
      length_drop_oldest [OF distinct_mapD] dest: distinct_mapD)

interpretation receipt_purge: batch_purge webhook_receipts "\<lambda>rs d. d\<lparr>webhook_receipts := rs\<rparr>"
  receipt_ids_unique rcp_receivedAt "\<lambda>d r. rcp_receivedAt r < cutoff" "delete_receipts cutoff"
  by unfold_locales
    (auto simp: unique_defs distinct_map_drop_oldest delete_defs delete_batch_drop Let_def
      length_drop_oldest [OF distinct_mapD] dest: distinct_mapD)

section \<open>What a retention run removes\<close>

definition table_ids_unique :: "database \<Rightarrow> bool" where
  "table_ids_unique d \<longleftrightarrow> outbox_ids_unique d \<and> delivery_ids_unique d \<and> idempotency_ids_unique d \<and>
     receipt_ids_unique d"

definition days_ago :: "int \<Rightarrow> int \<Rightarrow> int" where
  "days_ago days now = now - days * 86400000"

lemma runRetention_tables:
  assumes "table_ids_unique d" and "runRetention config now d = (counts, d')"
  shows "outbox_events d' = drop_oldest 20000 published_at
      (purgeable_outbox (days_ago (wcf_outboxRetentionDays config) (now 1)) d) (outbox_events d)"
    and "delivery_attempts d' = drop_oldest 20000 dlv_createdAt
      (purgeable_delivery (days_ago (wcf_outboxRetentionDays config) (now 1)) d') (delivery_attempts d)"
    and "idempotency_records d' = drop_oldest 20000 idm_createdAt
      (\<lambda>r. idm_createdAt r < days_ago (wcf_idempotencyRetentionDays config) (now 0)) (idempotency_records d)"
    and "webhook_receipts d' = drop_oldest 20000 rcp_receivedAt
      (\<lambda>r. rcp_receivedAt r < days_ago (wcf_webhookReceiptRetentionDays config) (now 2)) (webhook_receipts d)"
    and "d' = d\<lparr>outbox_events := outbox_events d', delivery_attempts := delivery_attempts d',
      idempotency_records := idempotency_records d', webhook_receipts := webhook_receipts d'\<rparr>"
    and "rtc_outbox counts = length (outbox_events d) - length (outbox_events d')"
    and "rtc_delivery counts = length (delivery_attempts d) - length (delivery_attempts d')"
    and "rtc_idempotency counts = length (idempotency_records d) - length (idempotency_records d')"
    and "rtc_webhookReceipts counts = length (webhook_receipts d) - length (webhook_receipts d')"
proof -
  let ?o = "days_ago (wcf_outboxRetentionDays config) (now 1)"
  let ?i = "days_ago (wcf_idempotencyRetentionDays config) (now 0)"
  let ?w = "days_ago (wcf_webhookReceiptRetentionDays config) (now 2)"
  define d1 where "d1 = d\<lparr>outbox_events := drop_oldest 20000 published_at (purgeable_outbox ?o d) (outbox_events d)\<rparr>"
  define d2 where "d2 = d1\<lparr>delivery_attempts :=
    drop_oldest 20000 dlv_createdAt (purgeable_delivery ?o d1) (delivery_attempts d1)\<rparr>"
  define d3 where "d3 = d2\<lparr>idempotency_records :=
    drop_oldest 20000 idm_createdAt (\<lambda>r. idm_createdAt r < ?i) (idempotency_records d2)\<rparr>"
  define d4 where "d4 = d3\<lparr>webhook_receipts :=
    drop_oldest 20000 rcp_receivedAt (\<lambda>r. rcp_receivedAt r < ?w) (webhook_receipts d3)\<rparr>"
  note defs = d1_def d2_def d3_def d4_def
  have u: "outbox_ids_unique d" "delivery_ids_unique d1" "idempotency_ids_unique d2" "receipt_ids_unique d3"
    using assms(1)
    by (simp_all add: table_ids_unique_def unique_defs defs idempotency_id_def [abs_def] receipt_id_def [abs_def])
  have run: "d' = d4" "rtc_outbox counts = min 20000 (count_where (purgeable_outbox ?o d) (outbox_events d))"
    "rtc_delivery counts = min 20000 (count_where (purgeable_delivery ?o d1) (delivery_attempts d1))"
    "rtc_idempotency counts = min 20000 (count_where (\<lambda>r. idm_createdAt r < ?i) (idempotency_records d2))"
    "rtc_webhookReceipts counts = min 20000 (count_where (\<lambda>r. rcp_receivedAt r < ?w) (webhook_receipts d3))"
    using assms(2) outbox_purge.purge_effect [OF u(1), of ?o, folded d1_def]
      delivery_purge.purge_effect [OF u(2), of ?o, folded d2_def]
      idempotency_purge.purge_effect [OF u(3), of ?i, folded d3_def]
      receipt_purge.purge_effect [OF u(4), of ?w, folded d4_def]
    by (auto simp: runRetention_def days_ago_def Let_def)
  have p: "purgeable_delivery ?o d1 = purgeable_delivery ?o d'"
    by (simp add: run(1) defs purgeable_delivery_def sql_eq_def fun_eq_iff)
  have "delivery_attempts d' = drop_oldest 20000 dlv_createdAt (purgeable_delivery ?o d1) (delivery_attempts d)"
    by (simp add: run(1) defs)
  then show "delivery_attempts d' = drop_oldest 20000 dlv_createdAt (purgeable_delivery ?o d') (delivery_attempts d)"
    unfolding p .
  show "outbox_events d' = drop_oldest 20000 published_at (purgeable_outbox ?o d) (outbox_events d)"
    "idempotency_records d' = drop_oldest 20000 idm_createdAt (\<lambda>r. idm_createdAt r < ?i) (idempotency_records d)"
    "webhook_receipts d' = drop_oldest 20000 rcp_receivedAt (\<lambda>r. rcp_receivedAt r < ?w) (webhook_receipts d)"
    "d' = d\<lparr>outbox_events := outbox_events d', delivery_attempts := delivery_attempts d',
      idempotency_records := idempotency_records d', webhook_receipts := webhook_receipts d'\<rparr>"
    by (simp_all add: run(1) defs)
  have dist: "distinct (outbox_events d)" "distinct (delivery_attempts d1)"
    "distinct (idempotency_records d2)" "distinct (webhook_receipts d3)"
    using u by (simp_all add: unique_defs distinct_map)
  show "rtc_outbox counts = length (outbox_events d) - length (outbox_events d')"
    using run(1,2) dist(1) by (simp add: length_drop_oldest defs)
  show "rtc_delivery counts = length (delivery_attempts d) - length (delivery_attempts d')"
    using run(1,3) length_drop_oldest [OF dist(2)] by (simp add: defs)
  show "rtc_idempotency counts = length (idempotency_records d) - length (idempotency_records d')"
    using run(1,4) length_drop_oldest [OF dist(3)] by (simp add: defs)
  show "rtc_webhookReceipts counts = length (webhook_receipts d) - length (webhook_receipts d')"
    using run(1,5) length_drop_oldest [OF dist(4)] by (simp add: defs)
qed

text \<open>C28: A retention run removes exactly what is due: the oldest (at most 20000 of each table) published and
  settled events, attempts without an event, idempotency records and webhook receipts that are older
  than their configured days, and it counts what it removed of each. An event that was never published, or
  whose delivery is not settled, stays, and no other table changes. The age of an event is that of its publication and
  the age of an attempt that of its record, not the time since the delivery ended, from which the operations guide counts its 30 days.\<close>

theorem retention_removes_due_rows:
  assumes "table_ids_unique d" and "runRetention config now d = (counts, d')"
    and "outboxCutoff = now 1 - wcf_outboxRetentionDays config * 86400000"
  shows "outbox_events d' = drop_oldest 20000 published_at
      (\<lambda>r. published_before outboxCutoff r \<and> settled_delivery d r) (outbox_events d) \<and>
    delivery_attempts d' = drop_oldest 20000 dlv_createdAt
      (\<lambda>a. (\<forall>r \<in> set (outbox_events d'). \<not> sql_eq d' (obx_id r) (dlv_eventId a)) \<and> dlv_createdAt a < outboxCutoff)
      (delivery_attempts d) \<and>
    idempotency_records d' = drop_oldest 20000 idm_createdAt
      (\<lambda>r. idm_createdAt r < now 0 - wcf_idempotencyRetentionDays config * 86400000) (idempotency_records d) \<and>
    webhook_receipts d' = drop_oldest 20000 rcp_receivedAt
      (\<lambda>r. rcp_receivedAt r < now 2 - wcf_webhookReceiptRetentionDays config * 86400000) (webhook_receipts d) \<and>
    d' = d\<lparr>outbox_events := outbox_events d', delivery_attempts := delivery_attempts d',
      idempotency_records := idempotency_records d', webhook_receipts := webhook_receipts d'\<rparr> \<and>
    rtc_outbox counts = length (outbox_events d) - length (outbox_events d') \<and>
    rtc_delivery counts = length (delivery_attempts d) - length (delivery_attempts d') \<and>
    rtc_idempotency counts = length (idempotency_records d) - length (idempotency_records d') \<and>
    rtc_webhookReceipts counts = length (webhook_receipts d) - length (webhook_receipts d')"
  using runRetention_tables [OF assms(1,2)] unfolding days_ago_def assms(3) [symmetric]
  by (simp add: purgeable_outbox_def [abs_def] purgeable_delivery_def [abs_def] list_ex_iff)

definition retention_db :: database where
  "retention_db = outbox_db\<lparr>webhook_receipts :=
     [\<lparr>rcp_id = ''w1'', rcp_provider = ''p'', rcp_providerEventId = ''old'', rcp_eventType = ''payment.captured'',
       rcp_payloadHash = ''h'', rcp_receivedAt = 5\<rparr>,
      \<lparr>rcp_id = ''w2'', rcp_provider = ''p'', rcp_providerEventId = ''new'', rcp_eventType = ''payment.captured'',
       rcp_payloadHash = ''h'', rcp_receivedAt = 1000\<rparr>]\<rparr>"

theorem retention_removes_due_rows_witness:
  "map rcp_providerEventId (webhook_receipts (snd (runRetention sample_worker (\<lambda>i. 400 * 86400000 + 100) retention_db)))
     = [''new''] \<and>
   outbox_events (snd (runRetention sample_worker (\<lambda>i. 400 * 86400000 + 100) retention_db)) = outbox_events outbox_db"
proof -
  obtain counts d' where r: "runRetention sample_worker (\<lambda>i. 400 * 86400000 + 100) retention_db = (counts, d')"
    by fastforce
  have "table_ids_unique retention_db" by code_simp
  from retention_removes_due_rows [OF this r refl] show ?thesis
    unfolding r by (elim conjE, thin_tac "d' = _") (simp add: retention_db_def outbox_db_def
        sample_worker_def drop_oldest_def oldest_def published_before_def sample_event_def)
qed

end
