(* ===== verification/Platform.thy ===== *)
theory Platform
  imports PaymentEvents Delivery Retention
begin

text \<open>
  The whole platform as one state machine: requests of the API, any number of relay processes that
  claim, offer and settle events in separate steps and may stop at any point, runs of the delivery
  jobs, and the deletions of the retention. Its invariant ties the outbox to the queue and carries
  the ledger's invariant over every interleaving.
\<close>

section \<open>The state machine\<close>

text \<open>
  A relay between two of its statements: with a list of claimed events still to offer, or between the
  queue's answer for an event and the update of its row.
\<close>

datatype relay_phase =
    Idle
  | Publishing "outbox_event list"
  | Marking outbox_event "outbox_event list"
  | Releasing outbox_event exn "outbox_event list"

fun in_hand :: "relay_phase \<Rightarrow> outbox_event list" where
  "in_hand Idle = []"
| "in_hand (Publishing events) = events"
| "in_hand (Marking event events) = event # events"
| "in_hand (Releasing event err events) = event # events"

text \<open>\<open>pf_accepted\<close> are the jobs the queue has stored so far, in order.\<close>

record platform =
  pf_db :: database
  pf_relays :: "nat \<Rightarrow> relay_phase"
  pf_accepted :: "queue_job list"

text \<open>An event identifier drawn for a request is not one a relay still works on.\<close>

definition new_ids_free :: "platform \<Rightarrow> database \<Rightarrow> bool" where
  "new_ids_free s d \<longleftrightarrow> (\<forall>r \<in> set (outbox_events d) - set (outbox_events (pf_db s)).
     \<forall>i. \<forall>ev \<in> set (in_hand (pf_relays s i)). \<not> sql_eq d (obx_id r) (obx_id ev))"

text \<open>The deletions, at any cutoff.\<close>

definition purged :: "database \<Rightarrow> int \<Rightarrow> database list" where
  "purged d cutoff = [fst (delete_outbox cutoff d), fst (delete_deliveries cutoff d),
     fst (delete_idempotency cutoff d), fst (delete_receipts cutoff d)]"

inductive platform_step ::
  "(string \<Rightarrow> char list \<Rightarrow> char list) \<Rightarrow> (char list \<Rightarrow> char list) \<Rightarrow> (string \<Rightarrow> int option) \<Rightarrow> ApiConfig \<Rightarrow>
   (string \<Rightarrow> string) \<Rightarrow> WorkerConfig \<Rightarrow> platform \<Rightarrow> platform \<Rightarrow> bool"
  for hmac sha256 date_of config sql_text worker where
  api_request:
    "api_step hmac sha256 date_of config (pf_db s) d \<Longrightarrow> new_ids_free s d \<Longrightarrow>
       platform_step hmac sha256 date_of config sql_text worker s (s\<lparr>pf_db := d\<rparr>)"
| relay_claims:
    "pf_relays s i = Idle \<Longrightarrow> claim 25 now lockNow skipped (pf_db s) = Inr (events, d) \<Longrightarrow>
       platform_step hmac sha256 date_of config sql_text worker s
         (s\<lparr>pf_db := d, pf_relays := (pf_relays s)(i := Publishing events)\<rparr>)"
| queue_accepts:
    "pf_relays s i = Publishing (event # events) \<Longrightarrow>
       platform_step hmac sha256 date_of config sql_text worker s
         (s\<lparr>pf_relays := (pf_relays s)(i := Marking event events),
            pf_accepted := pf_accepted s @ [delivery_job worker event]\<rparr>)"
| queue_refuses:
    "pf_relays s i = Publishing (event # events) \<Longrightarrow> jobs \<in> {[], [delivery_job worker event]} \<Longrightarrow>
       platform_step hmac sha256 date_of config sql_text worker s
         (s\<lparr>pf_relays := (pf_relays s)(i := Releasing event err events),
            pf_accepted := pf_accepted s @ jobs\<rparr>)"
| relay_marks:
    "pf_relays s i = Marking event events \<Longrightarrow>
       platform_step hmac sha256 date_of config sql_text worker s
         (s\<lparr>pf_db := update_claimed event (settle worker sql_text None now) (pf_db s),
            pf_relays := (pf_relays s)(i := Publishing events)\<rparr>)"
| relay_releases:
    "pf_relays s i = Releasing event err events \<Longrightarrow>
       platform_step hmac sha256 date_of config sql_text worker s
         (s\<lparr>pf_db := update_claimed event (settle worker sql_text (Some err) now) (pf_db s),
            pf_relays := (pf_relays s)(i := Publishing events)\<rparr>)"
| relay_reconciles:
    "pf_relays s i = Publishing [] \<Longrightarrow>
       reconcilePublished worker 100 reply n now (pf_db s) = (calls, res) \<Longrightarrow> prefix jobs calls \<Longrightarrow>
       platform_step hmac sha256 date_of config sql_text worker s
         (s\<lparr>pf_relays := (pf_relays s)(i := Idle), pf_accepted := pf_accepted s @ jobs\<rparr>)"
| relay_stops:
    "platform_step hmac sha256 date_of config sql_text worker s
       (s\<lparr>pf_relays := (pf_relays s)(i := Idle)\<rparr>)"
| job_runs:
    "platform_step hmac sha256 date_of config sql_text worker s
       (s\<lparr>pf_db := dlr_db (handle_job sha256 sql_text worker reply newId now attemptsMade attempts event
          (pf_db s))\<rparr>)"
| retention_deletes:
    "d \<in> set (purged (pf_db s) cutoff) \<Longrightarrow>
       platform_step hmac sha256 date_of config sql_text worker s (s\<lparr>pf_db := d\<rparr>)"

inductive_cases platform_step_E: "platform_step hmac sha256 date_of config sql_text worker s t"

definition platform_start :: "platform \<Rightarrow> bool" where
  "platform_start s \<longleftrightarrow> ledger_start (pf_db s) \<and> outbox_events (pf_db s) = [] \<and>
     pf_relays s = (\<lambda>_. Idle) \<and> pf_accepted s = []"

section \<open>The invariant\<close>

definition outbox_ok :: "WorkerConfig \<Rightarrow> platform \<Rightarrow> bool" where
  "outbox_ok worker s \<longleftrightarrow>
     (\<forall>r \<in> set (outbox_events (pf_db s)). evp_eventId (obx_payload r) = obx_id r \<and>
        (obx_status r = PUBLISHED \<longrightarrow> delivery_job worker r \<in> set (pf_accepted s)))"

text \<open>A relay's copy of an event is the job of the row with its identifier, while there is one.\<close>

definition hands_ok :: "WorkerConfig \<Rightarrow> platform \<Rightarrow> bool" where
  "hands_ok worker s \<longleftrightarrow> (\<forall>i. \<forall>ev \<in> set (in_hand (pf_relays s i)). \<forall>r \<in> set (outbox_events (pf_db s)).
     sql_eq (pf_db s) (obx_id r) (obx_id ev) \<longrightarrow> delivery_job worker r = delivery_job worker ev)"

definition marks_ok :: "WorkerConfig \<Rightarrow> platform \<Rightarrow> bool" where
  "marks_ok worker s \<longleftrightarrow> (\<forall>i event events. pf_relays s i = Marking event events \<longrightarrow>
     delivery_job worker event \<in> set (pf_accepted s))"

definition platform_ok :: "WorkerConfig \<Rightarrow> platform \<Rightarrow> bool" where
  "platform_ok worker s \<longleftrightarrow> ledger_ok (pf_db s) \<and> outbox_ids_unique (pf_db s) \<and> outbox_ok worker s \<and>
     hands_ok worker s \<and> marks_ok worker s"

lemma ledger_ok_cong:
  assumes "collation d' = collation d" "invoices d' = invoices d" "payments d' = payments d"
    "refunds d' = refunds d"
  shows "ledger_ok d' = ledger_ok d"
proof -
  note eqs = assms sql_eq_cong [OF assms(1)]
  have "captured_sum d' = captured_sum d" "refunded_sum d' = refunded_sum d"
    by (simp_all add: captured_sum_def refunded_sum_def payments_of_def eqs fun_eq_iff)
  then have "invoice_ok d' = invoice_ok d" by (simp add: invoice_ok_def fun_eq_iff)
  moreover have "payment_ok d' = payment_ok d" by (simp add: payment_ok_def refunds_of_def eqs fun_eq_iff)
  moreover have "invoice_key d' = invoice_key d" "payment_key d' = payment_key d"
    by (simp_all add: invoice_key_def payment_key_def eqs fun_eq_iff)
  ultimately show ?thesis
    by (simp add: ledger_ok_def invoice_ids_unique_def payment_ids_unique_def refunds_ok_def eqs)
qed

lemma delivery_job_cong:
  "obx_id r' = obx_id r \<Longrightarrow> obx_payload r' = obx_payload r \<Longrightarrow> delivery_job worker r' = delivery_job worker r"
  by (simp add: delivery_job_def)

lemma platform_update:
  "s\<lparr>pf_db := d\<rparr> = \<lparr>pf_db = d, pf_relays = pf_relays s, pf_accepted = pf_accepted s\<rparr>"
  "s\<lparr>pf_relays := f, pf_accepted := js\<rparr> = \<lparr>pf_db = pf_db s, pf_relays = f, pf_accepted = js\<rparr>"
  "s\<lparr>pf_relays := f\<rparr> = \<lparr>pf_db = pf_db s, pf_relays = f, pf_accepted = pf_accepted s\<rparr>"
  "s\<lparr>pf_db := d, pf_relays := f\<rparr> = \<lparr>pf_db = d, pf_relays = f, pf_accepted = pf_accepted s\<rparr>"
  for s :: platform
  by (cases s; simp)+

text \<open>Every step but an API request only rewrites or removes outbox rows.\<close>

lemma platform_ok_step:
  assumes ok: "platform_ok worker s"
    and frame: "collation d = collation (pf_db s)" "invoices d = invoices (pf_db s)"
      "payments d = payments (pf_db s)" "refunds d = refunds (pf_db s)"
    and uniq: "outbox_ids_unique d"
    and rows: "\<And>r'. r' \<in> set (outbox_events d) \<Longrightarrow> \<exists>r \<in> set (outbox_events (pf_db s)).
      obx_id r' = obx_id r \<and> obx_payload r' = obx_payload r \<and>
      (obx_status r' = PUBLISHED \<longrightarrow> obx_status r = PUBLISHED \<or> delivery_job worker r \<in> set jobs)"
    and hands: "\<And>i ev. ev \<in> set (in_hand (relays i)) \<Longrightarrow>
      (\<exists>j. ev \<in> set (in_hand (pf_relays s j))) \<or> ev \<in> set (outbox_events (pf_db s))"
    and marks: "\<And>i ev evs. relays i = Marking ev evs \<Longrightarrow> delivery_job worker ev \<in> set jobs"
    and jobs: "set (pf_accepted s) \<subseteq> set jobs"
  shows "platform_ok worker \<lparr>pf_db = d, pf_relays = relays, pf_accepted = jobs\<rparr>"
proof -
  let ?t = "\<lparr>pf_db = d, pf_relays = relays, pf_accepted = jobs\<rparr>"
  have "ledger_ok d" using ok ledger_ok_cong [OF frame] by (simp add: platform_ok_def)
  moreover have "outbox_ok worker ?t"
    unfolding outbox_ok_def platform.simps
  proof
    fix r' assume "r' \<in> set (outbox_events d)"
    then obtain r where "r \<in> set (outbox_events (pf_db s))" "obx_id r' = obx_id r" "obx_payload r' = obx_payload r"
      "obx_status r' = PUBLISHED \<longrightarrow> obx_status r = PUBLISHED \<or> delivery_job worker r \<in> set jobs"
      using rows by blast
    with ok jobs delivery_job_cong [of r' r worker] show "evp_eventId (obx_payload r') = obx_id r' \<and>
        (obx_status r' = PUBLISHED \<longrightarrow> delivery_job worker r' \<in> set jobs)"
      by (auto simp: platform_ok_def outbox_ok_def)
  qed
  moreover have "hands_ok worker ?t"
    unfolding hands_ok_def platform.simps
  proof (intro allI ballI impI)
    fix i ev r' assume ev: "ev \<in> set (in_hand (relays i))" and r': "r' \<in> set (outbox_events d)"
      and eq: "sql_eq d (obx_id r') (obx_id ev)"
    obtain r where r: "r \<in> set (outbox_events (pf_db s))" "obx_id r' = obx_id r" "obx_payload r' = obx_payload r"
      using rows [OF r'] by blast
    have eq': "sql_eq (pf_db s) (obx_id r) (obx_id ev)" using eq r(2) sql_eq_cong [OF frame(1)] by simp
    have "delivery_job worker r = delivery_job worker ev"
      using hands [OF ev] ok r(1) eq' outbox_same [OF _ r(1) _ eq']
      by (auto simp: platform_ok_def hands_ok_def)
    with delivery_job_cong [OF r(2,3)] show "delivery_job worker r' = delivery_job worker ev" by simp
  qed
  moreover have "marks_ok worker ?t" using marks by (simp add: marks_ok_def)
  ultimately show ?thesis using uniq by (simp add: platform_ok_def)
qed

lemma platform_ok_api:
  assumes ok: "platform_ok worker s" and step: "api_step hmac sha256 date_of config (pf_db s) d"
    and free: "new_ids_free s d"
  shows "platform_ok worker (s\<lparr>pf_db := d\<rparr>)"
proof -
  have led: "ledger_ok d" using ok step ledger.step_inv by (auto simp: platform_ok_def)
  from step_outcome [OF step] show ?thesis
  proof
    assume "one_log_entry (pf_db s) d"
    then obtain ob where ob: "outbox_events d = outbox_events (pf_db s) @ [ob]" "obx_status ob = PENDING"
        "evp_eventId (obx_payload ob) = obx_id ob" "fresh_event (pf_db s) ob" "collation d = collation (pf_db s)"
      by (auto simp: one_log_entry_def)
    have keys: "outbox_key d = outbox_key (pf_db s)" by (simp add: outbox_key_def ob(5) fun_eq_iff)
    have new: "\<not> sql_eq (pf_db s) (obx_id ob) (obx_id ev)" if "ev \<in> set (in_hand (pf_relays s i))" for i ev
    proof -
      have "ob \<notin> set (outbox_events (pf_db s))" using ob(4) by (auto simp: fresh_event_def)
      with free that ob(1) show ?thesis by (auto simp: new_ids_free_def sql_eq_cong [OF ob(5)])
    qed
    have "outbox_ids_unique d"
      using ok ob(1,4) by (auto simp: platform_ok_def outbox_ids_unique_def keys fresh_event_def)
    with ok ob new show ?thesis
      by (auto simp: platform_ok_def led outbox_ok_def hands_ok_def marks_ok_def sql_eq_cong [OF ob(5)])
  qed (use ok in simp)
qed

lemma update_claimed_unique:
  "(\<And>r. obx_id (f r) = obx_id r) \<Longrightarrow> outbox_ids_unique d \<Longrightarrow> outbox_ids_unique (update_claimed ev f d)"
  by (simp add: outbox_ids_unique_def outbox_key_update_claimed update_claimed_rows o_def
      outbox_key_def [abs_def] if_distrib [of obx_id] cong: if_cong)

lemma update_claimed_frame:
  "collation (update_claimed ev f d) = collation d" "invoices (update_claimed ev f d) = invoices d"
  "payments (update_claimed ev f d) = payments d" "refunds (update_claimed ev f d) = refunds d"
  by (simp_all add: update_claimed_def)

text \<open>Settling the row of an event in hand.\<close>

lemma platform_ok_settle:
  assumes ok: "platform_ok worker s" and hand: "event \<in> set (in_hand (pf_relays s i))"
    and sub: "set (in_hand phase) \<subseteq> set (in_hand (pf_relays s i))"
    and phase: "\<And>ev evs. phase \<noteq> Marking ev evs"
    and published: "reply = None \<Longrightarrow> delivery_job worker event \<in> set (pf_accepted s)"
  shows "platform_ok worker (s\<lparr>pf_db := update_claimed event (settle worker sql_text reply now) (pf_db s),
    pf_relays := (pf_relays s)(i := phase)\<rparr>)"
proof -
  let ?d = "update_claimed event (settle worker sql_text reply now) (pf_db s)"
  have "platform_ok worker \<lparr>pf_db = ?d, pf_relays = (pf_relays s)(i := phase), pf_accepted = pf_accepted s\<rparr>"
  proof (rule platform_ok_step [OF ok update_claimed_frame])
    show "outbox_ids_unique ?d" using ok by (simp add: update_claimed_unique platform_ok_def)
    fix r' assume "r' \<in> set (outbox_events ?d)"
    then obtain r where r: "r \<in> set (outbox_events (pf_db s))" and r': "r' =
        (if outbox_key (pf_db s) r = outbox_key (pf_db s) event \<and> obx_status r = PROCESSING
         then settle worker sql_text reply now r else r)"
      by (auto simp: update_claimed_rows)
    have "delivery_job worker r = delivery_job worker event" if "outbox_key (pf_db s) r = outbox_key (pf_db s) event"
      using ok hand r that by (auto simp: platform_ok_def hands_ok_def sql_eq_outbox_key)
    then show "\<exists>r \<in> set (outbox_events (pf_db s)). obx_id r' = obx_id r \<and> obx_payload r' = obx_payload r \<and>
        (obx_status r' = PUBLISHED \<longrightarrow> obx_status r = PUBLISHED \<or> delivery_job worker r \<in> set (pf_accepted s))"
      using r published by (intro bexI [of _ r])
        (auto simp: r' settle_def released_def published_def split: option.splits if_splits)
  next
    show "delivery_job worker ev \<in> set (pf_accepted s)" if "((pf_relays s)(i := phase)) j = Marking ev evs" for j ev evs
      using that phase ok unfolding platform_ok_def marks_ok_def by (metis fun_upd_apply)
  qed (use sub in \<open>auto split: if_splits\<close>)
  then show ?thesis by (simp only: platform_update(4))
qed

lemma platform_ok_relays:
  assumes ok: "platform_ok worker s"
    and sub: "\<And>j. set (in_hand (relays j)) \<subseteq> set (in_hand (pf_relays s j))"
    and marks: "\<And>j ev evs. relays j = Marking ev evs \<Longrightarrow> delivery_job worker ev \<in> set jobs"
    and jobs: "set (pf_accepted s) \<subseteq> set jobs"
  shows "platform_ok worker (s\<lparr>pf_relays := relays, pf_accepted := jobs\<rparr>)"
  unfolding platform_update(2)
  by (rule platform_ok_step [OF ok refl refl refl refl _ _ _ marks jobs])
    (use ok sub in \<open>auto simp: platform_ok_def\<close>)

lemma platform_ok_db:
  assumes ok: "platform_ok worker s"
    and "collation d = collation (pf_db s)" "invoices d = invoices (pf_db s)"
      "payments d = payments (pf_db s)" "refunds d = refunds (pf_db s)"
    and "outbox_ids_unique d" and "set (outbox_events d) \<subseteq> set (outbox_events (pf_db s))"
  shows "platform_ok worker (s\<lparr>pf_db := d\<rparr>)"
  unfolding platform_update(1)
  by (rule platform_ok_step [OF assms(1-6)]) (use ok assms(7) in \<open>auto simp: platform_ok_def marks_ok_def\<close>)

lemma purged_frame:
  assumes "d' \<in> set (purged d cutoff)"
  shows "collation d' = collation d" "invoices d' = invoices d" "payments d' = payments d"
    "refunds d' = refunds d" "merchants d' = merchants d" "set (outbox_events d') \<subseteq> set (outbox_events d)"
  using assms by (auto simp: purged_def delete_defs Let_def delete_batch_def)

lemma purged_unique: "d' \<in> set (purged d cutoff) \<Longrightarrow> outbox_ids_unique d \<Longrightarrow> outbox_ids_unique d'"
  by (auto simp: purged_def delete_defs Let_def delete_batch_def outbox_ids_unique_def distinct_map_filter_key
      outbox_key_def [abs_def])

lemma add_all_prefix: "add_all reply n js = (calls, err) \<Longrightarrow> prefix calls js"
  by (induction reply n js arbitrary: calls err rule: add_all.induct)
    (auto split: option.splits prod.splits)

lemma claimed_rows_unique: "outbox_ids_unique d \<Longrightarrow> outbox_ids_unique (claimed_rows events t d)"
  unfolding claimed_rows_def by (rule iffD2 [OF outbox_ids_unique_map]) simp_all

lemma platform_step_ok:
  assumes "platform_ok worker s" and "platform_step hmac sha256 date_of config sql_text worker s t"
  shows "platform_ok worker t"
  using assms(2)
proof (cases rule: platform_step.cases)
  case (api_request d)
  with assms(1) show ?thesis by (simp add: platform_ok_api)
next
  case (relay_claims i now lockNow skipped events d)
  have u: "outbox_ids_unique (pf_db s)" using assms(1) by (simp add: platform_ok_def)
  from relay_claims(3) have c: "events = claim_candidates 25 now skipped (pf_db s)"
    "d = claimed_rows events (lockNow + 30000) (pf_db s)" by (simp_all add: claim_Inr [OF u])
  have "platform_ok worker \<lparr>pf_db = d, pf_relays = (pf_relays s)(i := Publishing events),
      pf_accepted = pf_accepted s\<rparr>"
  proof (rule platform_ok_step [OF assms(1)])
    show "outbox_ids_unique d" using u by (simp add: c(2) claimed_rows_unique)
    show "\<exists>r \<in> set (outbox_events (pf_db s)). obx_id r' = obx_id r \<and> obx_payload r' = obx_payload r \<and>
        (obx_status r' = PUBLISHED \<longrightarrow> obx_status r = PUBLISHED \<or> delivery_job worker r \<in> set (pf_accepted s))"
      if r': "r' \<in> set (outbox_events d)" for r'
    proof -
      obtain r where "r \<in> set (outbox_events (pf_db s))"
        "r' = (if r \<in> set events then claimed (lockNow + 30000) r else r)"
        using r' by (auto simp: c(2) claimed_rows_def)
      then show ?thesis by (intro bexI [of _ r]) auto
    qed
    show "(\<exists>j. ev \<in> set (in_hand (pf_relays s j))) \<or> ev \<in> set (outbox_events (pf_db s))"
      if "ev \<in> set (in_hand (((pf_relays s)(i := Publishing events)) j))" for j ev
      using that c(1) by (auto dest: claim_candidates_mem split: if_splits)
    show "delivery_job worker ev \<in> set (pf_accepted s)"
      if "((pf_relays s)(i := Publishing events)) j = Marking ev evs" for j ev evs
      using that assms(1) by (auto simp: platform_ok_def marks_ok_def split: if_splits)
  qed (simp_all add: c(2) claimed_rows_def)
  then show ?thesis by (simp only: relay_claims(1) platform_update(4))
next
  case (queue_accepts i event events)
  show ?thesis unfolding queue_accepts(1)
    by (rule platform_ok_relays [OF assms(1)])
      (use queue_accepts(2) assms(1) in \<open>auto simp: platform_ok_def marks_ok_def split: if_splits\<close>)
next
  case (queue_refuses i event events jobs err)
  show ?thesis unfolding queue_refuses(1)
    by (rule platform_ok_relays [OF assms(1)])
      (use queue_refuses(2) assms(1) in \<open>auto simp: platform_ok_def marks_ok_def split: if_splits\<close>)
next
  case (relay_marks i event events now)
  have "delivery_job worker event \<in> set (pf_accepted s)"
    using relay_marks(2) assms(1) by (auto simp: platform_ok_def marks_ok_def)
  then show ?thesis
    unfolding relay_marks(1) by (intro platform_ok_settle [OF assms(1)]) (use relay_marks(2) in auto)
next
  case (relay_releases i event err events now)
  then show ?thesis
    unfolding relay_releases(1) by (intro platform_ok_settle [OF assms(1)]) auto
next
  case (relay_reconciles i reply n now calls res jobs)
  show ?thesis unfolding relay_reconciles(1)
    by (rule platform_ok_relays [OF assms(1)])
      (use assms(1) in \<open>auto simp: platform_ok_def marks_ok_def split: if_splits\<close>)
next
  case (relay_stops i)
  have "platform_ok worker (s\<lparr>pf_relays := (pf_relays s)(i := Idle), pf_accepted := pf_accepted s\<rparr>)"
    by (rule platform_ok_relays [OF assms(1)])
      (use assms(1) in \<open>auto simp: platform_ok_def marks_ok_def split: if_splits\<close>)
  then show ?thesis unfolding relay_stops(1) by (cases s) simp
next
  case (job_runs reply newId now attemptsMade attempts event)
  let ?run = "handle_job sha256 sql_text worker reply newId now attemptsMade attempts event (pf_db s)"
  have eq: "dlr_db ?run = (pf_db s)\<lparr>delivery_attempts := delivery_attempts (dlr_db ?run)\<rparr>"
    by (rule handle_job_frame [OF refl])
  have "outbox_ids_unique (dlr_db ?run)"
    using assms(1) by (subst eq) (simp add: platform_ok_def outbox_ids_unique_def outbox_key_def [abs_def])
  then show ?thesis
    unfolding job_runs(1) by (intro platform_ok_db [OF assms(1)]) (simp_all, (subst eq, simp)+)
next
  case (retention_deletes d cutoff)
  show ?thesis unfolding retention_deletes(1)
    using assms(1) purged_frame [OF retention_deletes(2)] purged_unique [OF retention_deletes(2)]
    by (intro platform_ok_db [OF assms(1)]) (simp_all add: platform_ok_def)
qed

lemma platform_start_ok: "platform_start s \<Longrightarrow> platform_ok worker s"
  using ledger.start_inv [of "pf_db s"]
  by (simp add: platform_start_def platform_ok_def outbox_ids_unique_def outbox_ok_def hands_ok_def marks_ok_def)

interpretation whole: inductive_invariant platform_start
  "platform_step hmac sha256 date_of config sql_text worker" "platform_ok worker"
  by unfold_locales (fact platform_start_ok, fact platform_step_ok)

section \<open>Properties\<close>

text \<open>
  A sample run: an invoice is created, a relay claims its event, the queue accepts it, the row is
  marked and the event delivered.
\<close>

definition at_start :: platform where
  "at_start = \<lparr>pf_db = sample_db, pf_relays = (\<lambda>_. Idle), pf_accepted = []\<rparr>"

definition at_created :: platform where
  "at_created = at_start\<lparr>pf_db := created_db\<rparr>"

definition claimed_db :: database where
  "claimed_db = claimed_rows [created_event] 32000 created_db"

definition at_claimed :: platform where
  "at_claimed = at_created\<lparr>pf_db := claimed_db,
     pf_relays := (pf_relays at_created)(0 := Publishing [created_event])\<rparr>"

definition at_accepted :: platform where
  "at_accepted = at_claimed\<lparr>pf_relays := (pf_relays at_claimed)(0 := Marking created_event []),
     pf_accepted := pf_accepted at_claimed @ [delivery_job sample_worker created_event]\<rparr>"

definition at_published :: platform where
  "at_published = at_accepted\<lparr>
     pf_db := update_claimed created_event (settle sample_worker id None 2001) (pf_db at_accepted),
     pf_relays := (pf_relays at_accepted)(0 := Publishing [])\<rparr>"

abbreviation sample_step :: "platform \<Rightarrow> platform \<Rightarrow> bool" where
  "sample_step \<equiv> platform_step sample_hmac sample_hash sample_date sample_config id sample_worker"

lemma created_outbox: "outbox_events created_db = [created_event]"
  by (simp add: created_db_def sample_db_def empty_database_def)

lemma created_event_fields:
  "obx_status created_event = PENDING" "obx_availableAt created_event = 1000" "obx_attempts created_event = 0"
  by (simp_all add: created_event_def pending_event_def)

lemma created_unique: "outbox_ids_unique created_db"
  by (simp add: outbox_ids_unique_def created_outbox)

lemma step_created: "sample_step at_start at_created"
  unfolding at_created_def
  by (rule platform_step.api_request) (simp_all add: at_start_def sample_steps(1) new_ids_free_def)

lemma step_claimed: "sample_step at_created at_claimed"
  unfolding at_claimed_def
proof (rule relay_claims)
  have "claim_candidates 25 2000 (\<lambda>_. False) created_db = [created_event]"
    by (simp add: claim_candidates_def oldest_def created_outbox claimable_def created_event_fields)
  then show "claim 25 2000 2000 (\<lambda>_. False) (pf_db at_created) = Inr ([created_event], claimed_db)"
    by (simp add: at_created_def claim_Inr [OF created_unique] claimed_db_def created_event_fields)
qed (simp add: at_created_def at_start_def)

lemma step_accepted: "sample_step at_claimed at_accepted"
  unfolding at_accepted_def by (rule queue_accepts) (simp add: at_claimed_def)

lemma step_published: "sample_step at_accepted at_published"
  unfolding at_published_def by (rule relay_marks) (simp add: at_accepted_def)

lemma sample_start_ok: "platform_start at_start"
  by (simp add: platform_start_def at_start_def sample_start) (simp add: sample_db_def empty_database_def)

lemma sample_platform_reach:
  "reach platform_start sample_step at_accepted" "reach platform_start sample_step at_published"
  by (meson reach.intros sample_start_ok step_created step_claimed step_accepted step_published)+

text \<open>C5: A published event is in the queue: in every state the platform can reach, whatever relays
  crashed or overlapped, each event marked as published was accepted by the queue as a job with the
  event's identifier, its payload and the configured attempts and delay, and its payload carries its
  own identifier.\<close>

theorem published_was_accepted:
  assumes "reach platform_start (platform_step hmac sha256 date_of config sql_text worker) s"
    and "r \<in> set (outbox_events (pf_db s))" and "obx_status r = PUBLISHED"
  shows "\<lparr>job_id = obx_id r, job_data = obx_payload r, job_attempts = wcf_maxAttempts worker,
      job_backoffDelay = wcf_baseDelayMs worker\<rparr> \<in> set (pf_accepted s) \<and>
    evp_eventId (obx_payload r) = obx_id r"
  using whole.reach_inv [OF assms(1)] assms(2,3)
  by (simp add: platform_ok_def outbox_ok_def delivery_job_def)

lemma published_row:
  "\<exists>r \<in> set (outbox_events (pf_db at_published)). obx_status r = PUBLISHED"
proof -
  have "list_ex (\<lambda>r. obx_status r = PUBLISHED) (outbox_events (pf_db at_published))"
    by code_simp
  then show ?thesis by (simp add: list_ex_iff)
qed

theorem published_was_accepted_witness:
  "\<exists>r j. r \<in> set (outbox_events (pf_db at_published)) \<and> j \<in> set (pf_accepted at_published) \<and>
     job_id j = obx_id r \<and> job_attempts j = 3"
proof -
  obtain r where r: "r \<in> set (outbox_events (pf_db at_published))" "obx_status r = PUBLISHED"
    using published_row by blast
  have "wcf_maxAttempts sample_worker = 3" by (simp add: sample_worker_def)
  with published_was_accepted [OF sample_platform_reach(2) r] r show ?thesis by fastforce
qed

text \<open>C4: The worker never touches the money: also with relays, deliveries and retention running in
  between, what is captured for an invoice stays within its total, and what is refunded within what
  was captured.\<close>

theorem platform_money_safe:
  assumes "reach platform_start (platform_step hmac sha256 date_of config sql_text worker) s"
    and "ivc \<in> set (invoices (pf_db s))"
  shows "0 \<le> refunded_sum (pf_db s) (inv_id ivc) \<and>
    refunded_sum (pf_db s) (inv_id ivc) \<le> captured_sum (pf_db s) (inv_id ivc) \<and>
    captured_sum (pf_db s) (inv_id ivc) \<le> inv_totalMinor ivc"
proof -
  have ok: "ledger_ok (pf_db s)" using whole.reach_inv [OF assms(1)] by (simp add: platform_ok_def)
  show ?thesis using payments_nonneg [OF ok] captured_sum_bounds [OF ok assms(2)] by blast
qed

theorem platform_money_safe_witness:
  "\<exists>ivc. find_invoice (pf_db at_published) ''0'' = Some ivc \<and>
     captured_sum (pf_db at_published) (inv_id ivc) \<le> inv_totalMinor ivc"
proof -
  have f: "find_invoice (pf_db at_published) ''0'' = Some created_invoice"
    using created_found by (simp add: at_published_def at_accepted_def at_claimed_def claimed_db_def
        claimed_rows_def update_claimed_def find_invoice_def sql_eq_def)
  from platform_money_safe [OF sample_platform_reach(2) find_invoice_mem [OF f]] f show ?thesis by blast
qed

lemma deleted_outbox_row:
  assumes "outbox_ids_unique d" and "r \<in> set (outbox_events d)"
    and "r \<notin> set (outbox_events (fst (delete_outbox cutoff d)))"
  shows "obx_status r = PUBLISHED \<and> settled_delivery d r"
proof -
  have "delete_batch (outbox_key d) published_at (purgeable_outbox cutoff d) (outbox_events d) =
      drop_oldest 1000 published_at (purgeable_outbox cutoff d) (outbox_events d)"
    using assms(1) by (intro delete_batch_drop) (simp add: outbox_ids_unique_def)
  with assms(2,3) have "r \<in> set (oldest 1000 published_at (purgeable_outbox cutoff d) (outbox_events d))"
    by (simp add: delete_outbox_def Let_def drop_oldest_def)
  from oldest_mem [OF this] show ?thesis by (simp add: purgeable_outbox_def published_before_def)
qed

text \<open>What one step may make of an event's row.\<close>

definition event_moves :: "outbox_event \<Rightarrow> outbox_event \<Rightarrow> bool" where
  "event_moves r r' \<longleftrightarrow> obx_id r' = obx_id r \<and> obx_payload r' = obx_payload r \<and>
     (r' = r \<or> (obx_status r, obx_status r') \<in>
        {(PENDING, PROCESSING), (PROCESSING, PROCESSING), (PROCESSING, PENDING), (PROCESSING, PUBLISHED)})"

lemma event_moves_refl [simp]: "event_moves r r"
  by (simp add: event_moves_def)

lemma event_moves_claimed: "claimable now r \<Longrightarrow> event_moves r (claimed t r)"
  by (auto simp: event_moves_def claimable_def)

lemma event_moves_settle: "obx_status r = PROCESSING \<Longrightarrow> event_moves r (settle worker sql_text reply now r)"
  by (auto simp: event_moves_def settle_def published_def released_def split: option.splits)

lemma event_kept_or_delivered:
  assumes "outbox_ids_unique (pf_db s)" and "platform_step hmac sha256 date_of config sql_text worker s t"
    and r: "r \<in> set (outbox_events (pf_db s))"
  shows "(\<exists>r' \<in> set (outbox_events (pf_db t)). event_moves r r') \<or>
    obx_status r = PUBLISHED \<and> settled_delivery (pf_db s) r"
  using assms(2)
proof (cases rule: platform_step.cases)
  case (api_request d)
  from step_outcome [OF api_request(2)] r show ?thesis
    unfolding api_request(1) by (auto simp: one_log_entry_def intro!: bexI [of _ r])
next
  case (relay_claims i now lockNow skipped events d)
  from relay_claims(3) have c: "events = claim_candidates 25 now skipped (pf_db s)"
    "d = claimed_rows events (lockNow + 30000) (pf_db s)" by (simp_all add: claim_Inr [OF assms(1)])
  let ?r = "if r \<in> set events then claimed (lockNow + 30000) r else r"
  have "?r \<in> set (outbox_events d)" using r by (auto simp: c(2) claimed_rows_def)
  moreover have "event_moves r ?r" using c(1) by (auto dest: claim_candidates_mem intro: event_moves_claimed)
  ultimately show ?thesis unfolding relay_claims(1) by (auto simp del: if_split)
next
  case (relay_marks i event events now)
  let ?r = "if outbox_key (pf_db s) r = outbox_key (pf_db s) event \<and> obx_status r = PROCESSING
    then settle worker sql_text None now r else r"
  have "?r \<in> set (outbox_events (pf_db t))" using r by (auto simp: relay_marks(1) update_claimed_rows)
  moreover have "event_moves r ?r" by (simp add: event_moves_settle)
  ultimately show ?thesis by (auto simp del: if_split)
next
  case (relay_releases i event err events now)
  let ?r = "if outbox_key (pf_db s) r = outbox_key (pf_db s) event \<and> obx_status r = PROCESSING
    then settle worker sql_text (Some err) now r else r"
  have "?r \<in> set (outbox_events (pf_db t))" using r by (auto simp: relay_releases(1) update_claimed_rows)
  moreover have "event_moves r ?r" by (simp add: event_moves_settle)
  ultimately show ?thesis by (auto simp del: if_split)
next
  case (job_runs reply newId now attemptsMade attempts event)
  have "outbox_events (pf_db t) = outbox_events (pf_db s)"
    unfolding job_runs(1) by (simp, subst handle_job_frame [OF refl]) simp
  with r show ?thesis by (auto intro!: bexI [of _ r])
next
  case (retention_deletes d cutoff)
  show ?thesis
  proof (cases "r \<in> set (outbox_events d)")
    case True
    then show ?thesis unfolding retention_deletes(1) by (auto intro!: bexI [of _ r])
  next
    case False
    with r retention_deletes(2) have "d = fst (delete_outbox cutoff (pf_db s))"
      by (auto simp: purged_def delete_deliveries_def delete_idempotency_def delete_receipts_def Let_def)
    with deleted_outbox_row [OF assms(1) r] False show ?thesis by blast
  qed
qed (use r in \<open>auto intro!: bexI [of _ r]\<close>)

text \<open>C11: No event is lost: a step of the platform keeps every outbox event with its identifier and
  payload, moving it at most from pending to processing and from there back to pending or to
  published, or removes it once it was published and its delivery succeeded or was dead-lettered.\<close>

theorem events_are_not_lost:
  assumes "reach platform_start (platform_step hmac sha256 date_of config sql_text worker) s"
    and "platform_step hmac sha256 date_of config sql_text worker s t"
    and "r \<in> set (outbox_events (pf_db s))"
  shows "(\<exists>r' \<in> set (outbox_events (pf_db t)). obx_id r' = obx_id r \<and> obx_payload r' = obx_payload r \<and>
      (r' = r \<or> (obx_status r, obx_status r') \<in>
        {(PENDING, PROCESSING), (PROCESSING, PROCESSING), (PROCESSING, PENDING), (PROCESSING, PUBLISHED)})) \<or>
    obx_status r = PUBLISHED \<and>
      (\<exists>a \<in> set (delivery_attempts (pf_db s)). sql_eq (pf_db s) (dlv_eventId a) (obx_id r) \<and>
        dlv_status a \<in> {SUCCEEDED, DEAD_LETTERED})"
  using event_kept_or_delivered [OF _ assms(2,3)] whole.reach_inv [OF assms(1)]
  by (simp add: platform_ok_def event_moves_def settled_delivery_def list_ex_iff)

theorem events_are_not_lost_witness:
  "\<exists>r r'. r \<in> set (outbox_events (pf_db at_accepted)) \<and> r' \<in> set (outbox_events (pf_db at_published)) \<and>
     obx_id r' = obx_id r \<and> obx_payload r' = obx_payload r"
proof -
  have r: "claimed 32000 created_event \<in> set (outbox_events (pf_db at_accepted))"
    by (simp add: at_accepted_def at_claimed_def claimed_db_def claimed_rows_def created_outbox)
  have "obx_status (claimed 32000 created_event) \<noteq> PUBLISHED" by simp
  with events_are_not_lost [OF sample_platform_reach(1) step_published r] r show ?thesis by blast
qed

section \<open>A poll is a run of the machine\<close>

lemma publish_all_run:
  assumes "pf_relays s i = Publishing events"
  shows "\<exists>jobs. set jobs \<subseteq> set (map (delivery_job worker) events) \<and>
    (platform_step hmac sha256 date_of config sql_text worker)\<^sup>*\<^sup>* s
      \<lparr>pf_db = publish_all worker sql_text reply now n events (pf_db s),
       pf_relays = (pf_relays s)(i := Publishing []), pf_accepted = pf_accepted s @ jobs\<rparr>"
  using assms
proof (induction events arbitrary: s n)
  case Nil
  have "s = \<lparr>pf_db = pf_db s, pf_relays = (pf_relays s)(i := Publishing []), pf_accepted = pf_accepted s @ []\<rparr>"
    using Nil by (cases s) (simp add: fun_upd_idem)
  then have "(platform_step hmac sha256 date_of config sql_text worker)\<^sup>*\<^sup>* s
      \<lparr>pf_db = pf_db s, pf_relays = (pf_relays s)(i := Publishing []), pf_accepted = pf_accepted s @ []\<rparr>"
    by (metis rtranclp.rtrancl_refl)
  then show ?case by (intro exI [of _ "[]"]) (simp only: publish_all.simps list.map set_simps subset_refl simp_thms)
next
  case (Cons ev evs)
  let ?step = "platform_step hmac sha256 date_of config sql_text worker"
  let ?d = "update_claimed ev (settle worker sql_text (reply n) (now n)) (pf_db s)"
  obtain js where js: "set js \<subseteq> {delivery_job worker ev}" and run: "?step\<^sup>*\<^sup>* s
      \<lparr>pf_db = ?d, pf_relays = (pf_relays s)(i := Publishing evs), pf_accepted = pf_accepted s @ js\<rparr>"
  proof (cases "reply n")
    case None
    let ?s1 = "s\<lparr>pf_relays := (pf_relays s)(i := Marking ev evs), pf_accepted := pf_accepted s @ [delivery_job worker ev]\<rparr>"
    have "?step s ?s1" using Cons.prems by (rule queue_accepts)
    moreover have "?step ?s1 (?s1\<lparr>pf_db := update_claimed ev (settle worker sql_text None (now n)) (pf_db ?s1),
        pf_relays := (pf_relays ?s1)(i := Publishing evs)\<rparr>)"
      by (rule relay_marks) simp
    ultimately show ?thesis
      using that [of "[delivery_job worker ev]"] None by (cases s) (simp add: converse_rtranclp_into_rtranclp)
  next
    case (Some err)
    let ?s1 = "s\<lparr>pf_relays := (pf_relays s)(i := Releasing ev err evs), pf_accepted := pf_accepted s @ []\<rparr>"
    have "?step s ?s1" using Cons.prems by (rule queue_refuses) simp
    moreover have "?step ?s1 (?s1\<lparr>pf_db := update_claimed ev (settle worker sql_text (Some err) (now n)) (pf_db ?s1),
        pf_relays := (pf_relays ?s1)(i := Publishing evs)\<rparr>)"
      by (rule relay_releases) simp
    ultimately show ?thesis
      using that [of "[]"] Some by (cases s) (simp add: converse_rtranclp_into_rtranclp)
  qed
  let ?t = "\<lparr>pf_db = ?d, pf_relays = (pf_relays s)(i := Publishing evs), pf_accepted = pf_accepted s @ js\<rparr>"
  obtain js' where "set js' \<subseteq> set (map (delivery_job worker) evs)"
    "?step\<^sup>*\<^sup>* ?t \<lparr>pf_db = publish_all worker sql_text reply now (Suc n) evs (pf_db ?t),
       pf_relays = (pf_relays ?t)(i := Publishing []), pf_accepted = pf_accepted ?t @ js'\<rparr>"
    using Cons.IH [of ?t "Suc n"] by (auto simp del: fun_upd_apply simp: fun_upd_same)
  with run js show ?case
    by (intro exI [of _ "js @ js'"]) (auto simp del: fun_upd_apply dest: rtranclp_trans)
qed

text \<open>C26: The sequential code implements the state machine: a poll of an idle relay, whatever the queue
  answers, is a run of the machine's steps from the same state to the database the poll leaves, and
  the jobs the queue then holds are among those the poll offered.\<close>

theorem poll_is_a_run:
  assumes "pf_relays s i = Idle"
    and "run = poll worker sql_text now reply counts skipped False (pf_db s)"
  shows "\<exists>jobs. set jobs \<subseteq> set (run_calls run) \<and>
    (platform_step hmac sha256 date_of config sql_text worker)\<^sup>*\<^sup>* s
      \<lparr>pf_db = run_db run, pf_relays = pf_relays s, pf_accepted = pf_accepted s @ jobs\<rparr>"
proof (cases "claim 25 (now 0) (now 1) skipped (pf_db s)")
  case (Inl err)
  then show ?thesis using assms(2) by (intro exI [of _ "[]"]) (cases s; simp add: poll_def)
next
  case (Inr c)
  then obtain events d1 where c: "claim 25 (now 0) (now 1) skipped (pf_db s) = Inr (events, d1)" by (cases c) auto
  let ?step = "platform_step hmac sha256 date_of config sql_text worker"
  let ?d = "publish_all worker sql_text reply (\<lambda>i. now (2 + i)) 0 events d1"
  obtain again err where r: "reconcilePublished worker 100 reply (length events) (now (2 + length events)) ?d =
      (again, err)" by fastforce
  have run: "run_db run = ?d" "run_calls run = map (delivery_job worker) events @ again"
    using assms(2) c r by (simp_all add: poll_def Let_def del: add_2_eq_Suc add_2_eq_Suc')
  let ?s1 = "s\<lparr>pf_db := d1, pf_relays := (pf_relays s)(i := Publishing events)\<rparr>"
  have s1: "?step s ?s1" using assms(1) c by (rule relay_claims)
  obtain js where js: "set js \<subseteq> set (map (delivery_job worker) events)" and s2: "?step\<^sup>*\<^sup>* ?s1
      \<lparr>pf_db = ?d, pf_relays = (pf_relays ?s1)(i := Publishing []), pf_accepted = pf_accepted ?s1 @ js\<rparr>"
    using publish_all_run [of ?s1 i events] by fastforce
  let ?s2 = "\<lparr>pf_db = ?d, pf_relays = (pf_relays ?s1)(i := Publishing []), pf_accepted = pf_accepted ?s1 @ js\<rparr>"
  have s3: "?step ?s2 (?s2\<lparr>pf_relays := (pf_relays ?s2)(i := Idle), pf_accepted := pf_accepted ?s2 @ again\<rparr>)"
    by (rule relay_reconciles [where calls = again and res = err and n = "length events"
          and now = "now (2 + length events)" and reply = reply]) (use r in simp_all)
  have "?step\<^sup>*\<^sup>* s (?s2\<lparr>pf_relays := (pf_relays ?s2)(i := Idle), pf_accepted := pf_accepted ?s2 @ again\<rparr>)"
    using s1 s2 s3 by (meson converse_rtranclp_into_rtranclp rtranclp.rtrancl_into_rtrancl)
  moreover have "(pf_relays s)(i := Idle) = pf_relays s" using assms(1) by (simp add: fun_upd_idem)
  ultimately show ?thesis using js by (intro exI [of _ "js @ again"]) (auto simp: run)
qed

theorem poll_is_a_run_witness:
  "\<exists>jobs. sample_step\<^sup>*\<^sup>* at_created
     \<lparr>pf_db = run_db (poll sample_worker id (\<lambda>i. 2000) (\<lambda>_. None) (0, 0) (\<lambda>_. False) False created_db),
      pf_relays = (\<lambda>_. Idle), pf_accepted = jobs\<rparr>"
  using poll_is_a_run [OF _ refl, of at_created 0] by (fastforce simp: at_created_def at_start_def)

end
