(* ===== verification/JsonParse.thy ===== *)
theory JsonParse
  imports StableJson
begin

text \<open>
  \<open>JSON.stringify\<close>, \<open>Buffer.toString("utf8")\<close> and \<open>JSON.parse\<close> as the domain package uses them on
  actor tokens. A parsed text may hold any character, so it is a list of UTF-16 code units; bytes
  that are no UTF-8 decode to U+FFFD, as the WHATWG decoder does. The properties of a parsed object
  are listed in the order of their first occurrence, with the value of the last.
\<close>

type_synonym units = "nat list"

datatype jval =
    JvNull
  | JvBool bool
  | JvNum jsnum
  | JvText units
  | JvList "jval list"
  | JvObj "(units \<times> jval) list"

section \<open>Writing\<close>

text \<open>\<open>JSON.stringify\<close>: the properties of an object in their order.\<close>

fun stringify :: "json \<Rightarrow> string" where
  "stringify JSNull = ''null''"
| "stringify (JSBool b) = (if b then ''true'' else ''false'')"
| "stringify (JSNum i) = show_int i"
| "stringify (JSStr s) = json_string s"
| "stringify (JSArr vs) = ''['' @ join_with '','' (map stringify vs) @ '']''"
| "stringify (JSObj kvs) =
     ''{'' @ join_with '','' (map json_member (map (map_prod id stringify) kvs)) @ ''}''"

section \<open>UTF-8\<close>

definition units_of :: "nat \<Rightarrow> units" where
  "units_of cp =
     (if cp < 65536 then [cp]
      else [55296 + (cp - 65536) div 1024, 56320 + (cp - 65536) mod 1024])"

text \<open>
  A first byte: what it decodes to, and the state it opens: how many bytes are to follow, the
  range of the next one, and the bits read so far.
\<close>

definition utf8_lead :: "nat \<Rightarrow> units \<times> (nat \<times> nat \<times> nat \<times> nat) option" where
  "utf8_lead b =
     (if b < 128 then ([b], None)
      else if 194 \<le> b \<and> b \<le> 223 then ([], Some (1, 128, 191, b - 192))
      else if 224 \<le> b \<and> b \<le> 239 then
        ([], Some (2, if b = 224 then 160 else 128, if b = 237 then 159 else 191, b - 224))
      else if 240 \<le> b \<and> b \<le> 244 then
        ([], Some (3, if b = 240 then 144 else 128, if b = 244 then 143 else 191, b - 240))
      else ([65533], None))"

fun utf8_decode :: "(nat \<times> nat \<times> nat \<times> nat) option \<Rightarrow> nat list \<Rightarrow> units" where
  "utf8_decode None [] = []"
| "utf8_decode (Some st) [] = [65533]"
| "utf8_decode None (b # bs) = fst (utf8_lead b) @ utf8_decode (snd (utf8_lead b)) bs"
| "utf8_decode (Some (k, lo, hi, cp)) (b # bs) =
     (if lo \<le> b \<and> b \<le> hi then
        (if k = 1 then units_of (64 * cp + (b - 128)) @ utf8_decode None bs
         else utf8_decode (Some (k - 1, 128, 191, 64 * cp + (b - 128))) bs)
      else 65533 # fst (utf8_lead b) @ utf8_decode (snd (utf8_lead b)) bs)"

definition utf8_text :: "char list \<Rightarrow> units" where
  "utf8_text bytes = utf8_decode None (map code bytes)"

section \<open>Reading\<close>

definition json_space :: "nat \<Rightarrow> bool" where
  "json_space u \<longleftrightarrow> u = 32 \<or> u = 9 \<or> u = 10 \<or> u = 13"

definition skip_ws :: "units \<Rightarrow> units" where
  "skip_ws s = dropWhile json_space s"

definition unit_digit :: "nat \<Rightarrow> bool" where
  "unit_digit u \<longleftrightarrow> 48 \<le> u \<and> u \<le> 57"

definition hex_value :: "nat \<Rightarrow> nat option" where
  "hex_value u =
     (if 48 \<le> u \<and> u \<le> 57 then Some (u - 48)
      else if 97 \<le> u \<and> u \<le> 102 then Some (u - 87)
      else if 65 \<le> u \<and> u \<le> 70 then Some (u - 55) else None)"

text \<open>The character after a backslash.\<close>

definition read_escape :: "units \<Rightarrow> (nat \<times> units) option" where
  "read_escape s =
     (case s of
        [] \<Rightarrow> None
      | k # r \<Rightarrow>
          (if k = 34 \<or> k = 92 \<or> k = 47 then Some (k, r)
           else if k = 98 then Some (8, r) else if k = 102 then Some (12, r)
           else if k = 110 then Some (10, r) else if k = 114 then Some (13, r)
           else if k = 116 then Some (9, r)
           else if k = 117 then
             (case map hex_value (take 4 r) of
                [Some a, Some b, Some c, Some d] \<Rightarrow> Some (((16 * a + b) * 16 + c) * 16 + d, drop 4 r)
              | _ \<Rightarrow> None)
           else None))"

text \<open>One step inside a string: \<open>Some (None, r)\<close> is the closing quote.\<close>

definition read_char :: "units \<Rightarrow> (nat option \<times> units) option" where
  "read_char s =
     (case s of
        [] \<Rightarrow> None
      | c # r \<Rightarrow>
          (if c = 34 then Some (None, r)
           else if c = 92 then map_option (map_prod Some id) (read_escape r)
           else if c < 32 then None
           else Some (Some c, r)))"

lemma read_escape_shorter: "read_escape s = Some (u, r) \<Longrightarrow> length r < length s"
  by (auto simp: read_escape_def split: list.splits if_splits option.splits)

lemma read_char_shorter: "read_char s = Some (u, r) \<Longrightarrow> length r < length s"
  using read_escape_shorter by (fastforce simp: read_char_def split: list.splits if_splits)

function parse_chars :: "units \<Rightarrow> (units \<times> units) option" where
  "parse_chars s =
     (case read_char s of
        None \<Rightarrow> None
      | Some (None, r) \<Rightarrow> Some ([], r)
      | Some (Some u, r) \<Rightarrow> map_option (map_prod (Cons u) id) (parse_chars r))"
  by pat_completeness auto
termination
  by (relation "measure length") (auto dest: read_char_shorter)

declare parse_chars.simps [simp del]

text \<open>A number: sign, integer part without leading zeros, fraction, exponent.\<close>

definition parse_fraction :: "units \<Rightarrow> (units \<times> units) option" where
  "parse_fraction s =
     (if s \<noteq> [] \<and> hd s = 46 then
        (if takeWhile unit_digit (tl s) = [] then None
         else Some (takeWhile unit_digit (tl s), dropWhile unit_digit (tl s)))
      else Some ([], s))"

definition parse_exponent :: "units \<Rightarrow> (int \<times> units) option" where
  "parse_exponent s =
     (if s \<noteq> [] \<and> (hd s = 101 \<or> hd s = 69) then
        (let neg = (tl s \<noteq> [] \<and> hd (tl s) = 45);
             t = (if tl s \<noteq> [] \<and> (hd (tl s) = 45 \<or> hd (tl s) = 43) then tl (tl s) else tl s);
             ds = takeWhile unit_digit t;
             e = val_in_base 10 0 (map char_of ds)
         in if ds = [] then None else Some (if neg then - e else e, dropWhile unit_digit t))
      else Some (0, s))"

definition parse_number :: "units \<Rightarrow> (jsnum \<times> units) option" where
  "parse_number s =
     (let neg = (s \<noteq> [] \<and> hd s = 45);
          t = (if neg then tl s else s);
          ip = takeWhile unit_digit t
      in if ip = [] \<or> (hd ip = 48 \<and> tl ip \<noteq> []) then None
         else case parse_fraction (dropWhile unit_digit t) of
             None \<Rightarrow> None
           | Some (fp, r) \<Rightarrow>
               (case parse_exponent r of
                  None \<Rightarrow> None
                | Some (e, r') \<Rightarrow>
                    (let m = of_int (val_in_base 10 0 (map char_of (ip @ fp))) * ten_to (e - int (length fp))
                     in Some (round64 (if neg then - m else m), r'))))"

definition set_property :: "units \<Rightarrow> jval \<Rightarrow> (units \<times> jval) list \<Rightarrow> (units \<times> jval) list" where
  "set_property k v kvs =
     (if k \<in> fst ` set kvs then map (\<lambda>(l, w). (l, if l = k then v else w)) kvs else kvs @ [(k, v)])"

definition object_of :: "(units \<times> jval) list \<Rightarrow> jval" where
  "object_of ms = JvObj (foldl (\<lambda>kvs (k, v). set_property k v kvs) [] ms)"

definition literal :: "string \<Rightarrow> jval \<Rightarrow> units \<Rightarrow> (jval \<times> units) option" where
  "literal w v s =
     (if take (length w) s = map code w then Some (v, drop (length w) s) else None)"

text \<open>
  A value, the rest of a list after its bracket, the rest of an object after its brace. Each call
  spends a unit of the first argument; twice the length of the text and one is enough.
\<close>

fun parse_value :: "nat \<Rightarrow> units \<Rightarrow> (jval \<times> units) option"
and parse_items :: "nat \<Rightarrow> units \<Rightarrow> (jval list \<times> units) option"
and parse_members :: "nat \<Rightarrow> units \<Rightarrow> ((units \<times> jval) list \<times> units) option" where
  "parse_value 0 s = None"
| "parse_value (Suc n) s =
     (case skip_ws s of
        [] \<Rightarrow> None
      | c # r \<Rightarrow>
          (if c = 34 then map_option (map_prod JvText id) (parse_chars r)
           else if c = 91 then
             (if skip_ws r \<noteq> [] \<and> hd (skip_ws r) = 93 then Some (JvList [], tl (skip_ws r))
              else map_option (map_prod JvList id) (parse_items n r))
           else if c = 123 then
             (if skip_ws r \<noteq> [] \<and> hd (skip_ws r) = 125 then Some (JvObj [], tl (skip_ws r))
              else map_option (map_prod object_of id) (parse_members n r))
           else if c = 110 then literal ''null'' JvNull (c # r)
           else if c = 116 then literal ''true'' (JvBool True) (c # r)
           else if c = 102 then literal ''false'' (JvBool False) (c # r)
           else map_option (map_prod JvNum id) (parse_number (c # r))))"
| "parse_items 0 s = None"
| "parse_items (Suc n) s =
     (case parse_value n s of
        None \<Rightarrow> None
      | Some (v, r) \<Rightarrow>
          (case skip_ws r of
             [] \<Rightarrow> None
           | c # r' \<Rightarrow>
               (if c = 44 then map_option (map_prod (Cons v) id) (parse_items n r')
                else if c = 93 then Some ([v], r')
                else None)))"
| "parse_members 0 s = None"
| "parse_members (Suc n) s =
     (case skip_ws s of
        [] \<Rightarrow> None
      | q # t \<Rightarrow>
          (if q \<noteq> 34 then None
           else case parse_chars t of
               None \<Rightarrow> None
             | Some (k, r) \<Rightarrow>
                 (if skip_ws r = [] \<or> hd (skip_ws r) \<noteq> 58 then None
                  else case parse_value n (tl (skip_ws r)) of
                      None \<Rightarrow> None
                    | Some (v, r') \<Rightarrow>
                        (case skip_ws r' of
                           [] \<Rightarrow> None
                         | c # r'' \<Rightarrow>
                             (if c = 44 then map_option (map_prod (Cons (k, v)) id) (parse_members n r'')
                              else if c = 125 then Some ([(k, v)], r'')
                              else None)))))"

definition json_parse :: "units \<Rightarrow> jval option" where
  "json_parse s =
     (case parse_value (2 * length s + 1) s of
        None \<Rightarrow> None
      | Some (v, r) \<Rightarrow> if skip_ws r = [] then Some v else None)"

section \<open>Enough fuel\<close>

lemma length_skip_ws: "length (skip_ws s) \<le> length s"
  by (simp add: skip_ws_def length_dropWhile_le)

lemma skip_ws_Cons_shorter: "skip_ws s = c # r \<Longrightarrow> length r < length s"
  using length_skip_ws [of s] by simp

lemma parse_chars_shorter: "parse_chars s = Some (x, r) \<Longrightarrow> length r < length s"
proof (induction s arbitrary: x rule: parse_chars.induct)
  case (1 s)
  from "1.prems" show ?case
    by (subst (asm) parse_chars.simps)
      (auto split: option.splits prod.splits dest: read_char_shorter "1.IH" [rotated -1]
        intro: less_trans)
qed

lemma parse_exponent_shorter: "parse_exponent s = Some (e, r) \<Longrightarrow> length r \<le> length s"
  using length_dropWhile_le [of unit_digit "tl (tl s)"] length_dropWhile_le [of unit_digit "tl s"]
  by (auto simp: parse_exponent_def Let_def split: if_splits)

lemma parse_fraction_shorter: "parse_fraction s = Some (fp, r) \<Longrightarrow> length r \<le> length s"
  using length_dropWhile_le [of unit_digit "tl s"]
  by (auto simp: parse_fraction_def split: if_splits)

lemma length_dropWhile_less: "takeWhile P s \<noteq> [] \<Longrightarrow> length (dropWhile P s) < length s"
  by (cases s) (auto split: if_splits intro: le_imp_less_Suc length_dropWhile_le)

lemma parse_number_shorter: "parse_number s = Some (x, r) \<Longrightarrow> length r < length s"
  using length_dropWhile_less [of unit_digit "tl s"] length_dropWhile_less [of unit_digit s]
  by (fastforce simp: parse_number_def Let_def split: if_splits option.splits
      dest!: parse_exponent_shorter parse_fraction_shorter)

lemma literal_shorter: "literal (a # w) v (c # r) = Some (x, r') \<Longrightarrow> length r' < length (c # r)"
  by (auto simp: literal_def split: if_splits)

lemmas shorter = parse_chars_shorter parse_number_shorter literal_shorter skip_ws_Cons_shorter

lemma parse_shorter:
  "parse_value n s = Some (v, r) \<Longrightarrow> length r < length s"
  "parse_items n s = Some (vs, r) \<Longrightarrow> length r < length s"
  "parse_members n s = Some (ms, r) \<Longrightarrow> length r < length s"
proof (induction n s and n s and n s arbitrary: v r and vs r and ms r
    rule: parse_value_parse_items_parse_members.induct)
  case (2 n s)
  show ?case
  proof (cases "skip_ws s")
    case Nil
    with 2 show ?thesis by simp
  next
    case (Cons c t)
    have t: "length t < length s" "length (tl (skip_ws t)) < length s" "length (c # t) \<le> length s"
      using skip_ws_Cons_shorter [OF Cons] length_skip_ws [of t] length_skip_ws [of s] Cons by auto
    show ?thesis
      using "2.prems" "2.IH" [OF Cons] t
      by (auto simp: Cons split: if_splits dest!: parse_chars_shorter parse_number_shorter literal_shorter
          intro: less_trans less_le_trans)
  qed
next
  case (4 n s)
  from "4.prems" obtain v t c t' where v: "parse_value n s = Some (v, t)" and c: "skip_ws t = c # t'"
    and rest: "(\<exists>ws. c = 44 \<and> parse_items n t' = Some (ws, r)) \<or> r = t'"
    by (auto split: option.splits list.splits if_splits)
  from rest have "length r \<le> length t'"
    using "4.IH"(2) [OF v refl c] by (auto intro: less_imp_le)
  with "4.IH"(1) [OF v] skip_ws_Cons_shorter [OF c] show ?case by simp
next
  case (6 n s)
  from "6.prems" obtain t k x v y c z where q: "skip_ws s = 34 # t" and k: "parse_chars t = Some (k, x)"
    and colon: "\<not> (skip_ws x = [] \<or> hd (skip_ws x) \<noteq> 58)"
    and v: "parse_value n (tl (skip_ws x)) = Some (v, y)" and c: "skip_ws y = c # z"
    and rest: "(\<exists>ws. c = 44 \<and> parse_members n z = Some (ws, r)) \<or> r = z"
    by (auto split: option.splits list.splits if_splits)
  have "length r \<le> length z"
    using rest "6.IH"(2) [OF q _ k refl colon v refl c] by (auto intro: less_imp_le)
  moreover have "length y < length (tl (skip_ws x))"
    using "6.IH"(1) [OF q _ k refl colon v] by simp
  ultimately show ?case
    using parse_chars_shorter [OF k] skip_ws_Cons_shorter [OF q] skip_ws_Cons_shorter [OF c]
      length_skip_ws [of x] by simp
qed simp_all


declare parse_value.simps [simp del] parse_items.simps [simp del] parse_members.simps [simp del]

lemma more_fuel:
  "2 * length s + 1 \<le> n \<Longrightarrow> parse_value (Suc n) s = parse_value n s"
  "2 * length s + 2 \<le> n \<Longrightarrow> parse_items (Suc n) s = parse_items n s"
  "2 * length s + 2 \<le> n \<Longrightarrow> parse_members (Suc n) s = parse_members n s"
proof (induction n s and n s and n s rule: parse_value_parse_items_parse_members.induct)
  case (2 n s)
  show ?case
  proof (cases "skip_ws s")
    case (Cons c t)
    then have "length t < length s" by (rule skip_ws_Cons_shorter)
    with "2.prems" "2.IH" [OF Cons] show ?thesis
      by (subst (1 2) parse_value.simps) (simp add: Cons)
  qed (simp add: parse_value.simps(2))
next
  case (4 n s)
  have v: "parse_value (Suc n) s = parse_value n s" using "4.IH"(1) "4.prems" by simp
  show ?case
  proof (cases "parse_value n s")
    case (Some vr)
    then obtain v t where vt: "parse_value n s = Some (v, t)" by (cases vr) auto
    show ?thesis
    proof (cases "skip_ws t")
      case (Cons c z)
      have "parse_items (Suc n) z = parse_items n z" if "c = 44"
        using "4.IH"(2) [OF vt refl Cons that] parse_shorter(1) [OF vt] skip_ws_Cons_shorter [OF Cons] "4.prems"
        by simp
      then show ?thesis
        by (subst (1 2) parse_items.simps) (simp add: v vt Cons)
    qed (simp add: v vt parse_items.simps(2))
  qed (simp add: v parse_items.simps(2))
next
  case (6 n s)
  show ?case
  proof (cases "\<exists>t k x. skip_ws s = 34 # t \<and> parse_chars t = Some (k, x) \<and> skip_ws x \<noteq> [] \<and> hd (skip_ws x) = 58")
    case True
    then obtain t k x where q: "skip_ws s = 34 # t" and k: "parse_chars t = Some (k, x)"
      and colon: "\<not> (skip_ws x = [] \<or> hd (skip_ws x) \<noteq> 58)" by blast
    have len: "length (tl (skip_ws x)) < length s"
      using parse_chars_shorter [OF k] skip_ws_Cons_shorter [OF q] length_skip_ws [of x] by simp
    have v: "parse_value (Suc n) (tl (skip_ws x)) = parse_value n (tl (skip_ws x))"
      using "6.IH"(1) [OF q _ k refl colon] "6.prems" len by simp
    have m: "parse_members (Suc n) z = parse_members n z"
      if vy: "parse_value n (tl (skip_ws x)) = Some (v, y)" and c: "skip_ws y = 44 # z" for v y z
      using "6.IH"(2) [OF q _ k refl colon vy refl c refl] parse_shorter(1) [OF vy]
        skip_ws_Cons_shorter [OF c] len "6.prems" by simp
    show ?thesis
      using colon
      by (subst (1 2) parse_members.simps)
        (auto simp: q k v m split: option.split list.split)
  next
    case False
    then show ?thesis
      by (auto simp: parse_members.simps(2) split: option.split list.split)
  qed
qed simp_all

lemma enough_fuel: "2 * length s + 1 \<le> n \<Longrightarrow> parse_value n s = parse_value (2 * length s + 1) s"
  by (induction n rule: dec_induct) (simp_all add: more_fuel)

section \<open>Reading back what was written\<close>

fun value_of :: "json \<Rightarrow> jval" where
  "value_of JSNull = JvNull"
| "value_of (JSBool b) = JvBool b"
| "value_of (JSNum i) = JvNum (JInt i)"
| "value_of (JSStr s) = JvText (map code s)"
| "value_of (JSArr vs) = JvList (map value_of vs)"
| "value_of (JSObj kvs) = JvObj (map (\<lambda>(k, v). (map code k, value_of v)) kvs)"

text \<open>The integers are exact and no object has a property twice.\<close>

fun json_ok :: "json \<Rightarrow> bool" where
  "json_ok (JSNum i) \<longleftrightarrow> \<bar>i\<bar> \<le> 2 ^ 53"
| "json_ok (JSArr vs) \<longleftrightarrow> list_all json_ok vs"
| "json_ok (JSObj kvs) \<longleftrightarrow> distinct (map fst kvs) \<and> list_all (\<lambda>(k, v). json_ok v) kvs"
| "json_ok v \<longleftrightarrow> True"

subsection \<open>UTF-8\<close>

lemma utf8_decode_char: "utf8_decode None (map code (utf8_char c) @ bs) = code c # utf8_decode None bs"
proof (cases "code c < 128")
  case False
  have d: "code c div 64 \<in> {2, 3}"
  proof -
    have "2 \<le> code c div 64" using False div_le_mono [of 128 "code c" 64] by simp
    moreover have "code c div 64 < 4" using code_less [of c] by (intro less_mult_imp_div_less) simp
    ultimately show ?thesis by auto
  qed
  then have "code (char_of (192 + code c div 64) :: char) = 192 + code c div 64"
    "code (char_of (128 + code c mod 64) :: char) = 128 + code c mod 64" by auto
  with False d show ?thesis
    by (auto simp: utf8_char_def utf8_lead_def units_of_def)
qed (simp add: utf8_char_def utf8_lead_def)

lemma utf8_text_utf8: "utf8_text (utf8 s) = map code s"
  by (induction s) (simp_all add: utf8_text_def utf8_def utf8_decode_char)

subsection \<open>Strings\<close>

lemma skip_ws_Cons: "\<not> json_space c \<Longrightarrow> skip_ws (c # s) = c # s"
  by (simp add: skip_ws_def)

lemma hex_value_digit: "n < 16 \<Longrightarrow> hex_value (code (hex_digit n)) = Some n"
  by (auto simp: hex_digit_code hex_value_def)

lemma read_char_escape: "read_char (map code (escape_char c) @ x) = Some (Some (code c), x)"
proof -
  consider (quote) "c = CHR 0x22" | (slash) "c = CHR 0x5C"
    | (named) "code c \<in> {8, 12, 10, 13, 9}"
    | (control) "c \<noteq> CHR 0x22" "c \<noteq> CHR 0x5C" "code c \<notin> {8, 12, 10, 13, 9}" "code c < 32"
    | (plain) "c \<noteq> CHR 0x22" "c \<noteq> CHR 0x5C" "code c \<notin> {8, 12, 10, 13, 9}" "\<not> code c < 32"
    by blast
  then show ?thesis
  proof cases
    case named
    then have "c \<noteq> CHR 0x22" "c \<noteq> CHR 0x5C" by auto
    with named show ?thesis by (auto simp: escape_char_def read_char_def read_escape_def)
  next
    case control
    have q: "code c div 16 < 16" "code c mod 16 < 16" using control(4) by simp_all
    have "hex_value 48 = Some 0" by code_simp
    with control show ?thesis
      by (simp add: escape_char_def read_char_def read_escape_def hex_value_digit [OF q(1)] hex_value_digit [OF q(2)])
  next
    case plain
    then have "code c \<noteq> 34" "code c \<noteq> 92" using code_inj [of c "CHR 0x22"] code_inj [of c "CHR 0x5C"] by auto
    with plain show ?thesis by (simp add: escape_char_def read_char_def)
  qed (simp_all add: escape_char_def read_char_def read_escape_def)
qed

lemma parse_chars_escaped:
  "parse_chars (map code (concat (map escape_char s)) @ 34 # r) = Some (map code s, r)"
proof (induction s)
  case Nil
  show ?case by (subst parse_chars.simps) (simp add: read_char_def)
next
  case (Cons c s)
  then show ?case by (subst parse_chars.simps) (simp add: read_char_escape)
qed

subsection \<open>Numbers\<close>

definition number_ends :: "units \<Rightarrow> bool" where
  "number_ends r \<longleftrightarrow> r = [] \<or> \<not> unit_digit (hd r) \<and> hd r \<notin> {46, 69, 101}"

lemma val_in_base_digits:
  "list_all is_digit s \<Longrightarrow> val_in_base 10 (int a) s = int (digits_value a s)"
  by (induction a s rule: digits_value.induct) (auto simp: digit_val_def)

lemma unit_digit_code: "unit_digit (code c) = is_digit c"
  by (simp add: unit_digit_def is_digit_def in_range_def)

lemma show_nat_no_zero: "hd (show_nat n) = CHR ''0'' \<Longrightarrow> tl (show_nat n) = []"
proof (induction n rule: show_nat.induct)
  case (1 n)
  show ?case
  proof (cases "n < 10")
    case False
    then have "n div 10 \<noteq> 0" by simp
    have "hd (show_nat (n div 10)) \<noteq> CHR ''0''"
    proof
      assume z: "hd (show_nat (n div 10)) = CHR ''0''"
      with 1(1) [OF False] show_nat_nonempty [of "n div 10"] have "show_nat (n div 10) = ''0''"
        by (cases "show_nat (n div 10)") auto
      then have "n div 10 = 0" using show_nat_value [of "n div 10"] by simp
      with \<open>n div 10 \<noteq> 0\<close> show False ..
    qed
    with 1(2) False show ?thesis by (simp add: show_nat.simps [of n])
  qed (simp add: show_nat.simps [of n])
qed

lemma map_char_of_code [simp]: "map (\<lambda>u. char_of u :: char) (map code s) = s"
  by (simp add: o_def)

lemma parse_digits:
  assumes "number_ends r"
  shows "takeWhile unit_digit (map code (show_nat n) @ r) = map code (show_nat n)"
    and "dropWhile unit_digit (map code (show_nat n) @ r) = r"
proof -
  have d: "list_all unit_digit (map code (show_nat n))"
    using show_nat_digits [of n] by (simp add: list_all_iff unit_digit_code)
  have "takeWhile unit_digit r = []" "dropWhile unit_digit r = r"
    using assms by (cases r; simp add: number_ends_def)+
  moreover have "takeWhile unit_digit (map code (show_nat n) @ r) = map code (show_nat n) @ takeWhile unit_digit r"
    using d by (intro takeWhile_append2) (auto simp: list_all_iff)
  moreover have "dropWhile unit_digit (map code (show_nat n) @ r) = dropWhile unit_digit r"
    using d by (intro dropWhile_append2) (auto simp: list_all_iff)
  ultimately show "takeWhile unit_digit (map code (show_nat n) @ r) = map code (show_nat n)"
    "dropWhile unit_digit (map code (show_nat n) @ r) = r" by simp_all
qed

lemma parse_natural:
  assumes "number_ends r" and "int n \<le> 2 ^ 53"
  shows "parse_number (map code (show_nat n) @ r) = Some (JInt (int n), r)"
    and "parse_number (45 # map code (show_nat n) @ r) = Some (JInt (- int n), r)"
proof -
  let ?s = "map code (show_nat n) @ r"
  have digit: "is_digit (hd (show_nat n))" by (rule show_nat_hd)
  then have hd: "hd ?s \<noteq> 45" "?s \<noteq> []" by (auto simp: hd_map is_digit_def in_range_def)
  have ip: "\<not> (map code (show_nat n) = [] \<or> hd (map code (show_nat n)) = 48 \<and> tl (map code (show_nat n)) \<noteq> [])"
  proof -
    have "hd (map code (show_nat n)) = 48 \<Longrightarrow> hd (show_nat n) = CHR ''0''"
      using code_inj [of "hd (show_nat n)" "CHR ''0''"] by (simp add: hd_map)
    then show ?thesis using show_nat_no_zero [of n] by (auto simp: map_tl [symmetric])
  qed
  have rest: "parse_fraction r = Some ([], r)" "parse_exponent r = Some (0, r)"
    using assms(1) by (auto simp: parse_fraction_def parse_exponent_def number_ends_def)
  have val: "val_in_base 10 0 (show_nat n) = int n"
    using val_in_base_digits [OF show_nat_digits, of 0 n] by (simp add: show_nat_value)
  note digits = parse_digits [OF assms(1), of n] and num = round64_int [of "int n"] round64_int [of "- int n"]
  show "parse_number ?s = Some (JInt (int n), r)"
    using hd ip num assms(2) by (simp add: parse_number_def Let_def digits rest val ten_to_def)
  show "parse_number (45 # ?s) = Some (JInt (- int n), r)"
    using hd ip num assms(2) by (simp add: parse_number_def Let_def digits rest val ten_to_def)
qed

lemma parse_number_int:
  assumes "number_ends r" and "\<bar>i\<bar> \<le> 2 ^ 53"
  shows "parse_number (map code (show_int i) @ r) = Some (JInt i, r)"
  using parse_natural [OF assms(1), of "nat i"] parse_natural [OF assms(1), of "nat (- i)"] assms(2)
  by (auto simp: show_int_def)

subsection \<open>Values\<close>

lemma hd_show_int: "is_digit (hd (show_int i)) \<or> hd (show_int i) = CHR ''-''"
  using show_nat_hd by (simp add: show_int_def)

lemma show_int_nonempty [simp]: "show_int i \<noteq> []"
  by (simp add: show_int_def)

lemma stringify_start:
  "\<exists>c t. map code (stringify v) = c # t \<and> \<not> json_space c \<and> c \<noteq> 93 \<and> c \<noteq> 125"
proof (cases v)
  case (JSNum i)
  then show ?thesis
    using hd_show_int [of i]
    by (cases "show_int i") (auto simp: json_space_def is_digit_def in_range_def)
qed (auto simp: json_space_def json_string_def)

definition reads :: "json \<Rightarrow> bool" where
  "reads v \<longleftrightarrow> (\<forall>n r. number_ends r \<longrightarrow> 2 * length (stringify v) + 1 \<le> n \<longrightarrow>
     parse_value n (map code (stringify v) @ r) = Some (value_of v, r))"

lemma reads_D:
  "reads v \<Longrightarrow> number_ends r \<Longrightarrow> 2 * length (stringify v) + 1 \<le> n \<Longrightarrow>
    parse_value n (map code (stringify v) @ r) = Some (value_of v, r)"
  by (simp add: reads_def)

lemma number_ends_delimiter [simp]: "c \<in> {44, 93, 125} \<Longrightarrow> number_ends (c # r)"
  by (auto simp: number_ends_def unit_digit_def)

lemma delimiter_kept [simp]: "c \<in> {34, 44, 58, 93, 125} \<Longrightarrow> skip_ws (c # r) = c # r"
  by (rule skip_ws_Cons) (auto simp: json_space_def)

lemma parse_items_written:
  assumes "\<forall>v \<in> set (v # vs). reads v"
    and "2 * length (join_with '','' (map stringify (v # vs))) + 2 \<le> n"
  shows "parse_items n (map code (join_with '','' (map stringify (v # vs))) @ 93 # r)
    = Some (map value_of (v # vs), r)"
  using assms
proof (induction vs arbitrary: v n)
  case Nil
  then obtain m where "n = Suc m" by (cases n) auto
  with Nil reads_D [of v "93 # r" m] show ?case by (simp add: parse_items.simps)
next
  case (Cons w vs)
  then obtain m where n: "n = Suc m" by (cases n) auto
  let ?t = "map code (join_with '','' (map stringify (w # vs))) @ 93 # r"
  have "parse_value m (map code (stringify v) @ 44 # ?t) = Some (value_of v, 44 # ?t)"
    using Cons.prems n by (intro reads_D) auto
  moreover have "parse_items m ?t = Some (map value_of (w # vs), r)"
    using Cons.prems n by (intro Cons.IH) auto
  ultimately show ?case by (simp add: n parse_items.simps)
qed

definition member_written :: "string \<times> json \<Rightarrow> string" where
  "member_written kv = json_member (map_prod id stringify kv)"

lemma member_written_code:
  "map code (member_written (k, v)) @ r =
     34 # map code (concat (map escape_char k)) @ 34 # 58 # map code (stringify v) @ r"
  by (simp add: member_written_def json_member_def json_string_def)

lemma length_member_written:
  "length (member_written (k, v)) = length (concat (map escape_char k)) + 3 + length (stringify v)"
  by (simp add: member_written_def json_member_def json_string_def)

lemma parse_members_step:
  assumes "reads v" and "number_ends (c # r)" and "2 * length (stringify v) + 1 \<le> n" and "\<not> json_space c"
  shows "parse_members (Suc n) (map code (member_written (k, v)) @ c # r) =
    (if c = 44 then map_option (map_prod (Cons (map code k, value_of v)) id) (parse_members n r)
     else if c = 125 then Some ([(map code k, value_of v)], r) else None)"
  using assms
  by (simp add: parse_members.simps member_written_code parse_chars_escaped reads_D skip_ws_Cons)

lemma parse_members_written:
  assumes "\<forall>kv \<in> set (kv # kvs). reads (snd kv)"
    and "2 * length (join_with '','' (map member_written (kv # kvs))) + 2 \<le> n"
  shows "parse_members n (map code (join_with '','' (map member_written (kv # kvs))) @ 125 # r)
    = Some (map (\<lambda>(k, v). (map code k, value_of v)) (kv # kvs), r)"
  using assms
proof (induction kvs arbitrary: kv n)
  case Nil
  obtain k v where kv: "kv = (k, v)" by fastforce
  from Nil obtain m where n: "n = Suc m" by (cases n) auto
  from Nil kv n have "2 * length (stringify v) + 1 \<le> m" by (simp add: length_member_written)
  with Nil kv n show ?case by (simp add: parse_members_step json_space_def)
next
  case (Cons lw kvs)
  obtain k v where kv: "kv = (k, v)" by fastforce
  from Cons.prems obtain m where n: "n = Suc m" by (cases n) auto
  let ?t = "map code (join_with '','' (map member_written (lw # kvs))) @ 125 # r"
  have len: "2 * length (stringify v) + 1 \<le> m" using Cons.prems n kv by (simp add: length_member_written)
  have "parse_members m ?t = Some (map (\<lambda>(k, v). (map code k, value_of v)) (lw # kvs), r)"
    using Cons.prems n kv by (intro Cons.IH) (auto simp: length_member_written)
  then have "parse_members (Suc m) (map code (member_written (k, v)) @ 44 # ?t) =
      Some (map (\<lambda>(k, v). (map code k, value_of v)) (kv # lw # kvs), r)"
    using Cons.prems kv len by (subst parse_members_step) (simp_all add: json_space_def)
  then show ?case by (simp add: n kv)
qed

lemma object_of_distinct:
  assumes "distinct (map fst ms)"
  shows "object_of ms = JvObj ms"
proof -
  have "foldl (\<lambda>kvs (k, v). set_property k v kvs) kvs ms = kvs @ ms" if "distinct (map fst (kvs @ ms))" for kvs
    using that
  proof (induction ms arbitrary: kvs)
    case (Cons m ms)
    obtain k v where m: "m = (k, v)" by fastforce
    from Cons.prems m have "k \<notin> fst ` set kvs" by auto
    then have "set_property k v kvs = kvs @ [(k, v)]" by (simp add: set_property_def)
    with m Cons.IH [of "kvs @ [(k, v)]"] Cons.prems show ?case by simp
  qed simp
  from this [of "[]"] assms show ?thesis by (simp add: object_of_def)
qed

lemma inj_map_code: "inj (map code)"
  by (intro inj_mapI injI) (rule code_inj)

lemma parse_value_start:
  assumes "\<not> json_space c" and "0 < n"
  shows "parse_value n (c # r) =
    (if c = 34 then map_option (map_prod JvText id) (parse_chars r)
     else if c = 91 then
       (if skip_ws r \<noteq> [] \<and> hd (skip_ws r) = 93 then Some (JvList [], tl (skip_ws r))
        else map_option (map_prod JvList id) (parse_items (n - 1) r))
     else if c = 123 then
       (if skip_ws r \<noteq> [] \<and> hd (skip_ws r) = 125 then Some (JvObj [], tl (skip_ws r))
        else map_option (map_prod object_of id) (parse_members (n - 1) r))
     else if c = 110 then literal ''null'' JvNull (c # r)
     else if c = 116 then literal ''true'' (JvBool True) (c # r)
     else if c = 102 then literal ''false'' (JvBool False) (c # r)
     else map_option (map_prod JvNum id) (parse_number (c # r)))"
  using assms by (cases n) (simp_all add: parse_value.simps skip_ws_Cons)

lemma written_reads: "json_ok v \<Longrightarrow> reads v"
  unfolding reads_def
proof (induction v)
  case (JSNum i)
  show ?case
  proof (intro allI impI)
    fix n r assume a: "number_ends r" "2 * length (stringify (JSNum i)) + 1 \<le> n"
    then obtain m where n: "n = Suc m" by (cases n) auto
    obtain c t where c: "show_int i = c # t" by (cases "show_int i") auto
    have "\<not> json_space (code c) \<and> code c \<notin> {34, 91, 123, 110, 116, 102}"
      using hd_show_int [of i] c by (auto simp: json_space_def is_digit_def in_range_def)
    then show "parse_value n (map code (stringify (JSNum i)) @ r) = Some (value_of (JSNum i), r)"
      using parse_number_int [OF a(1), of i] JSNum by (simp add: n c parse_value_start)
  qed
next
  case (JSArr vs)
  show ?case
  proof (intro allI impI)
    fix n r assume a: "number_ends r" "2 * length (stringify (JSArr vs)) + 1 \<le> n"
    then obtain m where n: "n = Suc m" by (cases n) auto
    show "parse_value n (map code (stringify (JSArr vs)) @ r) = Some (value_of (JSArr vs), r)"
    proof (cases vs)
      case Nil
      then show ?thesis by (simp add: n parse_value_start json_space_def)
    next
      case (Cons w ws)
      let ?t = "map code (join_with '','' (map stringify vs)) @ 93 # r"
      have "parse_items m ?t = Some (map value_of vs, r)"
        unfolding Cons using JSArr a n Cons
        by (intro parse_items_written) (auto simp: reads_def list_all_iff)
      moreover
      obtain c t where c: "map code (stringify w) = c # t" "\<not> json_space c" "c \<noteq> 93"
        using stringify_start [of w] by metis
      then have "skip_ws ?t \<noteq> [] \<and> hd (skip_ws ?t) \<noteq> 93"
        by (simp add: Cons join_with_Cons skip_ws_Cons)
      ultimately show ?thesis by (simp add: n parse_value_start json_space_def)
    qed
  qed
next
  case (JSObj kvs)
  show ?case
  proof (intro allI impI)
    fix n r assume a: "number_ends r" "2 * length (stringify (JSObj kvs)) + 1 \<le> n"
    then obtain m where n: "n = Suc m" by (cases n) auto
    have mems: "map json_member (map (map_prod id stringify) kvs) = map member_written kvs"
      by (simp add: member_written_def [abs_def] o_def)
    show "parse_value n (map code (stringify (JSObj kvs)) @ r) = Some (value_of (JSObj kvs), r)"
    proof (cases kvs)
      case Nil
      then show ?thesis by (simp add: n parse_value_start json_space_def)
    next
      case (Cons kw ws)
      let ?t = "map code (join_with '','' (map member_written kvs)) @ 125 # r"
      have "parse_members m ?t = Some (map (\<lambda>(k, v). (map code k, value_of v)) kvs, r)"
        unfolding Cons
      proof (rule parse_members_written)
        show "2 * length (join_with '','' (map member_written (kw # ws))) + 2 \<le> m"
          using a(2) unfolding stringify.simps mems n unfolding Cons by simp
        show "\<forall>kv \<in> set (kw # ws). reads (snd kv)"
        proof
          fix kv assume kv: "kv \<in> set (kw # ws)"
          then have "json_ok (snd kv)" using JSObj.prems Cons by (auto simp: list_all_iff)
          with kv show "reads (snd kv)"
            using JSObj.IH [of kv "snd kv"] Cons by (simp add: reads_def snds.simps)
        qed
      qed
      moreover have "object_of (map (\<lambda>(k, v). (map code k, value_of v)) kvs) = value_of (JSObj kvs)"
        using JSObj.prems inj_map_code
        by (subst object_of_distinct) (auto simp: case_prod_beta' o_def distinct_map inj_on_def)
      moreover have "skip_ws ?t \<noteq> [] \<and> hd (skip_ws ?t) \<noteq> 125"
        by (cases kw) (simp add: Cons join_with_Cons member_written_code)
      ultimately show ?thesis
        unfolding stringify.simps mems by (simp add: n parse_value_start json_space_def)
    qed
  qed
next
  case (JSStr s)
  show ?case
  proof (intro allI impI)
    fix n r assume a: "number_ends r" "2 * length (stringify (JSStr s)) + 1 \<le> n"
    then obtain m where n: "n = Suc m" by (cases n) auto
    show "parse_value n (map code (stringify (JSStr s)) @ r) = Some (value_of (JSStr s), r)"
      using parse_chars_escaped [of s r] by (simp add: n parse_value_start json_space_def json_string_def)
  qed
next
  case JSNull
  then show ?case by (auto simp: parse_value_start json_space_def literal_def)
next
  case (JSBool b)
  then show ?case by (auto simp: parse_value_start json_space_def literal_def)
qed

lemma json_parse_stringify: "json_ok v \<Longrightarrow> json_parse (map code (stringify v)) = Some (value_of v)"
  using reads_D [OF written_reads, of v "[]" "2 * length (stringify v) + 1"]
  by (simp add: json_parse_def number_ends_def skip_ws_def)

end
