(* ===== verification/ActorToken.thy ===== *)
theory ActorToken
  imports JsonParse Signatures
begin

text \<open>
  The actor tokens of the domain package: \<open>body.signature\<close>, where the body is the base64url text of
  the payload's JSON and the signature the base64url text of its HMAC. The payload of a verified token
  is whatever JSON the body holds, checked by \<open>validateActorPayload\<close>.
\<close>

section \<open>base64url\<close>

definition b64_char :: "nat \<Rightarrow> char" where
  "b64_char n =
     (if n < 26 then char_of (65 + n) else if n < 52 then char_of (71 + n)
      else if n < 62 then char_of (n - 4) else if n = 62 then CHR ''-'' else CHR ''_'')"

text \<open>\<open>Buffer.toString("base64url")\<close>: no padding.\<close>

fun b64_groups :: "nat list \<Rightarrow> nat list" where
  "b64_groups [] = []"
| "b64_groups [a] = [a div 4, a mod 4 * 16]"
| "b64_groups [a, b] = [a div 4, a mod 4 * 16 + b div 16, b mod 16 * 4]"
| "b64_groups (a # b # c # r) =
     [a div 4, a mod 4 * 16 + b div 16, b mod 16 * 4 + c div 64, c mod 64] @ b64_groups r"

definition base64url :: "char list \<Rightarrow> string" where
  "base64url bytes = map b64_char (b64_groups (map code bytes))"

text \<open>
  \<open>Buffer.from(text, "base64url")\<close> takes both alphabets, skips other characters, stops at the
  padding and drops a last character that stands alone.
\<close>

definition b64_value :: "char \<Rightarrow> nat option" where
  "b64_value c =
     (if is_upper c then Some (code c - 65) else if is_lower c then Some (code c - 71)
      else if is_digit c then Some (code c + 4)
      else if c = CHR ''-'' \<or> c = CHR ''+'' then Some 62
      else if c = CHR ''_'' \<or> c = CHR ''/'' then Some 63 else None)"

fun b64_bytes :: "nat list \<Rightarrow> nat list" where
  "b64_bytes (w # x # y # z # r) =
     [w * 4 + x div 16, x mod 16 * 16 + y div 4, y mod 4 * 64 + z] @ b64_bytes r"
| "b64_bytes [w, x, y] = [w * 4 + x div 16, x mod 16 * 16 + y div 4]"
| "b64_bytes [w, x] = [w * 4 + x div 16]"
| "b64_bytes _ = []"

definition from_base64url :: "string \<Rightarrow> char list" where
  "from_base64url text =
     map char_of (b64_bytes (List.map_filter b64_value (takeWhile (\<lambda>c. c \<noteq> CHR ''='') text)))"

section \<open>The payload\<close>

definition tokenError :: "string \<Rightarrow> exn" where
  "tokenError message = CodedErr message ''INVALID_ACTOR_TOKEN''"

definition ascii_in :: "nat \<Rightarrow> nat \<Rightarrow> nat \<Rightarrow> bool" where
  "ascii_in lo hi u \<longleftrightarrow> lo \<le> u \<and> u \<le> hi"

text \<open>\<open>[0-9a-f]\<close> and \<open>[89ab]\<close> without regard to case.\<close>

definition hex_unit :: "nat \<Rightarrow> bool" where
  "hex_unit u \<longleftrightarrow> ascii_in 48 57 u \<or> ascii_in 97 102 u \<or> ascii_in 65 70 u"

definition variant_unit :: "nat \<Rightarrow> bool" where
  "variant_unit u \<longleftrightarrow> u = 56 \<or> u = 57 \<or> ascii_in 97 98 u \<or> ascii_in 65 66 u"

definition uuid_classes :: "(nat \<Rightarrow> bool) list" where
  "uuid_classes =
     (let dash = (\<lambda>u. u = 45)
      in replicate 8 hex_unit @ [dash] @ replicate 4 hex_unit @ [dash] @
         [ascii_in 49 53] @ replicate 3 hex_unit @ [dash] @
         [variant_unit] @ replicate 3 hex_unit @ [dash] @ replicate 12 hex_unit)"

definition uuid_format :: "units \<Rightarrow> bool" where
  "uuid_format s \<longleftrightarrow> list_all2 (\<lambda>C u. C u) uuid_classes s"

definition role_unit :: "nat \<Rightarrow> bool" where
  "role_unit u \<longleftrightarrow> ascii_in 97 122 u \<or> ascii_in 65 90 u \<or> ascii_in 48 57 u \<or>
     u = 58 \<or> u = 42 \<or> u = 46 \<or> u = 95 \<or> u = 45"

definition role_format :: "units \<Rightarrow> bool" where
  "role_format s \<longleftrightarrow> 1 \<le> length s \<and> length s \<le> 80 \<and> list_all role_unit s"

definition property_of :: "jval \<Rightarrow> string \<Rightarrow> jval option" where
  "property_of v k = (case v of JvObj kvs \<Rightarrow> map_of kvs (map code k) | _ \<Rightarrow> None)"

text \<open>
  \<open>pattern.test(value ?? "")\<close> converts the value to text. Of the values of JSON only a text, or a list
  of one value that converts to such a text, has the form of a UUID: an absent value and \<open>null\<close> become
  the empty text, a longer list has a comma, and numbers, truth values and objects have other texts.
\<close>

fun uuid_test :: "jval \<Rightarrow> bool" where
  "uuid_test (JvText s) = uuid_format s"
| "uuid_test (JvList [v]) = uuid_test v"
| "uuid_test _ = False"

definition is_role :: "jval \<Rightarrow> bool" where
  "is_role v = (case v of JvText s \<Rightarrow> role_format s | _ \<Rightarrow> False)"

definition roles_valid :: "jval option \<Rightarrow> bool" where
  "roles_valid v =
     (case v of
        Some (JvList rs) \<Rightarrow> 1 \<le> length rs \<and> length rs \<le> 32 \<and> list_all is_role rs
      | _ \<Rightarrow> False)"

definition exp_of :: "jval \<Rightarrow> jsnum option" where
  "exp_of payload = (case property_of payload ''exp'' of Some (JvNum n) \<Rightarrow> Some n | _ \<Rightarrow> None)"

definition subject_valid :: "jval option \<Rightarrow> bool" where
  "subject_valid v =
     (case v of
        None \<Rightarrow> True
      | Some (JvText s) \<Rightarrow> 1 \<le> length s \<and> length s \<le> 120
      | _ \<Rightarrow> False)"

definition is_object :: "jval \<Rightarrow> bool" where
  "is_object v = (case v of JvObj _ \<Rightarrow> True | JvList _ \<Rightarrow> True | _ \<Rightarrow> False)"

definition validateActorPayload :: "jval \<Rightarrow> bool \<Rightarrow> int \<Rightarrow> exn + unit" where
  "validateActorPayload payload requireFutureExpiry nowEpochSeconds =
     bindE (guardE (is_object payload) (tokenError ''Actor token payload must be an object'')) (\<lambda>_.
     bindE (guardE (case property_of payload ''actorMerchantId'' of None \<Rightarrow> False | Some v \<Rightarrow> uuid_test v)
       (tokenError ''Actor token merchant ID must be a UUID'')) (\<lambda>_.
     bindE (guardE (roles_valid (property_of payload ''roles'')) (tokenError ''Actor token roles are invalid'')) (\<lambda>_.
     bindE (someE (tokenError ''Actor token expiry is invalid'') (exp_of payload)) (\<lambda>exp.
     bindE (guardE (is_safe_integer exp \<and> \<not> js_lt exp (JInt 1)) (tokenError ''Actor token expiry is invalid'')) (\<lambda>_.
     bindE (guardE (\<not> (requireFutureExpiry \<and> \<not> js_lt (JInt nowEpochSeconds) exp))
       (tokenError ''Actor token has expired'')) (\<lambda>_.
     guardE (subject_valid (property_of payload ''subject'')) (tokenError ''Actor token subject is invalid'')))))))"

section \<open>Tokens\<close>

definition createActorToken ::
  "(string \<Rightarrow> char list \<Rightarrow> char list) \<Rightarrow> json \<Rightarrow> string \<Rightarrow> exn + string" where
  "createActorToken hmac payload secret =
     bindE (validateTokenSecret secret) (\<lambda>_.
     bindE (validateActorPayload (value_of payload) False 0) (\<lambda>_.
     let body = base64url (utf8 (stringify payload));
         signature = base64url (hmac secret (utf8 body))
     in Inr (body @ ''.'' @ signature)))"

fun split_on :: "char \<Rightarrow> string \<Rightarrow> string list" where
  "split_on d [] = [[]]"
| "split_on d (c # s) =
     (if c = d then [] # split_on d s
      else (case split_on d s of [] \<Rightarrow> [[c]] | p # ps \<Rightarrow> (c # p) # ps))"

text \<open>The \<open>i\<close>-th part, the empty text for \<open>undefined\<close>: both are falsy.\<close>

definition part :: "nat \<Rightarrow> string list \<Rightarrow> string" where
  "part i ps = (if i < length ps then ps ! i else [])"

definition verifyActorToken ::
  "(string \<Rightarrow> char list \<Rightarrow> char list) \<Rightarrow> string \<Rightarrow> string \<Rightarrow> int \<Rightarrow> exn + jval" where
  "verifyActorToken hmac token secret nowEpochSeconds =
     bindE (validateTokenSecret secret) (\<lambda>_.
     let parts = split_on (CHR ''.'') token;
         body = part 0 parts; suppliedSignature = part 1 parts; extra = part 2 parts
     in bindE (guardE (truthy body \<and> truthy suppliedSignature \<and> \<not> truthy extra)
          (tokenError ''Malformed actor token'')) (\<lambda>_.
        bindE (guardE (utf8 suppliedSignature = utf8 (base64url (hmac secret (utf8 body))))
          (tokenError ''Invalid actor token signature'')) (\<lambda>_.
        bindE (someE (tokenError ''Invalid actor token payload'') (json_parse (utf8_text (from_base64url body)))) (\<lambda>payload.
        bindE (validateActorPayload payload True nowEpochSeconds) (\<lambda>_.
        Inr payload)))))"

definition assertActorTokenPayload :: "jval \<Rightarrow> int \<Rightarrow> exn + bool" where
  "assertActorTokenPayload payload nowEpochSeconds =
     bindE (validateActorPayload payload True nowEpochSeconds) (\<lambda>_. Inr True)"

section \<open>base64url is read back\<close>

lemma b64_value_char: "n < 64 \<Longrightarrow> b64_value (b64_char n) = Some n"
  by (auto simp: b64_value_def b64_char_def is_upper_def is_lower_def is_digit_def in_range_def)

lemma b64_char_plain: "n < 64 \<Longrightarrow> b64_char n \<noteq> CHR ''='' \<and> b64_char n \<noteq> CHR ''.'' \<and> code (b64_char n) < 128"
proof -
  assume n: "n < 64"
  have "b64_value (CHR ''='') = None" "b64_value (CHR ''.'') = None" by code_simp+
  then have "b64_char n \<noteq> CHR ''=''" "b64_char n \<noteq> CHR ''.''" using b64_value_char [OF n] by auto
  then show ?thesis using n by (auto simp: b64_char_def)
qed

lemma div_less: "(a :: nat) < m * n \<Longrightarrow> a div n < m"
  by (rule less_mult_imp_div_less)

lemma b64_groups_range: "list_all (\<lambda>b. b < 256) bs \<Longrightarrow> list_all (\<lambda>n. n < 64) (b64_groups bs)"
proof (induction bs rule: b64_groups.induct)
  case (3 a b)
  then have "a div 4 < 64" "b div 16 < 16" by (auto intro: div_less)
  then show ?case using mod_less_divisor [of 4 a] mod_less_divisor [of 16 b] by simp
next
  case (4 a b c r)
  then have "a div 4 < 64" "b div 16 < 16" "c div 64 < 4" by (auto intro: div_less)
  moreover have "a mod 4 < 4" "b mod 16 < 16" by simp_all
  ultimately have "a mod 4 * 16 + b div 16 < 64" "b mod 16 * 4 + c div 64 < 64" by linarith+
  with \<open>a div 4 < 64\<close> 4 show ?case by simp
qed (auto intro: div_less)

lemma b64_bytes_groups: "list_all (\<lambda>b. b < 256) bs \<Longrightarrow> b64_bytes (b64_groups bs) = bs"
proof (induction bs rule: b64_groups.induct)
  case (3 a b)
  then have "b div 16 < 16" by (auto intro: div_less)
  then show ?case by simp
next
  case (4 a b c r)
  then have "b div 16 < 16" "c div 64 < 4" by (auto intro: div_less)
  with 4 show ?case by simp
qed auto

lemma from_base64url_base64url: "from_base64url (base64url bytes) = bytes"
proof -
  let ?g = "b64_groups (map code bytes)"
  have r: "list_all (\<lambda>n. n < 64) ?g" by (intro b64_groups_range) (simp add: list_all_iff)
  then have t: "takeWhile (\<lambda>c. c \<noteq> CHR ''='') (base64url bytes) = base64url bytes"
    by (auto simp: base64url_def list_all_iff b64_char_plain)
  have m: "List.map_filter b64_value (map b64_char ns) = ns" if "list_all (\<lambda>n. n < 64) ns" for ns
    using that by (induction ns) (auto simp: List.map_filter_simps b64_value_char)
  show ?thesis
    unfolding from_base64url_def t unfolding base64url_def m [OF r]
    by (simp add: b64_bytes_groups list_all_iff o_def)
qed

lemma base64url_no_dot: "CHR ''.'' \<notin> set (base64url bytes)"
  using b64_groups_range [of "map code bytes"] b64_char_plain
  by (fastforce simp: base64url_def list_all_iff)

lemma base64url_empty_iff: "base64url bytes = [] \<longleftrightarrow> bytes = []"
  by (cases "map code bytes" rule: b64_groups.cases) (auto simp: base64url_def)

section \<open>Splitting at the dots\<close>

lemma split_on_nonempty [simp]: "split_on d s \<noteq> []"
  by (induction s) (auto split: list.split)

lemma split_on_join: "join_with [d] (split_on d s) = s"
proof (induction s)
  case (Cons c s)
  then show ?case by (cases "split_on d s" rule: remdups_adj.cases) auto
qed simp

lemma split_on_part: "d \<notin> set p \<Longrightarrow> split_on d (p @ d # s) = p # split_on d s"
  by (induction p) auto

lemma split_on_last: "d \<notin> set p \<Longrightarrow> split_on d p = [p]"
  by (induction p) auto

lemma split_on_parts: "p \<in> set (split_on d s) \<Longrightarrow> d \<notin> set p"
  by (induction s arbitrary: p) (auto split: list.splits if_splits)

text \<open>A text that splits into a first and a second part and no third one, or an empty third one.\<close>

lemma two_parts:
  assumes "part 0 (split_on d s) = a" and "part 1 (split_on d s) = b" and "part 2 (split_on d s) = []"
    and "b \<noteq> []"
  shows "d \<notin> set a \<and> (s = a @ [d] @ b \<or> (\<exists>r. s = a @ [d] @ b @ [d] @ r \<and> (r = [] \<or> hd r = d)))"
proof -
  have j: "join_with [d] (split_on d s) = s" by (rule split_on_join)
  from assms obtain ps where ps: "split_on d s = a # b # ps"
    by (cases "split_on d s" rule: remdups_adj.cases) (auto simp: part_def split: if_splits)
  with assms(3) j show ?thesis
    using split_on_parts [of a d s]
    by (cases ps rule: remdups_adj.cases) (auto simp: part_def)
qed

section \<open>Creating and verifying\<close>

lemma createActorToken_Inr:
  "createActorToken hmac payload secret = Inr t \<longleftrightarrow>
     32 \<le> length secret \<and> validateActorPayload (value_of payload) False 0 = Inr () \<and>
     t = base64url (utf8 (stringify payload)) @ ''.'' @
         base64url (hmac secret (base64url (utf8 (stringify payload))))"
proof -
  have "utf8 (base64url b) = base64url b" for b
    using b64_groups_range [of "map code b"] b64_char_plain
    by (intro utf8_ascii) (auto simp: base64url_def list_all_iff)
  then show ?thesis
    by (auto simp: createActorToken_def validateTokenSecret_def Let_def res_simps not_less)
qed

lemma validateActorPayload_unexpired:
  "validateActorPayload v True now = Inr () \<longleftrightarrow>
     validateActorPayload v False 0 = Inr () \<and> (\<exists>e. exp_of v = Some (JInt e) \<and> now < e)"
  (is "?l \<longleftrightarrow> ?r")
proof -
  have safe: "is_safe_integer n \<Longrightarrow> \<exists>e. n = JInt e" for n using is_safe_integer_JInt by blast
  have "?l \<longleftrightarrow> validateActorPayload v False 0 = Inr () \<and> (\<exists>n. exp_of v = Some n \<and> is_safe_integer n \<and> js_lt (JInt now) n)"
    by (auto simp: validateActorPayload_def res_simps)
  also have "\<dots> \<longleftrightarrow> ?r"
    using safe by (fastforce simp: validateActorPayload_def res_simps)
  finally show ?thesis .
qed

lemma validateActorPayload_expired:
  assumes "validateActorPayload v False 0 = Inr ()" and "exp_of v = Some (JInt e)" and "\<not> now < e"
  shows "validateActorPayload v True now = Inl (tokenError ''Actor token has expired'')"
  using assms by (auto simp: validateActorPayload_def res_simps guardE_def)

text \<open>What may follow the signature: a dot, or a second dot and any text.\<close>

definition ignored :: "string \<Rightarrow> bool" where
  "ignored rest \<longleftrightarrow> rest = [] \<or> rest = ''.'' \<or> take 2 rest = ''..''"

lemma split_on_ignored:
  "CHR ''.'' \<notin> set p \<Longrightarrow> ignored rest \<Longrightarrow> \<exists>ps. split_on (CHR ''.'') (p @ rest) = p # ps \<and> part 1 (p # ps) = []"
  unfolding ignored_def
  by (elim disjE; cases rest rule: remdups_adj.cases) (auto simp: split_on_part split_on_last part_def)

lemma verifyActorToken_signed:
  assumes "32 \<le> length secret" and "body \<noteq> []" and "CHR ''.'' \<notin> set body" and "hmac secret (utf8 body) \<noteq> []"
    and "ignored rest"
  shows "verifyActorToken hmac (body @ ''.'' @ base64url (hmac secret (utf8 body)) @ rest) secret now =
    bindE (someE (tokenError ''Invalid actor token payload'') (json_parse (utf8_text (from_base64url body)))) (\<lambda>payload.
    bindE (validateActorPayload payload True now) (\<lambda>_. Inr payload))"
proof -
  let ?sig = "base64url (hmac secret (utf8 body))"
  let ?p = "split_on (CHR ''.'') (body @ ''.'' @ ?sig @ rest)"
  obtain ps where "split_on (CHR ''.'') (?sig @ rest) = ?sig # ps" "part 1 (?sig # ps) = []"
    using split_on_ignored [OF base64url_no_dot assms(5)] by blast
  then have "?p = body # ?sig # ps" and "part 2 (body # ?sig # ps) = []"
    using split_on_part [OF assms(3)] by (simp_all add: part_def split: if_splits)
  then have "part 0 ?p = body" "part 1 ?p = ?sig" "part 2 ?p = []" by (simp_all add: part_def)
  moreover have "?sig \<noteq> []" using assms(4) by (simp add: base64url_empty_iff)
  ultimately show ?thesis
    using assms(1,2) by (simp add: verifyActorToken_def validateTokenSecret_def Let_def truthy_def not_less)
qed

lemma created_token_verifies:
  assumes "createActorToken hmac payload secret = Inr token" and "json_ok payload"
    and "exp_of (value_of payload) = Some (JInt e)" and digest: "\<And>m. hmac secret m \<noteq> []"
  shows "verifyActorToken hmac token secret now =
    (if now < e then Inr (value_of payload) else Inl (tokenError ''Actor token has expired''))"
proof -
  let ?body = "base64url (utf8 (stringify payload))"
  from assms(1) have secret: "32 \<le> length secret" and ok: "validateActorPayload (value_of payload) False 0 = Inr ()"
    and t: "token = ?body @ ''.'' @ base64url (hmac secret (utf8 ?body))"
    by (auto simp: createActorToken_def validateTokenSecret_def Let_def res_simps)
  have "stringify payload \<noteq> []" using stringify_start [of payload] by auto
  then have "utf8 (stringify payload) \<noteq> []" using utf8_inj [of "stringify payload" "[]"] by (auto simp: utf8_def)
  then have "?body \<noteq> []" by (simp add: base64url_empty_iff)
  from verifyActorToken_signed [where hmac = hmac and now = now and rest = "[]", OF secret this base64url_no_dot digest]
  have "verifyActorToken hmac token secret now =
      bindE (validateActorPayload (value_of payload) True now) (\<lambda>_. Inr (value_of payload))"
    by (simp add: t ignored_def from_base64url_base64url utf8_text_utf8 json_parse_stringify [OF assms(2)])
  moreover have "now < e \<Longrightarrow> validateActorPayload (value_of payload) True now = Inr ()"
    using ok assms(3) by (simp add: validateActorPayload_unexpired)
  ultimately show ?thesis
    using validateActorPayload_expired [OF ok assms(3)] by (cases "now < e") simp_all
qed

text \<open>C16: An actor token is good until it expires: a token created for a payload verifies under the same
  secret at any time before the payload's expiry and gives the payload back; from the expiry on it is
  refused as expired.\<close>

theorem actor_token_round_trip:
  assumes "createActorToken hmac payload secret = Inr token" and "json_ok payload"
    and "exp_of (value_of payload) = Some (JInt e)" and digest: "\<And>m. hmac secret m \<noteq> []"
  shows "verifyActorToken hmac token secret now =
    (if now < e then Inr (value_of payload) else Inl (tokenError ''Actor token has expired''))"
  using assms by (rule created_token_verifies)

text \<open>The payload the development endpoint signs.\<close>

definition sample_payload :: json where
  "sample_payload = JSObj
     [(''actorMerchantId'', JSStr ''00000000-0000-4000-8000-000000000001''), (''subject'', JSStr ''operator''),
      (''roles'', JSArr [JSStr ''invoice:read'', JSStr ''invoice:write'']), (''exp'', JSNum 2000)]"

definition sample_token :: string where
  "sample_token =
     (case createActorToken sample_hmac sample_payload sample_secret of Inr t \<Rightarrow> t | Inl _ \<Rightarrow> [])"

lemma sample_token_created: "createActorToken sample_hmac sample_payload sample_secret = Inr sample_token"
proof -
  have "\<not> length sample_secret < 32" by (simp add: sample_secret_def)
  moreover have "validateActorPayload (value_of sample_payload) False 0 = Inr ()"
    unfolding sample_payload_def by code_simp
  ultimately have "isl (createActorToken sample_hmac sample_payload sample_secret) = False"
    by (simp add: createActorToken_def validateTokenSecret_def Let_def)
  then show ?thesis
    by (cases "createActorToken sample_hmac sample_payload sample_secret") (simp_all add: sample_token_def)
qed

lemma sample_payload_ok: "json_ok sample_payload" "exp_of (value_of sample_payload) = Some (JInt 2000)"
  unfolding sample_payload_def by code_simp+

theorem actor_token_round_trip_witness:
  "verifyActorToken sample_hmac sample_token sample_secret 1999 = Inr (value_of sample_payload) \<and>
   verifyActorToken sample_hmac sample_token sample_secret 2000 = Inl (tokenError ''Actor token has expired'')"
  using actor_token_round_trip [OF sample_token_created sample_payload_ok, of 1999]
    actor_token_round_trip [OF sample_token_created sample_payload_ok, of 2000]
  by (simp add: sample_hmac_def)

text \<open>What \<open>uuid_test\<close> takes for a UUID: the text, inside any number of one-element lists.\<close>

lemma uuid_test_iff: "uuid_test v \<longleftrightarrow> (\<exists>n u. v = ((\<lambda>x. JvList [x]) ^^ n) (JvText u) \<and> uuid_format u)"
proof
  show "uuid_test v \<Longrightarrow> \<exists>n u. v = ((\<lambda>x. JvList [x]) ^^ n) (JvText u) \<and> uuid_format u"
  proof (induction v rule: uuid_test.induct)
    case (1 s)
    then show ?case by (intro exI [of _ 0] exI [of _ s]) simp
  next
    case (2 v)
    then obtain n u where "v = ((\<lambda>x. JvList [x]) ^^ n) (JvText u)" "uuid_format u" by auto
    then show ?case by (intro exI [of _ "Suc n"] exI [of _ u]) simp
  qed simp_all
next
  have "uuid_format u \<Longrightarrow> uuid_test (((\<lambda>x. JvList [x]) ^^ n) (JvText u))" for n u by (induction n) simp_all
  then show "\<exists>n u. v = ((\<lambda>x. JvList [x]) ^^ n) (JvText u) \<and> uuid_format u \<Longrightarrow> uuid_test v" by blast
qed

text \<open>C15: A token is accepted exactly when it is signed and in force: the secret has at least 32 characters, the
  token is a body, a dot and the base64url HMAC of exactly this body under the secret, and the body holds an
  object with a merchant, one to 32 well-formed roles, a well-formed subject if any, and an expiry after
  now; the answer is that object. It is looser than meant in two ways: a dot, or text after a second dot, may
  follow the signature, and the merchant may be, beside a UUID, a list of one element that is one, or that is again such a list.\<close>

theorem actor_token_accepted_iff:
  "verifyActorToken hmac token secret now = Inr payload \<longleftrightarrow>
    32 \<le> length secret \<and>
    (\<exists>body rest. token = body @ ''.'' @ base64url (hmac secret (utf8 body)) @ rest \<and>
      body \<noteq> [] \<and> CHR ''.'' \<notin> set body \<and> hmac secret (utf8 body) \<noteq> [] \<and> ignored rest \<and>
      json_parse (utf8_text (from_base64url body)) = Some payload) \<and>
    (\<exists>n u. property_of payload ''actorMerchantId'' = Some (((\<lambda>x. JvList [x]) ^^ n) (JvText u)) \<and> uuid_format u) \<and>
    roles_valid (property_of payload ''roles'') \<and> subject_valid (property_of payload ''subject'') \<and>
    (\<exists>e. exp_of payload = Some (JInt e) \<and> 1 \<le> e \<and> e \<le> max_safe \<and> now < e)"
  (is "?l \<longleftrightarrow> ?signed \<and> ?body \<and> ?merchant \<and> ?roles \<and> ?subject \<and> ?exp")
proof -
  have obj: "is_object payload" if "property_of payload k = Some v" for k v
    using that by (simp add: property_of_def is_object_def split: jval.splits)
  have uuid: "(\<exists>v. property_of payload ''actorMerchantId'' = Some v \<and> uuid_test v) \<longleftrightarrow> ?merchant"
    unfolding uuid_test_iff by auto
  have "validateActorPayload payload True now = Inr () \<longleftrightarrow> ?merchant \<and> ?roles \<and> ?subject \<and>
      (\<exists>n. exp_of payload = Some n \<and> (is_safe_integer n \<and> \<not> js_lt n (JInt 1)) \<and> js_lt (JInt now) n)"
    unfolding uuid [symmetric] using obj by (auto simp: validateActorPayload_def res_simps simp del: is_safe_integer.simps split: option.splits)
  also have "\<dots> \<longleftrightarrow> ?merchant \<and> ?roles \<and> ?subject \<and> ?exp"
    unfolding positive_timestamp by auto
  finally have valid: "validateActorPayload payload True now = Inr () \<longleftrightarrow> ?merchant \<and> ?roles \<and> ?subject \<and> ?exp" .
  show ?thesis
  proof
    assume ?l
    let ?p = "split_on (CHR ''.'') token"
    from \<open>?l\<close> have secret: ?signed
      and parts: "part 0 ?p \<noteq> []" "part 1 ?p \<noteq> []" "part 2 ?p = []"
      and sig: "part 1 ?p = base64url (hmac secret (utf8 (part 0 ?p)))"
      and json: "json_parse (utf8_text (from_base64url (part 0 ?p))) = Some payload"
      and ok: "validateActorPayload payload True now = Inr ()"
      by (auto simp: verifyActorToken_def validateTokenSecret_def Let_def res_simps truthy_def not_less
          dest: utf8_inj)
    from two_parts [OF refl refl parts(3,2)] obtain rest
      where token: "token = part 0 ?p @ ''.'' @ part 1 ?p @ rest" "ignored rest" "CHR ''.'' \<notin> set (part 0 ?p)"
    proof (elim conjE disjE exE, goal_cases)
      case 1
      then show ?case using that [of "[]"] by (simp add: ignored_def)
    next
      case (2 r)
      then show ?case using that [of "CHR ''.'' # r"] by (cases r) (auto simp: ignored_def)
    next
      case (3 r)
      then show ?case using that [of "CHR ''.'' # r"] by (cases r) (auto simp: ignored_def)
    qed
    have "hmac secret (utf8 (part 0 ?p)) \<noteq> []" using sig parts(2) by (auto simp: base64url_empty_iff)
    then have ?body using token parts(1) json sig by metis
    with secret ok show "?signed \<and> ?body \<and> ?merchant \<and> ?roles \<and> ?subject \<and> ?exp" unfolding valid by blast
  next
    assume r: "?signed \<and> ?body \<and> ?merchant \<and> ?roles \<and> ?subject \<and> ?exp"
    then obtain body rest where b: "token = body @ ''.'' @ base64url (hmac secret (utf8 body)) @ rest"
      "body \<noteq> []" "CHR ''.'' \<notin> set body" "hmac secret (utf8 body) \<noteq> []" "ignored rest"
      "json_parse (utf8_text (from_base64url body)) = Some payload" by blast
    from r have "validateActorPayload payload True now = Inr ()" unfolding valid by blast
    moreover from r have ?signed by blast
    ultimately show ?l
      using verifyActorToken_signed [where hmac = hmac and now = now, OF \<open>?signed\<close> b(2-5)] b(1,6) by simp
  qed
qed

end
