(* ===== verification/Access.thy ===== *)
theory Access
  imports ActorToken Config InvoiceService
begin

text \<open>
  Who may call what: the request identifier, the authentication guard and the development token
  endpoint of the API. The headers are what the HTTP server parsed: a text, or several. What
  \<open>jwtVerify\<close> of the identity library answers for a token, given the key set's URL, the issuer and the
  audience, is a parameter. The rest of the API sees the actor as an \<open>ActorTokenPayload\<close>.
\<close>

section \<open>Headers and the request identifier\<close>

datatype header_value = HOne string | HMany "string list"

type_synonym headers = "string \<Rightarrow> header_value option"

definition header :: "header_value option \<Rightarrow> string" where
  "header value =
     (case value of
        None \<Rightarrow> []
      | Some (HOne s) \<Rightarrow> s
      | Some (HMany vs) \<Rightarrow> (case vs of [] \<Rightarrow> [] | v # _ \<Rightarrow> v))"

text \<open>\<open>/^[A-Za-z0-9._:-]{8,128}$/\<close>, else a fresh UUID.\<close>

definition request_identifier :: "string option \<Rightarrow> string \<Rightarrow> string" where
  "request_identifier supplied fresh =
     (case supplied of
        None \<Rightarrow> fresh
      | Some s \<Rightarrow> if truthy s \<and> class_between is_key_char 8 128 s then s else fresh)"

section \<open>The guard\<close>

definition js_truthy :: "jval option \<Rightarrow> bool" where
  "js_truthy v =
     (case v of
        None \<Rightarrow> False
      | Some JvNull \<Rightarrow> False
      | Some (JvBool b) \<Rightarrow> b
      | Some (JvNum n) \<Rightarrow> n \<noteq> Fin 0 \<and> n \<noteq> NaN
      | Some (JvText s) \<Rightarrow> s \<noteq> []
      | Some _ \<Rightarrow> True)"

text \<open>The actor assembled from the claims; an absent claim is an absent property.\<close>

definition actor_from_claims :: "jval \<Rightarrow> jval" where
  "actor_from_claims payload =
     JvObj (List.map_filter (\<lambda>(k, claim). map_option (Pair (map code k)) (property_of payload claim))
       [(''actorMerchantId'', ''merchant_id''), (''roles'', ''roles''), (''exp'', ''exp''), (''subject'', ''sub'')])"

definition claims_present :: "jval \<Rightarrow> bool" where
  "claims_present payload \<longleftrightarrow>
     (case property_of payload ''merchant_id'' of Some (JvText _) \<Rightarrow> True | _ \<Rightarrow> False) \<and>
     (case property_of payload ''roles'' of Some (JvList _) \<Rightarrow> True | _ \<Rightarrow> False)"

definition verifyActor ::
  "(string \<Rightarrow> char list \<Rightarrow> char list) \<Rightarrow> (string \<Rightarrow> string \<Rightarrow> string \<Rightarrow> string \<Rightarrow> exn + jval) \<Rightarrow>
   ApiConfig \<Rightarrow> int \<Rightarrow> string \<Rightarrow> exn + jval" where
  "verifyActor hmac jwtVerify config now token =
     (if cfg_nodeEnv config \<noteq> ''production'' then
        (case cfg_actorTokenSecret config of
           None \<Rightarrow> Inl (TypeErr ''Actor token secret must contain at least 32 characters'')
         | Some secret \<Rightarrow> verifyActorToken hmac token secret (now div 1000))
      else if \<not> (truthy_opt (cfg_actorJwksUrl config) \<and> truthy_opt (cfg_actorIssuer config) \<and>
          truthy_opt (cfg_actorAudience config))
      then Inl (PlainErr ''OIDC actor verification is not configured'')
      else
        bindE (jwtVerify (the (cfg_actorJwksUrl config)) (the (cfg_actorIssuer config))
          (the (cfg_actorAudience config)) token) (\<lambda>payload.
        bindE (guardE (claims_present payload)
          (PlainErr ''Actor token is missing merchant_id or roles claims'')) (\<lambda>_.
        bindE (guardE (js_truthy (property_of payload ''exp'')) (PlainErr ''Actor token must expire'')) (\<lambda>_.
        let actor = actor_from_claims payload
        in bindE (assertActorTokenPayload actor (now div 1000)) (\<lambda>_. Inr actor)))))"

definition actor_has_role :: "jval \<Rightarrow> string \<Rightarrow> bool" where
  "actor_has_role actor role =
     (case property_of actor ''roles'' of Some (JvList rs) \<Rightarrow> JvText (map code role) \<in> set rs | _ \<Rightarrow> False)"

text \<open>
  The metadata are what the handler and, where it has none, its controller are decorated with.
  \<open>Inr (Some actor)\<close> lets the request pass and sets its actor.
\<close>

record metadata =
  meta_isPublic :: bool
  meta_platformOnly :: bool
  meta_requiredRoles :: "string list"

definition canActivate ::
  "(string \<Rightarrow> char list \<Rightarrow> char list) \<Rightarrow> (char list \<Rightarrow> char list) \<Rightarrow>
   (string \<Rightarrow> string \<Rightarrow> string \<Rightarrow> string \<Rightarrow> exn + jval) \<Rightarrow> ApiConfig \<Rightarrow> int \<Rightarrow> metadata \<Rightarrow> headers \<Rightarrow>
   exn + jval option" where
  "canActivate hmac sha256 jwtVerify config now meta hs =
     (if meta_isPublic meta then Inr None
      else
        bindE (guardE (constantTimeEqual sha256 (header (hs ''x-platform-api-key'')) (cfg_platformApiKey config))
          (UnauthorizedException ''Invalid platform API key'')) (\<lambda>_.
        if meta_platformOnly meta then Inr None
        else
          let authorization = header (hs ''authorization'')
          in bindE (guardE (take 7 authorization = ''Bearer '')
               (UnauthorizedException ''Bearer actor token is required'')) (\<lambda>_.
             bindE (catchE (verifyActor hmac jwtVerify config now (drop 7 authorization))
               (\<lambda>_. UnauthorizedException ''Invalid or expired actor token'')) (\<lambda>actor.
             bindE (guardE (list_all (actor_has_role actor) (meta_requiredRoles meta))
               (ForbiddenException ''Actor does not have the required role'')) (\<lambda>_.
             Inr (Some actor))))))"

text \<open>The actor as the handlers take it. A verified payload has its parts; texts are Latin-1.\<close>

definition text_of :: "jval option \<Rightarrow> string" where
  "text_of v = (case v of Some (JvText s) \<Rightarrow> map char_of s | _ \<Rightarrow> [])"

definition actor_of :: "jval \<Rightarrow> ActorTokenPayload" where
  "actor_of v =
     \<lparr>act_actorMerchantId = text_of (property_of v ''actorMerchantId''),
      act_roles = (case property_of v ''roles'' of Some (JvList rs) \<Rightarrow> map (\<lambda>r. text_of (Some r)) rs | _ \<Rightarrow> []),
      act_exp = (case exp_of v of Some n \<Rightarrow> num_int n | None \<Rightarrow> 0),
      act_subject = (case property_of v ''subject'' of None \<Rightarrow> None | Some s \<Rightarrow> Some (text_of (Some s)))\<rparr>"

section \<open>Routes\<close>

datatype route =
    HealthLive | HealthReady | Metrics | DevToken
  | ListInvoices | CreateInvoice | GetInvoice | TransitionInvoice
  | ListStores | ListPayments | PaymentWebhook | ListAudit | OpsSummary

definition public_route :: metadata where
  "public_route = \<lparr>meta_isPublic = True, meta_platformOnly = False, meta_requiredRoles = []\<rparr>"

definition platform_route :: metadata where
  "platform_route = \<lparr>meta_isPublic = False, meta_platformOnly = True, meta_requiredRoles = []\<rparr>"

definition role_route :: "string \<Rightarrow> metadata" where
  "role_route role = \<lparr>meta_isPublic = False, meta_platformOnly = False, meta_requiredRoles = [role]\<rparr>"

text \<open>The decorators of the controllers.\<close>

fun decorators :: "route \<Rightarrow> metadata" where
  "decorators HealthLive = public_route"
| "decorators HealthReady = public_route"
| "decorators Metrics = public_route"
| "decorators DevToken = platform_route"
| "decorators ListInvoices = role_route ''invoice:read''"
| "decorators CreateInvoice = role_route ''invoice:write''"
| "decorators GetInvoice = role_route ''invoice:read''"
| "decorators TransitionInvoice = role_route ''invoice:write''"
| "decorators ListStores = role_route ''merchant:read''"
| "decorators ListPayments = role_route ''payment:read''"
| "decorators PaymentWebhook = public_route"
| "decorators ListAudit = role_route ''audit:read''"
| "decorators OpsSummary = role_route ''ops:read''"

section \<open>The development token\<close>

record dev_token =
  dvt_token :: string
  dvt_expiresAt :: int

definition dev_payload :: "int \<Rightarrow> json" where
  "dev_payload expiry = JSObj
     [(''actorMerchantId'', JSStr ''00000000-0000-4000-8000-000000000001''),
      (''subject'', JSStr ''local-operator''),
      (''roles'', JSArr (map JSStr [''merchant:read'', ''invoice:read'', ''invoice:write'', ''payment:read'',
         ''audit:read'', ''ops:read''])),
      (''exp'', JSNum expiry)]"

definition devToken ::
  "(string \<Rightarrow> char list \<Rightarrow> char list) \<Rightarrow> ApiConfig \<Rightarrow> int \<Rightarrow> exn + dev_token" where
  "devToken hmac config now =
     (if cfg_nodeEnv config = ''production''
      then Inl (ForbiddenException ''Development token endpoint is disabled'')
      else
        let expiry = now div 1000 + 8 * 60 * 60
        in bindE (case cfg_actorTokenSecret config of
               None \<Rightarrow> Inl (TypeErr ''Actor token secret must contain at least 32 characters'')
             | Some secret \<Rightarrow> createActorToken hmac (dev_payload expiry) secret) (\<lambda>token.
           Inr \<lparr>dvt_token = token, dvt_expiresAt = expiry * 1000\<rparr>))"

section \<open>What a passing request has shown\<close>

lemma canActivate_actor:
  "canActivate hmac sha256 jwtVerify config now meta hs = Inr (Some actor) \<longleftrightarrow>
     \<not> meta_isPublic meta \<and> \<not> meta_platformOnly meta \<and>
     constantTimeEqual sha256 (header (hs ''x-platform-api-key'')) (cfg_platformApiKey config) \<and>
     (\<exists>token. header (hs ''authorization'') = ''Bearer '' @ token \<and>
        verifyActor hmac jwtVerify config now token = Inr actor) \<and>
     list_all (actor_has_role actor) (meta_requiredRoles meta)"
proof -
  have bearer: "take 7 s = ''Bearer '' \<and> P (drop 7 s) \<longleftrightarrow> (\<exists>t. s = ''Bearer '' @ t \<and> P t)" for s :: string and P
  proof
    assume a: "take 7 s = ''Bearer '' \<and> P (drop 7 s)"
    then have "s = ''Bearer '' @ drop 7 s" using append_take_drop_id [of 7 s] by metis
    with a show "\<exists>t. s = ''Bearer '' @ t \<and> P t" by blast
  qed auto
  show ?thesis
    unfolding bearer [symmetric] by (auto simp: canActivate_def Let_def res_simps)
qed

lemma canActivate_None:
  "canActivate hmac sha256 jwtVerify config now meta hs = Inr None \<longleftrightarrow>
     meta_isPublic meta \<or> meta_platformOnly meta \<and>
       constantTimeEqual sha256 (header (hs ''x-platform-api-key'')) (cfg_platformApiKey config)"
  by (auto simp: canActivate_def Let_def res_simps)

text \<open>An actor, from a token or from claims, has a merchant, roles and an expiry after now.\<close>

lemma verifyActor_valid:
  assumes "verifyActor hmac jwtVerify config now token = Inr actor"
  shows "validateActorPayload actor True (now div 1000) = Inr ()"
  using assms
  by (auto simp: verifyActor_def verifyActorToken_def assertActorTokenPayload_def Let_def res_simps
      split: if_splits option.splits)

lemma verifyActor_expiry:
  assumes "verifyActor hmac jwtVerify config now token = Inr actor"
  shows "\<exists>e. exp_of actor = Some (JInt e) \<and> now div 1000 < e"
  using verifyActor_valid [OF assms] by (simp add: validateActorPayload_unexpired)

section \<open>The development token opens every route\<close>

lemma dev_payload_exp: "exp_of (value_of (dev_payload e)) = Some (JInt e)"
  by (simp add: dev_payload_def exp_of_def property_of_def)

lemma dev_payload_ok:
  assumes "1 \<le> e" and "e \<le> max_safe"
  shows "json_ok (dev_payload e)"
    and "validateActorPayload (value_of (dev_payload e)) False 0 = Inr ()"
proof -
  show "json_ok (dev_payload e)" using assms by (simp add: dev_payload_def max_safe_def)
  have "uuid_format (map code ''00000000-0000-4000-8000-000000000001'')" by code_simp
  moreover have "list_all (\<lambda>r. role_format (map code r)) [''merchant:read'', ''invoice:read'', ''invoice:write'',
      ''payment:read'', ''audit:read'', ''ops:read'']" by code_simp
  ultimately show "validateActorPayload (value_of (dev_payload e)) False 0 = Inr ()"
    unfolding validateActorPayload_def dev_payload_exp using assms
    by (simp add: dev_payload_def property_of_def is_object_def roles_valid_def is_role_def subject_valid_def)
qed

lemma valid_expiry:
  assumes "validateActorPayload v f now = Inr ()" and "exp_of v = Some (JInt e)"
  shows "1 \<le> e" "e \<le> max_safe"
  using assms by (auto simp: validateActorPayload_def res_simps)

lemma devToken_Inr:
  assumes "devToken hmac config now = Inr t"
  obtains secret e where "cfg_actorTokenSecret config = Some secret" and "cfg_nodeEnv config \<noteq> ''production''"
    and "dvt_expiresAt t = e * 1000" and "createActorToken hmac (dev_payload e) secret = Inr (dvt_token t)"
    and "1 \<le> e" and "e \<le> max_safe"
proof -
  let ?e = "now div 1000 + 28800"
  from assms obtain secret where s: "cfg_actorTokenSecret config = Some secret" "cfg_nodeEnv config \<noteq> ''production''"
    and c: "createActorToken hmac (dev_payload ?e) secret = Inr (dvt_token t)" "dvt_expiresAt t = ?e * 1000"
    by (auto simp: devToken_def Let_def res_simps split: if_splits option.splits)
  have "validateActorPayload (value_of (dev_payload ?e)) False 0 = Inr ()"
    using c(1) by (simp add: createActorToken_Inr)
  from valid_expiry [OF this dev_payload_exp] that s c show ?thesis by blast
qed

lemma dev_roles:
  "meta_isPublic (decorators r) \<or> meta_platformOnly (decorators r) \<or>
   (\<exists>role. decorators r = role_route role \<and> actor_has_role (value_of (dev_payload e)) role)"
  by (cases r) (simp_all add: public_route_def platform_route_def role_route_def dev_payload_def actor_has_role_def
      property_of_def)

text \<open>What the guard makes of an issued token, at any later time.\<close>

lemma dev_token_guard:
  assumes "devToken hmac config now = Inr t" and digest: "\<And>m k. hmac k m \<noteq> []"
    and "header (hs ''x-platform-api-key'') = cfg_platformApiKey config"
    and "header (hs ''authorization'') = ''Bearer '' @ dvt_token t"
    and role: "meta_requiredRoles (decorators r) \<noteq> []"
  shows "canActivate hmac sha256 jwtVerify config now' (decorators r) hs =
    (if now' < dvt_expiresAt t then Inr (Some (value_of (dev_payload (dvt_expiresAt t div 1000))))
     else Inl (UnauthorizedException ''Invalid or expired actor token''))"
proof -
  from assms(1) obtain secret e where cfg: "cfg_actorTokenSecret config = Some secret" "cfg_nodeEnv config \<noteq> ''production''"
    and t: "dvt_expiresAt t = e * 1000" "createActorToken hmac (dev_payload e) secret = Inr (dvt_token t)"
    and e: "1 \<le> e" "e \<le> max_safe" by (rule devToken_Inr)
  have "verifyActor hmac jwtVerify config now' (dvt_token t) =
      (if now' div 1000 < e then Inr (value_of (dev_payload e)) else Inl (tokenError ''Actor token has expired''))"
    using created_token_verifies [OF t(2) dev_payload_ok(1) [OF e] dev_payload_exp digest] cfg
    by (simp add: verifyActor_def)
  moreover have "now' div 1000 < e \<longleftrightarrow> now' < e * 1000"
    using div_mult_mod_eq [of now' 1000] pos_mod_bound [of 1000 now'] pos_mod_sign [of 1000 now'] by linarith
  ultimately have v: "verifyActor hmac jwtVerify config now' (dvt_token t) =
      (if now' < dvt_expiresAt t then Inr (value_of (dev_payload (dvt_expiresAt t div 1000)))
       else Inl (tokenError ''Actor token has expired''))"
    by (simp add: t(1))
  have "\<not> meta_isPublic (decorators r)" "\<not> meta_platformOnly (decorators r)"
    using role by (cases r; simp add: public_route_def platform_route_def role_route_def)+
  moreover have "list_all (actor_has_role (value_of (dev_payload x))) (meta_requiredRoles (decorators r))" for x
    using dev_roles [of r x] calculation by (auto simp: role_route_def)
  ultimately show ?thesis
    using assms(3,4) v by (simp add: canActivate_def constantTimeEqual_def)
qed

lemma dev_token_routes:
  assumes "devToken hmac config now = Inr t" and digest: "\<And>m k. hmac k m \<noteq> []"
    and "header (hs ''x-platform-api-key'') = cfg_platformApiKey config"
    and "header (hs ''authorization'') = ''Bearer '' @ dvt_token t"
  shows "if now' < dvt_expiresAt t \<or> meta_requiredRoles (decorators r) = []
    then \<exists>actor. canActivate hmac sha256 jwtVerify config now' (decorators r) hs = Inr actor
    else canActivate hmac sha256 jwtVerify config now' (decorators r) hs =
      Inl (UnauthorizedException ''Invalid or expired actor token'')"
proof (cases "meta_requiredRoles (decorators r) = []")
  case True
  then show ?thesis
    using assms(3) by (cases r) (auto simp: canActivate_def constantTimeEqual_def public_route_def platform_route_def role_route_def)
next
  case False
  with dev_token_guard [OF assms this] show ?thesis by simp
qed

text \<open>The development token opens the whole API until it expires: outside production, a request with the
  platform key and a token the endpoint issued passes the guard of every route until the announced time; from
  then on every route that asks for an actor answers that the token is invalid or expired.\<close>

theorem dev_token_opens_routes:
  assumes "devToken hmac config now = Inr t" and digest: "\<And>m k. hmac k m \<noteq> []"
    and "header (hs ''x-platform-api-key'') = cfg_platformApiKey config"
    and "header (hs ''authorization'') = ''Bearer '' @ dvt_token t"
  shows "if now' < dvt_expiresAt t \<or> meta_requiredRoles (decorators r) = []
    then \<exists>actor. canActivate hmac sha256 jwtVerify config now' (decorators r) hs = Inr actor
    else canActivate hmac sha256 jwtVerify config now' (decorators r) hs =
      Inl (UnauthorizedException ''Invalid or expired actor token'')"
  using assms by (rule dev_token_routes)

definition dev_config :: ApiConfig where
  "dev_config = \<lparr>cfg_nodeEnv = ''development'', cfg_port = 8080, cfg_platformApiKey = ''local-platform-key'',
     cfg_actorTokenSecret = Some sample_secret, cfg_actorJwksUrl = None, cfg_actorIssuer = None,
     cfg_actorAudience = None, cfg_paymentProvider = ''sandboxpay'', cfg_paymentWebhookSecret = sample_secret,
     cfg_paymentWebhookToleranceSeconds = 300, cfg_releaseVersion = ''local''\<rparr>"

definition dev_headers :: "string \<Rightarrow> headers" where
  "dev_headers token = [''x-platform-api-key'' \<mapsto> HOne ''local-platform-key'',
     ''authorization'' \<mapsto> HOne (''Bearer '' @ token)]"

lemma dev_token_issued: "\<exists>t. devToken sample_hmac dev_config 1000 = Inr t \<and> dvt_expiresAt t = 28801000"
proof -
  have "\<exists>tok. createActorToken sample_hmac (dev_payload 28801) sample_secret = Inr tok"
    using dev_payload_ok(2) [of 28801] unfolding createActorToken_Inr
    by (simp add: max_safe_def sample_secret_def)
  then show ?thesis by (auto simp: devToken_def dev_config_def)
qed

theorem dev_token_opens_routes_witness:
  "\<exists>t. devToken sample_hmac dev_config 1000 = Inr t \<and>
     (\<exists>actor. canActivate sample_hmac sample_hash (\<lambda>_ _ _ _. Inl (PlainErr [])) dev_config 28800999
        (decorators CreateInvoice) (dev_headers (dvt_token t)) = Inr actor) \<and>
     canActivate sample_hmac sample_hash (\<lambda>_ _ _ _. Inl (PlainErr [])) dev_config 28801000
        (decorators CreateInvoice) (dev_headers (dvt_token t)) =
      Inl (UnauthorizedException ''Invalid or expired actor token'')"
proof -
  obtain t where t: "devToken sample_hmac dev_config 1000 = Inr t" "dvt_expiresAt t = 28801000"
    using dev_token_issued by blast
  have h: "header (dev_headers (dvt_token t) ''x-platform-api-key'') = cfg_platformApiKey dev_config"
    "header (dev_headers (dvt_token t) ''authorization'') = ''Bearer '' @ dvt_token t"
    by (simp_all add: dev_headers_def header_def dev_config_def)
  have "sample_hmac k m \<noteq> []" for k m by (simp add: sample_hmac_def)
  from dev_token_opens_routes [OF t(1) this h, of 28800999 CreateInvoice]
    dev_token_opens_routes [OF t(1) this h, of 28801000 CreateInvoice]
  show ?thesis using t by (auto simp: role_route_def)
qed

end
