(* ===== verification/Api.thy ===== *)
theory Api
  imports Access Ledger Selection
begin

text \<open>
  The HTTP API: every controller's operations, and \<open>serve\<close>, which takes a request through the request
  identifier, the guard, the parameter pipes, the controller and its service, as the framework does.
  What the libraries decide is collected in a record: hashes, dates, JSON web tokens, the validators of
  UUIDs, e-mail addresses and dates, the pipes that read a page limit with its default, the metrics text, whether the
  database answers a ping. A request runs alone here; \<open>api_step\<close> in \<open>Ledger\<close> has the interleaved runs.
\<close>

section \<open>Requests and answers\<close>

datatype body = NoBody | CreateBody CreateInvoiceDto | StatusBody UpdateInvoiceStatusDto | WebhookBody PaymentWebhookDto

record request =
  rq_route :: route
  rq_headers :: headers
  rq_limit :: "string option"
  rq_invoiceId :: string
  rq_provider :: string
  rq_rawBody :: "char list option"
  rq_body :: body

record runtime =
  rt_hmac :: "string \<Rightarrow> char list \<Rightarrow> char list"
  rt_sha256 :: "char list \<Rightarrow> char list"
  rt_date_of :: "string \<Rightarrow> int option"
  rt_jwtVerify :: "string \<Rightarrow> string \<Rightarrow> string \<Rightarrow> string \<Rightarrow> exn + jval"
  rt_is_uuid :: "string \<Rightarrow> bool"
  rt_is_email :: "string \<Rightarrow> bool"
  rt_is_iso8601 :: "string \<Rightarrow> bool"
  rt_limit_of :: "int \<Rightarrow> string option \<Rightarrow> int option"
  rt_metrics :: string
  rt_database_up :: bool

record StoreResponse =
  srp_id :: string
  srp_merchantId :: string
  srp_code :: string
  srp_name :: string
  srp_timezone :: string

record ops_summary =
  sum_release :: string
  sum_environment :: string
  sum_invoices :: nat
  sum_payments :: nat
  sum_refunds :: nat
  sum_pendingOutbox :: nat
  sum_processingOutbox :: nat
  sum_successfulDeliveries :: nat
  sum_deadLetters :: nat
  sum_oldestPendingOutboxAt :: "int option"
  sum_generatedAt :: int

datatype answer =
    LiveAnswer | ReadyAnswer | MetricsAnswer string | TokenAnswer dev_token
  | InvoiceAnswer InvoiceResponse | InvoicesAnswer "InvoiceResponse list"
  | StoresAnswer "StoreResponse list" | PaymentsAnswer "payment list" | AuditAnswer "audit_event list"
  | SummaryAnswer ops_summary | WebhookAnswer PaymentWebhookResponse

section \<open>Stores and the operations summary\<close>

definition store_response :: "store \<Rightarrow> StoreResponse" where
  "store_response s =
     \<lparr>srp_id = sto_id s, srp_merchantId = sto_merchantId s, srp_code = sto_code s, srp_name = sto_name s,
      srp_timezone = sto_timezone s\<rparr>"

text \<open>\<open>ORDER BY name\<close> orders by the collation.\<close>

definition listStores :: "database \<Rightarrow> ActorTokenPayload \<Rightarrow> StoreResponse list" where
  "listStores d actor =
     map store_response (sort_key (\<lambda>s. collation d (sto_name s))
       (filter (\<lambda>s. in_scope d (act_actorMerchantId actor) (sto_merchantId s) \<and> sto_active s) (stores d)))"

text \<open>A delivery counts when an event of the merchants has its event identifier.\<close>

definition deliveryCount :: "database \<Rightarrow> string \<Rightarrow> DeliveryStatus \<Rightarrow> nat" where
  "deliveryCount d actorMerchantId status =
     count_where (\<lambda>a. list_ex (\<lambda>r. sql_eq d (obx_id r) (dlv_eventId a) \<and> in_scope d actorMerchantId (obx_merchantId r))
         (outbox_events d) \<and> dlv_status a = status) (delivery_attempts d)"

definition outboxCount :: "database \<Rightarrow> string \<Rightarrow> OutboxStatus \<Rightarrow> nat" where
  "outboxCount d actorMerchantId status =
     count_where (\<lambda>r. in_scope d actorMerchantId (obx_merchantId r) \<and> obx_status r = status) (outbox_events d)"

definition ops_summary_of :: "ApiConfig \<Rightarrow> int \<Rightarrow> database \<Rightarrow> ActorTokenPayload \<Rightarrow> ops_summary" where
  "ops_summary_of config now d actor =
     (let a = act_actorMerchantId actor
      in \<lparr>sum_release = cfg_releaseVersion config, sum_environment = cfg_nodeEnv config,
          sum_invoices = count_where (\<lambda>r. in_scope d a (inv_merchantId r)) (invoices d),
          sum_payments = count_where (\<lambda>r. in_scope d a (pay_merchantId r)) (payments d),
          sum_refunds = count_where (\<lambda>r. in_scope d a (rfd_merchantId r)) (refunds d),
          sum_pendingOutbox = outboxCount d a PENDING,
          sum_processingOutbox = outboxCount d a PROCESSING,
          sum_successfulDeliveries = deliveryCount d a SUCCEEDED,
          sum_deadLetters = deliveryCount d a DEAD_LETTERED,
          sum_oldestPendingOutboxAt =
            (case oldest 1 obx_createdAt (\<lambda>r. in_scope d a (obx_merchantId r) \<and> obx_status r = PENDING) (outbox_events d) of
               [] \<Rightarrow> None | r # _ \<Rightarrow> Some (obx_createdAt r)),
          sum_generatedAt = now\<rparr>)"

section \<open>The controllers\<close>

text \<open>What the library's pipes make of the parameter \<open>limit\<close> and its default, and of an identifier.\<close>

definition page_limit :: "runtime \<Rightarrow> int \<Rightarrow> request \<Rightarrow> exn + int" where
  "page_limit rt fallback rq =
     someE (BadRequestException ''Validation failed (numeric string is expected)'') (rt_limit_of rt fallback (rq_limit rq))"

definition uuid_param :: "runtime \<Rightarrow> request \<Rightarrow> exn + string" where
  "uuid_param rt rq =
     (if rt_is_uuid rt (rq_invoiceId rq) then Inr (rq_invoiceId rq)
      else Inl (BadRequestException ''Validation failed (uuid is expected)''))"

definition text_header :: "request \<Rightarrow> string \<Rightarrow> string option" where
  "text_header rq name = (case rq_headers rq name of Some (HOne s) \<Rightarrow> Some s | _ \<Rightarrow> None)"

definition invalid_body :: exn where
  "invalid_body = BadRequestException ''Bad Request''"

type_synonym outcome = "(exn + answer) \<times> database \<times> metric list"

definition answered :: "('a \<Rightarrow> answer) \<Rightarrow> exn + 'a \<Rightarrow> exn + answer" where
  "answered f m = bindE m (\<lambda>a. Inr (f a))"

definition invoices_list :: "runtime \<Rightarrow> ActorTokenPayload \<Rightarrow> request \<Rightarrow> database \<Rightarrow> outcome" where
  "invoices_list rt actor rq d =
     (answered (\<lambda>limit. InvoicesAnswer (list_invoices d actor limit)) (page_limit rt 20 rq), d, [])"

definition invoices_create ::
  "runtime \<Rightarrow> env \<Rightarrow> string \<Rightarrow> ActorTokenPayload \<Rightarrow> request \<Rightarrow> database \<Rightarrow> outcome" where
  "invoices_create rt e requestId actor rq d =
     (case rq_body rq of
        CreateBody b \<Rightarrow>
          (if create_dto_valid (rt_is_uuid rt) (rt_is_email rt) b then
             (case create (rt_sha256 rt) e actor (text_header rq ''idempotency-key'') requestId b d of
                (res, d', ms) \<Rightarrow> (answered InvoiceAnswer res, d', ms))
           else (Inl invalid_body, d, []))
      | _ \<Rightarrow> (Inl invalid_body, d, []))"

definition invoices_get :: "runtime \<Rightarrow> ActorTokenPayload \<Rightarrow> request \<Rightarrow> database \<Rightarrow> outcome" where
  "invoices_get rt actor rq d =
     (answered InvoiceAnswer (bindE (uuid_param rt rq) (get_invoice d actor)), d, [])"

definition invoices_transition ::
  "runtime \<Rightarrow> env \<Rightarrow> string \<Rightarrow> ActorTokenPayload \<Rightarrow> request \<Rightarrow> database \<Rightarrow> outcome" where
  "invoices_transition rt e requestId actor rq d =
     (case uuid_param rt rq of
        Inl err \<Rightarrow> (Inl err, d, [])
      | Inr invoiceId \<Rightarrow>
          (case rq_body rq of
             StatusBody b \<Rightarrow>
               (if update_dto_valid b then
                  (case transition e actor invoiceId requestId b d of (res, d') \<Rightarrow> (answered InvoiceAnswer res, d', []))
                else (Inl invalid_body, d, []))
           | _ \<Rightarrow> (Inl invalid_body, d, [])))"

definition payments_list :: "runtime \<Rightarrow> ActorTokenPayload \<Rightarrow> request \<Rightarrow> database \<Rightarrow> outcome" where
  "payments_list rt actor rq d =
     (answered (\<lambda>limit. PaymentsAnswer (payment_list d actor limit)) (page_limit rt 50 rq), d, [])"

definition payments_webhook ::
  "runtime \<Rightarrow> ApiConfig \<Rightarrow> env \<Rightarrow> string \<Rightarrow> request \<Rightarrow> database \<Rightarrow> outcome" where
  "payments_webhook rt config e requestId rq d =
     (case rq_body rq of
        WebhookBody b \<Rightarrow>
          (if webhook_dto_valid (rt_is_uuid rt) (rt_is_iso8601 rt) b then
             (case rq_rawBody rq of
                None \<Rightarrow> (Inl (PlainErr ''Raw webhook body was not captured''), d, [])
              | Some rawBody \<Rightarrow>
                  (case handleWebhook (rt_hmac rt) (rt_sha256 rt) (rt_date_of rt) e config (rq_provider rq)
                      (text_header rq ''x-payment-timestamp'') (text_header rq ''x-payment-signature'')
                      rawBody b requestId d of
                     (res, d', ms) \<Rightarrow> (answered WebhookAnswer res, d', ms)))
           else (Inl invalid_body, d, []))
      | _ \<Rightarrow> (Inl invalid_body, d, []))"

definition audit_events_list :: "runtime \<Rightarrow> ActorTokenPayload \<Rightarrow> request \<Rightarrow> database \<Rightarrow> outcome" where
  "audit_events_list rt actor rq d =
     (answered (\<lambda>limit. AuditAnswer (audit_list d actor limit)) (page_limit rt 50 rq), d, [])"

definition health_ready :: "runtime \<Rightarrow> exn + answer" where
  "health_ready rt = (if rt_database_up rt then Inr ReadyAnswer else Inl (ServiceUnavailableException ''not_ready''))"

section \<open>Serving a request\<close>

text \<open>The routes that ask for an actor are only reached with one.\<close>

fun public_routes :: "runtime \<Rightarrow> ApiConfig \<Rightarrow> env \<Rightarrow> string \<Rightarrow> request \<Rightarrow> database \<Rightarrow> route \<Rightarrow> outcome" where
  "public_routes rt config e requestId rq d HealthLive = (Inr LiveAnswer, d, [])"
| "public_routes rt config e requestId rq d HealthReady = (health_ready rt, d, [])"
| "public_routes rt config e requestId rq d Metrics = (Inr (MetricsAnswer (rt_metrics rt)), d, [])"
| "public_routes rt config e requestId rq d DevToken =
     (answered TokenAnswer (devToken (rt_hmac rt) config (clock e 0)), d, [])"
| "public_routes rt config e requestId rq d PaymentWebhook = payments_webhook rt config e requestId rq d"
| "public_routes rt config e requestId rq d _ = (Inl (PlainErr ''Internal server error''), d, [])"

fun actor_routes ::
  "runtime \<Rightarrow> ApiConfig \<Rightarrow> env \<Rightarrow> string \<Rightarrow> ActorTokenPayload \<Rightarrow> request \<Rightarrow> database \<Rightarrow> route \<Rightarrow> outcome" where
  "actor_routes rt config e requestId actor rq d ListInvoices = invoices_list rt actor rq d"
| "actor_routes rt config e requestId actor rq d CreateInvoice = invoices_create rt e requestId actor rq d"
| "actor_routes rt config e requestId actor rq d GetInvoice = invoices_get rt actor rq d"
| "actor_routes rt config e requestId actor rq d TransitionInvoice = invoices_transition rt e requestId actor rq d"
| "actor_routes rt config e requestId actor rq d ListStores = (Inr (StoresAnswer (listStores d actor)), d, [])"
| "actor_routes rt config e requestId actor rq d ListPayments = payments_list rt actor rq d"
| "actor_routes rt config e requestId actor rq d ListAudit = audit_events_list rt actor rq d"
| "actor_routes rt config e requestId actor rq d OpsSummary =
     (Inr (SummaryAnswer (ops_summary_of config (clock e 0) d actor)), d, [])"
| "actor_routes rt config e requestId actor rq d _ = (Inl (PlainErr ''Internal server error''), d, [])"

definition serve ::
  "runtime \<Rightarrow> ApiConfig \<Rightarrow> int \<Rightarrow> string \<Rightarrow> env \<Rightarrow> request \<Rightarrow> database \<Rightarrow> outcome" where
  "serve rt config now fresh e rq d =
     (let requestId = request_identifier (text_header rq ''x-request-id'') fresh
      in case canActivate (rt_hmac rt) (rt_sha256 rt) (rt_jwtVerify rt) config now (decorators (rq_route rq))
             (rq_headers rq) of
           Inl err \<Rightarrow> (Inl err, d, [])
         | Inr None \<Rightarrow> public_routes rt config e requestId rq d (rq_route rq)
         | Inr (Some actor) \<Rightarrow> actor_routes rt config e requestId (actor_of actor) rq d (rq_route rq))"

section \<open>What a served request may do\<close>

lemmas route_defs = invoices_list_def invoices_create_def invoices_get_def invoices_transition_def
  payments_list_def payments_webhook_def audit_events_list_def

lemma serve_cases:
  assumes "serve rt config now fresh e rq d = (res, d', ms)"
  obtains (refused) err where "res = Inl err" and "d' = d"
  | (public) requestId where "canActivate (rt_hmac rt) (rt_sha256 rt) (rt_jwtVerify rt) config now
        (decorators (rq_route rq)) (rq_headers rq) = Inr None"
      and "public_routes rt config e requestId rq d (rq_route rq) = (res, d', ms)"
  | (actor) requestId actor where "canActivate (rt_hmac rt) (rt_sha256 rt) (rt_jwtVerify rt) config now
        (decorators (rq_route rq)) (rq_headers rq) = Inr (Some actor)"
      and "actor_routes rt config e requestId (actor_of actor) rq d (rq_route rq) = (res, d', ms)"
  using assms by (auto simp: serve_def Let_def split: sum.splits option.splits)

lemma public_routes_change:
  assumes "public_routes rt config e requestId rq d r = (res, d', ms)" and "d' \<noteq> d"
  shows "r = PaymentWebhook"
  using assms by (cases r) auto

lemma actor_routes_change:
  assumes "actor_routes rt config e requestId actor rq d r = (res, d', ms)" and "d' \<noteq> d"
  shows "r = CreateInvoice \<or> r = TransitionInvoice"
  using assms by (cases r) (auto simp: route_defs)

lemma payments_webhook_cases:
  assumes "payments_webhook rt config e requestId rq d = (res, d', ms)"
  obtains "d' = d" and "\<exists>err. res = Inl err"
  | rawBody b out where "rq_body rq = WebhookBody b" and "webhook_dto_valid (rt_is_uuid rt) (rt_is_iso8601 rt) b"
      and "rq_rawBody rq = Some rawBody" and "res = answered WebhookAnswer out"
      and "handleWebhook (rt_hmac rt) (rt_sha256 rt) (rt_date_of rt) e config (rq_provider rq)
        (text_header rq ''x-payment-timestamp'') (text_header rq ''x-payment-signature'') rawBody b requestId d
        = (out, d', ms)"
  using assms by (auto simp: payments_webhook_def split: body.splits if_splits option.splits prod.splits)

lemma invoices_create_cases:
  assumes "invoices_create rt e requestId actor rq d = (res, d', ms)"
  obtains "d' = d" and "\<exists>err. res = Inl err"
  | b out where "rq_body rq = CreateBody b" and "create_dto_valid (rt_is_uuid rt) (rt_is_email rt) b"
      and "res = answered InvoiceAnswer out"
      and "create (rt_sha256 rt) e actor (text_header rq ''idempotency-key'') requestId b d = (out, d', ms)"
  using assms by (auto simp: invoices_create_def split: body.splits if_splits prod.splits)

lemma invoices_transition_cases:
  assumes "invoices_transition rt e requestId actor rq d = (res, d', ms)"
  obtains "d' = d" and "\<exists>err. res = Inl err"
  | b out where "rq_body rq = StatusBody b" and "update_dto_valid b" and "res = answered InvoiceAnswer out"
      and "rt_is_uuid rt (rq_invoiceId rq)"
      and "transition e actor (rq_invoiceId rq) requestId b d = (out, d')"
  using assms
  by (auto simp: invoices_transition_def uuid_param_def split: sum.splits body.splits if_splits prod.splits)

lemma webhook_change_signed:
  assumes "handleWebhook hmac sha256 date_of e config provider timestamp signature rawBody b requestId d = (res, d', ms)"
    and "d' \<noteq> d"
  shows "provider = cfg_paymentProvider config \<and>
    verifyWebhookSignature hmac sha256 rawBody (cfg_paymentWebhookSecret config)
      (case timestamp of None \<Rightarrow> [] | Some s \<Rightarrow> s) (case signature of None \<Rightarrow> [] | Some s \<Rightarrow> s)
      (clock e 0 div 1000) (JInt (cfg_paymentWebhookToleranceSeconds config)) = Inr True"
proof -
  have only_True: "verifyWebhookSignature h s r k t g n (JInt m) = Inr u \<Longrightarrow> u = True" for h s r k t g n m u
    by (auto simp: verifyWebhookSignature_def Let_def res_simps simp del: is_safe_integer.simps js_lt.simps)
  show ?thesis
    using assms only_True
    by (auto simp: handleWebhook_def handleWebhook_from_def Let_def split: if_splits sum.splits)
qed

lemma create_dto_line: "create_dto_valid u m b \<Longrightarrow> dto_items b \<noteq> []"
  by (auto simp: create_dto_valid_def)

lemma serve_is_step:
  assumes "serve rt config now fresh e rq d = (res, d', ms)"
  shows "d' = d \<or> api_step (rt_hmac rt) (rt_sha256 rt) (rt_date_of rt) config d d'"
  using assms
proof (cases rule: serve_cases)
  case (public requestId)
  show ?thesis
  proof (cases "d' = d")
    case False
    with public have "payments_webhook rt config e requestId rq d = (res, d', ms)"
      using public_routes_change [OF public(2)] by simp
    then show ?thesis
      by (rule payments_webhook_cases) (auto simp: handleWebhook_def intro: step_webhook)
  qed simp
next
  case (actor requestId a)
  show ?thesis
  proof (cases "d' = d")
    case False
    with actor_routes_change [OF actor(2)] consider (c) "rq_route rq = CreateInvoice" | (t) "rq_route rq = TransitionInvoice"
      by blast
    then show ?thesis
    proof cases
      case c
      with actor(2) have "invoices_create rt e requestId (actor_of a) rq d = (res, d', ms)" by simp
      then show ?thesis by (rule invoices_create_cases) (auto simp: create_def intro: step_create)
    next
      case t
      with actor(2) have "invoices_transition rt e requestId (actor_of a) rq d = (res, d', ms)" by simp
      then show ?thesis
        by (rule invoices_transition_cases) (auto simp: transition_def intro: step_transition later_refl)
    qed
  qed simp
qed simp

section \<open>Properties\<close>

text \<open>Every change over HTTP is one of the modelled steps: whatever a request asks for, the database is either
  left alone or makes one step of \<open>api_step\<close>, so every invariant of the step relation holds for the whole API.\<close>

theorem http_request_is_step:
  assumes "serve rt config now fresh e rq d = (res, d', ms)"
  shows "d' = d \<or> api_step (rt_hmac rt) (rt_sha256 rt) (rt_date_of rt) config d d'"
  using assms by (rule serve_is_step)

text \<open>C6: Nothing changes without authority: when a request changes the database, it either came with the platform
  key and a bearer token that verifies for an actor with the role invoice:write, and created an invoice or changed
  one's status, or it was a webhook of the configured provider whose signature verifies for its raw body.\<close>

theorem http_change_needs_authority:
  assumes "serve rt config now fresh e rq d = (res, d', ms)" and "d' \<noteq> d"
  shows "(rq_route rq \<in> {CreateInvoice, TransitionInvoice} \<and>
      constantTimeEqual (rt_sha256 rt) (header (rq_headers rq ''x-platform-api-key'')) (cfg_platformApiKey config) \<and>
      (\<exists>token actor. header (rq_headers rq ''authorization'') = ''Bearer '' @ token \<and>
        verifyActor (rt_hmac rt) (rt_jwtVerify rt) config now token = Inr actor \<and>
        actor_has_role actor ''invoice:write'')) \<or>
    (rq_route rq = PaymentWebhook \<and> rq_provider rq = cfg_paymentProvider config \<and>
      (\<exists>rawBody. rq_rawBody rq = Some rawBody \<and>
        verifyWebhookSignature (rt_hmac rt) (rt_sha256 rt) rawBody (cfg_paymentWebhookSecret config)
          (case text_header rq ''x-payment-timestamp'' of None \<Rightarrow> [] | Some s \<Rightarrow> s)
          (case text_header rq ''x-payment-signature'' of None \<Rightarrow> [] | Some s \<Rightarrow> s)
          (clock e 0 div 1000) (JInt (cfg_paymentWebhookToleranceSeconds config)) = Inr True))"
  using assms(1)
proof (cases rule: serve_cases)
  case (public requestId)
  with assms(2) have r: "rq_route rq = PaymentWebhook" using public_routes_change by blast
  with public(2) have "payments_webhook rt config e requestId rq d = (res, d', ms)" by simp
  then show ?thesis
  proof (rule payments_webhook_cases)
    fix rawBody b out
    assume "rq_rawBody rq = Some rawBody"
      and "handleWebhook (rt_hmac rt) (rt_sha256 rt) (rt_date_of rt) e config (rq_provider rq)
        (text_header rq ''x-payment-timestamp'') (text_header rq ''x-payment-signature'') rawBody b requestId d = (out, d', ms)"
    with r webhook_change_signed [OF this(2) assms(2)] show ?thesis by blast
  qed (use assms(2) in simp)
next
  case (actor requestId a)
  with assms(2) have r: "rq_route rq \<in> {CreateInvoice, TransitionInvoice}" using actor_routes_change by blast
  then have "decorators (rq_route rq) = role_route ''invoice:write''" by auto
  with actor(1) r show ?thesis unfolding canActivate_actor by (auto simp: role_route_def)
qed (use assms(2) in simp)

text \<open>All rows belong to merchants of the hierarchy, as the foreign keys demand.\<close>

definition rows_owned :: "database \<Rightarrow> bool" where
  "rows_owned d \<longleftrightarrow>
     list_all (\<lambda>r. inv_merchantId r \<in> set (hierarchy_ids d)) (invoices d) \<and>
     list_all (\<lambda>r. pay_merchantId r \<in> set (hierarchy_ids d)) (payments d) \<and>
     list_all (\<lambda>r. rfd_merchantId r \<in> set (hierarchy_ids d)) (refunds d) \<and>
     list_all (\<lambda>r. obx_merchantId r \<in> set (hierarchy_ids d)) (outbox_events d) \<and>
     list_all (\<lambda>r. aud_merchantId r \<in> set (hierarchy_ids d)) (audit_events d)"

lemma scoped_page_mem:
  "x \<in> set (scoped_page d actor limit merchantId createdAt rows) \<Longrightarrow> x \<in> set rows \<and> in_scope d actor (merchantId x)"
  unfolding scoped_page_def newest_first_def by (auto dest: in_set_takeD)

lemma in_scope_managed:
  "canonical_ids d a \<Longrightarrow> m \<in> set (hierarchy_ids d) \<Longrightarrow> in_scope d a m \<Longrightarrow> manages_within d 16 a m"
  using in_scope_iff [of d a m] by simp

text \<open>
  The operations summary of the merchants that \<open>mine\<close> says: counts of their rows alone, of deliveries of their
  events, and the age of their oldest pending event.
\<close>

definition summary_of_merchants :: "(string \<Rightarrow> bool) \<Rightarrow> database \<Rightarrow> ops_summary \<Rightarrow> bool" where
  "summary_of_merchants mine d s \<longleftrightarrow>
     sum_invoices s = count_where (\<lambda>r. mine (inv_merchantId r)) (invoices d) \<and>
     sum_payments s = count_where (\<lambda>r. mine (pay_merchantId r)) (payments d) \<and>
     sum_refunds s = count_where (\<lambda>r. mine (rfd_merchantId r)) (refunds d) \<and>
     sum_pendingOutbox s = count_where (\<lambda>r. mine (obx_merchantId r) \<and> obx_status r = PENDING) (outbox_events d) \<and>
     sum_processingOutbox s = count_where (\<lambda>r. mine (obx_merchantId r) \<and> obx_status r = PROCESSING) (outbox_events d) \<and>
     sum_successfulDeliveries s = count_where (\<lambda>a. dlv_status a = SUCCEEDED \<and>
       (\<exists>r \<in> set (outbox_events d). mine (obx_merchantId r) \<and> sql_eq d (obx_id r) (dlv_eventId a))) (delivery_attempts d) \<and>
     sum_deadLetters s = count_where (\<lambda>a. dlv_status a = DEAD_LETTERED \<and>
       (\<exists>r \<in> set (outbox_events d). mine (obx_merchantId r) \<and> sql_eq d (obx_id r) (dlv_eventId a))) (delivery_attempts d) \<and>
     sum_oldestPendingOutboxAt s =
       (case oldest 1 obx_createdAt (\<lambda>r. mine (obx_merchantId r) \<and> obx_status r = PENDING) (outbox_events d) of
          [] \<Rightarrow> None | r # _ \<Rightarrow> Some (obx_createdAt r))"

lemma count_where_cong: "(\<And>r. r \<in> set rs \<Longrightarrow> P r = Q r) \<Longrightarrow> count_where P rs = count_where Q rs"
  by (simp add: count_where_def cong: filter_cong)

lemma oldest_cong: "(\<And>r. r \<in> set rs \<Longrightarrow> P r = Q r) \<Longrightarrow> oldest n k P rs = oldest n k Q rs"
  by (simp add: oldest_def cong: filter_cong)

lemma ops_summary_scoped:
  assumes "canonical_ids d (act_actorMerchantId actor)" and "rows_owned d"
  shows "summary_of_merchants (manages_within d 16 (act_actorMerchantId actor)) d (ops_summary_of config now d actor)"
proof -
  let ?a = "act_actorMerchantId actor" and ?mine = "manages_within d 16 (act_actorMerchantId actor)"
  have scope: "m \<in> set (hierarchy_ids d) \<Longrightarrow> in_scope d ?a m \<longleftrightarrow> ?mine m" for m
    using in_scope_iff [OF assms(1), of m] by simp
  have own: "r \<in> set (invoices d) \<Longrightarrow> in_scope d ?a (inv_merchantId r) \<longleftrightarrow> ?mine (inv_merchantId r)"
    "p \<in> set (payments d) \<Longrightarrow> in_scope d ?a (pay_merchantId p) \<longleftrightarrow> ?mine (pay_merchantId p)"
    "f \<in> set (refunds d) \<Longrightarrow> in_scope d ?a (rfd_merchantId f) \<longleftrightarrow> ?mine (rfd_merchantId f)"
    "ev \<in> set (outbox_events d) \<Longrightarrow> in_scope d ?a (obx_merchantId ev) \<longleftrightarrow> ?mine (obx_merchantId ev)" for r p f ev
    using assms(2) by (simp_all add: scope rows_owned_def list_all_iff)
  have "deliveryCount d ?a status = count_where (\<lambda>a. dlv_status a = status \<and>
      (\<exists>r \<in> set (outbox_events d). ?mine (obx_merchantId r) \<and> sql_eq d (obx_id r) (dlv_eventId a))) (delivery_attempts d)" for status
    unfolding deliveryCount_def list_ex_iff by (rule count_where_cong) (use own(4) in auto)
  moreover have "outboxCount d ?a status =
      count_where (\<lambda>r. ?mine (obx_merchantId r) \<and> obx_status r = status) (outbox_events d)" for status
    unfolding outboxCount_def by (rule count_where_cong) (simp add: own(4))
  moreover have "oldest 1 obx_createdAt (\<lambda>r. in_scope d ?a (obx_merchantId r) \<and> obx_status r = PENDING) (outbox_events d) =
      oldest 1 obx_createdAt (\<lambda>r. ?mine (obx_merchantId r) \<and> obx_status r = PENDING) (outbox_events d)"
    by (rule oldest_cong) (simp add: own(4))
  moreover have "count_where (\<lambda>r. in_scope d ?a (inv_merchantId r)) (invoices d) = count_where (\<lambda>r. ?mine (inv_merchantId r)) (invoices d)"
    "count_where (\<lambda>r. in_scope d ?a (pay_merchantId r)) (payments d) = count_where (\<lambda>r. ?mine (pay_merchantId r)) (payments d)"
    "count_where (\<lambda>r. in_scope d ?a (rfd_merchantId r)) (refunds d) = count_where (\<lambda>r. ?mine (rfd_merchantId r)) (refunds d)"
    by (rule count_where_cong, simp add: own)+
  ultimately show ?thesis unfolding summary_of_merchants_def ops_summary_of_def Let_def ops_summary.simps by simp
qed

text \<open>C14: Every read stays within the tenant: whatever an actor's reading request is answered with comes from
  invoices, stores, payments and audit events of merchants that are the actor's own or at most sixteen levels
  below it, and every count of the operations summary, and its oldest pending event, is of exactly the rows of those merchants:
  invoices, payments, refunds, pending and processing events, and the deliveries of their events. Identifiers are in
  canonical form and rows belong to merchants of the hierarchy, as the foreign keys demand.\<close>

theorem http_reads_within_tenant:
  assumes "serve rt config now fresh e rq d = (Inr ans, d', ms)"
    and "canActivate (rt_hmac rt) (rt_sha256 rt) (rt_jwtVerify rt) config now (decorators (rq_route rq)) (rq_headers rq)
      = Inr (Some actor)"
    and "m = act_actorMerchantId (actor_of actor)" and ids: "canonical_ids d m" and owned: "rows_owned d"
    and read: "rq_route rq \<notin> {CreateInvoice, TransitionInvoice}"
  shows "d' = d \<and> (case ans of
      InvoicesAnswer rs \<Rightarrow> set rs \<subseteq> toResponse ` {r \<in> set (invoices d). manages_within d 16 m (inv_merchantId r)}
    | InvoiceAnswer r \<Rightarrow> (\<exists>ivc store. find_invoice d (rq_invoiceId rq) = Some ivc \<and> r = toResponse ivc \<and>
        store \<in> set (stores d) \<and> sql_eq d (sto_id store) (inv_storeId ivc) \<and> manages_within d 15 m (sto_merchantId store))
    | StoresAnswer rs \<Rightarrow> set rs = store_response ` {s \<in> set (stores d). sto_active s \<and> manages_within d 16 m (sto_merchantId s)}
    | PaymentsAnswer ps \<Rightarrow> set ps \<subseteq> {p \<in> set (payments d). manages_within d 16 m (pay_merchantId p)}
    | AuditAnswer rs \<Rightarrow> set rs \<subseteq> {r \<in> set (audit_events d). manages_within d 16 m (aud_merchantId r)}
    | SummaryAnswer s \<Rightarrow> summary_of_merchants (manages_within d 16 m) d s
    | _ \<Rightarrow> False)"
proof -
  from assms(1,2) obtain requestId where a:
    "actor_routes rt config e requestId (actor_of actor) rq d (rq_route rq) = (Inr ans, d', ms)"
    by (auto simp: serve_def Let_def)
  have stores: "s \<in> set (stores d) \<Longrightarrow> in_scope d m (sto_merchantId s) \<longleftrightarrow> manages_within d 16 m (sto_merchantId s)" for s
    using in_scope_iff [OF ids] by (simp add: hierarchy_ids_def)
  show ?thesis
  proof (cases "rq_route rq")
    case ListInvoices
    with a assms(3) show ?thesis
      using owned in_scope_managed [OF ids]
      by (fastforce simp: route_defs answered_def res_simps list_invoices_def rows_owned_def list_all_iff
          dest!: scoped_page_mem)
  next
    case GetInvoice
    with a assms(3) show ?thesis
      by (auto simp: route_defs answered_def uuid_param_def res_simps get_invoice_def authorizeStore_Inr [OF ids, unfolded assms(3)]
          dest!: find_Some_D split: if_splits)
  next
    case ListStores
    with a assms(3) stores show ?thesis by (auto simp: listStores_def)
  next
    case ListPayments
    with a assms(3) show ?thesis
      using owned in_scope_managed [OF ids]
      by (fastforce simp: route_defs answered_def res_simps payment_list_def rows_owned_def list_all_iff
          dest!: scoped_page_mem)
  next
    case ListAudit
    with a assms(3) show ?thesis
      using owned in_scope_managed [OF ids]
      by (fastforce simp: route_defs answered_def res_simps audit_list_def rows_owned_def list_all_iff
          dest!: scoped_page_mem)
  next
    case OpsSummary
    with a assms(3) ops_summary_scoped [OF ids [unfolded assms(3)] owned] show ?thesis by auto
  qed (use a read in auto)
qed

section \<open>A tenant and its requests\<close>

definition dev_merchant :: string where
  "dev_merchant = ''00000000-0000-4000-8000-000000000001''"

definition tenant_db :: database where
  "tenant_db = created_db
     \<lparr>merchants := [\<lparr>mer_id = dev_merchant, mer_parentMerchantId = None, mer_name = ''Root'', mer_active = True,
        mer_createdAt = 0\<rparr>],
      stores := [sample_store\<lparr>sto_merchantId := dev_merchant\<rparr>],
      invoices := [created_invoice\<lparr>inv_merchantId := dev_merchant\<rparr>],
      outbox_events := [created_event\<lparr>obx_merchantId := dev_merchant\<rparr>], audit_events := []\<rparr>"

definition sample_runtime :: runtime where
  "sample_runtime = \<lparr>rt_hmac = sample_hmac, rt_sha256 = sample_hash, rt_date_of = sample_date,
     rt_jwtVerify = (\<lambda>_ _ _ _. Inl (PlainErr [])), rt_is_uuid = (\<lambda>_. True), rt_is_email = (\<lambda>_. True),
     rt_is_iso8601 = (\<lambda>_. True), rt_limit_of = (\<lambda>fallback s. if s = None then Some fallback else None), rt_metrics = [], rt_database_up = True\<rparr>"

definition dev_request :: "dev_token \<Rightarrow> route \<Rightarrow> body \<Rightarrow> request" where
  "dev_request t r b = \<lparr>rq_route = r, rq_headers = dev_headers (dvt_token t), rq_limit = None,
     rq_invoiceId = ''0'', rq_provider = [], rq_rawBody = None, rq_body = b\<rparr>"

definition dev_actor :: ActorTokenPayload where
  "dev_actor = actor_of (value_of (dev_payload 28801))"

lemma dev_activates:
  assumes "devToken sample_hmac dev_config 1000 = Inr t" and "dvt_expiresAt t = 28801000"
    and "meta_requiredRoles (decorators r) \<noteq> []"
  shows "canActivate (rt_hmac sample_runtime) (rt_sha256 sample_runtime) (rt_jwtVerify sample_runtime) dev_config 2000
      (decorators (rq_route (dev_request t r b))) (rq_headers (dev_request t r b)) = Inr (Some (value_of (dev_payload 28801)))"
proof -
  have h: "header (dev_headers (dvt_token t) ''x-platform-api-key'') = cfg_platformApiKey dev_config"
    "header (dev_headers (dvt_token t) ''authorization'') = ''Bearer '' @ dvt_token t"
    by (simp_all add: dev_headers_def header_def dev_config_def)
  have "sample_hmac k m \<noteq> []" for k m by (simp add: sample_hmac_def)
  from dev_token_guard [OF assms(1) this h assms(3)] show ?thesis
    by (simp add: sample_runtime_def dev_request_def assms(2))
qed

lemma dev_served:
  assumes "devToken sample_hmac dev_config 1000 = Inr t" and "dvt_expiresAt t = 28801000"
    and "meta_requiredRoles (decorators r) \<noteq> []"
  shows "serve sample_runtime dev_config 2000 fresh e (dev_request t r b) d =
    actor_routes sample_runtime dev_config e fresh dev_actor (dev_request t r b) d r"
proof -
  have "text_header (dev_request t r b) ''x-request-id'' = None"
    by (simp add: text_header_def dev_request_def dev_headers_def)
  then show ?thesis
    using dev_activates [OF assms]
    by (simp add: serve_def Let_def request_identifier_def dev_actor_def) (simp add: dev_request_def)
qed

definition cancel_dto :: UpdateInvoiceStatusDto where
  "cancel_dto = \<lparr>upd_status = CANCELLED, upd_expectedVersion = 1\<rparr>"

lemma dev_cancels:
  assumes "devToken sample_hmac dev_config 1000 = Inr t" and "dvt_expiresAt t = 28801000"
  shows "\<exists>res d'. serve sample_runtime dev_config 2000 ''req-0001'' (sample_env 8)
    (dev_request t TransitionInvoice (StatusBody cancel_dto)) tenant_db = (res, d', []) \<and> d' \<noteq> tenant_db"
proof -
  obtain res d' where x: "transition (sample_env 8) dev_actor ''0'' ''req-0001'' cancel_dto tenant_db = (res, d')"
    by fastforce
  have "map inv_status (invoices (snd (transition (sample_env 8) dev_actor ''0'' ''req-0001'' cancel_dto tenant_db)))
      = [CANCELLED]" by code_simp
  moreover have "map inv_status (invoices tenant_db) = [ISSUED]" by code_simp
  ultimately have "d' \<noteq> tenant_db" using x by auto
  moreover have "update_dto_valid cancel_dto" by code_simp
  ultimately show ?thesis
    using x dev_served [OF assms, of TransitionInvoice]
    by (simp add: role_route_def invoices_transition_def uuid_param_def dev_request_def sample_runtime_def)
qed

theorem http_request_is_step_witness:
  "\<exists>t res d'. serve sample_runtime dev_config 2000 ''req-0001'' (sample_env 8)
      (dev_request t TransitionInvoice (StatusBody cancel_dto)) tenant_db = (res, d', []) \<and> d' \<noteq> tenant_db \<and>
    api_step sample_hmac sample_hash sample_date dev_config tenant_db d'"
proof -
  obtain t where t: "devToken sample_hmac dev_config 1000 = Inr t" "dvt_expiresAt t = 28801000"
    using dev_token_issued by blast
  from dev_cancels [OF t] obtain res d' where s: "serve sample_runtime dev_config 2000 ''req-0001'' (sample_env 8)
      (dev_request t TransitionInvoice (StatusBody cancel_dto)) tenant_db = (res, d', [])" "d' \<noteq> tenant_db" by blast
  from http_request_is_step [OF s(1)] s show ?thesis by (auto simp: sample_runtime_def)
qed

theorem http_change_needs_authority_witness:
  "\<exists>(t :: dev_token) token actor. header (dev_headers (dvt_token t) ''authorization'') = ''Bearer '' @ token \<and>
     verifyActor sample_hmac (rt_jwtVerify sample_runtime) dev_config 2000 token = Inr actor \<and>
     actor_has_role actor ''invoice:write''"
proof -
  obtain t where t: "devToken sample_hmac dev_config 1000 = Inr t" "dvt_expiresAt t = 28801000"
    using dev_token_issued by blast
  from dev_cancels [OF t] obtain res d' where s: "serve sample_runtime dev_config 2000 ''req-0001'' (sample_env 8)
      (dev_request t TransitionInvoice (StatusBody cancel_dto)) tenant_db = (res, d', [])" "d' \<noteq> tenant_db" by blast
  from http_change_needs_authority [OF s] show ?thesis
    by (simp add: dev_request_def sample_runtime_def) blast
qed

theorem http_reads_within_tenant_witness:
  "\<exists>t rs. serve sample_runtime dev_config 2000 ''req-0001'' (sample_env 8) (dev_request t ListInvoices NoBody) tenant_db
      = (Inr (InvoicesAnswer rs), tenant_db, []) \<and> length rs = 1 \<and>
    set rs \<subseteq> toResponse ` {r \<in> set (invoices tenant_db). manages_within tenant_db 16 dev_merchant (inv_merchantId r)}"
proof -
  obtain t where t: "devToken sample_hmac dev_config 1000 = Inr t" "dvt_expiresAt t = 28801000"
    using dev_token_issued by blast
  let ?rs = "list_invoices tenant_db dev_actor 20"
  have r: "meta_requiredRoles (decorators ListInvoices) \<noteq> []" by (simp add: role_route_def)
  have s: "serve sample_runtime dev_config 2000 ''req-0001'' (sample_env 8) (dev_request t ListInvoices NoBody) tenant_db
      = (Inr (InvoicesAnswer ?rs), tenant_db, [])"
    unfolding dev_served [OF t r]
    by (simp add: invoices_list_def page_limit_def answered_def dev_request_def sample_runtime_def)
  have m: "dev_merchant = act_actorMerchantId (actor_of (value_of (dev_payload 28801)))" by code_simp
  have c: "canonical_ids tenant_db dev_merchant" "rows_owned tenant_db" "length ?rs = 1" by code_simp+
  have "rq_route (dev_request t ListInvoices NoBody) \<notin> {CreateInvoice, TransitionInvoice}" by (simp add: dev_request_def)
  from http_reads_within_tenant [OF s dev_activates [OF t r] m c(1,2) this] s c(3) show ?thesis by auto
qed

end
