(* ===== verification/HttpLog.thy ===== *)
theory HttpLog
  imports Api
begin

text \<open>
  The logging interceptor: what a finished request adds to the metrics and to the log. The framework runs
  the guard before the interceptors, so a request the guard refuses adds nothing, and it answers a thrown
  exception with the status of its class. The duration is the measured number of nanoseconds.
\<close>

fun exn_status :: "exn \<Rightarrow> int" where
  "exn_status (BadRequestException _) = 400"
| "exn_status (UnauthorizedException _) = 401"
| "exn_status (ForbiddenException _) = 403"
| "exn_status (NotFoundException _) = 404"
| "exn_status (ConflictException _) = 409"
| "exn_status (ServiceUnavailableException _) = 503"
| "exn_status _ = 500"

text \<open>Method, path and status of success of each route, as its controller declares them.\<close>

fun route_method :: "route \<Rightarrow> string" where
  "route_method CreateInvoice = ''POST''"
| "route_method DevToken = ''POST''"
| "route_method PaymentWebhook = ''POST''"
| "route_method TransitionInvoice = ''PATCH''"
| "route_method _ = ''GET''"

fun route_path :: "route \<Rightarrow> string" where
  "route_path HealthLive = ''/health/live''"
| "route_path HealthReady = ''/health/ready''"
| "route_path Metrics = ''/metrics''"
| "route_path DevToken = ''/v1/auth/dev-token''"
| "route_path ListInvoices = ''/v1/invoices''"
| "route_path CreateInvoice = ''/v1/invoices''"
| "route_path GetInvoice = ''/v1/invoices/:invoiceId''"
| "route_path TransitionInvoice = ''/v1/invoices/:invoiceId/status''"
| "route_path ListStores = ''/v1/stores''"
| "route_path ListPayments = ''/v1/payments''"
| "route_path PaymentWebhook = ''/v1/payments/webhooks/:provider''"
| "route_path ListAudit = ''/v1/audit-events''"
| "route_path OpsSummary = ''/v1/ops/summary''"

fun success_status :: "route \<Rightarrow> int" where
  "success_status CreateInvoice = 201"
| "success_status DevToken = 201"
| "success_status _ = 200"

definition response_status :: "route \<Rightarrow> exn + answer \<Rightarrow> int" where
  "response_status r res = (case res of Inl err \<Rightarrow> exn_status err | Inr _ \<Rightarrow> success_status r)"

record request_log =
  log_isError :: bool
  log_requestId :: string
  log_actorMerchantId :: "string option"
  log_method :: string
  log_route :: string
  log_statusCode :: int
  log_durationMs :: jsnum

definition duration_ms :: "jsnum \<Rightarrow> jsnum" where
  "duration_ms nanoseconds =
     js_div (js_round (js_mul (js_div nanoseconds (JInt 1000000000)) (JInt 100000))) (JInt 100)"

definition intercept ::
  "route \<Rightarrow> string \<Rightarrow> string option \<Rightarrow> int \<Rightarrow> jsnum \<Rightarrow> request_log option" where
  "intercept r requestId actorMerchantId statusCode nanoseconds =
     (let internalSuccess = statusCode < 400 \<and> route_path r \<in> {''/health/live'', ''/health/ready'', ''/metrics''}
      in if internalSuccess then None
         else Some \<lparr>log_isError = (500 \<le> statusCode), log_requestId = requestId,
           log_actorMerchantId = actorMerchantId, log_method = route_method r, log_route = route_path r,
           log_statusCode = statusCode, log_durationMs = duration_ms nanoseconds\<rparr>)"

text \<open>A request as \<open>serve\<close> handles it, with what it adds to the log.\<close>

definition serve_logged ::
  "runtime \<Rightarrow> ApiConfig \<Rightarrow> int \<Rightarrow> string \<Rightarrow> env \<Rightarrow> jsnum \<Rightarrow> request \<Rightarrow> database \<Rightarrow> outcome \<times> request_log option" where
  "serve_logged rt config now fresh e nanoseconds rq d =
     (let out = serve rt config now fresh e rq d;
          requestId = request_identifier (text_header rq ''x-request-id'') fresh
      in (out,
          case canActivate (rt_hmac rt) (rt_sha256 rt) (rt_jwtVerify rt) config now (decorators (rq_route rq))
              (rq_headers rq) of
            Inl _ \<Rightarrow> None
          | Inr actor \<Rightarrow>
              intercept (rq_route rq) requestId (map_option (\<lambda>a. act_actorMerchantId (actor_of a)) actor)
                (response_status (rq_route rq) (fst out)) nanoseconds))"

text \<open>Every change of the database is in the log, under the request's identifier and, but for webhooks, its actor.\<close>

lemma change_logged:
  assumes "serve_logged rt config now fresh e t rq d = ((res, d', ms), line)" and "d' \<noteq> d"
  obtains l where "line = Some l" and "log_statusCode l = response_status (rq_route rq) res"
    and "log_requestId l = request_identifier (text_header rq ''x-request-id'') fresh"
    and "log_actorMerchantId l = None \<longleftrightarrow> rq_route rq = PaymentWebhook"
proof -
  from assms(1) have s: "serve rt config now fresh e rq d = (res, d', ms)"
    by (simp add: serve_logged_def Let_def)
  show ?thesis
    using s
  proof (cases rule: serve_cases)
    case (public requestId)
    with assms(2) have "rq_route rq = PaymentWebhook" using public_routes_change by blast
    with that assms(1) public(1) s show ?thesis by (auto simp: serve_logged_def Let_def intercept_def)
  next
    case (actor requestId a)
    with assms(2) have "rq_route rq = CreateInvoice \<or> rq_route rq = TransitionInvoice" using actor_routes_change by blast
    with that assms(1) actor(1) s show ?thesis by (auto simp: serve_logged_def Let_def intercept_def)
  qed (use assms(2) in simp)
qed

end
