(* ===== verification/Telemetry.thy ===== *)
theory Telemetry
  imports HttpLog PaymentEvents
begin

text \<open>
  The metrics of \<open>apps/api/src/telemetry/telemetry.service.ts\<close>: the counters, a function from labels to counts each,
  the histogram of durations as what was observed for each label, and the
  requests of one API process in the order it finishes them: what each adds to the counters, and that the
  counters agree with the tables. The library's default metrics are left out.
\<close>

section \<open>The counters\<close>

record telemetry =
  tel_httpRequests :: "string \<times> string \<times> string \<Rightarrow> nat"
  tel_httpDuration :: "string \<times> string \<Rightarrow> jsnum list"
  tel_invoices :: "string \<Rightarrow> nat"
  tel_paymentWebhooks :: "string \<times> string \<Rightarrow> nat"
  tel_release :: "string \<Rightarrow> int"
  tel_cleared :: bool

definition telemetry_started :: "ApiConfig \<Rightarrow> telemetry" where
  "telemetry_started config =
     \<lparr>tel_httpRequests = (\<lambda>_. 0), tel_httpDuration = (\<lambda>_. []), tel_invoices = (\<lambda>_. 0),
      tel_paymentWebhooks = (\<lambda>_. 0), tel_release = (\<lambda>_. 0)(cfg_releaseVersion config := 1), tel_cleared = False\<rparr>"

definition observeHttp :: "string \<Rightarrow> string \<Rightarrow> int \<Rightarrow> jsnum \<Rightarrow> telemetry \<Rightarrow> telemetry" where
  "observeHttp method route statusCode durationSeconds tel =
     (let labels = (method, route, show_int statusCode)
      in tel\<lparr>tel_httpRequests := (tel_httpRequests tel)(labels := tel_httpRequests tel labels + 1),
           tel_httpDuration := (tel_httpDuration tel)((method, route) := tel_httpDuration tel (method, route) @ [durationSeconds])\<rparr>)"

definition onModuleDestroy :: "telemetry \<Rightarrow> telemetry" where
  "onModuleDestroy tel = tel\<lparr>tel_cleared := True\<rparr>"

text \<open>What the interceptor adds for a request it logs.\<close>

definition observe_line :: "jsnum \<Rightarrow> request_log option \<Rightarrow> telemetry \<Rightarrow> telemetry" where
  "observe_line nanoseconds line =
     (case line of
        None \<Rightarrow> (\<lambda>tel. tel)
      | Some l \<Rightarrow> observeHttp (log_method l) (log_route l) (log_statusCode l) (js_div nanoseconds (JInt 1000000000)))"

fun observe :: "metric \<Rightarrow> telemetry \<Rightarrow> telemetry" where
  "observe (InvoicesInc outcome) tel =
     tel\<lparr>tel_invoices := (tel_invoices tel)(outcome := tel_invoices tel outcome + 1)\<rparr>"
| "observe (PaymentWebhooksInc outcome eventType) tel =
     tel\<lparr>tel_paymentWebhooks := (tel_paymentWebhooks tel)
       ((outcome, eventType) := tel_paymentWebhooks tel (outcome, eventType) + 1)\<rparr>"

section \<open>A process of the API\<close>

record served =
  svd_now :: int
  svd_fresh :: string
  svd_env :: env
  svd_nanoseconds :: jsnum
  svd_request :: request

definition serve_counted ::
  "runtime \<Rightarrow> ApiConfig \<Rightarrow> served \<Rightarrow> database \<times> telemetry \<Rightarrow> database \<times> telemetry" where
  "serve_counted rt config s = (\<lambda>(d, tel).
     case serve_logged rt config (svd_now s) (svd_fresh s) (svd_env s) (svd_nanoseconds s) (svd_request s) d of
       ((res, d', ms), line) \<Rightarrow>
         (d', observe_line (svd_nanoseconds s) line (fold observe ms tel)))"

definition serve_requests ::
  "runtime \<Rightarrow> ApiConfig \<Rightarrow> served list \<Rightarrow> database \<times> telemetry \<Rightarrow> database \<times> telemetry" where
  "serve_requests rt config ss = fold (serve_counted rt config) ss"

section \<open>The counters agree with the tables\<close>

lemma observe_line_fields [simp]:
  "tel_invoices (observe_line ns line tel) = tel_invoices tel"
  "tel_paymentWebhooks (observe_line ns line tel) = tel_paymentWebhooks tel"
  by (simp_all add: observe_line_def observeHttp_def Let_def split: option.splits)

lemma fold_observe:
  "tel_invoices (fold observe ms tel) x = tel_invoices tel x + count_list ms (InvoicesInc x)"
  "tel_paymentWebhooks (fold observe ms tel) y = tel_paymentWebhooks tel y + count_list ms (PaymentWebhooksInc (fst y) (snd y))"
proof (induction ms arbitrary: tel)
  case (Cons m ms)
  { case 1 show ?case using Cons(1) [of "observe m tel"] by (cases m) auto }
  { case 2 show ?case using Cons(2) [of "observe m tel"] by (cases m; cases y) auto }
qed simp_all

definition counts_agree :: "metric list \<Rightarrow> database \<Rightarrow> database \<Rightarrow> bool" where
  "counts_agree ms d d' \<longleftrightarrow>
     length (invoices d') = length (invoices d) + count_list ms (InvoicesInc ''created'') \<and>
     length (payments d') = length (payments d) + count_list ms (PaymentWebhooksInc ''accepted'' ''payment.captured'') \<and>
     length (refunds d') = length (refunds d) + count_list ms (PaymentWebhooksInc ''accepted'' ''payment.refunded'')"

lemma create_counts:
  assumes "create sha256 e actor rawKey requestId b d = (res, d', ms)"
  shows "counts_agree ms d d'"
proof (cases res)
  case (Inl err)
  then show ?thesis
    using assms
    by (auto simp: counts_agree_def create_def create_from_def Let_def split: sum.splits if_splits option.splits prod.splits)
next
  case (Inr r)
  with assms consider "d' = d" "ms = [InvoicesInc ''replayed'']"
    | key store c where "create_write e actor key (requestFingerprint sha256 (dto_json b)) requestId b store c d = Inr (r, d')"
        "ms = [InvoicesInc ''created'']"
    unfolding create_def create_from_Inr_iff Inr by blast
  then show ?thesis
  proof cases
    case 2
    from 2(1) show ?thesis by (rule create_write_Inr) (simp add: counts_agree_def 2(2))
  qed (simp add: counts_agree_def)
qed

lemma transition_counts:
  assumes "transition e actor invoiceId requestId b d = (res, d')"
  shows "counts_agree [] d d'"
  using assms
  by (auto simp: transition_def transition_from_def transaction_def bindE_Inr_conv counts_agree_def
      split: sum.splits dest!: transition_write_Inr)

text \<open>What a webhook is counted as.\<close>

lemma webhook_metrics:
  assumes "handleWebhook hmac sha256 date_of e config provider timestamp signature rawBody b requestId d = (res, d', ms)"
  shows "(ms = [PaymentWebhooksInc ''accepted'' (pwd_eventType b)] \<longleftrightarrow> (\<exists>resp. res = Inr resp \<and> \<not> pwr_duplicate resp)) \<and>
    (ms = [] \<or> (\<exists>outcome. ms = [PaymentWebhooksInc outcome (pwd_eventType b)]))"
  using assms unfolding handleWebhook_def handleWebhook_from_def Let_def
  by (auto simp: duplicate_response_def split: if_splits sum.split_asm prod.split_asm)

lemma accepted_event:
  assumes "process_event date_of e provider hash b requestId d = Inr (resp, d')"
  shows "if pwr_duplicate resp then d' = d
    else length (invoices d') = length (invoices d) \<and>
      length (payments d') = length (payments d) + of_bool (pwd_eventType b = ''payment.captured'') \<and>
      length (refunds d') = length (refunds d) + of_bool (pwd_eventType b \<noteq> ''payment.captured'')"
  using assms
proof (cases rule: process_event_Inr)
  case (2 d1 rcp)
  from 2(2) show ?thesis
  proof (elim disjE conjE)
    assume "pwd_eventType b = ''payment.captured''" and "capture date_of e provider b requestId d = Inr (resp, d1)"
    then show ?thesis by (elim capture_Inr) (simp add: 2(4))
  next
    assume "pwd_eventType b \<noteq> ''payment.captured''" and "refund_payment date_of e provider b requestId d = Inr (resp, d1)"
    then show ?thesis by (elim refund_payment_Inr) (simp add: 2(4) after_refund_def)
  qed
qed (simp add: duplicate_response_def)

lemma webhook_counts:
  assumes "handleWebhook hmac sha256 date_of e config provider timestamp signature rawBody b requestId d = (res, d', ms)"
    and "webhook_dto_valid is_uuid is_iso8601 b"
  shows "counts_agree ms d d'"
proof -
  have ev: "pwd_eventType b = ''payment.captured'' \<or> pwd_eventType b = ''payment.refunded''"
    using assms(2) by (auto simp: webhook_dto_valid_def)
  note ms = webhook_metrics [OF assms(1)]
  show ?thesis
  proof (cases "\<exists>resp. res = Inr resp \<and> \<not> pwr_duplicate resp")
    case True
    then obtain resp where r: "res = Inr resp" "\<not> pwr_duplicate resp" by blast
    from accepted_event [OF handled_event [OF assms(1) [unfolded r(1)] r(2)]] r ms ev show ?thesis
      by (auto simp: counts_agree_def)
  next
    case False
    from assms(1) have "d' = d" unfolding handleWebhook_def
      by (rule handleWebhook_cases) (use False accepted_event in \<open>fastforce split: if_splits\<close>)+
    with False ms show ?thesis by (auto simp: counts_agree_def)
  qed
qed

lemma serve_counts:
  assumes "serve rt config now fresh e rq d = (res, d', ms)"
  shows "counts_agree ms d d'"
proof -
  have none: "counts_agree [] d d" by (simp add: counts_agree_def)
  have pub: "public_routes rt config e requestId rq d r = (res, d', ms) \<Longrightarrow> counts_agree ms d d'" for requestId r
    using none by (cases r) (auto simp: payments_webhook_def intro: webhook_counts
        split: body.splits if_splits option.splits prod.splits)
  have act: "actor_routes rt config e requestId actor rq d r = (res, d', ms) \<Longrightarrow> counts_agree ms d d'" for requestId actor r
    using none by (cases r) (auto simp: route_defs intro: create_counts transition_counts
        split: body.splits if_splits sum.splits prod.splits)
  show ?thesis
    using assms none pub act by (auto simp: serve_def Let_def split: sum.splits option.splits)
qed

lemma serve_counted_agrees:
  assumes "serve_counted rt config s (d, tel) = (d', tel')"
  shows "length (invoices d') + tel_invoices tel ''created'' = length (invoices d) + tel_invoices tel' ''created'' \<and>
    length (payments d') + tel_paymentWebhooks tel (''accepted'', ''payment.captured'') =
      length (payments d) + tel_paymentWebhooks tel' (''accepted'', ''payment.captured'') \<and>
    length (refunds d') + tel_paymentWebhooks tel (''accepted'', ''payment.refunded'') =
      length (refunds d) + tel_paymentWebhooks tel' (''accepted'', ''payment.refunded'')"
proof -
  obtain res d'' ms where s: "serve rt config (svd_now s) (svd_fresh s) (svd_env s) (svd_request s) d = (res, d'', ms)"
    by (cases "serve rt config (svd_now s) (svd_fresh s) (svd_env s) (svd_request s) d")
  from serve_counts [OF s] assms s show ?thesis
    by (auto simp: serve_counted_def serve_logged_def Let_def counts_agree_def fold_observe split: option.splits)
qed

lemma serve_requests_agree:
  assumes "serve_requests rt config ss (d, tel) = (d', tel')"
  shows "length (invoices d') + tel_invoices tel ''created'' = length (invoices d) + tel_invoices tel' ''created'' \<and>
    length (payments d') + tel_paymentWebhooks tel (''accepted'', ''payment.captured'') =
      length (payments d) + tel_paymentWebhooks tel' (''accepted'', ''payment.captured'') \<and>
    length (refunds d') + tel_paymentWebhooks tel (''accepted'', ''payment.refunded'') =
      length (refunds d) + tel_paymentWebhooks tel' (''accepted'', ''payment.refunded'')"
  using assms
proof (induction ss arbitrary: d tel)
  case (Cons s ss)
  obtain d1 tel1 where s: "serve_counted rt config s (d, tel) = (d1, tel1)" by fastforce
  with Cons.prems have "serve_requests rt config ss (d1, tel1) = (d', tel')" by (simp add: serve_requests_def)
  from Cons.IH [OF this] serve_counted_agrees [OF s] show ?case by linarith
qed (simp add: serve_requests_def)

text \<open>C35: The counters of an API process tell what it stored: since its start, the invoices counted as created are
  as many as the invoices table gained rows, and the webhooks counted as accepted captures and refunds as many as
  the payments and refunds, whatever requests it served, refused, failed and repeated ones included.\<close>

theorem counters_tell_growth:
  assumes "serve_requests rt config ss (d, telemetry_started config) = (d', tel)"
  shows "length (invoices d') = length (invoices d) + tel_invoices tel ''created'' \<and>
    length (payments d') = length (payments d) + tel_paymentWebhooks tel (''accepted'', ''payment.captured'') \<and>
    length (refunds d') = length (refunds d) + tel_paymentWebhooks tel (''accepted'', ''payment.refunded'')"
  using serve_requests_agree [OF assms] by (simp add: telemetry_started_def)

definition paying_request :: served where
  "paying_request = \<lparr>svd_now = 1000, svd_fresh = ''r2'', svd_env = sample_env 2, svd_nanoseconds = JInt 5,
     svd_request = \<lparr>rq_route = PaymentWebhook,
       rq_headers = [''x-payment-timestamp'' \<mapsto> HOne ''7'', ''x-payment-signature'' \<mapsto> HOne (header_signature ''one'')],
       rq_limit = None, rq_invoiceId = [], rq_provider = ''sandboxpay'', rq_rawBody = Some ''one'',
       rq_body = WebhookBody capture_event\<rparr>\<rparr>"

lemma paying_served:
  "serve sample_runtime sample_config 1000 ''r2'' (sample_env 2) (svd_request paying_request) created_db =
     (Inr (WebhookAnswer paid_response), paid_db, [PaymentWebhooksInc ''accepted'' ''payment.captured''])"
proof -
  let ?rq = "svd_request paying_request"
  have h: "text_header ?rq ''x-payment-timestamp'' = Some ''7''"
    "text_header ?rq ''x-payment-signature'' = Some (header_signature ''one'')"
    "request_identifier (text_header ?rq ''x-request-id'') ''r2'' = ''r2''"
    by (simp_all add: text_header_def paying_request_def request_identifier_def)
  have q: "rq_route ?rq = PaymentWebhook" "rq_provider ?rq = ''sandboxpay''" "rq_rawBody ?rq = Some ''one''"
    "rq_body ?rq = WebhookBody capture_event"
    by (simp_all add: paying_request_def)
  have v: "webhook_dto_valid (\<lambda>_. True) (\<lambda>_. True) capture_event" by code_simp
  show ?thesis
    using sample_paid [of created_db, folded handleWebhook_def]
    by (simp add: serve_def h q public_route_def canActivate_def payments_webhook_def sample_runtime_def v answered_def)
qed

theorem counters_tell_growth_witness:
  "\<exists>d tel. serve_requests sample_runtime sample_config [paying_request] (created_db, telemetry_started sample_config) = (d, tel) \<and>
     length (payments d) = 1 \<and> tel_paymentWebhooks tel (''accepted'', ''payment.captured'') = 1"
proof -
  obtain d tel where s: "serve_requests sample_runtime sample_config [paying_request] (created_db, telemetry_started sample_config)
      = (d, tel)" by fastforce
  have "d = paid_db"
    using s paying_served
    by (simp add: serve_requests_def serve_counted_def serve_logged_def Let_def)
      (simp add: paying_request_def split: prod.splits)
  moreover have "length (payments paid_db) = 1" "length (payments created_db) = 0" by code_simp+
  ultimately show ?thesis using s counters_tell_growth [OF s] by simp
qed

end
