(* ===== verification/Provision.thy ===== *)
theory Provision
  imports ActorToken Config InvoiceService
begin

text \<open>
  The script that creates a tenant, \<open>scripts/provision-tenant.mjs\<close>: its input from the environment, and its
  transaction, which locks the rows it reads and is one step here. Rows that a query without an order
  returns come in the table's order. Whether a text names a time zone is a parameter.
\<close>

section \<open>The input\<close>

record provision_input =
  pvi_changeId :: string
  pvi_merchantId :: string
  pvi_merchantName :: string
  pvi_storeId :: string
  pvi_storeCode :: string
  pvi_storeName :: string
  pvi_storeTimezone :: string

definition bounded_var :: "process_env \<Rightarrow> string \<Rightarrow> nat \<Rightarrow> nat \<Rightarrow> exn + string" where
  "bounded_var env name minimum maximum =
     bindE (required env name) (\<lambda>raw.
     let v = js_trim raw
     in if length v < minimum \<or> maximum < length v then Inl (PlainErr (name @ '' length is invalid'')) else Inr v)"

definition match_var :: "process_env \<Rightarrow> string \<Rightarrow> (string \<Rightarrow> bool) \<Rightarrow> exn + string" where
  "match_var env name pattern =
     bindE (required env name) (\<lambda>v.
     if pattern v then Inr v else Inl (PlainErr (name @ '' format is invalid'')))"

definition uuid_var :: "process_env \<Rightarrow> string \<Rightarrow> exn + string" where
  "uuid_var env name = match_var env name (\<lambda>v. uuid_format (map code v))"

text \<open>\<open>/^[A-Z0-9][A-Z0-9_-]{1,39}$/\<close>\<close>

definition store_code_format :: "string \<Rightarrow> bool" where
  "store_code_format s \<longleftrightarrow> s \<noteq> [] \<and> (is_upper (hd s) \<or> is_digit (hd s)) \<and>
     class_between (\<lambda>c. is_upper c \<or> is_digit c \<or> c = CHR ''_'' \<or> c = CHR ''-'') 1 39 (tl s)"

definition timezone_var :: "(string \<Rightarrow> bool) \<Rightarrow> process_env \<Rightarrow> string \<Rightarrow> exn + string" where
  "timezone_var is_timezone env name =
     bindE (bounded_var env name 3 64) (\<lambda>v.
     if is_timezone v then Inr v else Inl (PlainErr (name @ '' must be a valid IANA time zone'')))"

definition change_id_format :: "string \<Rightarrow> bool" where
  "change_id_format s \<longleftrightarrow> class_between is_key_char 4 80 s"

definition provision_port :: "process_env \<Rightarrow> exn + int" where
  "provision_port env =
     (let mysqlPort = (case env ''MYSQL_PORT'' of None \<Rightarrow> JInt 3306 | Some s \<Rightarrow> js_number s)
      in if \<not> is_integer mysqlPort \<or> js_lt mysqlPort (JInt 1) \<or> js_lt (JInt 65535) mysqlPort
         then Inl (PlainErr ''MYSQL_PORT must be an integer from 1 to 65535'') else Inr (num_int mysqlPort))"

definition provision_input_of :: "(string \<Rightarrow> bool) \<Rightarrow> process_env \<Rightarrow> exn + provision_input" where
  "provision_input_of is_timezone env =
     bindE (required env ''PROVISIONING_CHANGE_ID'') (\<lambda>changeId.
     bindE (uuid_var env ''ROOT_MERCHANT_ID'') (\<lambda>merchantId.
     bindE (bounded_var env ''ROOT_MERCHANT_NAME'' 2 160) (\<lambda>merchantName.
     bindE (uuid_var env ''STORE_ID'') (\<lambda>storeId.
     bindE (match_var env ''STORE_CODE'' store_code_format) (\<lambda>storeCode.
     bindE (bounded_var env ''STORE_NAME'' 2 160) (\<lambda>storeName.
     bindE (timezone_var is_timezone env ''STORE_TIMEZONE'') (\<lambda>storeTimezone.
     bindE (guardE (change_id_format changeId)
       (PlainErr ''PROVISIONING_CHANGE_ID must be a safe ticket or change identifier'')) (\<lambda>_.
     bindE (provision_port env) (\<lambda>_.
     Inr \<lparr>pvi_changeId = changeId, pvi_merchantId = merchantId, pvi_merchantName = merchantName,
       pvi_storeId = storeId, pvi_storeCode = storeCode, pvi_storeName = storeName,
       pvi_storeTimezone = storeTimezone\<rparr>)))))))))"

section \<open>The transaction\<close>

definition merchant_constraints :: "database \<Rightarrow> merchant \<Rightarrow> (bool \<times> string) list" where
  "merchant_constraints d r =
     [text_col 36 (mer_id r), text_col 160 (mer_name r),
      unique_key (\<lambda>x. collation d (mer_id x)) (merchants d) r]"

definition insert_merchant :: "merchant \<Rightarrow> database \<Rightarrow> exn + database" where
  "insert_merchant r d =
     bindE (insert_row (merchant_constraints d r) r (merchants d)) (\<lambda>rs. Inr (d\<lparr>merchants := rs\<rparr>))"

definition store_constraints :: "database \<Rightarrow> store \<Rightarrow> (bool \<times> string) list" where
  "store_constraints d r =
     [text_col 36 (sto_id r), text_col 36 (sto_merchantId r), text_col 40 (sto_code r), text_col 160 (sto_name r),
      text_col 64 (sto_timezone r),
      unique_key (\<lambda>x. collation d (sto_id x)) (stores d) r,
      unique_key (\<lambda>x. (collation d (sto_merchantId x), collation d (sto_code x))) (stores d) r,
      foreign_key (collation d (sto_merchantId r)) (\<lambda>x. collation d (mer_id x)) (merchants d)]"

definition insert_store :: "store \<Rightarrow> database \<Rightarrow> exn + database" where
  "insert_store r d =
     bindE (insert_row (store_constraints d r) r (stores d)) (\<lambda>rs. Inr (d\<lparr>stores := rs\<rparr>))"

definition merchant_rows :: "provision_input \<Rightarrow> database \<Rightarrow> merchant list" where
  "merchant_rows inp d = filter (\<lambda>m. sql_eq d (mer_id m) (pvi_merchantId inp)) (merchants d)"

definition store_rows :: "provision_input \<Rightarrow> database \<Rightarrow> store list" where
  "store_rows inp d =
     filter (\<lambda>s. sql_eq d (sto_id s) (pvi_storeId inp) \<or>
       sql_eq d (sto_merchantId s) (pvi_merchantId inp) \<and> sql_eq d (sto_code s) (pvi_storeCode inp)) (stores d)"

text \<open>\<open>row && ...\<close> of the first row; an absent row is false.\<close>

definition exactMerchant :: "merchant list \<Rightarrow> provision_input \<Rightarrow> bool" where
  "exactMerchant rows inp =
     (case rows of
        [] \<Rightarrow> False
      | m # _ \<Rightarrow> mer_id m = pvi_merchantId inp \<and> mer_parentMerchantId m = None \<and>
          mer_name m = pvi_merchantName inp \<and> mer_active m)"

definition exactStore :: "store list \<Rightarrow> provision_input \<Rightarrow> bool" where
  "exactStore rows inp =
     (case rows of
        [] \<Rightarrow> False
      | s # _ \<Rightarrow> sto_id s = pvi_storeId inp \<and> sto_merchantId s = pvi_merchantId inp \<and>
          sto_code s = pvi_storeCode inp \<and> sto_name s = pvi_storeName inp \<and>
          sto_timezone s = pvi_storeTimezone inp \<and> sto_active s)"

definition new_merchant :: "env \<Rightarrow> provision_input \<Rightarrow> merchant" where
  "new_merchant e inp =
     \<lparr>mer_id = pvi_merchantId inp, mer_parentMerchantId = None, mer_name = pvi_merchantName inp,
      mer_active = True, mer_createdAt = db_now e\<rparr>"

definition new_store :: "env \<Rightarrow> provision_input \<Rightarrow> store" where
  "new_store e inp =
     \<lparr>sto_id = pvi_storeId inp, sto_merchantId = pvi_merchantId inp, sto_code = pvi_storeCode inp,
      sto_name = pvi_storeName inp, sto_timezone = pvi_storeTimezone inp, sto_active = True,
      sto_createdAt = db_now e\<rparr>"

definition provision_audit :: "env \<Rightarrow> provision_input \<Rightarrow> audit_event" where
  "provision_audit e inp =
     \<lparr>aud_id = uuid e 0, aud_merchantId = pvi_merchantId inp,
      aud_actorSubject = ''provisioner:'' @ pvi_changeId inp, aud_action = ''tenant.provisioned'',
      aud_resourceType = ''merchant'', aud_resourceId = pvi_merchantId inp,
      aud_requestId = Some (pvi_changeId inp),
      aud_details = JSObj [(''storeId'', JSStr (pvi_storeId inp)), (''storeCode'', JSStr (pvi_storeCode inp))],
      aud_createdAt = db_now e\<rparr>"

datatype provision_outcome = Provisioned | NothingToDo

definition provision_body :: "env \<Rightarrow> provision_input \<Rightarrow> database \<Rightarrow> exn + provision_outcome \<times> database" where
  "provision_body e inp d =
     (if merchant_rows inp d \<noteq> [] \<or> store_rows inp d \<noteq> [] then
        (if \<not> exactMerchant (merchant_rows inp d) inp \<or> \<not> exactStore (store_rows inp d) inp
         then Inl (PlainErr (''Existing tenant/store differs from the requested identity; '' @
           ''refusing partial or destructive provisioning''))
         else Inr (NothingToDo, d))
      else
        bindE (insert_merchant (new_merchant e inp) d) (\<lambda>d1.
        bindE (insert_store (new_store e inp) d1) (\<lambda>d2.
        bindE (insert_audit (provision_audit e inp) d2) (\<lambda>d3.
        Inr (Provisioned, d3)))))"

definition provision :: "env \<Rightarrow> provision_input \<Rightarrow> database \<Rightarrow> (exn + provision_outcome) \<times> database" where
  "provision e inp d = transaction (provision_body e inp) d"

section \<open>What a run does\<close>

lemma provision_Provisioned:
  assumes "provision e inp d = (Inr Provisioned, d')"
  shows "d' = d\<lparr>merchants := merchants d @ [new_merchant e inp], stores := stores d @ [new_store e inp],
      audit_events := audit_events d @ [provision_audit e inp]\<rparr>"
    and "merchant_rows inp d = []" and "store_rows inp d = []"
  using assms
  by (auto simp: provision_def transaction_def provision_body_def insert_merchant_def insert_store_def insert_audit_def
      insert_row_Inr res_simps split: sum.splits if_splits prod.splits)

lemma provision_unchanged: "provision e inp d = (res, d') \<Longrightarrow> res \<noteq> Inr Provisioned \<Longrightarrow> d' = d"
  by (auto simp: provision_def transaction_def provision_body_def bindE_Inr_conv split: sum.splits if_splits prod.splits)

lemma find_append_none: "(\<forall>x \<in> set xs. \<not> P x) \<Longrightarrow> find P (xs @ ys) = find P ys"
  by (induction xs) auto

lemma provisioned_rows:
  assumes "provision e inp d = (Inr Provisioned, d')"
  shows "merchant_rows inp d' = [new_merchant e inp]" and "store_rows inp d' = [new_store e inp]"
  using provision_Provisioned [OF assms]
  by (simp_all add: merchant_rows_def store_rows_def sql_eq_def new_merchant_def new_store_def)

lemma provision_again:
  assumes "provision e inp d = (Inr Provisioned, d')"
  shows "provision e' inp d' = (Inr NothingToDo, d')"
  using provisioned_rows [OF assms]
  by (simp add: provision_def transaction_def provision_body_def exactMerchant_def exactStore_def new_merchant_def new_store_def)

lemma provisioned_store_usable:
  assumes "provision e inp d = (Inr Provisioned, d')" and "pvi_merchantId inp \<noteq> []"
  shows "authorizeStore d' (pvi_merchantId inp) (pvi_storeId inp) = Inr (new_store e inp)"
proof -
  note p = provision_Provisioned [OF assms(1)]
  have "\<forall>s \<in> set (stores d). \<not> (sql_eq d' (sto_id s) (pvi_storeId inp) \<and> sto_active s)"
    using p(3) by (auto simp: p(1) store_rows_def sql_eq_def filter_empty_conv)
  then have "find (\<lambda>s. sql_eq d' (sto_id s) (pvi_storeId inp) \<and> sto_active s) (stores d') = Some (new_store e inp)"
    by (simp add: p(1) find_append_none new_store_def)
  moreover have "climb d' (pvi_merchantId inp) 16 [] (Some (sto_merchantId (new_store e inp)))"
    using assms(2) by (simp add: new_store_def eval_nat_numeral)
  ultimately show ?thesis by (simp add: authorizeStore_def)
qed

lemma uuid_nonempty: "uuid_format (map code s) \<Longrightarrow> s \<noteq> []"
proof -
  assume u: "uuid_format (map code s)"
  have "length uuid_classes = 36" by code_simp
  then have "length s = 36" using list_all2_lengthD [OF u [unfolded uuid_format_def]] by simp
  then show ?thesis by auto
qed

lemma provision_input_merchant: "provision_input_of is_timezone env = Inr inp \<Longrightarrow> pvi_merchantId inp \<noteq> []"
  by (auto simp: provision_input_of_def uuid_var_def match_var_def res_simps dest: uuid_nonempty split: if_splits)

text \<open>C23: A tenant is provisioned once and as a whole: a run with valid input either appends exactly the merchant,
  its store and one audit event, after which the merchant may use the store and a second run finds nothing to do,
  or it leaves the database as it was.\<close>

theorem tenant_provisioning:
  assumes "provision_input_of is_timezone env = Inr inp" and "provision e inp d = (res, d')"
  shows "if res = Inr Provisioned
    then d' = d\<lparr>merchants := merchants d @ [new_merchant e inp], stores := stores d @ [new_store e inp],
        audit_events := audit_events d @ [provision_audit e inp]\<rparr> \<and>
      authorizeStore d' (pvi_merchantId inp) (pvi_storeId inp) = Inr (new_store e inp) \<and>
      provision e' inp d' = (Inr NothingToDo, d')
    else d' = d"
proof (cases "res = Inr Provisioned")
  case True
  with assms(2) have p: "provision e inp d = (Inr Provisioned, d')" by simp
  with True show ?thesis
    using provision_Provisioned(1) provision_again provisioned_store_usable provision_input_merchant [OF assms(1)] by simp
next
  case False
  with provision_unchanged [OF assms(2)] show ?thesis by simp
qed

definition sample_provision_env :: process_env where
  "sample_provision_env = [''PROVISIONING_CHANGE_ID'' \<mapsto> ''CHG-1001'',
     ''ROOT_MERCHANT_ID'' \<mapsto> ''00000000-0000-4000-8000-000000000001'', ''ROOT_MERCHANT_NAME'' \<mapsto> '' Asha Traders '',
     ''STORE_ID'' \<mapsto> ''10000000-0000-4000-8000-000000000002'', ''STORE_CODE'' \<mapsto> ''BLR-01'',
     ''STORE_NAME'' \<mapsto> ''Main'', ''STORE_TIMEZONE'' \<mapsto> ''Asia/Kolkata'']"

definition sample_provision_input :: provision_input where
  "sample_provision_input = \<lparr>pvi_changeId = ''CHG-1001'',
     pvi_merchantId = ''00000000-0000-4000-8000-000000000001'', pvi_merchantName = ''Asha Traders'',
     pvi_storeId = ''10000000-0000-4000-8000-000000000002'', pvi_storeCode = ''BLR-01'', pvi_storeName = ''Main'',
     pvi_storeTimezone = ''Asia/Kolkata''\<rparr>"

lemma sample_provision_input: "provision_input_of (\<lambda>_. True) sample_provision_env = Inr sample_provision_input"
  by code_simp

theorem tenant_provisioning_witness:
  "\<exists>d'. provision (sample_env 1) sample_provision_input sample_db = (Inr Provisioned, d') \<and>
     length (merchants d') = 3 \<and> provision (sample_env 2) sample_provision_input d' = (Inr NothingToDo, d')"
proof -
  obtain res d' where r: "provision (sample_env 1) sample_provision_input sample_db = (res, d')" by fastforce
  have "case fst (provision (sample_env 1) sample_provision_input sample_db) of Inl _ \<Rightarrow> False | Inr x \<Rightarrow> x = Provisioned"
    by code_simp
  then have "res = Inr Provisioned" using r by (auto split: sum.splits)
  with tenant_provisioning [OF sample_provision_input r, of "sample_env 2"] r show ?thesis
    by (auto simp: sample_db_def sample_merchants_def)
qed

end
