(* ===== verification/Schema.thy ===== *)
theory Schema
  imports Platform Provision
begin

text \<open>
  The typing of the database: every row satisfies the columns, checks and references of its entity, and no
  two rows of a table clash in a unique key. The locale \<open>typed_table\<close> states what the inserts, updates and
  deletions of one table owe to this and is interpreted for the eleven tables; every operation of the API,
  the worker and the provisioning script keeps all of them.
\<close>

section \<open>One table\<close>

text \<open>What other tables may refer to only grows.\<close>

definition references_grow :: "database \<Rightarrow> database \<Rightarrow> bool" where
  "references_grow d d' \<longleftrightarrow> collation d' = collation d \<and>
     (\<lambda>x. collation d (mer_id x)) ` set (merchants d) \<subseteq> (\<lambda>x. collation d (mer_id x)) ` set (merchants d') \<and>
     (\<lambda>x. collation d (sto_id x)) ` set (stores d) \<subseteq> (\<lambda>x. collation d (sto_id x)) ` set (stores d') \<and>
     (\<lambda>x. collation d (inv_id x)) ` set (invoices d) \<subseteq> (\<lambda>x. collation d (inv_id x)) ` set (invoices d') \<and>
     (\<lambda>x. collation d (pay_id x)) ` set (payments d) \<subseteq> (\<lambda>x. collation d (pay_id x)) ` set (payments d')"

text \<open>A row is checked against the database without its own table, rows against each other by \<open>clash\<close>.\<close>

definition table_ok ::
  "(database \<Rightarrow> 'r list) \<Rightarrow> ('r list \<Rightarrow> database \<Rightarrow> database) \<Rightarrow> (database \<Rightarrow> 'r \<Rightarrow> (bool \<times> string) list) \<Rightarrow>
   (database \<Rightarrow> 'r \<Rightarrow> 'r \<Rightarrow> bool) \<Rightarrow> database \<Rightarrow> bool" where
  "table_ok rows upd constraints clash d \<longleftrightarrow>
     list_all (\<lambda>r. list_all fst (constraints (upd [] d) r)) (rows d) \<and>
     sorted_wrt (\<lambda>x y. \<not> clash d x y) (rows d)"

locale typed_table =
  fixes rows :: "database \<Rightarrow> 'r list" and upd :: "'r list \<Rightarrow> database \<Rightarrow> database"
    and constraints :: "database \<Rightarrow> 'r \<Rightarrow> (bool \<times> string) list" and clash :: "database \<Rightarrow> 'r \<Rightarrow> 'r \<Rightarrow> bool"
  assumes rows_upd: "rows (upd rs d) = rs" and upd_upd: "upd rs (upd rs' d) = upd rs d"
    and accepted: "list_all fst (constraints d r) \<Longrightarrow>
      list_all fst (constraints (upd [] d) r) \<and> (\<forall>x \<in> set (rows d). \<not> clash d x r)"
    and kept: "references_grow d d' \<Longrightarrow> list_all fst (constraints (upd [] d) r) \<Longrightarrow>
      list_all fst (constraints (upd [] d') r)"
    and clash_upd: "clash (upd rs d) = clash d"
    and clash_kept: "references_grow d d' \<Longrightarrow> clash d' = clash d"
begin

abbreviation ok :: "database \<Rightarrow> bool" where
  "ok \<equiv> table_ok rows upd constraints clash"

lemma others: "ok d \<Longrightarrow> references_grow d d' \<Longrightarrow> rows d' = rows d \<Longrightarrow> ok d'"
  using kept [of d d'] clash_kept [of d d'] by (auto simp: table_ok_def list_all_iff)

lemma stored: "ok d \<Longrightarrow> list_all fst (constraints d r) \<Longrightarrow> ok (upd (rows d @ [r]) d)"
  using accepted [of d r] by (auto simp: table_ok_def rows_upd upd_upd clash_upd sorted_wrt_append)

lemma deleted: "ok d \<Longrightarrow> ok (upd (filter P (rows d)) d)"
  by (auto simp: table_ok_def rows_upd upd_upd clash_upd list_all_iff sorted_wrt_filter)

lemma updated:
  assumes "ok d"
    and "\<And>r. r \<in> set (rows d) \<Longrightarrow> P r \<Longrightarrow> list_all fst (constraints (upd [] d) r) \<Longrightarrow>
      list_all fst (constraints (upd [] d) (f r))"
    and "\<And>x y. clash d (f x) y = clash d x y" and "\<And>x y. clash d x (f y) = clash d x y"
  shows "ok (upd (update_where P f (rows d)) d)"
proof -
  have "(\<lambda>x y. \<not> clash d (if P x then f x else x) (if P y then f y else y)) = (\<lambda>x y. \<not> clash d x y)"
    using assms(3,4) by (auto simp: fun_eq_iff)
  then show ?thesis
    using assms(1,2)
    by (auto simp: table_ok_def rows_upd upd_upd clash_upd list_all_iff set_update_where)
      (simp add: update_where_def sorted_wrt_map)
qed

end

section \<open>The eleven tables\<close>

definition same_line :: "database \<Rightarrow> invoice_line \<Rightarrow> invoice_line \<Rightarrow> bool" where
  "same_line d x y \<longleftrightarrow> sql_eq d (lin_id x) (lin_id y) \<or>
     sql_eq d (lin_invoiceId x) (lin_invoiceId y) \<and> lin_position x = lin_position y"

definition same_record :: "database \<Rightarrow> idempotency_record \<Rightarrow> idempotency_record \<Rightarrow> bool" where
  "same_record d x y \<longleftrightarrow> sql_eq d (idm_id x) (idm_id y) \<or> idempotency_key d x = idempotency_key d y"

definition same_payment :: "database \<Rightarrow> payment \<Rightarrow> payment \<Rightarrow> bool" where
  "same_payment d x y \<longleftrightarrow> payment_key d x = payment_key d y \<or> provider_payment_key d x = provider_payment_key d y"

definition same_refund :: "database \<Rightarrow> refund \<Rightarrow> refund \<Rightarrow> bool" where
  "same_refund d x y \<longleftrightarrow> sql_eq d (rfd_id x) (rfd_id y) \<or> provider_refund_key d x = provider_refund_key d y"

definition same_receipt :: "database \<Rightarrow> webhook_receipt \<Rightarrow> webhook_receipt \<Rightarrow> bool" where
  "same_receipt d x y \<longleftrightarrow> receipt_id d x = receipt_id d y \<or> receipt_key d x = receipt_key d y"

definition same_store :: "database \<Rightarrow> store \<Rightarrow> store \<Rightarrow> bool" where
  "same_store d x y \<longleftrightarrow> sql_eq d (sto_id x) (sto_id y) \<or>
     sql_eq d (sto_merchantId x) (sto_merchantId y) \<and> sql_eq d (sto_code x) (sto_code y)"

text \<open>The unique key of the attempts, which the upsert looks up.\<close>

definition attempt_constraints :: "database \<Rightarrow> delivery_attempt \<Rightarrow> (bool \<times> string) list" where
  "attempt_constraints d r = delivery_constraints r @
     [unique_key (\<lambda>x. (collation d (dlv_eventId x), dlv_attemptNumber x)) (delivery_attempts d) r]"

lemmas clash_defs = same_line_def same_record_def same_payment_def same_refund_def same_receipt_def same_store_def
  same_attempt_def receipt_id_def

lemmas schema_defs = clash_defs key_defs sql_eq_def references_grow_def constraint_defs column_defs
  merchant_constraints_def store_constraints_def attempt_constraints_def delivery_constraints_def

interpretation merchant_types: typed_table merchants "\<lambda>rs. merchants_update (\<lambda>_. rs)" merchant_constraints
  "\<lambda>d x y. sql_eq d (mer_id x) (mer_id y)"
  by unfold_locales (auto simp: schema_defs fun_eq_iff intro: rev_image_eqI)

interpretation store_types: typed_table stores "\<lambda>rs. stores_update (\<lambda>_. rs)" store_constraints same_store
  by unfold_locales (auto simp: schema_defs fun_eq_iff intro: rev_image_eqI)

interpretation invoice_types: typed_table invoices "\<lambda>rs. invoices_update (\<lambda>_. rs)" invoice_constraints
  "\<lambda>d x y. invoice_key d x = invoice_key d y"
  by unfold_locales (auto simp: schema_defs fun_eq_iff intro: rev_image_eqI)

interpretation line_types: typed_table invoice_lines "\<lambda>rs. invoice_lines_update (\<lambda>_. rs)" line_constraints same_line
  by unfold_locales (auto simp: schema_defs fun_eq_iff intro: rev_image_eqI)

interpretation record_types: typed_table idempotency_records "\<lambda>rs. idempotency_records_update (\<lambda>_. rs)"
  idempotency_constraints same_record
  by unfold_locales (auto simp: schema_defs fun_eq_iff intro: rev_image_eqI)

interpretation outbox_types: typed_table outbox_events "\<lambda>rs. outbox_events_update (\<lambda>_. rs)" outbox_constraints
  "\<lambda>d x y. outbox_key d x = outbox_key d y"
  by unfold_locales (auto simp: schema_defs fun_eq_iff intro: rev_image_eqI)

interpretation attempt_types: typed_table delivery_attempts "\<lambda>rs. delivery_attempts_update (\<lambda>_. rs)"
  attempt_constraints "\<lambda>d x y. same_attempt d x y"
  by unfold_locales (auto simp: schema_defs fun_eq_iff intro: rev_image_eqI)

interpretation payment_types: typed_table payments "\<lambda>rs. payments_update (\<lambda>_. rs)" payment_constraints same_payment
  by unfold_locales (auto simp: schema_defs fun_eq_iff intro: rev_image_eqI)

interpretation refund_types: typed_table refunds "\<lambda>rs. refunds_update (\<lambda>_. rs)" refund_constraints same_refund
  by unfold_locales (auto simp: schema_defs fun_eq_iff intro: rev_image_eqI)

interpretation receipt_types: typed_table webhook_receipts "\<lambda>rs. webhook_receipts_update (\<lambda>_. rs)"
  receipt_constraints same_receipt
  by unfold_locales (auto simp: schema_defs fun_eq_iff intro: rev_image_eqI)

interpretation audit_types: typed_table audit_events "\<lambda>rs. audit_events_update (\<lambda>_. rs)" audit_constraints
  "\<lambda>d x y. audit_key d x = audit_key d y"
  by unfold_locales (auto simp: schema_defs fun_eq_iff intro: rev_image_eqI)

definition schema_ok :: "database \<Rightarrow> bool" where
  "schema_ok d \<longleftrightarrow>
     table_ok merchants (\<lambda>rs. merchants_update (\<lambda>_. rs)) merchant_constraints (\<lambda>d x y. sql_eq d (mer_id x) (mer_id y)) d \<and>
     table_ok stores (\<lambda>rs. stores_update (\<lambda>_. rs)) store_constraints same_store d \<and>
     table_ok invoices (\<lambda>rs. invoices_update (\<lambda>_. rs)) invoice_constraints (\<lambda>d x y. invoice_key d x = invoice_key d y) d \<and>
     table_ok invoice_lines (\<lambda>rs. invoice_lines_update (\<lambda>_. rs)) line_constraints same_line d \<and>
     table_ok idempotency_records (\<lambda>rs. idempotency_records_update (\<lambda>_. rs)) idempotency_constraints same_record d \<and>
     table_ok outbox_events (\<lambda>rs. outbox_events_update (\<lambda>_. rs)) outbox_constraints (\<lambda>d x y. outbox_key d x = outbox_key d y) d \<and>
     table_ok delivery_attempts (\<lambda>rs. delivery_attempts_update (\<lambda>_. rs)) attempt_constraints (\<lambda>d x y. same_attempt d x y) d \<and>
     table_ok payments (\<lambda>rs. payments_update (\<lambda>_. rs)) payment_constraints same_payment d \<and>
     table_ok refunds (\<lambda>rs. refunds_update (\<lambda>_. rs)) refund_constraints same_refund d \<and>
     table_ok webhook_receipts (\<lambda>rs. webhook_receipts_update (\<lambda>_. rs)) receipt_constraints same_receipt d \<and>
     table_ok audit_events (\<lambda>rs. audit_events_update (\<lambda>_. rs)) audit_constraints (\<lambda>d x y. audit_key d x = audit_key d y) d"

section \<open>Statements keep the typing\<close>

lemma references_grow_refl [simp]: "references_grow d d"
  by (simp add: references_grow_def)

lemma references_grow_fields [simp]:
  "references_grow d (d\<lparr>merchants := merchants d @ ms\<rparr>)" "references_grow d (d\<lparr>stores := stores d @ ss\<rparr>)"
  "references_grow d (d\<lparr>invoices := invoices d @ is\<rparr>)" "references_grow d (d\<lparr>payments := payments d @ ps\<rparr>)"
  "references_grow d (d\<lparr>invoice_lines := ls\<rparr>)" "references_grow d (d\<lparr>idempotency_records := rs\<rparr>)"
  "references_grow d (d\<lparr>outbox_events := es\<rparr>)" "references_grow d (d\<lparr>delivery_attempts := ats\<rparr>)"
  "references_grow d (d\<lparr>refunds := fs\<rparr>)" "references_grow d (d\<lparr>webhook_receipts := cs\<rparr>)"
  "references_grow d (d\<lparr>audit_events := aud\<rparr>)"
  by (auto simp: references_grow_def)

lemma image_update_where: "(\<And>r. g (f r) = g r) \<Longrightarrow> g ` set (update_where P f rs) = g ` set rs"
  by (metis list.set_map map_update_where_same)

lemma references_grow_updates [simp]:
  "(\<And>r. inv_id (f r) = inv_id r) \<Longrightarrow> references_grow d (d\<lparr>invoices := update_where P f (invoices d)\<rparr>)"
  "(\<And>r. pay_id (g r) = pay_id r) \<Longrightarrow> references_grow d (d\<lparr>payments := update_where Q g (payments d)\<rparr>)"
  by (simp_all add: references_grow_def image_update_where)

lemmas other_tables = merchant_types.others store_types.others invoice_types.others line_types.others
  record_types.others outbox_types.others attempt_types.others payment_types.others refund_types.others
  receipt_types.others audit_types.others

named_theorems schema_keeps

lemma schema_inserts [schema_keeps]:
  assumes "schema_ok d"
  shows "insert_merchant m d = Inr d' \<Longrightarrow> schema_ok d'" "insert_store s d = Inr d' \<Longrightarrow> schema_ok d'"
    "insert_invoice i d = Inr d' \<Longrightarrow> schema_ok d'" "insert_line d l = Inr d' \<Longrightarrow> schema_ok d'"
    "insert_idempotency x d = Inr d' \<Longrightarrow> schema_ok d'" "insert_outbox ev d = Inr d' \<Longrightarrow> schema_ok d'"
    "insert_payment p d = Inr d' \<Longrightarrow> schema_ok d'" "insert_refund r d = Inr d' \<Longrightarrow> schema_ok d'"
    "insert_receipt c d = Inr d' \<Longrightarrow> schema_ok d'" "insert_audit a d = Inr d' \<Longrightarrow> schema_ok d'"
  using assms unfolding schema_ok_def
  by (auto simp: res_simps insert_merchant_def insert_store_def intro: other_tables merchant_types.stored
      store_types.stored invoice_types.stored line_types.stored record_types.stored outbox_types.stored
      payment_types.stored refund_types.stored receipt_types.stored audit_types.stored)

text \<open>An update that keeps the identifying columns and leaves the counters in range.\<close>

lemma schema_updates_outbox:
  assumes "schema_ok d"
    and "\<And>r. obx_id (f r) = obx_id r \<and> obx_aggregateType (f r) = obx_aggregateType r \<and>
      obx_aggregateId (f r) = obx_aggregateId r \<and> obx_merchantId (f r) = obx_merchantId r \<and>
      obx_eventType (f r) = obx_eventType r"
    and "\<And>r. r \<in> set (outbox_events d) \<Longrightarrow> P r \<Longrightarrow> obx_attempts (f r) = obx_attempts r \<or>
      fst (uint_col 16 (obx_attempts (f r)))"
  shows "schema_ok (d\<lparr>outbox_events := update_where P f (outbox_events d)\<rparr>)"
proof -
  have "outbox_types.ok (d\<lparr>outbox_events := update_where P f (outbox_events d)\<rparr>)"
  proof (rule outbox_types.updated)
    show "list_all fst (outbox_constraints (d\<lparr>outbox_events := []\<rparr>) (f r))"
      if "r \<in> set (outbox_events d)" "P r" "list_all fst (outbox_constraints (d\<lparr>outbox_events := []\<rparr>) r)" for r
      using that assms(2) [of r] assms(3) [OF that(1,2)] by (auto simp: outbox_constraints_def column_defs)
  qed (use assms in \<open>simp_all add: schema_ok_def outbox_key_def\<close>)
  with assms(1) show ?thesis unfolding schema_ok_def by (auto intro: other_tables)
qed

lemma schema_invoice_status [schema_keeps]:
  assumes "schema_ok d" and "set_invoice_status P s d = Inr (n, d')"
  shows "schema_ok d'"
proof -
  let ?f = "\<lambda>r. r\<lparr>inv_status := s, inv_version := inv_version r + 1\<rparr>"
  have d': "d' = d\<lparr>invoices := update_where P ?f (invoices d)\<rparr>"
    and v: "r \<in> set (invoices d) \<Longrightarrow> P r \<Longrightarrow> inv_version r + 1 < 2 ^ 32 \<and> 0 \<le> inv_version r + 1" for r
    using assms(2) by (auto simp: res_simps list_all_iff)
  have "invoice_types.ok d'" unfolding d'
  proof (rule invoice_types.updated)
    show "list_all fst (invoice_constraints (d\<lparr>invoices := []\<rparr>) (?f r))"
      if "r \<in> set (invoices d)" "P r" "list_all fst (invoice_constraints (d\<lparr>invoices := []\<rparr>) r)" for r
      using that v [OF that(1,2)] by (auto simp: invoice_constraints_def column_defs)
  qed (use assms(1) in \<open>simp_all add: schema_ok_def invoice_key_def\<close>)
  with assms(1) show ?thesis unfolding d' schema_ok_def by (auto intro: other_tables)
qed

lemma schema_payment_refunded [schema_keeps]:
  assumes "schema_ok d" and "set_payment_refunded P n s d = Inr d'"
  shows "schema_ok d'"
proof -
  let ?f = "\<lambda>r. r\<lparr>pay_refundedMinor := n, pay_status := s, pay_version := pay_version r + 1\<rparr>"
  have d': "d' = d\<lparr>payments := update_where P ?f (payments d)\<rparr>"
    and v: "r \<in> set (payments d) \<Longrightarrow> P r \<Longrightarrow> list_all fst (payment_checks (?f r))" for r
    using assms(2) by (auto simp: res_simps list_all_iff)
  have "payment_types.ok d'" unfolding d'
  proof (rule payment_types.updated)
    show "list_all fst (payment_constraints (d\<lparr>payments := []\<rparr>) (?f r))"
      if "r \<in> set (payments d)" "P r" "list_all fst (payment_constraints (d\<lparr>payments := []\<rparr>) r)" for r
      using that v [OF that(1,2)] by (auto simp: payment_constraints_def column_defs)
  qed (use assms(1) in \<open>simp_all add: schema_ok_def same_payment_def key_defs\<close>)
  with assms(1) show ?thesis unfolding d' schema_ok_def by (auto intro: other_tables)
qed

lemma schema_upsert [schema_keeps]:
  assumes "schema_ok d" and "upsert_delivery r d = Inr d'"
  shows "schema_ok d'"
proof -
  have c: "list_all fst (delivery_constraints r)"
    and d': "d' = d\<lparr>delivery_attempts := if list_ex (same_attempt d r) (delivery_attempts d)
      then update_where (same_attempt d r) (overwrite r) (delivery_attempts d) else delivery_attempts d @ [r]\<rparr>"
    using assms(2) by (simp_all add: upsert_delivery_Inr)
  have ok: "attempt_types.ok d" using assms(1) by (simp add: schema_ok_def)
  have "attempt_types.ok d'"
  proof (cases "list_ex (same_attempt d r) (delivery_attempts d)")
    case True
    have "attempt_types.ok (d\<lparr>delivery_attempts := update_where (same_attempt d r) (overwrite r) (delivery_attempts d)\<rparr>)"
      by (rule attempt_types.updated [OF ok])
        (use c in \<open>auto simp: attempt_constraints_def delivery_constraints_def column_defs overwrite_def same_attempt_def\<close>)
    with True show ?thesis by (simp add: d')
  next
    case False
    then have "list_all fst (attempt_constraints d r)"
      using c by (auto simp: attempt_constraints_def column_defs list_ex_iff same_attempt_def sql_eq_def)
    from attempt_types.stored [OF ok this] False show ?thesis by (simp add: d')
  qed
  with assms(1) show ?thesis unfolding d' schema_ok_def by (auto intro: other_tables)
qed

lemma schema_purged:
  assumes "schema_ok d" and "d' \<in> set (purged d cutoff)"
  shows "schema_ok d'"
  using assms unfolding schema_ok_def
  by (auto simp: purged_def delete_defs Let_def delete_batch_def intro: other_tables record_types.deleted
      outbox_types.deleted attempt_types.deleted receipt_types.deleted)

section \<open>Operations keep the typing\<close>

lemma schema_audit [schema_keeps]: "schema_ok d \<Longrightarrow> audit_record i t a d = Inr d' \<Longrightarrow> schema_ok d'"
  unfolding audit_record_def by (rule schema_inserts(10))

lemma schema_lines [schema_keeps]: "schema_ok d \<Longrightarrow> foldE insert_line d ls = Inr d' \<Longrightarrow> schema_ok d'"
  by (induction ls arbitrary: d) (auto simp: bindE_Inr_conv intro: schema_inserts(4))

lemmas schema_steps = schema_keeps [rotated]

lemma schema_create:
  assumes "schema_ok d" and "create_write e actor key fp requestId b store c d = Inr (r, d')"
  shows "schema_ok d'"
  using assms by (auto simp: create_write_def Let_def bindE_Inr_conv elim!: schema_steps)

lemma schema_transition:
  assumes "schema_ok d" and "transition_from e actor invoiceId requestId b d_read d = (res, d')"
  shows "schema_ok d'"
  using assms
  by (auto simp: transition_from_def transition_write_def transaction_def bindE_Inr_conv split: sum.splits prod.splits
      elim!: schema_steps)

lemma schema_capture:
  assumes "schema_ok d" and "capture date_of e provider b requestId d = Inr (r, d')"
  shows "schema_ok d'"
  using assms
  by (auto simp: capture_def emit_def set_status_of_def Let_def bindE_Inr_conv split: prod.splits elim!: schema_steps)

lemma schema_refund:
  assumes "schema_ok d" and "refund_payment date_of e provider b requestId d = Inr (r, d')"
  shows "schema_ok d'"
  using assms
  by (auto simp: refund_payment_def emit_def set_status_of_def Let_def bindE_Inr_conv split: prod.splits
      elim!: schema_steps)

lemma schema_api_step:
  assumes "schema_ok d" and "api_step hmac sha256 date_of config d d'"
  shows "schema_ok d'"
  using assms(2)
proof (cases rule: api_step.cases)
  case (step_create e actor rawKey requestId b d_read d_retry res ms)
  from step_create(1) show ?thesis by (rule create_from_cases) (use assms(1) schema_create in auto)
next
  case (step_transition e actor invoiceId requestId b d_read res)
  then show ?thesis using schema_transition [OF assms(1)] by blast
next
  case (step_webhook e provider timestamp signature rawBody b requestId d_retry res ms is_uuid is_iso8601)
  from step_webhook(1) show ?thesis
  proof (cases rule: handleWebhook_cases)
    case (2 resp)
    from 2(2) show ?thesis
      by (cases rule: process_event_Inr)
        (use assms(1) schema_capture schema_refund schema_inserts(9) in \<open>blast+\<close>)
  qed (use assms(1) in simp)
qed

lemma schema_claim:
  assumes "schema_ok d" and "claim n now lockNow skipped d = Inr (events, d')"
  shows "schema_ok d'"
proof -
  have "schema_ok (d\<lparr>outbox_events := update_where (among_ids d es) (claimed t) (outbox_events d)\<rparr>)"
    if "list_all (\<lambda>r. fst (uint_col 16 (obx_attempts r + 1))) (filter (among_ids d es) (outbox_events d))" for es t
    by (rule schema_updates_outbox [OF assms(1)]) (use that in \<open>auto simp: claimed_def list_all_iff\<close>)
  with assms show ?thesis by (auto simp: claim_def Let_def split: if_splits)
qed

lemma schema_settled:
  "schema_ok d \<Longrightarrow> schema_ok (update_claimed ev (settle worker sql_text reply now) d)"
  unfolding update_claimed_def
  by (rule schema_updates_outbox) (auto simp: settle_def published_def released_def split: option.splits)

lemma schema_job:
  "schema_ok d \<Longrightarrow> schema_ok (dlr_db (handle_job sha256 sql_text worker reply newId now attemptsMade attempts ev d))"
  by (rule handle_job_db [OF refl]) (auto intro: schema_upsert)

lemma schema_platform_step:
  assumes ok: "schema_ok (pf_db s)" and "platform_step hmac sha256 date_of config sql_text worker s t"
  shows "schema_ok (pf_db t)"
  using assms(2)
proof (cases rule: platform_step.cases)
  case (api_request d)
  with schema_api_step [OF ok] show ?thesis by simp
next
  case (relay_claims i now lockNow skipped events d)
  with schema_claim [OF ok] show ?thesis by simp
next
  case (job_runs reply newId now attemptsMade attempts event)
  with schema_job [OF ok] show ?thesis by simp
next
  case (retention_deletes d cutoff)
  with schema_purged [OF ok] show ?thesis by simp
qed (use ok schema_settled in simp_all)

lemma schema_provision:
  assumes "schema_ok d" and "provision e inp d = (res, d')"
  shows "schema_ok d'"
  using assms
  by (auto simp: provision_def provision_body_def transaction_def bindE_Inr_conv split: sum.splits prod.splits if_splits
      elim!: schema_steps)

section \<open>The whole deployment\<close>

inductive deployment_step ::
  "(string \<Rightarrow> char list \<Rightarrow> char list) \<Rightarrow> (char list \<Rightarrow> char list) \<Rightarrow> (string \<Rightarrow> int option) \<Rightarrow> ApiConfig \<Rightarrow>
   (string \<Rightarrow> string) \<Rightarrow> WorkerConfig \<Rightarrow> platform \<Rightarrow> platform \<Rightarrow> bool"
  for hmac sha256 date_of config sql_text worker where
  runs: "platform_step hmac sha256 date_of config sql_text worker s t \<Longrightarrow>
    deployment_step hmac sha256 date_of config sql_text worker s t"
| provisions: "provision e inp (pf_db s) = (res, d) \<Longrightarrow>
    deployment_step hmac sha256 date_of config sql_text worker s (s\<lparr>pf_db := d\<rparr>)"

inductive_simps deployment_step_iff: "deployment_step hmac sha256 date_of config sql_text worker s t"

interpretation typed: inductive_invariant "\<lambda>s. schema_ok (pf_db s)"
  "deployment_step hmac sha256 date_of config sql_text worker" "\<lambda>s. schema_ok (pf_db s)"
  by unfold_locales (auto simp: deployment_step_iff intro: schema_platform_step schema_provision)

lemma payment_typed:
  assumes "schema_ok d" and "p \<in> set (payments d)"
  shows "0 < pay_amountMinor p \<and> pay_amountMinor p < 2 ^ 32 \<and> 0 \<le> pay_refundedMinor p \<and>
    pay_refundedMinor p \<le> pay_amountMinor p \<and> (\<exists>i \<in> set (invoices d). sql_eq d (inv_id i) (pay_invoiceId p))"
  using assms unfolding schema_ok_def table_ok_def
  by (fastforce simp: list_all_iff payment_constraints_def payment_checks_def column_defs sql_eq_def)

lemma clash_free: "table_ok rows upd constraints clash d \<Longrightarrow> (\<And>x y. k x = k y \<Longrightarrow> clash d x y) \<Longrightarrow> distinct (map k (rows d))"
  unfolding table_ok_def
proof (elim conjE)
  show "sorted_wrt (\<lambda>x y. \<not> clash d x y) rs \<Longrightarrow> (\<And>x y. k x = k y \<Longrightarrow> clash d x y) \<Longrightarrow> distinct (map k rs)" for rs
    by (induction rs) auto
qed

lemma keys_typed:
  assumes "schema_ok d"
  shows "distinct (map (invoice_key d) (invoices d))" "distinct (map (idempotency_key d) (idempotency_records d))"
    "distinct (map (provider_payment_key d) (payments d))" "distinct (map (provider_refund_key d) (refunds d))"
    "distinct (map (receipt_key d) (webhook_receipts d))" "distinct (map (outbox_key d) (outbox_events d))"
  using assms unfolding schema_ok_def by (auto elim: clash_free simp: clash_defs)

text \<open>C3: The database stays typed: from a database in which every row fits the columns, checks and references of
  its entity and no unique key occurs twice, no run of the API, the relays, the delivery jobs, the retention and the
  provisioning script leads to one where this fails; so every payment has an invoice and an amount in range that
  covers its refunds, and idempotency keys, provider identifiers and webhook receipts stay unique.\<close>

theorem database_stays_typed:
  assumes "schema_ok (pf_db s)"
    and "(deployment_step hmac sha256 date_of config sql_text worker)\<^sup>*\<^sup>* s t"
  shows "schema_ok (pf_db t) \<and>
    (\<forall>p \<in> set (payments (pf_db t)). 0 < pay_amountMinor p \<and> pay_amountMinor p < 2 ^ 32 \<and> 0 \<le> pay_refundedMinor p \<and>
      pay_refundedMinor p \<le> pay_amountMinor p \<and>
      (\<exists>i \<in> set (invoices (pf_db t)). sql_eq (pf_db t) (inv_id i) (pay_invoiceId p))) \<and>
    distinct (map (idempotency_key (pf_db t)) (idempotency_records (pf_db t))) \<and>
    distinct (map (provider_payment_key (pf_db t)) (payments (pf_db t))) \<and>
    distinct (map (provider_refund_key (pf_db t)) (refunds (pf_db t))) \<and>
    distinct (map (receipt_key (pf_db t)) (webhook_receipts (pf_db t)))"
  using typed.steps_inv [OF assms(2,1)] payment_typed keys_typed by blast

definition empty_database :: database where
  "empty_database = \<lparr>collation = (\<lambda>s. s), merchants = [], stores = [], invoices = [], invoice_lines = [],
     idempotency_records = [], outbox_events = [], delivery_attempts = [], payments = [], refunds = [],
     webhook_receipts = [], audit_events = []\<rparr>"

definition empty_platform :: platform where
  "empty_platform = \<lparr>pf_db = empty_database, pf_relays = (\<lambda>_. Idle), pf_accepted = []\<rparr>"

lemma empty_typed: "schema_ok (pf_db empty_platform)"
  by (simp add: empty_platform_def empty_database_def schema_ok_def table_ok_def)

theorem database_stays_typed_witness:
  "\<exists>t. (deployment_step sample_hmac sample_hash sample_date sample_config (\<lambda>s. s) sample_worker)\<^sup>*\<^sup>* empty_platform t \<and>
     length (stores (pf_db t)) = 1 \<and> schema_ok (pf_db t)"
proof -
  obtain res d where r: "provision (sample_env 1) sample_provision_input (pf_db empty_platform) = (res, d)" by fastforce
  have "length (stores (snd (provision (sample_env 1) sample_provision_input (pf_db empty_platform)))) = 1" by code_simp
  then have "length (stores d) = 1" using r by simp
  moreover have run: "(deployment_step sample_hmac sample_hash sample_date sample_config (\<lambda>s. s) sample_worker)\<^sup>*\<^sup>*
      empty_platform (empty_platform\<lparr>pf_db := d\<rparr>)"
    by (rule r_into_rtranclp, rule provisions, rule r)
  ultimately show ?thesis
    using database_stays_typed [OF empty_typed run] by (intro exI [of _ "empty_platform\<lparr>pf_db := d\<rparr>"]) simp
qed

end
