(* ===== verification/Portal.thy ===== *)
theory Portal
  imports Access
begin

text \<open>
  The portal's server and its page. The server's routes forward a browser's request to the API with the
  platform key and an actor token: the session's, or outside production a development token it caches.
  Calls over the network are arguments: what the API answers to the token request, and a function from
  the headers sent to the answer. The page is its state and two operations, \<open>refresh\<close> and \<open>issueInvoice\<close>.
\<close>

section \<open>The backend client\<close>

record portal_env =
  ptl_apiKey :: "string option"
  ptl_nodeEnv :: "string option"

record CachedToken =
  cac_value :: string
  cac_expiresAt :: int

text \<open>
  A rejected call is an exception; an answer has a status and a body. The API answers a call by its path,
  below the configured base URL, and its headers.
\<close>

type_synonym 'b reply = "exn + int \<times> 'b"

type_synonym 'b backend = "string \<Rightarrow> headers \<Rightarrow> 'b reply"

definition reply_ok :: "int \<Rightarrow> bool" where
  "reply_ok status \<longleftrightarrow> 200 \<le> status \<and> status \<le> 299"

definition actorTokenFrom :: "string option \<Rightarrow> string option \<Rightarrow> string option" where
  "actorTokenFrom cookie oidcHeader = (case cookie of Some v \<Rightarrow> Some v | None \<Rightarrow> oidcHeader)"

definition actorToken ::
  "portal_env \<Rightarrow> int \<Rightarrow> dev_token reply \<Rightarrow> string option \<Rightarrow> CachedToken option \<Rightarrow>
   (exn + string) \<times> CachedToken option" where
  "actorToken env now tokenReply supplied cache =
     (if truthy_opt supplied then (Inr (the supplied), cache)
      else if ptl_nodeEnv env = Some ''production'' then
        (Inl (PlainErr ''Actor session must be supplied by the production identity proxy''), cache)
      else if (case cache of Some c \<Rightarrow> now + 60000 < cac_expiresAt c | None \<Rightarrow> False) then
        (Inr (cac_value (the cache)), cache)
      else case tokenReply of
          Inl err \<Rightarrow> (Inl err, cache)
        | Inr (status, t) \<Rightarrow>
            if \<not> reply_ok status then
              (Inl (PlainErr (''Development actor token request failed: '' @ show_int status)), cache)
            else (Inr (dvt_token t), Some \<lparr>cac_value = dvt_token t, cac_expiresAt = dvt_expiresAt t\<rparr>))"

definition backend_headers :: "string \<Rightarrow> string \<Rightarrow> (string \<times> string) list \<Rightarrow> headers" where
  "backend_headers token apiKey extra =
     [''authorization'' \<mapsto> HOne (''Bearer '' @ token), ''x-platform-api-key'' \<mapsto> HOne apiKey,
      ''content-type'' \<mapsto> HOne ''application/json''] ++ map_of (map (map_prod id HOne) extra)"

definition backendFetch ::
  "portal_env \<Rightarrow> int \<Rightarrow> dev_token reply \<Rightarrow> 'b backend \<Rightarrow> string \<Rightarrow> (string \<times> string) list \<Rightarrow> string option \<Rightarrow>
   CachedToken option \<Rightarrow> 'b reply \<times> CachedToken option" where
  "backendFetch env now tokenReply call path extra supplied cache =
     (if \<not> truthy_opt (ptl_apiKey env) then
        (Inl (PlainErr ''PLATFORM_API_KEY is required by the portal server''), cache)
      else case actorToken env now tokenReply supplied cache of
          (Inl err, cache') \<Rightarrow> (Inl err, cache')
        | (Inr token, cache') \<Rightarrow> (call path (backend_headers token (the (ptl_apiKey env)) extra), cache'))"

section \<open>The routes\<close>

fun exn_message :: "exn \<Rightarrow> string" where
  "exn_message (TypeErr s) = s"
| "exn_message (RangeErr s) = s"
| "exn_message (PlainErr s) = s"
| "exn_message (CodedErr s _) = s"
| "exn_message (QueryFailed s) = s"
| "exn_message (BadRequestException s) = s"
| "exn_message (UnauthorizedException s) = s"
| "exn_message (ForbiddenException s) = s"
| "exn_message (NotFoundException s) = s"
| "exn_message (ConflictException s) = s"
| "exn_message (ServiceUnavailableException s) = s"

datatype 'b portal_answer = Forwarded int 'b | PortalError int string

definition forward :: "'b reply \<Rightarrow> 'b portal_answer" where
  "forward r = (case r of Inl err \<Rightarrow> PortalError 503 (exn_message err) | Inr (status, body) \<Rightarrow> Forwarded status body)"

text \<open>\<open>GET\<close> of invoices, stores, payments, audit events and the operations summary.\<close>

definition portal_get ::
  "portal_env \<Rightarrow> int \<Rightarrow> dev_token reply \<Rightarrow> 'b backend \<Rightarrow> string \<Rightarrow> string option \<Rightarrow> CachedToken option \<Rightarrow>
   'b portal_answer \<times> CachedToken option" where
  "portal_get env now tokenReply call path supplied cache =
     (case backendFetch env now tokenReply call path [] supplied cache of (r, cache') \<Rightarrow> (forward r, cache'))"

definition invoices_route ::
  "portal_env \<Rightarrow> int \<Rightarrow> dev_token reply \<Rightarrow> 'b backend \<Rightarrow> string option \<Rightarrow> CachedToken option \<Rightarrow>
   'b portal_answer \<times> CachedToken option" where
  "invoices_route env now tokenReply call = portal_get env now tokenReply call ''/v1/invoices?limit=20''"

definition stores_route ::
  "portal_env \<Rightarrow> int \<Rightarrow> dev_token reply \<Rightarrow> 'b backend \<Rightarrow> string option \<Rightarrow> CachedToken option \<Rightarrow>
   'b portal_answer \<times> CachedToken option" where
  "stores_route env now tokenReply call = portal_get env now tokenReply call ''/v1/stores''"

definition payments_route ::
  "portal_env \<Rightarrow> int \<Rightarrow> dev_token reply \<Rightarrow> 'b backend \<Rightarrow> string option \<Rightarrow> CachedToken option \<Rightarrow>
   'b portal_answer \<times> CachedToken option" where
  "payments_route env now tokenReply call = portal_get env now tokenReply call ''/v1/payments?limit=20''"

definition audit_route ::
  "portal_env \<Rightarrow> int \<Rightarrow> dev_token reply \<Rightarrow> 'b backend \<Rightarrow> string option \<Rightarrow> CachedToken option \<Rightarrow>
   'b portal_answer \<times> CachedToken option" where
  "audit_route env now tokenReply call = portal_get env now tokenReply call ''/v1/audit-events?limit=20''"

definition ops_route ::
  "portal_env \<Rightarrow> int \<Rightarrow> dev_token reply \<Rightarrow> 'b backend \<Rightarrow> string option \<Rightarrow> CachedToken option \<Rightarrow>
   'b portal_answer \<times> CachedToken option" where
  "ops_route env now tokenReply call = portal_get env now tokenReply call ''/v1/ops/summary''"

text \<open>\<open>POST\<close> of an invoice: the browser's origin, the idempotency key, a fresh UUID.\<close>

definition portal_create ::
  "portal_env \<Rightarrow> int \<Rightarrow> dev_token reply \<Rightarrow> 'b backend \<Rightarrow> string option \<Rightarrow> string \<Rightarrow> string option \<Rightarrow>
   string \<Rightarrow> string option \<Rightarrow> CachedToken option \<Rightarrow> 'b portal_answer \<times> CachedToken option" where
  "portal_create env now tokenReply call origin ownOrigin idempotencyKey fresh supplied cache =
     (if truthy_opt origin \<and> the origin \<noteq> ownOrigin then (PortalError 403 ''Cross-origin request rejected'', cache)
      else case backendFetch env now tokenReply call ''/v1/invoices''
          [(''idempotency-key'', case idempotencyKey of Some k \<Rightarrow> k | None \<Rightarrow> ''portal:'' @ fresh)] supplied cache of
        (r, cache') \<Rightarrow> (forward r, cache'))"

section \<open>The alert receiver\<close>

text \<open>\<open>replace(/^Bearer\s+/i, "")\<close>\<close>

definition strip_bearer :: "string \<Rightarrow> string" where
  "strip_bearer s =
     (if js_lower (take 6 s) = ''bearer'' \<and> drop 6 s \<noteq> [] \<and> is_space (hd (drop 6 s))
      then dropWhile is_space (drop 6 s) else s)"

text \<open>\<open>equal\<close> compares digests.\<close>

definition equal_digests :: "(char list \<Rightarrow> char list) \<Rightarrow> string \<Rightarrow> string \<Rightarrow> bool" where
  "equal_digests sha256 left right \<longleftrightarrow> sha256 (utf8 left) = sha256 (utf8 right)"

definition alert_authorized :: "(char list \<Rightarrow> char list) \<Rightarrow> string option \<Rightarrow> string option \<Rightarrow> bool" where
  "alert_authorized sha256 expected authorization \<longleftrightarrow>
     truthy_opt expected \<and>
     equal_digests sha256 (case authorization of None \<Rightarrow> [] | Some a \<Rightarrow> strip_bearer a) (the expected)"

datatype alert_answer = AlertAccepted | AlertUnauthorized

definition alerts_post :: "(char list \<Rightarrow> char list) \<Rightarrow> string option \<Rightarrow> string option \<Rightarrow> alert_answer" where
  "alerts_post sha256 expected authorization =
     (if alert_authorized sha256 expected authorization then AlertAccepted else AlertUnauthorized)"

section \<open>The page\<close>

text \<open>\<open>age\<close>: the time since a date, where \<open>new Date\<close> reads it.\<close>

definition age_text :: "int \<Rightarrow> int option \<Rightarrow> string" where
  "age_text now value =
     (case value of
        None \<Rightarrow> ''No backlog''
      | Some t \<Rightarrow>
          (let seconds = max 0 (num_int (js_round (js_div (js_sub (JInt now) (JInt t)) (JInt 1000))))
           in if seconds < 60 then show_int seconds @ ''s''
              else show_int (num_int (js_round (js_div (JInt seconds) (JInt 60)))) @ ''m''))"

record 'b page_state =
  pg_data :: "'b list"
  pg_loading :: bool
  pg_submitting :: bool
  pg_error :: "string option"

text \<open>
  \<open>refresh\<close>: a call may be rejected, a status may not be a success, a body may not be readable. The five
  answers are read and shown one after the other, so those before an unreadable body are shown.
\<close>

fun show_bodies :: "nat \<Rightarrow> (exn + 'b) list \<Rightarrow> 'b list \<Rightarrow> exn option \<times> 'b list" where
  "show_bodies i [] shown = (None, shown)"
| "show_bodies i (Inl err # rs) shown = (Some err, shown)"
| "show_bodies i (Inr body # rs) shown = show_bodies (Suc i) rs (shown[i := body])"

definition refresh :: "exn + (int \<times> (exn + 'b)) list \<Rightarrow> 'b page_state \<Rightarrow> 'b page_state" where
  "refresh replies p =
     (let (err, shown) = (case replies of
              Inl err \<Rightarrow> (Some err, pg_data p)
            | Inr rs \<Rightarrow> if list_all (\<lambda>(status, _). reply_ok status) rs then show_bodies 0 (map snd rs) (pg_data p)
                else (Some (PlainErr ''Operations data is unavailable''), pg_data p))
      in p\<lparr>pg_data := shown, pg_error := map_option exn_message err, pg_loading := False\<rparr>)"

text \<open>The request body of the form; a number that is not finite becomes \<open>null\<close>.\<close>

definition json_number :: "string \<Rightarrow> jval" where
  "json_number s = (case js_number s of Fin r \<Rightarrow> JvNum (Fin r) | _ \<Rightarrow> JvNull)"

definition json_text :: "string \<Rightarrow> jval" where
  "json_text s = JvText (map code s)"

definition invoice_form_body :: "(string \<Rightarrow> string) \<Rightarrow> jval" where
  "invoice_form_body form = JvObj (map (\<lambda>(k, v). (map code k, v))
     [(''storeId'', json_text (form ''storeId'')), (''customerName'', json_text (form ''customerName'')),
      (''customerContact'', json_text (form ''customerContact'')), (''currency'', json_text ''INR''),
      (''discountMinor'', json_number (form ''discountMinor'')),
      (''taxRateBasisPoints'', json_number (form ''taxRateBasisPoints'')),
      (''items'', JvList [JvObj (map (\<lambda>(k, v). (map code k, v))
         [(''description'', json_text (form ''description'')), (''quantity'', json_number (form ''quantity'')),
          (''unitPriceMinor'', json_number (form ''unitPriceMinor''))])])])"

definition issue_error :: "string option \<Rightarrow> string option \<Rightarrow> string" where
  "issue_error message error =
     (case message of Some m \<Rightarrow> m | None \<Rightarrow> (case error of Some e \<Rightarrow> e | None \<Rightarrow> ''Invoice could not be issued''))"

text \<open>
  \<open>issueInvoice\<close>: the answer's body has the error texts. \<open>formLeft\<close> tells whether the event still has its
  form when the answer is in; the browser clears \<open>currentTarget\<close> once the event was dispatched, which is
  before. The first part of the result is an exception nobody catches; the state is the one it leaves.
\<close>

definition issueInvoice ::
  "bool \<Rightarrow> (exn + int \<times> string option \<times> string option) \<Rightarrow> exn + (int \<times> (exn + 'b)) list \<Rightarrow> 'b page_state \<Rightarrow> exn option \<times> 'b page_state" where
  "issueInvoice formLeft response replies p =
     (let p1 = p\<lparr>pg_submitting := True\<rparr>
      in case response of
           Inl err \<Rightarrow> (Some err, p1)
         | Inr (status, message, error) \<Rightarrow>
             if \<not> reply_ok status then (None, p1\<lparr>pg_error := Some (issue_error message error), pg_submitting := False\<rparr>)
             else if \<not> formLeft then (Some (TypeErr ''Cannot read properties of null''), p1)
             else (None, (refresh replies (p1\<lparr>pg_loading := True\<rparr>))\<lparr>pg_submitting := False\<rparr>))"

section \<open>The tokens the portal uses\<close>

text \<open>The cached token is one the API issued.\<close>

definition cache_issued :: "(string \<Rightarrow> char list \<Rightarrow> char list) \<Rightarrow> ApiConfig \<Rightarrow> CachedToken option \<Rightarrow> bool" where
  "cache_issued hmac config cache \<longleftrightarrow>
     (case cache of None \<Rightarrow> True
      | Some c \<Rightarrow> \<exists>issued t. devToken hmac config issued = Inr t \<and> cac_value c = dvt_token t \<and>
          cac_expiresAt c = dvt_expiresAt t)"

lemma actorToken_cases:
  assumes "actorToken env now tokenReply supplied cache = (Inr token, cache')" and "\<not> truthy_opt supplied"
  obtains (cached) c where "cache = Some c" and "cache' = cache" and "token = cac_value c" and "now + 60000 < cac_expiresAt c"
  | (fresh) status t where "tokenReply = Inr (status, t)" and "token = dvt_token t"
      and "reply_ok status" and "cache' = Some \<lparr>cac_value = dvt_token t, cac_expiresAt = dvt_expiresAt t\<rparr>"
  using assms by (auto simp: actorToken_def split: if_splits option.splits sum.splits)

lemma dev_token_lasts:
  assumes "devToken hmac config issued = Inr t"
  shows "issued + 28799000 < dvt_expiresAt t"
proof -
  have "dvt_expiresAt t = (issued div 1000 + 28800) * 1000"
    using assms by (auto simp: devToken_def Let_def res_simps split: if_splits option.splits)
  then show ?thesis
    using div_mult_mod_eq [of issued 1000] pos_mod_bound [of 1000 issued] by simp
qed

text \<open>The portal's own token always works: outside production, without a session, the request the portal sends
  to the API passes the guard of every route, whether the token was cached or just requested, as long as the API's
  clock is at most a minute ahead of the portal's and a requested token is used within its first 7 hours 59
  minutes; and the cache keeps holding a token the API issued.\<close>

theorem portal_token_accepted:
  assumes "backendFetch env now tokenReply (\<lambda>path hs. Inr (200, hs)) path [] None cache = (Inr (status, hs), cache')"
    and "cache_issued hmac config cache" and digest: "\<And>m k. hmac k m \<noteq> []"
    and issued: "\<And>status t. tokenReply = Inr (status, t) \<Longrightarrow> reply_ok status \<Longrightarrow>
      \<exists>issued. devToken hmac config issued = Inr t \<and> now' \<le> issued + 28740000"
    and "ptl_apiKey env = Some (cfg_platformApiKey config)" and "now' \<le> now + 60000"
  shows "cache_issued hmac config cache' \<and>
    (\<exists>actor. canActivate hmac sha256 jwtVerify config now' (decorators r) hs = Inr actor)"
proof -
  from assms(1,5) obtain token where tok: "actorToken env now tokenReply None cache = (Inr token, cache')"
    and hs: "hs = backend_headers token (cfg_platformApiKey config) []"
    by (auto simp: backendFetch_def split: prod.splits sum.splits if_splits)
  have guard: "\<exists>actor. canActivate hmac sha256 jwtVerify config now' (decorators r) hs = Inr actor"
    if "devToken hmac config i = Inr t" "token = dvt_token t" "now' < dvt_expiresAt t" for i t
  proof -
    have "header (hs ''x-platform-api-key'') = cfg_platformApiKey config"
      and "header (hs ''authorization'') = ''Bearer '' @ dvt_token t"
      using that(2) by (simp_all add: hs backend_headers_def header_def)
    from dev_token_routes [OF that(1) digest this] that(3) show ?thesis by (simp split: if_splits)
  qed
  have "\<not> truthy_opt None" by (simp add: truthy_opt_def)
  with tok show ?thesis
  proof (cases rule: actorToken_cases)
    case (cached c)
    with assms(2) obtain i t where "devToken hmac config i = Inr t" "token = dvt_token t" "cac_expiresAt c = dvt_expiresAt t"
      by (auto simp: cache_issued_def)
    with guard cached assms(2,6) show ?thesis by fastforce
  next
    case (fresh st t)
    from issued [OF fresh(1,3)] obtain i where d: "devToken hmac config i = Inr t" "now' \<le> i + 28740000" by blast
    with dev_token_lasts [OF d(1)] have "now' < dvt_expiresAt t" by simp
    with guard [OF d(1) fresh(2)] d(1) fresh(4) show ?thesis by (auto simp: cache_issued_def)
  qed
qed

definition sample_portal :: portal_env where
  "sample_portal = \<lparr>ptl_apiKey = Some ''local-platform-key'', ptl_nodeEnv = Some ''development''\<rparr>"

theorem portal_token_accepted_witness:
  "\<exists>t hs cache. backendFetch sample_portal 1500 (Inr (201, t)) (\<lambda>path hs. Inr (200, hs)) ''/v1/ops/summary'' [] None None = (Inr (200, hs), cache) \<and>
     cache_issued sample_hmac dev_config cache \<and>
     (\<exists>actor. canActivate sample_hmac sample_hash (\<lambda>_ _ _ _. Inl (PlainErr [])) dev_config 2000
        (decorators OpsSummary) hs = Inr actor)"
proof -
  obtain t where t: "devToken sample_hmac dev_config 1000 = Inr t" using dev_token_issued by blast
  obtain hs cache where f: "backendFetch sample_portal 1500 (Inr (201, t)) (\<lambda>path hs. Inr (200, hs)) ''/v1/ops/summary'' [] None None
      = (Inr (200, hs), cache)"
    by (auto simp: backendFetch_def actorToken_def sample_portal_def truthy_opt_def reply_ok_def)
  have "cache_issued sample_hmac dev_config cache \<and>
      (\<exists>actor. canActivate sample_hmac sample_hash (\<lambda>_ _ _ _. Inl (PlainErr [])) dev_config 2000
        (decorators OpsSummary) hs = Inr actor)"
    by (rule portal_token_accepted [OF f])
      (use t in \<open>auto simp: cache_issued_def sample_hmac_def sample_portal_def dev_config_def\<close>)
  with f show ?thesis by blast
qed

end
