(* ===== verification/PortalApi.thy ===== *)
theory PortalApi
  imports Portal HttpLog
begin

text \<open>
  The portal in front of the API: the backend of the portal's calls is the API's \<open>serve\<close> on a database, for
  the paths the portal reads and for the token it asks for.
\<close>

section \<open>The API as a backend\<close>

definition portal_paths :: "string \<Rightarrow> (route \<times> string option) option" where
  "portal_paths = map_of
     [(''/v1/invoices?limit=20'', (ListInvoices, Some ''20'')), (''/v1/stores'', (ListStores, None)),
      (''/v1/payments?limit=20'', (ListPayments, Some ''20'')), (''/v1/audit-events?limit=20'', (ListAudit, Some ''20'')),
      (''/v1/ops/summary'', (OpsSummary, None))]"

definition plain_request :: "route \<Rightarrow> string option \<Rightarrow> headers \<Rightarrow> request" where
  "plain_request r limit hs = \<lparr>rq_route = r, rq_headers = hs, rq_limit = limit, rq_invoiceId = [], rq_provider = [],
     rq_rawBody = None, rq_body = NoBody\<rparr>"

definition api_backend ::
  "runtime \<Rightarrow> ApiConfig \<Rightarrow> int \<Rightarrow> string \<Rightarrow> env \<Rightarrow> database \<Rightarrow> (exn + answer) backend" where
  "api_backend rt config now fresh e d path hs =
     (case portal_paths path of
        None \<Rightarrow> Inr (404, Inl (NotFoundException path))
      | Some (r, limit) \<Rightarrow>
          let res = fst (serve rt config now fresh e (plain_request r limit hs) d)
          in Inr (response_status r res, res))"

text \<open>The call of the token route; a failure is the exception the portal makes of it.\<close>

definition api_token_reply ::
  "runtime \<Rightarrow> ApiConfig \<Rightarrow> int \<Rightarrow> string \<Rightarrow> env \<Rightarrow> database \<Rightarrow> string \<Rightarrow> dev_token reply" where
  "api_token_reply rt config now fresh e d apiKey =
     (case fst (serve rt config now fresh e (plain_request DevToken None [''x-platform-api-key'' \<mapsto> HOne apiKey]) d) of
        Inr (TokenAnswer t) \<Rightarrow> Inr (201, t)
      | Inr _ \<Rightarrow> Inl (PlainErr ''Unexpected answer'')
      | Inl err \<Rightarrow> Inl (PlainErr (''Development actor token request failed: '' @ show_int (exn_status err))))"

section \<open>What the portal shows\<close>

definition local_portal :: "ApiConfig \<Rightarrow> portal_env \<Rightarrow> bool" where
  "local_portal config env \<longleftrightarrow> cfg_nodeEnv config \<noteq> ''production'' \<and> ptl_nodeEnv env \<noteq> Some ''production'' \<and>
     (\<exists>secret. cfg_actorTokenSecret config = Some secret \<and> 32 \<le> length secret) \<and>
     cfg_platformApiKey config \<noteq> [] \<and> ptl_apiKey env = Some (cfg_platformApiKey config)"

lemma devToken_issues:
  assumes "cfg_nodeEnv config \<noteq> ''production''" and "cfg_actorTokenSecret config = Some secret" and "32 \<le> length secret"
    and "0 \<le> now" and "now < 2 ^ 52"
  obtains t where "devToken hmac config now = Inr t" and "now < dvt_expiresAt t"
proof -
  let ?e = "now div 1000 + 28800"
  have "now div 1000 \<le> now" "0 \<le> now div 1000"
    using assms(4) pos_imp_zdiv_nonneg_iff [of 1000 now] div_mult_mod_eq [of now 1000] pos_mod_sign [of 1000 now]
    by linarith+
  then have e: "1 \<le> ?e" "?e \<le> max_safe"
    using assms(4,5) by (simp_all add: max_safe_def)
  have "\<exists>tok. createActorToken hmac (dev_payload ?e) secret = Inr tok"
    using dev_payload_ok(2) [OF e] assms(3) unfolding createActorToken_Inr by simp
  then obtain t where "devToken hmac config now = Inr t"
    using assms(1,2) by (auto simp: devToken_def Let_def)
  with dev_token_lasts [OF this] that show ?thesis by simp
qed

lemma token_reply:
  assumes "api_token_reply rt config now fresh e d apiKey = Inr (status, t)"
  shows "devToken (rt_hmac rt) config (clock e 0) = Inr t"
proof -
  let ?rq = "plain_request DevToken None [''x-platform-api-key'' \<mapsto> HOne apiKey]"
  obtain res d' ms where s: "serve rt config now fresh e ?rq d = (res, d', ms)" by (cases "serve rt config now fresh e ?rq d")
  have r: "rq_route ?rq = DevToken" by (simp add: plain_request_def)
  from s show ?thesis
  proof (cases rule: serve_cases)
    case (public requestId)
    with assms s r show ?thesis
      by (auto simp: api_token_reply_def answered_def res_simps split: sum.splits answer.splits)
  next
    case (actor requestId a)
    with assms s r show ?thesis by (auto simp: api_token_reply_def split: sum.splits answer.splits)
  qed (use assms s in \<open>auto simp: api_token_reply_def split: sum.splits answer.splits\<close>)
qed

lemma token_answered:
  assumes "devToken (rt_hmac rt) config (clock e 0) = Inr t"
  shows "api_token_reply rt config now fresh e d (cfg_platformApiKey config) = Inr (201, t)"
proof -
  let ?rq = "plain_request DevToken None [''x-platform-api-key'' \<mapsto> HOne (cfg_platformApiKey config)]"
  have "canActivate (rt_hmac rt) (rt_sha256 rt) (rt_jwtVerify rt) config now (decorators DevToken) (rq_headers ?rq) = Inr None"
    by (simp add: canActivate_def constantTimeEqual_def platform_route_def header_def plain_request_def)
  then show ?thesis
    using assms by (simp add: api_token_reply_def serve_def Let_def answered_def) (simp add: plain_request_def answered_def assms)
qed

lemma portal_token:
  assumes "local_portal config env" and "cache_issued (rt_hmac rt) config cache"
    and "0 \<le> clock e 0" and "clock e 0 < 2 ^ 52" and "clock e 0 \<le> now + 60000"
  obtains t i cache' where "actorToken env now (api_token_reply rt config (clock e 0) fresh e d (cfg_platformApiKey config))
      None cache = (Inr (dvt_token t), cache')"
    and "devToken (rt_hmac rt) config i = Inr t" and "clock e 0 < dvt_expiresAt t"
    and "cache_issued (rt_hmac rt) config cache'"
proof -
  from assms(1) obtain secret where dev: "cfg_nodeEnv config \<noteq> ''production''" "ptl_nodeEnv env \<noteq> Some ''production''"
    and "cfg_actorTokenSecret config = Some secret" "32 \<le> length secret"
    by (auto simp: local_portal_def)
  then obtain t where t: "devToken (rt_hmac rt) config (clock e 0) = Inr t" "clock e 0 < dvt_expiresAt t"
    using devToken_issues assms(3,4) by blast
  show thesis
  proof (cases "case cache of Some c \<Rightarrow> now + 60000 < cac_expiresAt c | None \<Rightarrow> False")
    case True
    then obtain c where c: "cache = Some c" "now + 60000 < cac_expiresAt c" by (auto split: option.splits)
    with assms(2) obtain i t' where "devToken (rt_hmac rt) config i = Inr t'" "cac_value c = dvt_token t'"
      "cac_expiresAt c = dvt_expiresAt t'" by (auto simp: cache_issued_def)
    with that [of t' cache i] c dev(2) assms(2,5) show thesis by (simp add: actorToken_def truthy_opt_def)
  next
    case False
    with that [of t _ "clock e 0"] t dev(2) token_answered [OF t(1)] show thesis
      by (auto simp: actorToken_def truthy_opt_def reply_ok_def cache_issued_def)
  qed
qed

lemma portal_reads:
  assumes "local_portal config env" and digest: "\<And>m k. rt_hmac rt k m \<noteq> []"
    and "actorToken env now tokenReply None cache = (Inr (dvt_token t), cache')"
    and t: "devToken (rt_hmac rt) config i = Inr t" and "clock e 0 < dvt_expiresAt t"
    and path: "portal_paths path = Some (r, limit)"
  shows "portal_get env now tokenReply (api_backend rt config (clock e 0) fresh e d) path None cache =
    (let res = fst (actor_routes rt config e fresh (actor_of (value_of (dev_payload (dvt_expiresAt t div 1000))))
        (plain_request r limit (backend_headers (dvt_token t) (cfg_platformApiKey config) [])) d r)
     in (Forwarded (response_status r res) res, cache'))"
proof -
  let ?hs = "backend_headers (dvt_token t) (cfg_platformApiKey config) []"
  let ?rq = "plain_request r limit ?hs"
  have key: "ptl_apiKey env = Some (cfg_platformApiKey config)" "cfg_platformApiKey config \<noteq> []"
    using assms(1) by (auto simp: local_portal_def)
  have h: "header (?hs ''x-platform-api-key'') = cfg_platformApiKey config" "header (?hs ''authorization'') = ''Bearer '' @ dvt_token t"
    "?hs ''x-request-id'' = None"
    by (simp_all add: backend_headers_def header_def)
  have "r \<in> {ListInvoices, ListStores, ListPayments, ListAudit, OpsSummary}"
    using path by (auto simp: portal_paths_def split: if_splits)
  then have "meta_requiredRoles (decorators r) \<noteq> []" by (auto simp: role_route_def)
  from dev_token_guard [OF t digest h(1,2) this, of "rt_sha256 rt" "rt_jwtVerify rt" "clock e 0"] assms(5)
  have "canActivate (rt_hmac rt) (rt_sha256 rt) (rt_jwtVerify rt) config (clock e 0) (decorators (rq_route ?rq)) (rq_headers ?rq)
      = Inr (Some (value_of (dev_payload (dvt_expiresAt t div 1000))))"
    by (simp add: plain_request_def)
  moreover have "request_identifier (text_header ?rq ''x-request-id'') fresh = fresh"
    using h(3) by (simp add: request_identifier_def text_header_def plain_request_def)
  moreover have "rq_route ?rq = r" by (simp add: plain_request_def)
  ultimately have "serve rt config (clock e 0) fresh e ?rq d = actor_routes rt config e fresh
      (actor_of (value_of (dev_payload (dvt_expiresAt t div 1000)))) ?rq d r"
    by (simp add: serve_def Let_def)
  then show ?thesis
    using assms(3) key path
    by (simp add: portal_get_def backendFetch_def truthy_opt_def forward_def api_backend_def Let_def)
qed

lemma dev_actor_merchant:
  "act_actorMerchantId (actor_of (value_of (dev_payload x))) = ''00000000-0000-4000-8000-000000000001''"
  by (simp add: actor_of_def dev_payload_def property_of_def text_of_def) code_simp

text \<open>Outside production the portal works on its own: without a session, whatever development token it has
  cached, and none at first, each of its five reading routes is answered with status 200 and what the API shows the
  development merchant in this database, the lists with at most twenty rows; and the cache again holds a token the
  API issued. The API's clock may be at most a minute ahead of the portal's.\<close>

theorem portal_shows_tenant:
  assumes "local_portal config env" and "\<And>m k. rt_hmac rt k m \<noteq> []" and "\<And>n. rt_limit_of rt n (Some ''20'') = Some 20"
    and "cache_issued (rt_hmac rt) config cache"
    and "0 \<le> clock e 0" and "clock e 0 < 2 ^ 52" and "clock e 0 \<le> now + 60000"
    and reply: "reply = api_token_reply rt config (clock e 0) fresh e d (cfg_platformApiKey config)"
    and api: "api = api_backend rt config (clock e 0) fresh e d"
  shows "\<exists>actor cache'. act_actorMerchantId actor = ''00000000-0000-4000-8000-000000000001'' \<and>
    cache_issued (rt_hmac rt) config cache' \<and>
    invoices_route env now reply api None cache = (Forwarded 200 (Inr (InvoicesAnswer (list_invoices d actor 20))), cache') \<and>
    stores_route env now reply api None cache = (Forwarded 200 (Inr (StoresAnswer (listStores d actor))), cache') \<and>
    payments_route env now reply api None cache = (Forwarded 200 (Inr (PaymentsAnswer (payment_list d actor 20))), cache') \<and>
    audit_route env now reply api None cache = (Forwarded 200 (Inr (AuditAnswer (audit_list d actor 20))), cache') \<and>
    ops_route env now reply api None cache =
      (Forwarded 200 (Inr (SummaryAnswer (ops_summary_of config (clock e 0) d actor))), cache')"
proof -
  from assms(1,4,5,6,7) obtain t i cache' where tok: "actorToken env now reply None cache = (Inr (dvt_token t), cache')"
    and t: "devToken (rt_hmac rt) config i = Inr t" "clock e 0 < dvt_expiresAt t"
    and c: "cache_issued (rt_hmac rt) config cache'"
    unfolding reply by (rule portal_token)
  note reads = portal_reads [OF assms(1,2) tok t, where fresh = fresh and d = d, folded api]
  have page: "page_limit rt n (plain_request r (Some ''20'') hs) = Inr 20" for n r hs
    by (simp add: page_limit_def plain_request_def assms(3))
  show ?thesis
    by (intro exI [of _ "actor_of (value_of (dev_payload (dvt_expiresAt t div 1000)))"] exI [of _ cache'])
      (simp add: invoices_route_def stores_route_def payments_route_def audit_route_def ops_route_def reads portal_paths_def
        c dev_actor_merchant Let_def route_defs answered_def page response_status_def)
qed

definition portal_runtime :: runtime where
  "portal_runtime = sample_runtime\<lparr>rt_limit_of := (\<lambda>_ _. Some 20)\<rparr>"

theorem portal_shows_tenant_witness:
  "\<exists>actor cache'. length (list_invoices tenant_db actor 20) = 1 \<and>
    invoices_route sample_portal 1500
      (api_token_reply portal_runtime dev_config 1000 ''req-0001'' (sample_env 8) tenant_db (cfg_platformApiKey dev_config))
      (api_backend portal_runtime dev_config 1000 ''req-0001'' (sample_env 8) tenant_db) None None =
     (Forwarded 200 (Inr (InvoicesAnswer (list_invoices tenant_db actor 20))), cache')"
proof -
  have l: "local_portal dev_config sample_portal"
    by (simp add: local_portal_def dev_config_def sample_portal_def sample_secret_def)
  have rt: "rt_hmac portal_runtime k m \<noteq> []" "rt_limit_of portal_runtime n (Some ''20'') = Some 20" for k m n
    by (simp_all add: portal_runtime_def sample_runtime_def sample_hmac_def)
  have c: "cache_issued (rt_hmac portal_runtime) dev_config None" by (simp add: cache_issued_def)
  have k: "clock (sample_env 8) 0 = 1000" by (simp add: sample_env_def)
  have n: "length (list_invoices tenant_db dev_actor 20) = 1" by code_simp
  have same: "list_invoices tenant_db actor 20 = list_invoices tenant_db dev_actor 20"
    if "act_actorMerchantId actor = ''00000000-0000-4000-8000-000000000001''" for actor
    using that by (simp add: list_invoices_def dev_actor_def dev_actor_merchant)
  have t: "0 \<le> clock (sample_env 8) 0" "clock (sample_env 8) 0 < 2 ^ 52" "clock (sample_env 8) 0 \<le> 1500 + 60000"
    by (simp_all add: k)
  from portal_shows_tenant [OF l rt c t refl refl, of "''req-0001''" tenant_db] n same
  show ?thesis unfolding k by fastforce
qed

end
