(* ===== verification/Migration.thy ===== *)
theory Migration
  imports StableJson Config "HOL-Library.Sublist"
begin

text \<open>
  The migration runner, \<open>scripts/migrate.mjs\<close>: it takes the scripts of a directory in name order, checks the
  recorded checksum of those that were applied, and applies and records the others. What a script does to the
  schema is a parameter: the schema it leaves and, where a statement fails, the exception; statements that
  define tables are not undone. So is which other calls of the database and the file system fail. Also the loop
  that connects, and the application's database user. That closing the connection fails is left out.
\<close>

section \<open>The files\<close>

text \<open>\<open>/^\d+.*\.sql$/\<close>; the dot takes no line terminator.\<close>

definition migration_file :: "string \<Rightarrow> bool" where
  "migration_file name \<longleftrightarrow>
     5 \<le> length name \<and> is_digit (hd name) \<and> drop (length name - 4) name = ''.sql'' \<and>
     list_all (\<lambda>c. code c \<noteq> 10 \<and> code c \<noteq> 13) name"

text \<open>The directory's files with their texts, in the order of \<open>sort()\<close>.\<close>

definition migration_files :: "(string \<times> string) list \<Rightarrow> (string \<times> string) list" where
  "migration_files directory = sort_key fst (filter (\<lambda>f. migration_file (fst f)) directory)"

section \<open>Applying\<close>

record 's migrated =
  mig_schema :: 's
  mig_records :: "(string \<times> string) list"

type_synonym 's script_effect = "string \<Rightarrow> 's \<Rightarrow> exn option \<times> 's"

text \<open>Names are compared by the collation of the table, which need not tell all names apart.\<close>

definition recorded :: "(string \<Rightarrow> string) \<Rightarrow> 's migrated \<Rightarrow> string \<Rightarrow> string option" where
  "recorded collate s name = map_of (map (map_prod collate id) (mig_records s)) (collate name)"

definition checksum :: "(char list \<Rightarrow> char list) \<Rightarrow> string \<Rightarrow> string" where
  "checksum sha256 sql = sha256_hex sha256 sql"

text \<open>The calls that can fail beside the scripts themselves, and the first of some calls that does.\<close>

datatype migration_call =
  GetLock | CreateTable | ReadDirectory | ReadScript string | SelectChecksum string | InsertRecord string

fun first_failure :: "('c \<Rightarrow> exn option) \<Rightarrow> 'c list \<Rightarrow> exn option" where
  "first_failure fails [] = None"
| "first_failure fails (c # cs) = (case fails c of Some err \<Rightarrow> Some err | None \<Rightarrow> first_failure fails cs)"

fun migrate_files ::
  "(string \<Rightarrow> string) \<Rightarrow> (char list \<Rightarrow> char list) \<Rightarrow> 's script_effect \<Rightarrow> (migration_call \<Rightarrow> exn option) \<Rightarrow>
   (string \<times> string) list \<Rightarrow> 's migrated \<Rightarrow> exn option \<times> 's migrated" where
  "migrate_files collate sha256 run fails [] s = (None, s)"
| "migrate_files collate sha256 run fails ((file, sql) # files) s =
     (case first_failure fails [ReadScript file, SelectChecksum file] of
        Some err \<Rightarrow> (Some err, s)
      | None \<Rightarrow>
          (case recorded collate s file of
             Some stored \<Rightarrow>
               (if stored \<noteq> checksum sha256 sql
                then (Some (PlainErr (''Checksum drift detected for applied migration '' @ file)), s)
                else migrate_files collate sha256 run fails files s)
           | None \<Rightarrow>
               (case run sql (mig_schema s) of
                  (Some err, schema) \<Rightarrow> (Some err, s\<lparr>mig_schema := schema\<rparr>)
                | (None, schema) \<Rightarrow>
                    (case fails (InsertRecord file) of
                       Some err \<Rightarrow> (Some err, s\<lparr>mig_schema := schema\<rparr>)
                     | None \<Rightarrow> migrate_files collate sha256 run fails files
                         (s\<lparr>mig_schema := schema, mig_records := mig_records s @ [(file, checksum sha256 sql)]\<rparr>)))))"

definition migrate ::
  "(string \<Rightarrow> string) \<Rightarrow> (char list \<Rightarrow> char list) \<Rightarrow> 's script_effect \<Rightarrow> (migration_call \<Rightarrow> exn option) \<Rightarrow> int \<Rightarrow>
   (string \<times> string) list \<Rightarrow> 's migrated \<Rightarrow> exn option \<times> 's migrated" where
  "migrate collate sha256 run fails acquired directory s =
     (case fails GetLock of
        Some err \<Rightarrow> (Some err, s)
      | None \<Rightarrow>
          (if acquired \<noteq> 1 then (Some (PlainErr ''Could not acquire the database migration lock''), s)
           else case first_failure fails [CreateTable, ReadDirectory] of
               Some err \<Rightarrow> (Some err, s)
             | None \<Rightarrow> migrate_files collate sha256 run fails (migration_files directory) s))"

section \<open>Connecting\<close>

text \<open>\<open>connectWithRetry\<close>: what attempt \<open>i\<close> gives; the last error when sixty attempts fail.\<close>

fun attempts_from :: "nat \<Rightarrow> nat \<Rightarrow> (nat \<Rightarrow> exn + 'c) \<Rightarrow> exn \<Rightarrow> exn + 'c" where
  "attempts_from 0 i outcome lastError = Inl lastError"
| "attempts_from (Suc n) i outcome lastError =
     (case outcome i of Inr c \<Rightarrow> Inr c | Inl err \<Rightarrow> attempts_from n (i + 1) outcome err)"

definition connectWithRetry :: "(nat \<Rightarrow> exn + 'c) \<Rightarrow> exn + 'c" where
  "connectWithRetry outcome = attempts_from 60 1 outcome (PlainErr [])"

section \<open>The application's user\<close>

definition word_char :: "char \<Rightarrow> bool" where
  "word_char c \<longleftrightarrow> is_alnum c \<or> c = CHR ''_''"

text \<open>The statements the runner sends; \<open>escape\<close> quotes a value.\<close>

definition provisionApplicationUser :: "(string \<Rightarrow> string) \<Rightarrow> process_env \<Rightarrow> exn + string list" where
  "provisionApplicationUser escape env =
     (let user = env ''MYSQL_APP_USER''; password = env ''MYSQL_APP_PASSWORD''
      in if \<not> truthy_opt user \<and> \<not> truthy_opt password then Inr []
         else if \<not> truthy_opt user \<or> \<not> truthy_opt password \<or> \<not> class_between word_char 1 32 (the user)
         then Inl (PlainErr ''MYSQL_APP_USER and MYSQL_APP_PASSWORD must be supplied together with a safe username'')
         else
           bindE (required env ''MYSQL_DATABASE'') (\<lambda>database.
           bindE (guardE (class_between word_char 1 64 database) (PlainErr ''Unsafe MYSQL_DATABASE value'')) (\<lambda>_.
           let u = escape (the user) @ ''@'' @ [CHR 0x27, CHR 0x25, CHR 0x27]; p = escape (the password)
           in Inr
             [''CREATE USER IF NOT EXISTS '' @ u @ '' IDENTIFIED BY '' @ p,
              ''ALTER USER '' @ u @ '' IDENTIFIED BY '' @ p,
              ''GRANT SELECT, INSERT, UPDATE, DELETE ON '' @ [CHR 0x60] @ database @ [CHR 0x60] @ ''.* TO '' @ u])))"

text \<open>The statements sent before the first that fails, and its exception.\<close>

fun run_statements :: "(string \<Rightarrow> exn option) \<Rightarrow> string list \<Rightarrow> exn option \<times> string list" where
  "run_statements query [] = (None, [])"
| "run_statements query (q # qs) =
     (case query q of Some err \<Rightarrow> (Some err, [])
      | None \<Rightarrow> (case run_statements query qs of (err, sent) \<Rightarrow> (err, q # sent)))"

text \<open>The whole run, once it is connected: the migrations, then the application's user.\<close>

definition migrate_run ::
  "(string \<Rightarrow> string) \<Rightarrow> (char list \<Rightarrow> char list) \<Rightarrow> 's script_effect \<Rightarrow> (migration_call \<Rightarrow> exn option) \<Rightarrow>
   (string \<Rightarrow> string) \<Rightarrow> (string \<Rightarrow> exn option) \<Rightarrow> process_env \<Rightarrow> int \<Rightarrow> (string \<times> string) list \<Rightarrow> 's migrated \<Rightarrow> exn option \<times> 's migrated \<times> string list" where
  "migrate_run collate sha256 run fails escape query env acquired directory s =
     (case migrate collate sha256 run fails acquired directory s of
        (Some err, s') \<Rightarrow> (Some err, s', [])
      | (None, s') \<Rightarrow>
          (case provisionApplicationUser escape env of
             Inl err \<Rightarrow> (Some err, s', [])
           | Inr statements \<Rightarrow> (case run_statements query statements of (err, sent) \<Rightarrow> (err, s', sent))))"

section \<open>Each script runs once\<close>

definition recorded_all :: "(string \<Rightarrow> string) \<Rightarrow> (char list \<Rightarrow> char list) \<Rightarrow> (string \<times> string) list \<Rightarrow> 's migrated \<Rightarrow> bool" where
  "recorded_all collate sha256 files s \<longleftrightarrow>
     (\<forall>(file, sql) \<in> set files. recorded collate s file = Some (checksum sha256 sql))"

lemma recorded_append:
  "mig_records s' = mig_records s @ new \<Longrightarrow> recorded collate s' nm =
     (case recorded collate s nm of Some c \<Rightarrow> Some c
      | None \<Rightarrow> map_of (map (map_prod collate id) new) (collate nm))"
  by (simp add: recorded_def map_add_def)

lemma migrate_files_records:
  assumes "migrate_files collate sha256 run fails files s = (r, s')"
  shows "\<exists>new. mig_records s' = mig_records s @ new"
  using assms
  by (induction collate sha256 run fails files s rule: migrate_files.induct)
    (fastforce split: option.splits if_splits prod.splits)+

lemma migrate_files_keeps:
  assumes "migrate_files collate sha256 run fails files s = (r, s')" and "recorded collate s f = Some c"
  shows "recorded collate s' f = Some c"
  using migrate_files_records [OF assms(1)] assms(2) by (auto simp: recorded_append)

lemma migrate_files_recorded:
  assumes "migrate_files collate sha256 run fails files s = (None, s')"
  shows "recorded_all collate sha256 files s'"
  using assms
proof (induction files arbitrary: s)
  case (Cons f scripts)
  obtain script sql where f: "f = (script, sql)" by (cases f)
  note prems = Cons.prems [unfolded f]
  show ?case
  proof (cases "recorded collate s script")
    case None
    with prems obtain schema where
      m: "migrate_files collate sha256 run fails scripts
        (s\<lparr>mig_schema := schema, mig_records := mig_records s @ [(script, checksum sha256 sql)]\<rparr>) = (None, s')"
      by (auto split: prod.splits option.splits)
    have "recorded collate s' script = Some (checksum sha256 sql)"
      using None by (intro migrate_files_keeps [OF m]) (simp add: recorded_append [where new = "[_]"])
    with Cons.IH [OF m] show ?thesis by (simp add: recorded_all_def f)
  next
    case (Some c)
    with prems have c: "c = checksum sha256 sql" and m: "migrate_files collate sha256 run fails scripts s = (None, s')"
      by (auto split: if_splits option.splits)
    have "recorded collate s' script = Some c" using Some by (intro migrate_files_keeps [OF m])
    with Cons.IH [OF m] c show ?thesis by (simp add: recorded_all_def f)
  qed
qed (simp add: recorded_all_def)

lemma migrate_files_verified:
  "recorded_all collate sha256 files s \<Longrightarrow>
     snd (migrate_files collate sha256 run fails files s) = s \<and>
     ((\<forall>c. fails c = None) \<longrightarrow> fst (migrate_files collate sha256 run fails files s) = None)"
  by (induction files) (auto simp: recorded_all_def split: option.splits)

text \<open>
  A run from scratch: what the schema is after some scripts, that they all completed and were recorded, and
  that a script stops the run with an exception and leaves a schema.
\<close>

definition schema_after :: "'s script_effect \<Rightarrow> 's \<Rightarrow> (string \<times> string) list \<Rightarrow> 's" where
  "schema_after run t files = foldl (\<lambda>t (nm, sql). snd (run sql t)) t files"

fun completed :: "'s script_effect \<Rightarrow> (migration_call \<Rightarrow> exn option) \<Rightarrow> 's \<Rightarrow> (string \<times> string) list \<Rightarrow> bool" where
  "completed run fails t [] = True"
| "completed run fails t ((nm, sql) # files) \<longleftrightarrow>
     fst (run sql t) = None \<and> fails (InsertRecord nm) = None \<and> completed run fails (snd (run sql t)) files"

definition stopped_by ::
  "'s script_effect \<Rightarrow> (migration_call \<Rightarrow> exn option) \<Rightarrow> 's \<Rightarrow> string \<times> string \<Rightarrow> exn \<Rightarrow> 's \<Rightarrow> bool" where
  "stopped_by run fails t f err t' \<longleftrightarrow>
     first_failure fails [ReadScript (fst f), SelectChecksum (fst f)] = Some err \<and> t' = t \<or>
     run (snd f) t = (Some err, t') \<or>
     run (snd f) t = (None, t') \<and> fails (InsertRecord (fst f)) = Some err"

lemma schema_after_simps [simp]:
  "schema_after run t [] = t"
  "schema_after run t ((nm, sql) # files) = schema_after run (snd (run sql t)) files"
  by (simp_all add: schema_after_def)

lemma migrate_files_fresh:
  assumes "migrate_files collate sha256 run fails files s = (r, s')" and "distinct (map (collate \<circ> fst) files)"
    and "\<forall>(nm, sql) \<in> set files. recorded collate s nm = None"
  shows "\<exists>ran rest. files = ran @ rest \<and> completed run fails (mig_schema s) ran \<and>
    mig_records s' = mig_records s @ map (\<lambda>(nm, sql). (nm, checksum sha256 sql)) ran \<and>
    (case r of
       None \<Rightarrow> rest = [] \<and> mig_schema s' = schema_after run (mig_schema s) ran
     | Some err \<Rightarrow> \<exists>f later_files. rest = f # later_files \<and>
         stopped_by run fails (schema_after run (mig_schema s) ran) f err (mig_schema s'))"
  using assms
proof (induction files arbitrary: s)
  case (Cons f scripts)
  obtain script sql where f: "f = (script, sql)" by (cases f)
  from Cons.prems(3) have none: "recorded collate s script = None" by (simp add: f)
  obtain err schema where run: "run sql (mig_schema s) = (err, schema)" by fastforce
  show ?case
  proof (cases "first_failure fails [ReadScript script, SelectChecksum script] = None \<and> err = None \<and> fails (InsertRecord script) = None")
    case False
    with Cons.prems(1) none run obtain e where "r = Some e" "mig_records s' = mig_records s"
      "stopped_by run fails (mig_schema s) f e (mig_schema s')"
      by (auto simp: f stopped_by_def simp del: first_failure.simps dest: sym [of "Some _"] split: option.splits)
    then show ?thesis by (intro exI [of _ "[]"] exI [of _ "f # scripts"]) simp
  next
    case True
    let ?s = "s\<lparr>mig_schema := schema, mig_records := mig_records s @ [(script, checksum sha256 sql)]\<rparr>"
    have m: "migrate_files collate sha256 run fails scripts ?s = (r, s')"
      using Cons.prems(1) none run True by (simp add: f del: first_failure.simps)
    have fresh: "\<forall>(nm, sql) \<in> set scripts. recorded collate ?s nm = None"
      using Cons.prems(2,3) by (force simp: f recorded_append [where s' = ?s and new = "[_]"])
    have dist: "distinct (map (collate \<circ> fst) scripts)" using Cons.prems(2) by (simp add: o_def)
    from Cons.IH [OF m dist fresh] obtain ran rest where
      "scripts = ran @ rest \<and> completed run fails (mig_schema ?s) ran \<and>
      mig_records s' = mig_records ?s @ map (\<lambda>(nm, sql). (nm, checksum sha256 sql)) ran \<and>
      (case r of None \<Rightarrow> rest = [] \<and> mig_schema s' = schema_after run (mig_schema ?s) ran
       | Some err \<Rightarrow> \<exists>f later_files. rest = f # later_files \<and>
           stopped_by run fails (schema_after run (mig_schema ?s) ran) f err (mig_schema s'))"
      by blast
    then show ?thesis using run True by (cases r) (intro exI [of _ "f # ran"] exI [of _ rest]; simp add: f)+
  qed
qed simp

lemma distinct_migration_files:
  "distinct (map (collate \<circ> fst) directory) \<Longrightarrow> distinct (map (collate \<circ> fst) (migration_files directory))"
  by (auto simp: migration_files_def distinct_map intro: inj_on_subset)

text \<open>A changed script is noticed: the run fails, whatever else the directory holds.\<close>

lemma migrate_files_of:
  assumes "migrate collate sha256 run fails acquired directory s = (None, s')"
  shows "migrate_files collate sha256 run fails (migration_files directory) s = (None, s')"
  using assms by (auto simp: migrate_def simp del: first_failure.simps split: option.splits if_splits)

lemma migration_drift_detected:
  assumes "(nm, sql) \<in> set (migration_files directory)" and "recorded collate s nm = Some c"
    and "c \<noteq> checksum sha256 sql"
  shows "fst (migrate collate sha256 run fails acquired directory s) \<noteq> None"
proof
  assume none: "fst (migrate collate sha256 run fails acquired directory s) = None"
  then obtain s' where "migrate collate sha256 run fails acquired directory s = (None, s')"
    by (cases "migrate collate sha256 run fails acquired directory s") auto
  note m = migrate_files_of [OF this]
  from migrate_files_recorded [OF m] assms(1) have "recorded collate s' nm = Some (checksum sha256 sql)"
    by (auto simp: recorded_all_def)
  with migrate_files_keeps [OF m assms(2)] assms(3) show False by simp
qed

lemma migrate_again:
  assumes "recorded_all collate sha256 (migration_files directory) s"
  shows "snd (migrate collate sha256 run fails acquired directory s) = s"
    and "(\<forall>c. fails c = None) \<Longrightarrow> migrate collate sha256 run fails 1 directory s = (None, s)"
  using migrate_files_verified [OF assms, of run fails]
  by (auto simp: migrate_def split: option.splits intro: prod_eqI)

text \<open>C22: Migrations run once and in order: from a schema without records, a run works through the directory's
  scripts in name order and records exactly those that completed and whose record could be written. When it
  fails, it failed before the first script or at the first that is not recorded, and the schema is what the
  completed ones and that one left; when it succeeds, all are recorded. After that, whatever fails, another run changes
  nothing, it succeeds when nothing fails, and it fails when the text of a script has changed.\<close>

theorem migrations_run_once:
  assumes "migrate collate sha256 run fails 1 directory s = (r, s')"
    and "distinct (map (collate \<circ> fst) directory)" and "mig_records s = []"
  shows "(\<exists>ran rest. migration_files directory = ran @ rest \<and> completed run fails (mig_schema s) ran \<and>
      mig_records s' = map (\<lambda>(nm, sql). (nm, checksum sha256 sql)) ran \<and>
      (case r of
         None \<Rightarrow> rest = [] \<and> mig_schema s' = schema_after run (mig_schema s) ran
       | Some err \<Rightarrow> first_failure fails [GetLock, CreateTable, ReadDirectory] = Some err \<and> s' = s \<or>
           (\<exists>f later_files. rest = f # later_files \<and>
             stopped_by run fails (schema_after run (mig_schema s) ran) f err (mig_schema s')))) \<and>
    (r = None \<longrightarrow>
      snd (migrate collate sha256 run' fails' acquired directory s') = s' \<and>
      ((\<forall>c. fails' c = None) \<longrightarrow> migrate collate sha256 run' fails' 1 directory s' = (None, s')) \<and>
      (\<forall>(nm, sql) \<in> set (migration_files directory). \<forall>directory' sql'. (nm, sql') \<in> set (migration_files directory') \<and>
        checksum sha256 sql' \<noteq> checksum sha256 sql \<longrightarrow>
        fst (migrate collate sha256 run' fails' acquired directory' s') \<noteq> None))"
    (is "?first \<and> (_ \<longrightarrow> _)")
proof -
  let ?files = "migration_files directory"
  have ?first
  proof (cases "first_failure fails [GetLock, CreateTable, ReadDirectory]")
    case None
    with assms(1) have m: "migrate_files collate sha256 run fails ?files s = (r, s')"
      by (auto simp: migrate_def split: option.splits)
    from migrate_files_fresh [OF m distinct_migration_files [OF assms(2)]] assms(3) recorded_def [of collate s]
    obtain ran rest where "?files = ran @ rest" "completed run fails (mig_schema s) ran"
      "mig_records s' = map (\<lambda>(nm, sql). (nm, checksum sha256 sql)) ran"
      "case r of None \<Rightarrow> rest = [] \<and> mig_schema s' = schema_after run (mig_schema s) ran
       | Some err \<Rightarrow> \<exists>f later_files. rest = f # later_files \<and>
           stopped_by run fails (schema_after run (mig_schema s) ran) f err (mig_schema s')"
      by auto
    then show ?thesis by (intro exI [of _ ran] exI [of _ rest]) (auto split: option.splits)
  next
    case (Some err)
    with assms(1) have "r = Some err" "s' = s" by (auto simp: migrate_def split: option.splits)
    with Some assms(3) show ?thesis by (intro exI [of _ "[]"] exI [of _ ?files]) simp
  qed
  moreover have rec: "recorded_all collate sha256 ?files s'" if "r = None"
    using migrate_files_recorded [OF migrate_files_of] assms(1) that by blast
  moreover have "fst (migrate collate sha256 run' fails' acquired directory' s') \<noteq> None"
    if "r = None" "(nm, sql) \<in> set ?files" "(nm, sql') \<in> set (migration_files directory')"
      "checksum sha256 sql' \<noteq> checksum sha256 sql" for nm sql directory' sql'
  proof (rule migration_drift_detected [OF that(3)])
    show "recorded collate s' nm = Some (checksum sha256 sql)"
      using rec [OF that(1)] that(2) by (auto simp: recorded_all_def)
  qed (use that(4) in simp)
  ultimately show ?thesis using migrate_again [OF rec] by auto
qed

text \<open>The application's user is only touched by a run whose migrations all succeeded.\<close>

lemma user_after_migrations:
  assumes "migrate_run collate sha256 run fails escape query env acquired directory s = (err, s', sent)" and "sent \<noteq> []"
  shows "migrate collate sha256 run fails acquired directory s = (None, s')"
    and "recorded_all collate sha256 (migration_files directory) s'"
proof -
  show m: "migrate collate sha256 run fails acquired directory s = (None, s')"
    using assms by (auto simp: migrate_run_def split: prod.splits option.splits sum.splits)
  then show "recorded_all collate sha256 (migration_files directory) s'"
    using migrate_files_recorded [OF migrate_files_of] by blast
qed

definition sample_directory :: "(string \<times> string) list" where
  "sample_directory = [(''002_payments.sql'', ''B''), (''README.md'', ''-''), (''001_initial.sql'', ''A'')]"

definition sample_script :: "string script_effect" where
  "sample_script sql t = (None, t @ sql)"

definition empty_schema :: "string migrated" where
  "empty_schema = \<lparr>mig_schema = [], mig_records = []\<rparr>"

text \<open>The second script's record cannot be written: the first is recorded, the second has run.\<close>

definition sample_failure :: "migration_call \<Rightarrow> exn option" where
  "sample_failure c = (if c = InsertRecord ''002_payments.sql'' then Some (PlainErr ''lost'') else None)"

theorem migrations_run_once_witness:
  "\<exists>s' s''. migrate (\<lambda>x. x) (\<lambda>x. x) sample_script (\<lambda>_. None) 1 sample_directory empty_schema = (None, s') \<and>
     mig_schema s' = ''AB'' \<and>
     migrate (\<lambda>x. x) (\<lambda>x. x) sample_script (\<lambda>_. None) 1 sample_directory s' = (None, s') \<and>
     migrate (\<lambda>x. x) (\<lambda>x. x) sample_script sample_failure 1 sample_directory empty_schema = (Some (PlainErr ''lost''), s'') \<and>
     map fst (mig_records s'') = [''001_initial.sql'']"
proof -
  have files: "migration_files sample_directory = [(''001_initial.sql'', ''A''), (''002_payments.sql'', ''B'')]" by code_simp
  obtain r s' where m: "migrate (\<lambda>x. x) (\<lambda>x. x) sample_script (\<lambda>_. None) 1 sample_directory empty_schema = (r, s')" by fastforce
  obtain r2 s2 where m2: "migrate (\<lambda>x. x) (\<lambda>x. x) sample_script sample_failure 1 sample_directory empty_schema = (r2, s2)" by fastforce
  have "fst (migrate (\<lambda>x. x) (\<lambda>x. x) sample_script (\<lambda>_. None) 1 sample_directory empty_schema) = None" by code_simp
  then have r: "r = None" using m by simp
  have dist: "distinct (map ((\<lambda>x. x) \<circ> fst) sample_directory)" "mig_records empty_schema = []" by code_simp+
  have e: "mig_schema empty_schema = []" by (simp add: empty_schema_def)
  from migrations_run_once [OF m dist, of sample_script "\<lambda>_. None" 1] r
  have one: "mig_schema s' = ''AB''" "migrate (\<lambda>x. x) (\<lambda>x. x) sample_script (\<lambda>_. None) 1 sample_directory s' = (None, s')"
    by (auto simp: files e sample_script_def)
  have "completed sample_script sample_failure [] ran \<and> ran @ rest = migration_files sample_directory \<Longrightarrow> length ran \<le> 1" for ran rest
    by (cases ran; cases "tl ran") (auto simp: files sample_failure_def sample_script_def)
  moreover have "r2 = Some (PlainErr ''lost'')" "length (mig_records s2) = 1"
    using m2 by (auto simp: migrate_def files empty_schema_def sample_failure_def sample_script_def recorded_def)
  ultimately show ?thesis using m m2 r one migrations_run_once [OF m2 dist] by (auto simp: files Cons_eq_append_conv)
qed

end
