(* ===== verification/Repository.thy ===== *)
theory Repository
  imports ActorToken Migration
begin

text \<open>
  The check of the repository before a release, \<open>scripts/validate-repository.mjs\<close>: a walk of the file tree,
  checks of every text, and invariants of single files. A tree lists the entries of a directory in the order
  the system reads them; contents are texts. Whether a shell is there, and what it says of a script, are
  parameters. A regular expression is written as the search it is.
\<close>

section \<open>The tree\<close>

datatype entry = File string string | Dir string "entry list"

definition skipped_name :: "string \<Rightarrow> bool" where
  "skipped_name name \<longleftrightarrow> name \<in> {''.git'', ''node_modules'', ''.next'', ''dist'', ''.terraform''}"

text \<open>The files below a directory, with their paths and contents.\<close>

fun walk :: "string list \<Rightarrow> entry list \<Rightarrow> (string list \<times> string) list" where
  "walk path [] = []"
| "walk path (File name content # entries) =
     (if skipped_name name then [] else [(path @ [name], content)]) @ walk path entries"
| "walk path (Dir name entries' # entries) =
     (if skipped_name name then [] else walk (path @ [name]) entries') @ walk path entries"

fun entry_name :: "entry \<Rightarrow> string" where
  "entry_name (File name content) = name"
| "entry_name (Dir name entries) = name"

fun read_at :: "string list \<Rightarrow> entry list \<Rightarrow> string option" where
  "read_at [] entries = None"
| "read_at (name # path) entries =
     (case find (\<lambda>e. entry_name e = name) entries of
        Some (File _ content) \<Rightarrow> (if path = [] then Some content else None)
      | Some (Dir _ entries') \<Rightarrow> read_at path entries'
      | None \<Rightarrow> None)"

definition readFile :: "entry list \<Rightarrow> string \<Rightarrow> exn + string" where
  "readFile tree path = someE (CodedErr path ''ENOENT'') (read_at (split_on (CHR ''/'') path) tree)"

text \<open>\<open>extname\<close> of a path: from the last dot of the name, unless the name starts with it.\<close>

definition extname :: "string list \<Rightarrow> string" where
  "extname path =
     (let name = last path; ext = takeWhile (\<lambda>c. c \<noteq> CHR ''.'') (rev name)
      in if length name \<le> length ext + 1 then [] else CHR ''.'' # rev ext)"

section \<open>Searching texts\<close>

definition contains_text :: "string \<Rightarrow> string \<Rightarrow> bool" where
  "contains_text content s \<longleftrightarrow> sublist s content"

definition found_at :: "(string \<Rightarrow> bool) \<Rightarrow> string \<Rightarrow> bool" where
  "found_at P content \<longleftrightarrow> list_ex P (suffixes content)"

definition newline :: char where
  "newline = CHR 0x0A"

text \<open>\<open>/[ \t]+$/\<close> of a line.\<close>

definition ends_blank :: "string \<Rightarrow> bool" where
  "ends_blank line \<longleftrightarrow> line \<noteq> [] \<and> last line \<in> {CHR '' '', CHR 0x09}"

text \<open>\<open>/image:\s*\S+:latest\b/\<close>: the blanks and the run of other characters after them are as long as they can be.\<close>

definition mutable_tag :: "string \<Rightarrow> bool" where
  "mutable_tag content \<longleftrightarrow> found_at (\<lambda>s. prefix ''image:'' s \<and>
     (let run = dropWhile is_space (drop 6 s); tag = takeWhile (\<lambda>c. \<not> is_space c) run
      in list_ex (\<lambda>i. prefix '':latest'' (drop i tag) \<and>
           (drop (i + 7) run = [] \<or> \<not> word_char (hd (drop (i + 7) run)))) [1..<length tag])) content"

text \<open>\<open>/merchant-platform-${image}[^\n]*\n\s*digest: sha256:[a-f0-9]{64}/\<close>\<close>

definition hex_digit_char :: "char \<Rightarrow> bool" where
  "hex_digit_char c \<longleftrightarrow> is_digit c \<or> in_range 97 c 102"

definition promoted :: "string \<Rightarrow> string \<Rightarrow> bool" where
  "promoted img content \<longleftrightarrow> found_at (\<lambda>s. prefix (''merchant-platform-'' @ img) s \<and>
     (let below = dropWhile (\<lambda>c. c \<noteq> newline) (drop (length (''merchant-platform-'' @ img)) s);
          digest = dropWhile is_space below; hash = drop 15 digest
      in below \<noteq> [] \<and> prefix ''digest: sha256:'' digest \<and> 64 \<le> length hash \<and>
         list_all hex_digit_char (take 64 hash))) content"

text \<open>The number of matches of a text, which do not overlap.\<close>

function occurrences :: "string \<Rightarrow> string \<Rightarrow> nat" where
  "occurrences p s =
     (if p = [] \<or> s = [] then 0
      else if prefix p s then Suc (occurrences p (drop (length p) s)) else occurrences p (tl s))"
  by auto
termination
  by (relation "measure (\<lambda>(p, s). length s)") auto

declare occurrences.simps [simp del]

text \<open>\<open>split(/^---$/m)\<close>; the flag says whether a line starts here.\<close>

definition line_end :: "char \<Rightarrow> bool" where
  "line_end c \<longleftrightarrow> c = newline \<or> c = CHR 0x0D"

function split_documents :: "bool \<Rightarrow> string \<Rightarrow> string list" where
  "split_documents start [] = [[]]"
| "split_documents start (c # s) =
     (if start \<and> prefix ''---'' (c # s) \<and> (drop 2 s = [] \<or> line_end (hd (drop 2 s)))
      then [] # split_documents False (drop 2 s)
      else (case split_documents (line_end c) s of [] \<Rightarrow> [[c]] | d # ds \<Rightarrow> (c # d) # ds))"
  by pat_completeness auto
termination
  by (relation "measure (\<lambda>(start, s). length s)") auto

text \<open>\<open>/\n\s*- path: \/\n/\<close>\<close>

definition root_path :: "string \<Rightarrow> bool" where
  "root_path content \<longleftrightarrow>
     found_at (\<lambda>s. s \<noteq> [] \<and> hd s = newline \<and> prefix (''- path: /'' @ [newline]) (dropWhile is_space (tl s))) content"

text \<open>\<open>matchAll(/REPLACE_[A-Z0-9_]+/g)\<close>\<close>

definition placeholder_char :: "char \<Rightarrow> bool" where
  "placeholder_char c \<longleftrightarrow> is_upper c \<or> is_digit c \<or> c = CHR ''_''"

function placeholders :: "string \<Rightarrow> string list" where
  "placeholders [] = []"
| "placeholders (c # s) =
     (let name = takeWhile placeholder_char (drop 8 (c # s))
      in if prefix ''REPLACE_'' (c # s) \<and> name \<noteq> []
         then (''REPLACE_'' @ name) # placeholders (drop (8 + length name) (c # s)) else placeholders s)"
  by pat_completeness auto
termination
  by (relation "measure length") auto

section \<open>The checks\<close>

definition all_hold :: "(bool \<times> string) list \<Rightarrow> exn + unit" where
  "all_hold checks = (case find (\<lambda>c. \<not> fst c) checks of None \<Rightarrow> Inr () | Some c \<Rightarrow> Inl (PlainErr (snd c)))"

definition needs :: "string \<Rightarrow> string \<Rightarrow> string list \<Rightarrow> exn + unit" where
  "needs content message texts = all_hold (map (\<lambda>s. (contains_text content s, message @ s)) texts)"

definition demand :: "bool \<Rightarrow> string \<Rightarrow> exn + unit" where
  "demand c message = guardE c (PlainErr message)"

definition requiredFiles :: "string list" where
  "requiredFiles = [''apps/api/src/invoices/invoice.service.ts'', ''apps/api/src/payments/payment.service.ts'',
     ''apps/worker/src/outbox-relay.ts'', ''apps/portal/src/app/page.tsx'',
     ''database/migrations/001_initial_schema.sql'', ''database/migrations/002_payment_operations.sql'',
     ''scripts/provision-tenant.mjs'', ''deploy/docker/Dockerfile'',
     ''deploy/k8s/overlays/local/kustomization.yaml'', ''deploy/k8s/overlays/production/kustomization.yaml'',
     ''deploy/monitoring/prometheus-rules.yaml'', ''deploy/monitoring/kube-prometheus-values-production.yaml'',
     ''infra/terraform/aws/main.tf'', ''infra/ansible/site.yml'', ''docs/THREAT_MODEL.md'', ''docs/DR.md'',
     ''docs/PRODUCTION_GO_LIVE.md'', ''docs/SCOPE_MATRIX.md'']"

definition relative_path :: "string list \<Rightarrow> string" where
  "relative_path path = join_with ''/'' path"

definition json_file_ok :: "string list \<times> string \<Rightarrow> exn + unit" where
  "json_file_ok = (\<lambda>(path, content).
     if extname path = ''.json'' \<and> json_parse (map code content) = None then Inl (CodedErr ''SyntaxError'' []) else Inr ())"

definition text_file :: "string list \<Rightarrow> bool" where
  "text_file path \<longleftrightarrow> extname path \<in> {''.js'', ''.mjs'', ''.ts'', ''.tsx'', ''.sh'', ''.yaml'', ''.yml'', ''.tf'', ''.sql'', ''.md''}"

definition text_file_ok :: "string list \<times> string \<Rightarrow> exn + unit" where
  "text_file_ok = (\<lambda>(path, content).
     if \<not> text_file path then Inr ()
     else
       bindE (demand (\<not> contains_text content [CHR 0x0D, newline])
         (relative_path path @ '' uses CRLF; shell and manifest sources must use LF'')) (\<lambda>_.
       bindE (case find (\<lambda>(i, line). ends_blank line) (enumerate 1 (split_on newline content)) of
           None \<Rightarrow> Inr ()
         | Some (i, line) \<Rightarrow> Inl (PlainErr (relative_path path @ '' has trailing whitespace on line '' @ show_int (int i)))) (\<lambda>_.
       demand (\<not> (extname path \<in> {''.yaml'', ''.yml''} \<and> mutable_tag content))
         (relative_path path @ '' uses a mutable latest image tag''))))"

definition each :: "('a \<Rightarrow> exn + unit) \<Rightarrow> 'a list \<Rightarrow> exn + unit" where
  "each check xs = foldE (\<lambda>_ x. check x) () xs"

definition workload_ok :: "string \<Rightarrow> exn + unit" where
  "workload_ok deployment = needs deployment ''Workload security/availability contract is missing: ''
     [''readOnlyRootFilesystem: true'', ''allowPrivilegeEscalation: false'', ''runAsNonRoot: true'', ''seccompProfile:'',
      ''topologySpreadConstraints:'', ''startupProbe:'', ''readinessProbe:'', ''livenessProbe:'']"

definition production_ok :: "string \<Rightarrow> exn + unit" where
  "production_ok production =
     bindE (all_hold (map (\<lambda>(img, upper).
         (contains_text production (''sha256:REPLACE_'' @ upper @ ''_DIGEST'') \<or> promoted img production,
          ''Production '' @ img @ '' image must be an explicit placeholder or a promoted SHA-256 digest''))
       [(''api'', ''API''), (''worker'', ''WORKER''), (''portal'', ''PORTAL''), (''migration'', ''MIGRATION'')])) (\<lambda>_.
     demand (occurrences ''topology.kubernetes.io/zone'' production = 3 \<and>
         3 \<le> occurrences ''whenUnsatisfiable: DoNotSchedule'' production)
       ''Every production application workload must enforce availability-zone spreading'')"

definition ingress_ok :: "string \<Rightarrow> exn + unit" where
  "ingress_ok ingress =
     (let documents = split_documents True ingress; portal = hd documents; api = part 1 documents;
          names = placeholders ingress
      in bindE (demand (contains_text portal ''name: merchant-portal'' \<and>
             contains_text portal (''- path: /'' @ [newline]))
           ''Production portal ingress must route the root path to the portal service'') (\<lambda>_.
         bindE (demand (contains_text api ''name: merchant-api'' \<and> contains_text api ''- path: /v1'' \<and>
             contains_text api ''- path: /health'')
           ''Production API ingress must expose only the versioned API and health paths'') (\<lambda>_.
         bindE (demand (\<not> root_path api) ''Production API ingress must not expose /metrics through a root route'') (\<lambda>_.
         bindE (demand (names = [] \<or> length (remdups names) = 9)
           ''Production ingress is partially configured; use make configure-production atomically'') (\<lambda>_.
         needs ingress ''Production ingress invariant is missing: ''
           [''access_logs.s3.enabled=true'', ''alb.ingress.kubernetes.io/wafv2-acl-arn'',
            ''alb.ingress.kubernetes.io/auth-type: oidc''])))))"

text \<open>The texts that single files need; a quoted text stands in the quotation marks of its file.\<close>

definition quoted :: "nat \<Rightarrow> string \<Rightarrow> string" where
  "quoted mark s = char_of mark # s @ [char_of mark]"

definition monitoring_ok :: "string \<Rightarrow> exn + unit" where
  "monitoring_ok monitoring = needs monitoring ''Persistent monitoring invariant is missing: ''
     [''storageClassName: gp3-retain'', ''retention: 30d'', ''replicas: 2'']"

definition operations_ok :: "string \<Rightarrow> exn + unit" where
  "operations_ok operations = needs operations ''AWS operations invariant is missing: ''
     [''addon_name                  = '' @ quoted 34 ''amazon-cloudwatch-observability'',
      ''addon_name                  = '' @ quoted 34 ''aws-ebs-csi-driver'',
      ''addon_name                  = '' @ quoted 34 ''metrics-server'',
      ''CloudWatchAgentServerPolicy'', ''AmazonEBSCSIDriverPolicy'', ''ScaleTaggedNodeGroups'',
      ''aws_s3_bucket.alb_access_logs'', ''aws_wafv2_web_acl_logging_configuration'']"

definition publish_ok :: "string \<Rightarrow> exn + unit" where
  "publish_ok publish =
     bindE (needs publish ''Release workflow invariant is missing: ''
       [''Reject GitOps-only release loops'', ''workflow_run'',
        ''github.event.workflow_run.event == '' @ quoted 39 ''push'',
        ''github.event.workflow_run.head_branch == '' @ quoted 39 ''main'', ''cosign verify'', ''github.run_attempt'']) (\<lambda>_.
     demand (contains_text publish (''release-context:'' @ [newline]) \<and> contains_text publish ''id-token: write'')
       ''Release jobs must declare least-privilege GitHub permissions explicitly'')"

definition ci_ok :: "string \<Rightarrow> exn + unit" where
  "ci_ok ci = demand (contains_text ci ''npm audit --omit=dev --audit-level=high'')
     ''CI must reject high-severity runtime dependency advisories''"

definition smoke_ok :: "string \<Rightarrow> exn + unit" where
  "smoke_ok smoke = needs smoke ''Business smoke invariant is missing: ''
     [''concurrent_overcapture=blocked'', ''REFUND_ID_REUSE_CODE'', ''tenant_denial=403'']"

definition dockerfile_ok :: "string \<Rightarrow> exn + unit" where
  "dockerfile_ok dockerfile =
     demand (contains_text dockerfile ''RUN npm ci'' \<and> contains_text dockerfile ''.next/standalone'' \<and>
         contains_text dockerfile ''truststore.pki.rds.amazonaws.com/global/global-bundle.pem'')
       ''Container builds must use the lockfile and the standalone portal runtime''"

definition persistence_ok :: "string \<Rightarrow> exn + unit" where
  "persistence_ok config =
     demand (contains_text config ''MYSQL_SSL_CA_PATH'' \<and> contains_text config ''rejectUnauthorized: true'')
       ''Verified database TLS must use an explicit CA bundle''"

definition migration_ok :: "string \<Rightarrow> exn + unit" where
  "migration_ok migration = needs migration ''Migration safety invariant is missing: ''
     [''GET_LOCK'', ''checksum'', ''MYSQL_APP_USER'', ''GRANT SELECT, INSERT, UPDATE, DELETE'']"

definition provisioner_ok :: "string \<Rightarrow> exn + unit" where
  "provisioner_ok provisioner =
     bindE (needs provisioner ''Tenant provisioning invariant is missing: ''
       [''PROVISIONING_CHANGE_ID'', ''parent_merchant_id'', ''FOR UPDATE'', ''tenant.provisioned'',
        ''tenant_provisioning_noop'', ''refusing partial or destructive provisioning'']) (\<lambda>_.
     demand (\<not> (contains_text provisioner ''merchantSlug'' \<or> contains_text provisioner ''parent_id''))
       ''Tenant provisioner references a merchant column that is absent from the migration schema'')"

definition waves_ok :: "string \<Rightarrow> string \<Rightarrow> exn + unit" where
  "waves_ok migrationJob deployment =
     bindE (demand (contains_text migrationJob ''argocd.argoproj.io/hook: Sync'' \<and>
         contains_text migrationJob (''argocd.argoproj.io/sync-wave: '' @ quoted 34 ''-1''))
       ''Migration must be a Sync hook after credentials and before application deployments'') (\<lambda>_.
     demand (contains_text deployment (''argocd.argoproj.io/sync-wave: '' @ quoted 34 ''1''))
       ''Application deployments must follow the migration wave'')"

text \<open>\<open>bash -n\<close> on every script, where there is a shell; \<open>syntax\<close> is what it reports of a failure.\<close>

definition shell_ok :: "(string \<Rightarrow> string option) \<Rightarrow> string list \<times> string \<Rightarrow> exn + unit" where
  "shell_ok syntax = (\<lambda>(path, content).
     case syntax content of
       Some stderr \<Rightarrow> (if extname path = ''.sh'' then
           Inl (PlainErr (''Shell syntax failed for '' @ relative_path path @ '': '' @ stderr)) else Inr ())
     | None \<Rightarrow> Inr ())"

record validation =
  val_checkedFiles :: nat
  val_shellSyntaxChecked :: bool
  val_packageLockPresent :: bool

definition check_file :: "entry list \<Rightarrow> string \<Rightarrow> (string \<Rightarrow> exn + unit) \<Rightarrow> exn + unit" where
  "check_file tree path check = bindE (readFile tree path) check"

definition single_files :: "entry list \<Rightarrow> (string \<times> (string \<Rightarrow> exn + unit)) list" where
  "single_files tree =
     [(''deploy/k8s/base/deployments.yaml'', workload_ok),
      (''deploy/k8s/overlays/production/kustomization.yaml'', production_ok),
      (''deploy/k8s/overlays/production/ingress.yaml'', ingress_ok),
      (''deploy/monitoring/kube-prometheus-values-production.yaml'', monitoring_ok),
      (''infra/terraform/aws/operations.tf'', operations_ok),
      (''.github/workflows/publish.yaml'', publish_ok), (''.github/workflows/ci.yaml'', ci_ok),
      (''scripts/smoke-test.sh'', smoke_ok), (''deploy/docker/Dockerfile'', dockerfile_ok),
      (''packages/persistence/src/config.ts'', persistence_ok), (''scripts/migrate.mjs'', migration_ok),
      (''scripts/provision-tenant.mjs'', provisioner_ok),
      (''deploy/k8s/base/migration-job.yaml'', \<lambda>job.
         bindE (readFile tree ''deploy/k8s/base/deployments.yaml'') (waves_ok job))]"

definition validate_repository :: "bool \<Rightarrow> (string \<Rightarrow> string option) \<Rightarrow> entry list \<Rightarrow> exn + validation" where
  "validate_repository bash syntax tree =
     (let files = walk [] tree; lockPresent = list_ex (\<lambda>(path, _). relative_path path = ''package-lock.json'') files
      in bindE (each (\<lambda>path. bindE (readFile tree path) (\<lambda>_. Inr ())) requiredFiles) (\<lambda>_.
         bindE (each json_file_ok files) (\<lambda>_.
         bindE (each text_file_ok files) (\<lambda>_.
         bindE (each (\<lambda>(path, check). check_file tree path check) (single_files tree)) (\<lambda>_.
         bindE (if bash then each (shell_ok syntax) files else Inr ()) (\<lambda>_.
         bindE (demand lockPresent ''package-lock.json is required for reproducible builds'') (\<lambda>_.
         Inr \<lparr>val_checkedFiles = length files, val_shellSyntaxChecked = bash,
           val_packageLockPresent = lockPresent\<rparr>)))))))"

section \<open>What an accepted repository is\<close>

inductive at_path :: "entry list \<Rightarrow> string list \<Rightarrow> string \<Rightarrow> bool" where
  at_file: "File name content \<in> set entries \<Longrightarrow> \<not> skipped_name name \<Longrightarrow> at_path entries [name] content"
| at_dir: "Dir name entries' \<in> set entries \<Longrightarrow> \<not> skipped_name name \<Longrightarrow> at_path entries' path content \<Longrightarrow>
    at_path entries (name # path) content"

inductive_simps at_path_Nil: "at_path [] path content"

lemma at_path_empty [simp]: "\<not> at_path [] path content"
  by (simp add: at_path_Nil)

lemma at_path_File: "at_path (File name content # entries) path c \<longleftrightarrow>
    path = [name] \<and> c = content \<and> \<not> skipped_name name \<or> at_path entries path c"
  by (subst at_path.simps, subst (2) at_path.simps) auto

lemma at_path_Dir: "at_path (Dir name sub # entries) path c \<longleftrightarrow>
    (\<exists>p. path = name # p \<and> \<not> skipped_name name \<and> at_path sub p c) \<or> at_path entries path c"
  by (subst at_path.simps, subst (3) at_path.simps) auto

text \<open>The walk lists exactly the files that no skipped directory hides.\<close>

lemma walk_mem: "(p, c) \<in> set (walk path entries) \<longleftrightarrow> (\<exists>q. p = path @ q \<and> at_path entries q c)"
  by (induction path entries arbitrary: p rule: walk.induct) (auto simp: at_path_File at_path_Dir)

lemma each_Inr [res_simps]: "each check xs = Inr u \<longleftrightarrow> (\<forall>x \<in> set xs. check x = Inr ())"
  unfolding each_def by (induction xs) (auto simp: bindE_Inr_conv)

definition file_fine :: "bool \<Rightarrow> (string \<Rightarrow> string option) \<Rightarrow> string list \<Rightarrow> string \<Rightarrow> bool" where
  "file_fine bash syntax path content \<longleftrightarrow>
     (extname path = ''.json'' \<longrightarrow> json_parse (map code content) \<noteq> None) \<and>
     (text_file path \<longrightarrow> \<not> sublist [CHR 0x0D, newline] content \<and>
        (\<forall>line \<in> set (split_on newline content). \<not> ends_blank line) \<and>
        (extname path \<in> {''.yaml'', ''.yml''} \<longrightarrow> \<not> mutable_tag content)) \<and>
     (bash \<and> extname path = ''.sh'' \<longrightarrow> syntax content = None)"

lemma find_blank: "find (\<lambda>(i, line). P line) (enumerate n xs) = None \<longleftrightarrow> (\<forall>x \<in> set xs. \<not> P x)"
  by (induction xs arbitrary: n) auto

lemma file_checks:
  "json_file_ok (path, content) = Inr () \<and> text_file_ok (path, content) = Inr () \<and>
     (bash \<longrightarrow> shell_ok syntax (path, content) = Inr ()) \<longleftrightarrow> file_fine bash syntax path content"
proof -
  have "json_file_ok (path, content) = Inr () \<longleftrightarrow> (extname path = ''.json'' \<longrightarrow> json_parse (map code content) \<noteq> None)"
    by (simp add: json_file_ok_def)
  moreover have "text_file_ok (path, content) = Inr () \<longleftrightarrow>
      (text_file path \<longrightarrow> \<not> sublist [CHR 0x0D, newline] content \<and>
        (\<forall>line \<in> set (split_on newline content). \<not> ends_blank line) \<and>
        (extname path \<in> {''.yaml'', ''.yml''} \<longrightarrow> \<not> mutable_tag content))"
    unfolding find_blank [symmetric, where n = 1]
    by (auto simp: text_file_ok_def demand_def contains_text_def res_simps split: option.splits)
  moreover have "shell_ok syntax (path, content) = Inr () \<longleftrightarrow> (extname path = ''.sh'' \<longrightarrow> syntax content = None)"
    by (auto simp: shell_ok_def split: option.splits)
  ultimately show ?thesis by (simp add: file_fine_def) blast
qed

text \<open>
  The validation succeeds exactly when the required files are there, every file of the tree outside the skipped
  directories is fine, the single files satisfy their invariants, and there is a lock file.
\<close>

theorem validation_succeeds_iff:
  "(\<exists>v. validate_repository bash syntax tree = Inr v) \<longleftrightarrow>
     (\<forall>path \<in> set requiredFiles. \<exists>content. readFile tree path = Inr content) \<and>
     (\<forall>path content. at_path tree path content \<longrightarrow> file_fine bash syntax path content) \<and>
     (\<forall>(path, check) \<in> set (single_files tree). check_file tree path check = Inr ()) \<and>
     (\<exists>path content. at_path tree path content \<and> relative_path path = ''package-lock.json'')"
proof -
  have files: "(\<forall>f \<in> set (walk [] tree). P f) \<longleftrightarrow> (\<forall>path content. at_path tree path content \<longrightarrow> P (path, content))" for P
    by (auto simp: walk_mem)
  have lock: "list_ex (\<lambda>(path, _). relative_path path = ''package-lock.json'') (walk [] tree) \<longleftrightarrow>
      (\<exists>path content. at_path tree path content \<and> relative_path path = ''package-lock.json'')"
    by (fastforce simp: list_ex_iff walk_mem)
  have "(\<exists>v. validate_repository bash syntax tree = Inr v) \<longleftrightarrow>
      (\<forall>path \<in> set requiredFiles. \<exists>content. readFile tree path = Inr content) \<and>
      (\<forall>f \<in> set (walk [] tree). json_file_ok f = Inr () \<and> text_file_ok f = Inr () \<and> (bash \<longrightarrow> shell_ok syntax f = Inr ())) \<and>
      (\<forall>(path, check) \<in> set (single_files tree). check_file tree path check = Inr ()) \<and>
      (\<exists>path content. at_path tree path content \<and> relative_path path = ''package-lock.json'')"
    unfolding lock [symmetric] validate_repository_def
    by (auto simp: Let_def demand_def res_simps simp del: list_ex_iff)
  then show ?thesis unfolding files file_checks .
qed

end
