(* ===== verification/LocalScripts.thy ===== *)
theory LocalScripts
  imports Migration
begin

text \<open>
  The scripts of local development. \<open>scripts/seed-local.mjs\<close> waits for the schema and runs a file of SQL,
  whose effect is a parameter. \<open>scripts/load-test.mjs\<close> starts a number of workers that share a cursor and a
  table of answers; between its requests a worker waits, so the workers' steps interleave.
\<close>

section \<open>Seeding\<close>

text \<open>How many tables the \<open>i\<close>-th query finds.\<close>

fun waitForSchema :: "nat \<Rightarrow> nat \<Rightarrow> (nat \<Rightarrow> exn + nat) \<Rightarrow> exn + unit" where
  "waitForSchema 0 i found = Inl (PlainErr ''Timed out waiting for the merchants table'')"
| "waitForSchema (Suc n) i found =
     bindE (found i) (\<lambda>rows. if rows \<noteq> 0 then Inr () else waitForSchema n (i + 1) found)"

definition seed_local ::
  "process_env \<Rightarrow> (nat \<Rightarrow> exn + 'c) \<Rightarrow> (nat \<Rightarrow> exn + nat) \<Rightarrow> exn + string \<Rightarrow> 's script_effect \<Rightarrow> 's \<Rightarrow>
   exn option \<times> 's" where
  "seed_local env connect found sqlFile run s =
     (if env_or env ''NODE_ENV'' ''development'' = ''production''
      then (Some (PlainErr ''Local seed data cannot be applied in production''), s)
      else case bindE (connectWithRetry connect) (\<lambda>_. bindE (waitForSchema 60 1 found) (\<lambda>_. sqlFile)) of
          Inl err \<Rightarrow> (Some err, s)
        | Inr sql \<Rightarrow> run sql s)"

lemma seed_never_in_production:
  "env ''NODE_ENV'' = Some ''production'' \<Longrightarrow> snd (seed_local env connect found sqlFile run s) = s"
  by (simp add: seed_local_def env_or_def)

text \<open>The connection loop gives the first connection of sixty attempts, or the error of the last one.\<close>

lemma attempts_from_Inr:
  "attempts_from n i outcome err = Inr c \<longleftrightarrow>
     (\<exists>k < n. outcome (i + k) = Inr c \<and> (\<forall>j < k. \<exists>err'. outcome (i + j) = Inl err'))"
proof (induction n arbitrary: i err)
  case (Suc n)
  have split: "(\<exists>k < Suc n. P k) \<longleftrightarrow> P 0 \<or> (\<exists>k < n. P (Suc k))" for P by (rule Ex_less_Suc2)
  have all: "(\<forall>j < Suc k. Q j) \<longleftrightarrow> Q 0 \<and> (\<forall>j < k. Q (Suc j))" for Q k by (rule All_less_Suc2)
  show ?case
  proof (cases "outcome i")
    case (Inl e)
    then show ?thesis using Suc.IH [of "i + 1" e] by (simp add: split all)
  next
    case (Inr b)
    then show ?thesis by (auto simp: split all)
  qed
qed simp

section \<open>The load test\<close>

definition positiveInteger :: "string \<Rightarrow> string \<Rightarrow> exn + int" where
  "positiveInteger v name =
     (let parsed = js_number v
      in if \<not> is_integer parsed \<or> js_lt parsed (JInt 1) then Inl (PlainErr (name @ '' must be a positive integer''))
         else Inr (num_int parsed))"

record load_state =
  ld_cursor :: nat
  ld_free :: nat
  ld_waiting :: "nat list"
  ld_statuses :: "(int \<times> nat) list"
  ld_latencies :: "jsnum list"

text \<open>\<open>statuses.set(status, (statuses.get(status) ?? 0) + 1)\<close>; a map keeps the order of its first insertions.\<close>

fun count_status :: "int \<Rightarrow> (int \<times> nat) list \<Rightarrow> (int \<times> nat) list" where
  "count_status status [] = [(status, 1)]"
| "count_status status ((s, n) # counts) =
     (if s = status then (s, n + 1) # counts else (s, n) # count_status status counts)"

definition load_started :: "nat \<Rightarrow> load_state" where
  "load_started concurrency = \<lparr>ld_cursor = 0, ld_free = concurrency, ld_waiting = [], ld_statuses = [], ld_latencies = []\<rparr>"

inductive load_step :: "nat \<Rightarrow> load_state \<Rightarrow> load_state \<Rightarrow> bool" for requests where
  takes: "0 < ld_free s \<Longrightarrow> ld_cursor s < requests \<Longrightarrow>
    load_step requests s (s\<lparr>ld_cursor := ld_cursor s + 1, ld_free := ld_free s - 1, ld_waiting := ld_waiting s @ [ld_cursor s]\<rparr>)"
| leaves: "0 < ld_free s \<Longrightarrow> \<not> ld_cursor s < requests \<Longrightarrow> load_step requests s (s\<lparr>ld_free := ld_free s - 1\<rparr>)"
| answers: "ld_waiting s = before @ index # after \<Longrightarrow>
    load_step requests s (s\<lparr>ld_waiting := before @ after, ld_free := ld_free s + 1,
      ld_latencies := ld_latencies s @ [latency], ld_statuses := count_status status (ld_statuses s)\<rparr>)"

inductive_simps load_step_iff: "load_step requests s t"

definition failures :: "(int \<times> nat) list \<Rightarrow> nat" where
  "failures statuses = sum_list (map snd (filter (\<lambda>(status, _). 400 \<le> status) statuses))"

text \<open>\<open>percentile\<close> of the sorted latencies.\<close>

fun js_ceil :: "jsnum \<Rightarrow> jsnum" where
  "js_ceil (Fin a) = JInt \<lceil>a\<rceil>"
| "js_ceil x = x"

definition percentile :: "jsnum list \<Rightarrow> jsnum \<Rightarrow> jsnum" where
  "percentile values quantile =
     (let index = min (int (length values) - 1) (max 0 (num_int (js_ceil (js_mul (JInt (int (length values))) quantile)) - 1));
          v = (if 0 \<le> index \<and> nat index < length values then values ! nat index else JInt 0)
      in js_div (js_round (js_mul v (JInt 100))) (JInt 100))"

section \<open>Every request is sent once and counted\<close>

definition load_ok :: "nat \<Rightarrow> nat \<Rightarrow> load_state \<Rightarrow> bool" where
  "load_ok requests concurrency s \<longleftrightarrow>
     ld_cursor s \<le> requests \<and> length (ld_latencies s) + length (ld_waiting s) = ld_cursor s \<and>
     sum_list (map snd (ld_statuses s)) = length (ld_latencies s) \<and>
     ld_free s + length (ld_waiting s) \<le> concurrency \<and>
     (ld_cursor s < requests \<longrightarrow> ld_free s + length (ld_waiting s) = concurrency)"

lemma count_status_total: "sum_list (map snd (count_status status counts)) = Suc (sum_list (map snd counts))"
  by (induction status counts rule: count_status.induct) auto

interpretation load: inductive_invariant "\<lambda>s. s = load_started concurrency" "load_step requests" "load_ok requests concurrency"
proof
  show "s = load_started concurrency \<Longrightarrow> load_ok requests concurrency s" for s by (simp add: load_ok_def load_started_def)
  show "load_ok requests concurrency s \<Longrightarrow> load_step requests s t \<Longrightarrow> load_ok requests concurrency t" for s t
    unfolding load_step_iff by (auto simp: load_ok_def count_status_total)
qed

text \<open>
  However the workers interleave: at most \<open>concurrency\<close> requests are under way, and when no worker is left
  exactly the wanted number of requests was sent, and each was counted and timed once.
\<close>

theorem load_test_counts:
  assumes "reach (\<lambda>s. s = load_started concurrency) (load_step requests) s" and "0 < concurrency"
  shows "length (ld_waiting s) \<le> concurrency \<and>
    (ld_free s = 0 \<and> ld_waiting s = [] \<longrightarrow> ld_cursor s = requests \<and> length (ld_latencies s) = requests \<and>
      sum_list (map snd (ld_statuses s)) = requests)"
  using load.reach_inv [OF assms(1)] assms(2) by (auto simp: load_ok_def)

end
