(* ===== verification/WorkerProcess.thy ===== *)
theory WorkerProcess
  imports JsonParse
begin

text \<open>
  The life of a worker process: the relay's timer and its \<open>polling\<close> flag, the readiness that the metrics
  server reports, start-up and shutdown of \<open>apps/worker/src/main.ts\<close>. A poll runs over several turns of the
  event loop, so the timer may fire, and the process be told to stop, while one is under way; so does the answer
  to a readiness request, and each of the two signals starts a shutdown of its own. A start that
  fails only sets the exit code: what was opened before stays open, and the timer, if it was set, goes on. A
  rejection that nobody catches ends the process. What a poll does is in \<open>Relay\<close>.
\<close>

section \<open>State and operations\<close>

datatype phase = Starting | Relaying | Running | Stopping | Failed | Ended

text \<open>The phases in the order \<open>main\<close> passes through them, then the failed start and the process that is gone.\<close>

fun phase_rank :: "phase \<Rightarrow> nat" where
  "phase_rank Starting = 0"
| "phase_rank Relaying = 1"
| "phase_rank Running = 2"
| "phase_rank Stopping = 3"
| "phase_rank Failed = 4"
| "phase_rank Ended = 5"

lemma phase_rank_inject: "phase_rank p = phase_rank q \<Longrightarrow> p = q"
  by (cases p; cases q) simp_all

instantiation phase :: linorder
begin

definition less_eq_phase :: "phase \<Rightarrow> phase \<Rightarrow> bool" where
  "less_eq_phase p q \<longleftrightarrow> phase_rank p \<le> phase_rank q"

definition less_phase :: "phase \<Rightarrow> phase \<Rightarrow> bool" where
  "less_phase p q \<longleftrightarrow> phase_rank p < phase_rank q"

instance
  by standard (auto simp: less_eq_phase_def less_phase_def dest: phase_rank_inject)

end

text \<open>What \<open>main\<close> opens before the relay starts, in the order in which \<open>shutdown\<close> closes it.\<close>

datatype resource = JobWorker | JobQueue | DeadLetterQueue | RedisConnection | DatabasePool | MetricsServer

definition shutdown_order :: "resource list" where
  "shutdown_order = [JobWorker, JobQueue, DeadLetterQueue, RedisConnection, DatabasePool, MetricsServer]"

datatype signal = SIGTERM | SIGINT

text \<open>
  \<open>prc_active\<close> counts the polls under way, \<open>prc_asked\<close> the readiness requests that wait for the dependencies;
  \<open>prc_signals\<close> are the signals with a handler left, \<open>prc_closing\<close> what each shutdown under way has left to close.
\<close>

record process =
  prc_phase :: phase
  prc_polling :: bool
  prc_timer :: bool
  prc_retentionTimer :: bool
  prc_active :: nat
  prc_ready :: bool
  prc_checks :: bool
  prc_asked :: nat
  prc_signals :: "signal list"
  prc_closing :: "resource list list"
  prc_open :: "resource list"
  prc_exitCode :: "int option"

definition process_started :: process where
  "process_started = \<lparr>prc_phase = Starting, prc_polling = False, prc_timer = False, prc_retentionTimer = False,
     prc_active = 0, prc_ready = False, prc_checks = False, prc_asked = 0, prc_signals = [], prc_closing = [],
     prc_open = [], prc_exitCode = None\<rparr>"

text \<open>\<open>poll\<close> up to its body, and its \<open>finally\<close>.\<close>

definition poll_begins :: "process \<Rightarrow> process" where
  "poll_begins p =
     (if prc_polling p then p else p\<lparr>prc_polling := True, prc_active := prc_active p + 1\<rparr>)"

definition poll_ends :: "process \<Rightarrow> process" where
  "poll_ends p = p\<lparr>prc_polling := False, prc_active := prc_active p - 1\<rparr>"

definition relay_start :: "process \<Rightarrow> process" where
  "relay_start p = (poll_begins p)\<lparr>prc_timer := True\<rparr>"

definition relay_stop :: "process \<Rightarrow> process" where
  "relay_stop p = p\<lparr>prc_timer := False\<rparr>"

definition setReady :: "bool \<Rightarrow> process \<Rightarrow> process" where
  "setReady v p = p\<lparr>prc_ready := v\<rparr>"

definition setReadinessCheck :: "process \<Rightarrow> process" where
  "setReadinessCheck p = p\<lparr>prc_checks := True\<rparr>"

text \<open>
  The metrics server: status and body of an answer, and no answer yet where a ready process asks its
  dependencies first. That answer comes in a later turn, whatever the process has become. Until a check is set, the
  readiness check answers false; afterwards it asks the database and Redis, and an error counts as false.
\<close>

definition readinessCheck :: "bool \<Rightarrow> process \<Rightarrow> bool" where
  "readinessCheck dependenciesUp p \<longleftrightarrow> prc_checks p \<and> dependenciesUp"

definition status_body :: "string \<Rightarrow> string" where
  "status_body s = stringify (JSObj [(''status'', JSStr s)])"

definition metrics_server :: "string \<Rightarrow> process \<Rightarrow> string \<Rightarrow> (int \<times> string) option" where
  "metrics_server metrics p url =
     (if url = ''/metrics'' then Some (200, metrics)
      else if url = ''/health/live'' then Some (200, status_body ''alive'')
      else if url = ''/health/ready'' then (if prc_ready p then None else Some (503, status_body ''not_ready''))
      else Some (404, []))"

definition readiness_answer :: "bool \<Rightarrow> process \<Rightarrow> int \<times> string" where
  "readiness_answer dependenciesUp p =
     (if readinessCheck dependenciesUp p then (200, status_body ''ready'') else (503, status_body ''not_ready''))"

text \<open>
  The steps of \<open>main\<close>: everything is opened, the relay and the timer of the retention started; the database and Redis answered,
  after which the signals have their handlers; the failure of either, or of something before, reaches \<open>main().catch\<close>;
  \<open>shutdown\<close> up to its first \<open>await\<close>, after which each resource is closed in turn.
\<close>

definition relaying :: "process \<Rightarrow> process" where
  "relaying p = (relay_start p)\<lparr>prc_phase := Relaying, prc_open := shutdown_order, prc_retentionTimer := True\<rparr>"

definition running :: "process \<Rightarrow> process" where
  "running p = (setReady True (setReadinessCheck p))\<lparr>prc_phase := Running, prc_signals := [SIGTERM, SIGINT]\<rparr>"

definition start_failed :: "process \<Rightarrow> process" where
  "start_failed p = p\<lparr>prc_phase := Failed, prc_exitCode := Some 1\<rparr>"

definition stopping :: "signal \<Rightarrow> process \<Rightarrow> process" where
  "stopping s p = (relay_stop (setReady False p))\<lparr>prc_phase := Stopping, prc_retentionTimer := False,
     prc_signals := remove1 s (prc_signals p), prc_closing := prc_closing p @ [shutdown_order]\<rparr>"

definition closed :: "nat \<Rightarrow> resource \<Rightarrow> resource list \<Rightarrow> process \<Rightarrow> process" where
  "closed i r rs p = p\<lparr>prc_open := filter (\<lambda>x. x \<noteq> r) (prc_open p), prc_closing := (prc_closing p)[i := rs]\<rparr>"

text \<open>The end of the process, which takes everything with it.\<close>

definition ended :: "int option \<Rightarrow> process \<Rightarrow> process" where
  "ended exitCode p = process_started\<lparr>prc_phase := Ended, prc_exitCode := exitCode\<rparr>"

text \<open>
  The process ends with code 1 on what nobody catches: the \<open>error\<close> event of a metrics port that is taken, which
  comes before the database answers, a poll that throws, a shutdown whose resource cannot be closed, a second
  shutdown's for instance. A signal without a handler kills it, and it ends when nothing is left to wait for.
\<close>

inductive process_step :: "process \<Rightarrow> process \<Rightarrow> bool" where
  relay_starts: "prc_phase p = Starting \<Longrightarrow> process_step p (relaying p)"
| port_taken: "prc_phase p = Relaying \<Longrightarrow> process_step p (ended (Some 1) p)"
| becomes_ready: "prc_phase p = Relaying \<Longrightarrow> process_step p (running p)"
| start_fails: "prc_phase p = Starting \<or> prc_phase p = Relaying \<Longrightarrow> process_step p (start_failed p)"
| timer_fires: "prc_timer p \<Longrightarrow> process_step p (poll_begins p)"
| poll_finishes: "0 < prc_active p \<Longrightarrow> process_step p (poll_ends p)"
| poll_throws: "0 < prc_active p \<Longrightarrow> process_step p (ended (Some 1) p)"
| readiness_asked: "metrics_server metrics p ''/health/ready'' = None \<Longrightarrow> process_step p (p\<lparr>prc_asked := prc_asked p + 1\<rparr>)"
| readiness_answered: "0 < prc_asked p \<Longrightarrow> process_step p (p\<lparr>prc_asked := prc_asked p - 1\<rparr>)"
| shuts_down: "s \<in> set (prc_signals p) \<Longrightarrow> process_step p (stopping s p)"
| closes: "i < length (prc_closing p) \<Longrightarrow> prc_closing p ! i = r # rs \<Longrightarrow> process_step p (closed i r rs p)"
| close_throws: "i < length (prc_closing p) \<Longrightarrow> prc_closing p ! i = r # rs \<Longrightarrow> process_step p (ended (Some 1) p)"
| killed: "prc_phase p \<noteq> Ended \<Longrightarrow> s \<notin> set (prc_signals p) \<Longrightarrow> process_step p (ended None p)"
| runs_out: "prc_phase p = Stopping \<Longrightarrow> prc_open p = [] \<Longrightarrow> prc_active p = 0 \<Longrightarrow> prc_asked p = 0 \<Longrightarrow>
    process_step p (ended (prc_exitCode p) p)"

inductive_simps process_step_iff: "process_step p q"

section \<open>The invariant\<close>

text \<open>What is open is what the shutdown that came furthest has left to close.\<close>

definition left_open :: "resource list \<Rightarrow> bool" where
  "left_open rs \<longleftrightarrow> rs \<in> set (map (\<lambda>n. drop n shutdown_order) [0..<7])"

lemma left_open_cases:
  "left_open rs \<longleftrightarrow> rs \<in> {[JobWorker, JobQueue, DeadLetterQueue, RedisConnection, DatabasePool, MetricsServer],
     [JobQueue, DeadLetterQueue, RedisConnection, DatabasePool, MetricsServer],
     [DeadLetterQueue, RedisConnection, DatabasePool, MetricsServer], [RedisConnection, DatabasePool, MetricsServer],
     [DatabasePool, MetricsServer], [MetricsServer], []}"
  by (simp add: left_open_def shutdown_order_def upt_rec)

lemma left_open_simps [simp]: "left_open []" "left_open shutdown_order"
  by (simp_all add: left_open_cases shutdown_order_def)

lemma left_open_tl: "left_open (r # rs) \<Longrightarrow> left_open rs"
  by (auto simp: left_open_cases)

lemma left_open_last: "left_open rs \<Longrightarrow> rs \<noteq> [] \<Longrightarrow> MetricsServer \<in> set rs"
  by (auto simp: left_open_cases)

lemma left_open_close:
  assumes "left_open (r # rs)" and "left_open xs" and "set xs \<subseteq> set (r # rs)"
  shows "left_open (filter (\<lambda>x. x \<noteq> r) xs)" and "set (filter (\<lambda>x. x \<noteq> r) xs) \<subseteq> set rs"
  using assms by (auto simp: left_open_cases)

lemma left_open_subset: "left_open xs \<Longrightarrow> set xs \<subseteq> set shutdown_order"
  by (auto simp: left_open_cases shutdown_order_def)

lemma shutdown_order_nonempty [simp]: "shutdown_order \<noteq> []" "[] \<noteq> shutdown_order"
  by (simp_all add: shutdown_order_def)

definition closing_ok :: "resource list \<Rightarrow> resource list list \<Rightarrow> bool" where
  "closing_ok xs css \<longleftrightarrow> left_open xs \<and> (\<forall>cs \<in> set css. left_open cs \<and> set xs \<subseteq> set cs)"

lemma closing_ok_Nil [simp]: "closing_ok xs [] \<longleftrightarrow> left_open xs"
  by (simp add: closing_ok_def)

lemma closing_ok_first [simp]: "closing_ok shutdown_order [shutdown_order]"
  by (simp add: closing_ok_def)

lemma closing_ok_start: "closing_ok xs css \<Longrightarrow> closing_ok xs (css @ [shutdown_order])"
  by (auto simp: closing_ok_def left_open_subset)

lemma closing_ok_close:
  assumes "closing_ok xs css" and "i < length css" and "css ! i = r # rs"
  shows "closing_ok (filter (\<lambda>x. x \<noteq> r) xs) (css[i := rs])"
proof -
  from assms have c: "left_open (r # rs)" "left_open xs" "set xs \<subseteq> set (r # rs)"
    unfolding closing_ok_def by (metis nth_mem)+
  have "left_open cs \<and> set (filter (\<lambda>x. x \<noteq> r) xs) \<subseteq> set cs" if "cs \<in> set (css[i := rs])" for cs
  proof -
    from that have "cs = rs \<or> cs \<in> set css" using set_update_subset_insert by fastforce
    then show ?thesis
      using left_open_close [OF c] left_open_tl [OF c(1)] assms(1) by (auto simp: closing_ok_def)
  qed
  with left_open_close(1) [OF c] show ?thesis by (simp add: closing_ok_def)
qed

definition process_ok :: "process \<Rightarrow> bool" where
  "process_ok p \<longleftrightarrow> prc_active p \<le> 1 \<and> (prc_polling p \<longleftrightarrow> prc_active p = 1) \<and>
     (prc_ready p \<longleftrightarrow> prc_phase p = Running) \<and> (prc_ready p \<longrightarrow> prc_checks p) \<and>
     (0 < prc_asked p \<longrightarrow> prc_phase p \<in> {Running, Stopping} \<and> prc_checks p) \<and>
     (prc_timer p \<longleftrightarrow> prc_phase p \<in> {Relaying, Running} \<or> prc_phase p = Failed \<and> prc_open p \<noteq> []) \<and>
     (prc_retentionTimer p \<longleftrightarrow> prc_timer p) \<and> closing_ok (prc_open p) (prc_closing p) \<and>
     (prc_phase p = Starting \<longrightarrow> prc_open p = []) \<and> (prc_phase p \<in> {Relaying, Running} \<longrightarrow> prc_open p = shutdown_order) \<and>
     (prc_phase p \<noteq> Stopping \<longrightarrow> prc_closing p = []) \<and> (prc_phase p \<notin> {Running, Stopping} \<longrightarrow> prc_signals p = []) \<and>
     (prc_phase p \<noteq> Ended \<longrightarrow> prc_exitCode p = (if prc_phase p = Failed then Some 1 else None))"

lemmas process_ops = poll_begins_def poll_ends_def relay_start_def relay_stop_def setReady_def setReadinessCheck_def
  relaying_def running_def start_failed_def stopping_def closed_def ended_def

lemma ended_fields: "prc_phase (ended c p) = Ended" "prc_active (ended c p) = 0" "prc_asked (ended c p) = 0"
  by (simp_all add: ended_def process_started_def)

lemma process_ok_ended: "process_ok (ended c p)"
  by (simp add: process_ok_def ended_def process_started_def closing_ok_def)

lemma process_ok_closing: "process_ok p \<Longrightarrow> i < length (prc_closing p) \<Longrightarrow> prc_phase p = Stopping"
  by (auto simp: process_ok_def)

lemma process_ok_signal: "process_ok p \<Longrightarrow> s \<in> set (prc_signals p) \<Longrightarrow> prc_phase p = Running \<or> prc_phase p = Stopping"
  by (auto simp: process_ok_def)

lemma process_ok_step:
  assumes "process_ok p" and "process_step p q"
  shows "process_ok q"
  using assms(2)
proof cases
  case relay_starts
  then show ?thesis using assms(1) by (simp add: process_ok_def process_ops)
next
  case becomes_ready
  then show ?thesis using assms(1) by (simp add: process_ok_def process_ops)
next
  case start_fails
  then show ?thesis using assms(1) by (elim disjE) (simp_all add: process_ok_def process_ops)
next
  case timer_fires
  then show ?thesis using assms(1) by (simp add: process_ok_def poll_begins_def)
next
  case poll_finishes
  then show ?thesis using assms(1) by (simp add: process_ok_def poll_ends_def)
next
  case (readiness_asked metrics)
  then have "prc_ready p" by (simp add: metrics_server_def split: if_splits)
  then show ?thesis using readiness_asked assms(1) by (simp add: process_ok_def)
next
  case readiness_answered
  then show ?thesis using assms(1) by (simp add: process_ok_def)
next
  case (shuts_down s)
  with process_ok_signal [OF assms(1)] have "prc_phase p = Running \<or> prc_phase p = Stopping" by blast
  then show ?thesis
    using shuts_down assms(1) by (elim disjE) (simp_all add: process_ok_def process_ops closing_ok_start)
next
  case (closes i r rs)
  then have "closing_ok (filter (\<lambda>x. x \<noteq> r) (prc_open p)) ((prc_closing p)[i := rs])"
    using assms(1) by (intro closing_ok_close) (simp_all add: process_ok_def)
  then show ?thesis
    using closes process_ok_closing [OF assms(1) closes(2)] assms(1) by (simp add: process_ok_def closed_def)
qed (simp_all add: process_ok_ended)

interpretation life: inductive_invariant "\<lambda>p. p = process_started" process_step process_ok
proof
  show "p = process_started \<Longrightarrow> process_ok p" for p by (simp add: process_ok_def process_started_def closing_ok_def)
qed (rule process_ok_step)

text \<open>What one step does to the phase and, once the process is stopping, to what is under way.\<close>

lemma ended_last: "phase \<le> Ended"
  by (cases phase) (simp_all add: less_eq_phase_def)

lemma phase_step:
  assumes "process_step p q" and "process_ok p"
  shows "prc_phase p \<le> prc_phase q \<and> (prc_phase p \<in> {Stopping, Ended} \<longrightarrow>
    prc_phase q \<in> {Stopping, Ended} \<and> prc_active q \<le> prc_active p \<and> prc_asked q \<le> prc_asked p)"
  using assms(1)
proof cases
  case timer_fires
  have "prc_phase p \<in> {Relaying, Running, Failed}" using timer_fires(2) assms(2) by (simp add: process_ok_def) blast
  moreover have "prc_phase q = prc_phase p" by (simp add: timer_fires(1) poll_begins_def)
  ultimately show ?thesis by auto
next
  case (readiness_asked metrics)
  then have "prc_phase p = Running" using assms(2) by (simp add: metrics_server_def process_ok_def split: if_splits)
  then show ?thesis using readiness_asked by (simp add: less_eq_phase_def)
next
  case (shuts_down s)
  with process_ok_signal [OF assms(2)] have "prc_phase p = Running \<or> prc_phase p = Stopping" by blast
  then show ?thesis using shuts_down by (auto simp: process_ops less_eq_phase_def)
next
  case relay_starts
  then show ?thesis by (simp add: process_ops less_eq_phase_def)
next
  case becomes_ready
  then show ?thesis by (simp add: process_ops less_eq_phase_def)
next
  case start_fails
  then show ?thesis by (auto simp: start_failed_def less_eq_phase_def)
next
  case poll_finishes
  then show ?thesis by (auto simp: poll_ends_def)
next
  case (closes i r rs)
  then show ?thesis by (auto simp: closed_def)
qed (auto simp: ended_fields ended_last)

lemma phase_advances: "process_step\<^sup>*\<^sup>* p q \<Longrightarrow> process_ok p \<Longrightarrow> prc_phase p \<le> prc_phase q"
proof (induction rule: rtranclp_induct)
  case (step q r)
  with phase_step [OF step.hyps(2) life.steps_inv [OF step.hyps(1) step.prems]] show ?case by auto
qed simp

lemma stopping_stays:
  assumes "process_step\<^sup>*\<^sup>* p q" and "prc_phase p = Stopping" and "process_ok p"
  shows "prc_phase q \<in> {Stopping, Ended} \<and> prc_active q \<le> prc_active p \<and> prc_asked q \<le> prc_asked p"
  using assms(1)
proof (induction rule: rtranclp_induct)
  case (step q r)
  with phase_step [OF step.hyps(2) life.steps_inv [OF step.hyps(1) assms(3)]] show ?case by auto
qed (use assms(2) in simp)

lemma readiness_unless_running:
  assumes "process_ok p"
  shows "metrics_server metrics p ''/health/ready'' =
    (if prc_phase p = Running then None else Some (503, status_body ''not_ready''))"
  using assms by (auto simp: metrics_server_def process_ok_def)

text \<open>C21: A worker process never runs two polls at once and leaves in order: in every state it can reach at most
  one poll is under way; a readiness request that arrives asks the database and Redis only between start-up and
  shutdown and is refused with 503 at any other time; its phases never go back, and once it is stopping, no
  poll begins and no request asks any more: only those already asking when the shutdown began may still be
  answered 200. As long as anything it opened is open, the metrics server is, however many signals came.\<close>

theorem worker_polls_one_at_a_time:
  assumes "reach (\<lambda>p. p = process_started) process_step p"
  shows "prc_active p \<le> 1 \<and>
    metrics_server metrics p ''/health/ready'' =
      (if prc_phase p = Running then None else Some (503, status_body ''not_ready'')) \<and>
    (0 < prc_asked p \<longrightarrow> prc_phase p \<in> {Running, Stopping} \<and>
      (readiness_answer up p = (200, status_body ''ready'') \<longleftrightarrow> up)) \<and>
    (prc_open p \<noteq> [] \<longrightarrow> MetricsServer \<in> set (prc_open p)) \<and>
    (\<forall>q. process_step\<^sup>*\<^sup>* p q \<longrightarrow> prc_phase p \<le> prc_phase q \<and> (prc_phase p = Stopping \<longrightarrow>
      prc_active q \<le> prc_active p \<and> prc_asked q \<le> prc_asked p \<and>
      metrics_server metrics q ''/health/ready'' = Some (503, status_body ''not_ready'')))"
proof -
  have ok: "process_ok p" using assms by (rule life.reach_inv)
  have "prc_active q \<le> prc_active p \<and> prc_asked q \<le> prc_asked p \<and>
      metrics_server metrics q ''/health/ready'' = Some (503, status_body ''not_ready'')"
    if "prc_phase p = Stopping" "process_step\<^sup>*\<^sup>* p q" for q
    using stopping_stays [OF that(2,1) ok] readiness_unless_running [OF life.steps_inv [OF that(2) ok]] by auto
  moreover have "prc_open p \<noteq> [] \<longrightarrow> MetricsServer \<in> set (prc_open p)"
    using ok by (simp add: process_ok_def closing_ok_def left_open_last)
  moreover have "0 < prc_asked p \<longrightarrow> prc_phase p \<in> {Running, Stopping} \<and>
      (readiness_answer up p = (200, status_body ''ready'') \<longleftrightarrow> up)"
    using ok by (simp add: process_ok_def readiness_answer_def readinessCheck_def)
  ultimately show ?thesis
    using ok phase_advances [OF _ ok] readiness_unless_running [OF ok] by (simp add: process_ok_def)
qed

text \<open>A process that is told to stop while a poll and a readiness request are under way.\<close>

definition asked_process :: process where
  "asked_process = (running (relaying process_started))\<lparr>prc_asked := 1\<rparr>"

definition stopping_process :: process where
  "stopping_process = stopping SIGTERM asked_process"

lemma stopping_process_reached: "reach (\<lambda>p. p = process_started) process_step stopping_process"
proof -
  let ?r = "running (relaying process_started)"
  have "process_step process_started (relaying process_started)"
    by (rule relay_starts) (simp add: process_started_def)
  moreover have "process_step (relaying process_started) ?r"
    by (rule becomes_ready) (simp add: relaying_def)
  moreover have "process_step ?r asked_process"
  proof -
    have "metrics_server [] ?r ''/health/ready'' = None" by (simp add: metrics_server_def process_ops)
    from readiness_asked [OF this] show ?thesis by (simp add: asked_process_def process_ops process_started_def)
  qed
  moreover have "process_step asked_process stopping_process"
    unfolding stopping_process_def by (rule shuts_down) (simp add: asked_process_def running_def)
  ultimately show ?thesis by (blast intro: reach_step [OF reach_step [OF reach_step [OF reach_step [OF reach_start]]]])
qed

theorem worker_polls_one_at_a_time_witness:
  "prc_active stopping_process = 1 \<and> prc_active (poll_ends stopping_process) \<le> 1 \<and>
   metrics_server [] (poll_ends stopping_process) ''/health/ready'' = Some (503, status_body ''not_ready'') \<and>
   prc_asked stopping_process = 1 \<and> readiness_answer True stopping_process = (200, status_body ''ready'')"
proof -
  have one: "prc_active stopping_process = 1" "prc_asked stopping_process = 1" "prc_phase stopping_process = Stopping"
    by code_simp+
  then have "process_step\<^sup>*\<^sup>* stopping_process (poll_ends stopping_process)"
    by (intro r_into_rtranclp poll_finishes) simp
  with one worker_polls_one_at_a_time [OF stopping_process_reached, of "[]" True] show ?thesis by auto
qed

section \<open>Polls and requests that outlive their process\<close>

text \<open>
  Shutdown does not wait for a poll that is under way: the database pool is closed under it. A readiness request
  may be answered 200 after it began. And a start that
  fails once the relay runs does not stop it: the exit code is set, but the timer goes on and polls begin.
\<close>

lemma reach_steps: "step\<^sup>*\<^sup>* s t \<Longrightarrow> reach start step s \<Longrightarrow> reach start step t"
  by (induction rule: rtranclp_induct) (auto intro: reach_step)

definition closed_first :: "nat \<Rightarrow> process \<Rightarrow> process" where
  "closed_first n p = p\<lparr>prc_open := drop n shutdown_order, prc_closing := [drop n shutdown_order]\<rparr>"

lemma closes_one:
  assumes "n < 6"
  shows "process_step (closed_first n p) (closed_first (Suc n) p)"
proof -
  have "n \<in> {0, 1, 2, 3, 4, 5}" using assms by auto
  then obtain r where "drop n shutdown_order = r # drop (Suc n) shutdown_order"
    "filter (\<lambda>x. x \<noteq> r) (drop n shutdown_order) = drop (Suc n) shutdown_order"
    by (auto simp: shutdown_order_def)
  with closes [of 0 "closed_first n p" r "drop (Suc n) shutdown_order"] show ?thesis
    by (simp add: closed_first_def closed_def)
qed

lemma closes_all: "n \<le> 6 \<Longrightarrow> process_step\<^sup>*\<^sup>* (closed_first 0 p) (closed_first n p)"
proof (induction n)
  case (Suc n)
  with closes_one [of n p] show ?case by (simp add: rtranclp.rtrancl_into_rtrancl)
qed simp

lemma stopping_process_closing: "closed_first 0 stopping_process = stopping_process"
  by (simp add: closed_first_def stopping_process_def asked_process_def process_ops process_started_def)

theorem database_closed_under_poll:
  "\<exists>p. reach (\<lambda>p. p = process_started) process_step p \<and> prc_active p = 1 \<and> DatabasePool \<notin> set (prc_open p)"
proof -
  let ?p = "closed_first 5 stopping_process"
  have "reach (\<lambda>p. p = process_started) process_step ?p"
    using reach_steps [OF closes_all [of 5 stopping_process, unfolded stopping_process_closing] stopping_process_reached] by simp
  moreover have "prc_active ?p = 1" "DatabasePool \<notin> set (prc_open ?p)" by code_simp+
  ultimately show ?thesis by blast
qed

theorem ready_after_shutdown_began:
  "\<exists>p. reach (\<lambda>p. p = process_started) process_step p \<and> prc_phase p = Stopping \<and> 0 < prc_asked p \<and>
     readiness_answer True p = (200, status_body ''ready'')"
proof -
  have "prc_phase stopping_process = Stopping" "prc_asked stopping_process = 1" "prc_checks stopping_process" by code_simp+
  then show ?thesis
    using stopping_process_reached by (intro exI [of _ stopping_process]) (simp add: readiness_answer_def readinessCheck_def)
qed

theorem failed_start_keeps_polling:
  assumes "process_step p q" and "prc_phase p = Relaying" and "prc_phase q = Failed" and "process_ok p"
  shows "prc_exitCode q = Some 1 \<and> prc_open q = shutdown_order \<and> prc_retentionTimer q \<and> process_step\<^sup>*\<^sup>* q (poll_begins (poll_ends q)) \<and>
    prc_active (poll_begins (poll_ends q)) = 1"
proof -
  from assms have q: "q = start_failed p" unfolding process_step_iff by (auto simp: process_ok_def process_ops split: if_splits)
  then have timer: "prc_timer q" "prc_timer (poll_ends q)" and active: "prc_active q \<le> 1"
    using assms(2,4) by (auto simp: process_ok_def process_ops)
  have "process_step\<^sup>*\<^sup>* q (poll_begins (poll_ends q))"
  proof (cases "0 < prc_active q")
    case True
    then show ?thesis using poll_finishes [OF True] timer_fires [OF timer(2)] by auto
  next
    case False
    then have "poll_begins (poll_ends q) = poll_begins q"
      using q assms(4) by (simp add: process_ok_def process_ops)
    then show ?thesis using timer_fires [OF timer(1)] by auto
  qed
  then show ?thesis using q active assms(2,4) by (auto simp: process_ok_def process_ops)
qed

end
