(* ===== verification/Startup.thy ===== *)
theory Startup
  imports WorkerProcess HttpLog Retention
begin

text \<open>
  How the two server processes start: \<open>apps/api/src/main.ts\<close> with the module of \<open>app.module.ts\<close>, and \<open>main\<close> of
  \<open>apps/worker/src/main.ts\<close>. Creating the application, listening, connecting and asking the database and Redis
  are calls of libraries; whether they fail is an argument. What the processes log is their output, line by
  line; \<open>timestamp\<close> is the text of the current date.
\<close>

section \<open>Log lines\<close>

definition log_line :: "string \<Rightarrow> string \<Rightarrow> string \<Rightarrow> (string \<times> json) list \<Rightarrow> string" where
  "log_line timestamp severity msg details =
     stringify (JSObj ([(''timestamp'', JSStr timestamp), (''level'', JSStr severity), (''message'', JSStr msg)] @ details)) @ [CHR 0x0A]"

definition fatal_line :: "string \<Rightarrow> (string \<Rightarrow> string) \<Rightarrow> string \<Rightarrow> exn \<Rightarrow> string" where
  "fatal_line timestamp sql_text msg err = log_line timestamp ''fatal'' msg [(''error'', JSStr (message sql_text err))]"

section \<open>The module of the API\<close>

text \<open>The classes the framework instantiates, and what it can inject into their constructors.\<close>

datatype component =
    Health_Controller | Telemetry_Controller | DevAuth_Controller | Invoice_Controller | Merchant_Controller
  | Payment_Controller | Audit_Controller | Ops_Controller
  | Telemetry_Service | MerchantScope_Service | Audit_Service | Invoice_Service | Payment_Service
  | PlatformAuth_Guard | Logging_Interceptor

datatype token = DATA_SOURCE | API_CONFIG | REFLECTOR | Injected component

definition ops_controller_needs :: "token list" where
  "ops_controller_needs = [DATA_SOURCE, Injected MerchantScope_Service, API_CONFIG]"

definition merchant_controller_needs :: "token list" where
  "merchant_controller_needs = [DATA_SOURCE, Injected MerchantScope_Service]"

definition payment_controller_needs :: "token list" where
  "payment_controller_needs = [Injected Payment_Service, API_CONFIG]"

definition audit_service_needs :: "token list" where
  "audit_service_needs = [DATA_SOURCE, Injected MerchantScope_Service]"

definition invoice_service_needs :: "token list" where
  "invoice_service_needs =
     [DATA_SOURCE, Injected MerchantScope_Service, Injected Audit_Service, Injected Telemetry_Service]"

definition payment_service_needs :: "token list" where
  "payment_service_needs =
     [DATA_SOURCE, Injected MerchantScope_Service, Injected Audit_Service, Injected Telemetry_Service]"

definition guard_needs :: "token list" where
  "guard_needs = [REFLECTOR, API_CONFIG]"

fun component_needs :: "component \<Rightarrow> token list" where
  "component_needs Health_Controller = [DATA_SOURCE]"
| "component_needs Telemetry_Controller = [Injected Telemetry_Service]"
| "component_needs DevAuth_Controller = [API_CONFIG]"
| "component_needs Invoice_Controller = [Injected Invoice_Service]"
| "component_needs Merchant_Controller = merchant_controller_needs"
| "component_needs Payment_Controller = payment_controller_needs"
| "component_needs Audit_Controller = [Injected Audit_Service]"
| "component_needs Ops_Controller = ops_controller_needs"
| "component_needs Telemetry_Service = [API_CONFIG]"
| "component_needs MerchantScope_Service = []"
| "component_needs Audit_Service = audit_service_needs"
| "component_needs Invoice_Service = invoice_service_needs"
| "component_needs Payment_Service = payment_service_needs"
| "component_needs PlatformAuth_Guard = guard_needs"
| "component_needs Logging_Interceptor = [Injected Telemetry_Service]"

definition module_controllers :: "component list" where
  "module_controllers =
     [Health_Controller, Telemetry_Controller, DevAuth_Controller, Invoice_Controller, Merchant_Controller,
      Payment_Controller, Audit_Controller, Ops_Controller]"

text \<open>The tables the module can read and write, and those the connection knows.\<close>

datatype entity =
    MerchantEntity | StoreEntity | InvoiceEntity | InvoiceLineEntity | IdempotencyRecordEntity | OutboxEventEntity
  | DeliveryAttemptEntity | PaymentEntity | RefundEntity | PaymentWebhookReceiptEntity | AuditEventEntity

definition persistenceEntities :: "entity list" where
  "persistenceEntities =
     [MerchantEntity, StoreEntity, InvoiceEntity, InvoiceLineEntity, IdempotencyRecordEntity, OutboxEventEntity,
      DeliveryAttemptEntity, PaymentEntity, RefundEntity, PaymentWebhookReceiptEntity, AuditEventEntity]"

definition module_entities :: "entity list" where
  "module_entities =
     [MerchantEntity, StoreEntity, InvoiceEntity, InvoiceLineEntity, IdempotencyRecordEntity, OutboxEventEntity,
      DeliveryAttemptEntity, PaymentEntity, RefundEntity, PaymentWebhookReceiptEntity, AuditEventEntity]"

lemma every_entity_known: "x \<in> set module_entities \<and> x \<in> set persistenceEntities"
  by (cases x) (simp_all add: module_entities_def persistenceEntities_def)

text \<open>The providers; the guard and the interceptor are registered for every route.\<close>

definition module_providers :: "token list" where
  "module_providers =
     [API_CONFIG, Injected Telemetry_Service, Injected MerchantScope_Service, Injected Audit_Service,
      Injected Invoice_Service, Injected Payment_Service, Injected PlatformAuth_Guard, Injected Logging_Interceptor]"

text \<open>The controller of a route and the prefix its class declares.\<close>

fun controller_of :: "route \<Rightarrow> component" where
  "controller_of HealthLive = Health_Controller"
| "controller_of HealthReady = Health_Controller"
| "controller_of Metrics = Telemetry_Controller"
| "controller_of DevToken = DevAuth_Controller"
| "controller_of ListInvoices = Invoice_Controller"
| "controller_of CreateInvoice = Invoice_Controller"
| "controller_of GetInvoice = Invoice_Controller"
| "controller_of TransitionInvoice = Invoice_Controller"
| "controller_of ListStores = Merchant_Controller"
| "controller_of ListPayments = Payment_Controller"
| "controller_of PaymentWebhook = Payment_Controller"
| "controller_of ListAudit = Audit_Controller"
| "controller_of OpsSummary = Ops_Controller"

text \<open>
  The module resolves when its components can be built one after the other, each from what is there: the
  framework's reflector, the data source of \<open>forRoot\<close>, and the components built before.
\<close>

fun build_order :: "token list \<Rightarrow> component list \<Rightarrow> bool" where
  "build_order available [] = True"
| "build_order available (c # cs) \<longleftrightarrow>
     set (component_needs c) \<subseteq> set available \<and> build_order (Injected c # available) cs"

lemma module_resolves:
  "\<exists>order. build_order [REFLECTOR, DATA_SOURCE, API_CONFIG] order \<and> distinct order \<and>
     set (map Injected order) = set (map Injected module_controllers) \<union> (set module_providers - {API_CONFIG}) \<and>
     (\<forall>r. controller_of r \<in> set order)"
proof -
  let ?order = "[Telemetry_Service, MerchantScope_Service, Audit_Service, Invoice_Service, Payment_Service,
    PlatformAuth_Guard, Logging_Interceptor] @ module_controllers"
  have "build_order [REFLECTOR, DATA_SOURCE, API_CONFIG] ?order" "distinct ?order" by code_simp+
  moreover have "set (map Injected ?order) = set (map Injected module_controllers) \<union> (set module_providers - {API_CONFIG})"
    by (auto simp: module_providers_def)
  moreover have "controller_of r \<in> set ?order" for r by (cases r) (simp_all add: module_controllers_def)
  ultimately show ?thesis by blast
qed

section \<open>The start of the API\<close>

definition common_headers :: "(string \<times> string) list" where
  "common_headers =
     [(''x-content-type-options'', ''nosniff''), (''x-frame-options'', ''DENY''), (''referrer-policy'', ''no-referrer''),
      (''permissions-policy'', ''camera=(), microphone=(), geolocation=(), payment=()'')]"

text \<open>What the middleware sets on every response before the request is handled.\<close>

definition security_headers :: "ApiConfig \<Rightarrow> (string \<times> string) list" where
  "security_headers config =
     common_headers @
     (if cfg_nodeEnv config = ''production''
      then [(''strict-transport-security'', ''max-age=31536000; includeSubDomains'')] else [])"

record validation_pipe =
  vpi_transform :: bool
  vpi_whitelist :: bool
  vpi_forbidNonWhitelisted :: bool
  vpi_stopAtFirstError :: bool

definition global_pipe :: validation_pipe where
  "global_pipe = \<lparr>vpi_transform = True, vpi_whitelist = True, vpi_forbidNonWhitelisted = True, vpi_stopAtFirstError = False\<rparr>"

text \<open>The origins browsers may call from; \<open>false\<close> is \<open>None\<close>.\<close>

record cors_options =
  crs_origin :: "string list option"
  crs_methods :: "string list"
  crs_allowedHeaders :: "string list"

definition cors_of :: "ApiConfig \<Rightarrow> cors_options" where
  "cors_of config =
     \<lparr>crs_origin = (if cfg_nodeEnv config = ''production'' then None else Some [''http://localhost:3000'']),
      crs_methods = [''GET'', ''POST'', ''PATCH''],
      crs_allowedHeaders = [''authorization'', ''content-type'', ''idempotency-key'', ''x-payment-signature'',
        ''x-payment-timestamp'', ''x-platform-api-key'', ''x-request-id'']\<rparr>"

record api_server =
  srv_rawBody :: bool
  srv_poweredBy :: bool
  srv_headers :: "(string \<times> string) list"
  srv_shutdownHooks :: bool
  srv_pipe :: validation_pipe
  srv_cors :: cors_options
  srv_port :: int
  srv_address :: string

definition api_server_of :: "ApiConfig \<Rightarrow> api_server" where
  "api_server_of config =
     \<lparr>srv_rawBody = True, srv_poweredBy = False, srv_headers = security_headers config, srv_shutdownHooks = True,
      srv_pipe = global_pipe, srv_cors = cors_of config, srv_port = cfg_port config, srv_address = ''0.0.0.0''\<rparr>"

text \<open>
  What is left of a start: a server that listens or none, whether the database pool is open, the exit code
  set so far, whether the process was ended, and its output.
\<close>

record api_run =
  apr_listening :: "api_server option"
  apr_databaseOpen :: bool
  apr_exitCode :: "int option"
  apr_ended :: bool
  apr_stdout :: "string list"
  apr_stderr :: "string list"

definition bootstrap_failed :: "string \<Rightarrow> (string \<Rightarrow> string) \<Rightarrow> exn \<Rightarrow> bool \<Rightarrow> api_run" where
  "bootstrap_failed timestamp sql_text err databaseOpen =
     \<lparr>apr_listening = None, apr_databaseOpen = databaseOpen, apr_exitCode = Some 1, apr_ended = False, apr_stdout = [],
      apr_stderr = [fatal_line timestamp sql_text ''api_start_failed'' err]\<rparr>"

text \<open>
  \<open>bootstrap\<close> and what catches its failure. When the framework cannot create the application, which connects
  to the database, it reports that itself and ends the process, as its option \<open>abortOnError\<close> says by default.
\<close>

definition bootstrap ::
  "string \<Rightarrow> (string \<Rightarrow> string) \<Rightarrow> (string \<Rightarrow> bool) \<Rightarrow> process_env \<Rightarrow> (exn + unit) \<Rightarrow> (int \<Rightarrow> exn + unit) \<Rightarrow> api_run" where
  "bootstrap timestamp sql_text is_url env create_app listen =
     (case loadApiConfig is_url env of
        Inl err \<Rightarrow> bootstrap_failed timestamp sql_text err False
      | Inr config \<Rightarrow>
          (case create_app of
             Inl err \<Rightarrow> \<lparr>apr_listening = None, apr_databaseOpen = False, apr_exitCode = Some 1, apr_ended = True,
               apr_stdout = [], apr_stderr = []\<rparr>
           | Inr _ \<Rightarrow>
               (case listen (cfg_port config) of
                  Inl err \<Rightarrow> bootstrap_failed timestamp sql_text err True
                | Inr _ \<Rightarrow> \<lparr>apr_listening = Some (api_server_of config), apr_databaseOpen = True, apr_exitCode = None,
                    apr_ended = False,
                    apr_stdout = [log_line timestamp ''info'' ''api_listening''
                      [(''port'', JSNum (cfg_port config)), (''release'', JSStr (cfg_releaseVersion config))]],
                    apr_stderr = []\<rparr>)))"

text \<open>
  The module is evaluated when it is imported, before \<open>bootstrap\<close>: an error of \<open>databaseOptions\<close> is not caught
  and ends the process.
\<close>

definition api_main ::
  "string \<Rightarrow> (string \<Rightarrow> string) \<Rightarrow> (string \<Rightarrow> exn + string) \<Rightarrow> (string \<Rightarrow> bool) \<Rightarrow> process_env \<Rightarrow>
   (DataSourceOptions \<Rightarrow> exn + unit) \<Rightarrow> (int \<Rightarrow> exn + unit) \<Rightarrow> api_run" where
  "api_main timestamp sql_text read_file is_url env create_app listen =
     (case databaseOptions read_file env of
        Inl err \<Rightarrow> \<lparr>apr_listening = None, apr_databaseOpen = False, apr_exitCode = Some 1, apr_ended = True,
          apr_stdout = [], apr_stderr = []\<rparr>
      | Inr options \<Rightarrow> bootstrap timestamp sql_text is_url env (create_app options) listen)"

lemma api_main_cases:
  "(apr_listening (api_main ts sql_text read_file is_url env create_app listen) = Some server \<longleftrightarrow>
     (\<exists>options config. databaseOptions read_file env = Inr options \<and> loadApiConfig is_url env = Inr config \<and>
       create_app options = Inr () \<and> listen (cfg_port config) = Inr () \<and> server = api_server_of config))"
  "apr_exitCode (api_main ts sql_text read_file is_url env create_app listen) =
     (if apr_listening (api_main ts sql_text read_file is_url env create_app listen) = None then Some 1 else None)"
  by (auto simp: api_main_def bootstrap_def bootstrap_failed_def split: sum.splits)

lemma loadApiConfig_nodeEnv: "loadApiConfig is_url env = Inr c \<Longrightarrow> cfg_nodeEnv c = env_or env ''NODE_ENV'' ''development''"
  by (auto simp: loadApiConfig_def Let_def bindE_Inr_conv)

section \<open>The start of the worker\<close>

record redis_options =
  rds_host :: string
  rds_port :: int
  rds_password :: "string option"
  rds_tls :: bool
  rds_maxRetriesPerRequest :: "int option"
  rds_enableReadyCheck :: bool

definition redis_options_of :: "WorkerConfig \<Rightarrow> redis_options" where
  "redis_options_of config =
     \<lparr>rds_host = wcf_redisHost config, rds_port = wcf_redisPort config, rds_password = wcf_redisPassword config,
      rds_tls = wcf_redisTls config, rds_maxRetriesPerRequest = None, rds_enableReadyCheck = True\<rparr>"

record worker_run =
  wkr_process :: process
  wkr_redis :: "redis_options option"
  wkr_metricsPort :: "int option"
  wkr_stdout :: "string list"
  wkr_stderr :: "string list"

text \<open>
  \<open>main\<close> and what catches its failure. \<open>connect\<close> opens the database pool; \<open>port_free\<close> tells whether the metrics server
  can listen: if not, the server's \<open>error\<close> event, which nobody listens to, ends the process before \<open>main\<close> goes on.
  \<open>ask\<close> is the outcome of the query and the ping after the relay was started, \<open>None\<close> while Redis is away: the client's
  requests are retried without limit, so the ping waits and so does \<open>main\<close>.
\<close>

definition worker_main ::
  "string \<Rightarrow> (string \<Rightarrow> string) \<Rightarrow> (string \<Rightarrow> exn + string) \<Rightarrow> process_env \<Rightarrow> (DataSourceOptions \<Rightarrow> exn + unit) \<Rightarrow>
   bool \<Rightarrow> (exn + unit) option \<Rightarrow> worker_run" where
  "worker_main timestamp sql_text read_file env connect port_free ask =
     (let failed = (\<lambda>p redis port err. \<lparr>wkr_process = start_failed p, wkr_redis = redis, wkr_metricsPort = port,
            wkr_stdout = [], wkr_stderr = [fatal_line timestamp sql_text ''worker_start_failed'' err]\<rparr>)
      in case bindE (loadWorkerConfig env) (\<lambda>config. bindE (databaseOptions read_file env) (\<lambda>options.
              bindE (connect options) (\<lambda>_. Inr config))) of
           Inl err \<Rightarrow> failed process_started None None err
         | Inr config \<Rightarrow>
             let p = relaying process_started; redis = Some (redis_options_of config); port = Some (wcf_metricsPort config);
                 silent = (\<lambda>p. \<lparr>wkr_process = p, wkr_redis = redis, wkr_metricsPort = port, wkr_stdout = [], wkr_stderr = []\<rparr>)
             in if \<not> port_free then silent (ended (Some 1) p)
                else case ask of
                  None \<Rightarrow> silent p
                | Some (Inl err) \<Rightarrow> failed p redis port err
                | Some (Inr _) \<Rightarrow> \<lparr>wkr_process = running p, wkr_redis = redis, wkr_metricsPort = port,
                    wkr_stdout = [log_line timestamp ''info'' ''worker_ready''
                      [(''release'', JSStr (wcf_releaseVersion config)), (''concurrency'', JSNum (wcf_concurrency config))]],
                    wkr_stderr = []\<rparr>)"

text \<open>What a run of the retention logs, which \<open>main\<close> starts with the relay and every six hours, and a signal.\<close>

definition retention_line :: "string \<Rightarrow> (string \<Rightarrow> string) \<Rightarrow> exn + retention_counts \<Rightarrow> string" where
  "retention_line timestamp sql_text result =
     (case result of
        Inl err \<Rightarrow> log_line timestamp ''error'' ''retention_failed'' [(''error'', JSStr (message sql_text err))]
      | Inr counts \<Rightarrow> log_line timestamp ''info'' ''retention_completed''
          [(''outbox'', JSNum (int (rtc_outbox counts))), (''delivery'', JSNum (int (rtc_delivery counts))),
           (''idempotency'', JSNum (int (rtc_idempotency counts))), (''webhookReceipts'', JSNum (int (rtc_webhookReceipts counts)))])"

definition stopping_line :: "string \<Rightarrow> string \<Rightarrow> string" where
  "stopping_line timestamp signal = log_line timestamp ''info'' ''worker_stopping'' [(''signal'', JSStr signal)]"

lemma worker_main_reached:
  "reach (\<lambda>p. p = process_started) process_step (wkr_process (worker_main ts sql_text read_file env connect port_free ask))"
proof -
  have s: "process_step process_started (relaying process_started)" "process_step process_started (start_failed process_started)"
    by (rule relay_starts start_fails, simp add: process_started_def)+
  have r: "process_step (relaying process_started) (running (relaying process_started))"
    "process_step (relaying process_started) (start_failed (relaying process_started))"
    "process_step (relaying process_started) (ended (Some 1) (relaying process_started))"
    by (rule becomes_ready start_fails port_taken, simp add: relaying_def)+
  have start: "reach (\<lambda>p. p = process_started) process_step process_started" by (rule reach_start) simp
  note relay = reach_step [OF start s(1)]
  show ?thesis
    using reach_step [OF start s(2)] relay reach_step [OF relay r(1)] reach_step [OF relay r(2)] reach_step [OF relay r(3)]
    by (auto simp: worker_main_def Let_def split: sum.splits option.splits)
qed

text \<open>What \<open>main\<close> can fail with, and what its run is in each phase it can be left in.\<close>

definition worker_start_error ::
  "(string \<Rightarrow> exn + string) \<Rightarrow> process_env \<Rightarrow> (DataSourceOptions \<Rightarrow> exn + unit) \<Rightarrow> (exn + unit) option \<Rightarrow> exn \<Rightarrow> bool" where
  "worker_start_error read_file env connect ask err \<longleftrightarrow>
     loadWorkerConfig env = Inl err \<or> databaseOptions read_file env = Inl err \<or>
     (\<exists>options. databaseOptions read_file env = Inr options \<and> connect options = Inl err) \<or> ask = Some (Inl err)"

lemma worker_main_cases:
  fixes ts sql_text read_file env connect port_free ask
  defines "run \<equiv> worker_main ts sql_text read_file env connect port_free ask"
  obtains (failed) err where "prc_phase (wkr_process run) = Failed" and "prc_exitCode (wkr_process run) = Some 1"
      and "wkr_stdout run = []" and "wkr_stderr run = [fatal_line ts sql_text ''worker_start_failed'' err]"
      and "worker_start_error read_file env connect ask err"
  | (port_taken) "prc_phase (wkr_process run) = Ended" and "prc_exitCode (wkr_process run) = Some 1" and "wkr_stdout run = []"
      and "\<not> port_free"
  | (opened) config options where "loadWorkerConfig env = Inr config" and "databaseOptions read_file env = Inr options"
      and "connect options = Inr ()" and "port_free" and "wkr_redis run = Some (redis_options_of config)"
      and "wkr_metricsPort run = Some (wcf_metricsPort config)" and "prc_exitCode (wkr_process run) = None" and "wkr_stderr run = []"
      and "ask = None \<and> prc_phase (wkr_process run) = Relaying \<and> wkr_stdout run = [] \<or>
        ask = Some (Inr ()) \<and> prc_phase (wkr_process run) = Running \<and>
          wkr_stdout run = [log_line ts ''info'' ''worker_ready''
            [(''release'', JSStr (wcf_releaseVersion config)), (''concurrency'', JSNum (wcf_concurrency config))]]"
proof (cases "bindE (loadWorkerConfig env) (\<lambda>config. bindE (databaseOptions read_file env) (\<lambda>options.
    bindE (connect options) (\<lambda>_. Inr config)))")
  case (Inl err)
  then have "worker_start_error read_file env connect ask err"
    by (auto simp: worker_start_error_def bindE_Inl_conv)
  moreover have "run = \<lparr>wkr_process = start_failed process_started, wkr_redis = None, wkr_metricsPort = None,
      wkr_stdout = [], wkr_stderr = [fatal_line ts sql_text ''worker_start_failed'' err]\<rparr>"
    unfolding run_def worker_main_def Inl by simp
  ultimately show thesis using failed [of err] by (simp add: start_failed_def)
next
  case (Inr config)
  then obtain options where o: "loadWorkerConfig env = Inr config" "databaseOptions read_file env = Inr options"
    "connect options = Inr ()" by (auto simp: bindE_Inr_conv)
  note run = run_def [unfolded worker_main_def Inr Let_def sum.case]
  consider (taken) "\<not> port_free" | (waits) "port_free" "ask = None" | (error) err where "port_free" "ask = Some (Inl err)"
    | (ready) "port_free" "ask = Some (Inr ())"
    by (cases ask; cases "the ask") auto
  then show thesis
  proof cases
    case taken
    then show thesis using port_taken by (simp add: run ended_def)
  next
    case waits
    then show thesis using opened [OF o] by (simp add: run process_ops process_started_def)
  next
    case (error err)
    then show thesis using failed [of err] by (simp add: run process_ops process_started_def worker_start_error_def)
  next
    case ready
    then show thesis using opened [OF o] by (simp add: run process_ops process_started_def)
  qed
qed


definition mysql_env :: process_env where
  "mysql_env = [''MYSQL_HOST'' \<mapsto> ''db'', ''MYSQL_DATABASE'' \<mapsto> ''shop'', ''MYSQL_USER'' \<mapsto> ''app'', ''MYSQL_PASSWORD'' \<mapsto> ''pw'']"

lemma mysql_env_options:
  assumes "env ''MYSQL_SSL'' = None"
  obtains options where "databaseOptions read_file (env ++ mysql_env) = Inr options"
proof -
  have "\<not> isl (databaseOptions read_file (env ++ mysql_env))"
    using assms
    by (simp add: databaseOptions_def mysqlSslOptions_def required_def truthy_opt_def mysql_env_def bindE_def)
  with that show ?thesis by (cases "databaseOptions read_file (env ++ mysql_env)") auto
qed

lemma sample_api_starts:
  "apr_listening (api_main ts sql_text read_file (\<lambda>_. True) (sample_api_env ++ mysql_env) (\<lambda>_. Inr ()) (\<lambda>_. Inr ())) \<noteq> None"
proof -
  obtain options where o: "databaseOptions read_file (sample_api_env ++ mysql_env) = Inr options"
    by (rule mysql_env_options [of sample_api_env]) (simp add: sample_api_env_def)
  have p: "provider_format ''sandboxpay''" by code_simp
  have "\<not> isl (loadApiConfig (\<lambda>_. True) (sample_api_env ++ mysql_env))"
    by (simp add: loadApiConfig_def sample_api_env_def mysql_env_def required_def truthy_opt_def env_or_def
        boundedInteger_def sample_numbers p)
  with o show ?thesis by (auto simp: api_main_def bootstrap_def split: sum.splits)
qed

lemma sample_worker_starts:
  "prc_phase (wkr_process (worker_main ts sql_text read_file (sample_worker_env ++ mysql_env) (\<lambda>_. Inr ()) True (Some (Inr ())))) = Running"
proof -
  obtain options where o: "databaseOptions read_file (sample_worker_env ++ mysql_env) = Inr options"
    by (rule mysql_env_options [of sample_worker_env]) (simp add: sample_worker_env_def)
  have "\<not> isl (loadWorkerConfig (sample_worker_env ++ mysql_env))"
    by (simp add: loadWorkerConfig_def sample_worker_env_def mysql_env_def required_def truthy_opt_def env_or_def
        integer_var_def boundedInteger_def sample_numbers)
  with o show ?thesis by (auto simp: worker_main_def Let_def bindE_def running_def process_ops split: sum.splits)
qed


end
