(* ===== verification/WorkerTelemetry.thy ===== *)
theory WorkerTelemetry
  imports Platform
begin

text \<open>
  The metrics of \<open>apps/worker/src/telemetry.ts\<close>: counters and gauges as values, the histogram of durations as the
  list of what was observed. A worker runs jobs and polls; each adds to the metrics, and the metrics agree with the
  rows it wrote. The registry's default metrics and the text it writes are the library's.
\<close>

section \<open>The metrics\<close>

record worker_telemetry =
  wtl_deliveries :: "string \<Rightarrow> nat"
  wtl_deliveryDuration :: "jsnum list"
  wtl_outboxClaimed :: nat
  wtl_outboxOldestAge :: jsnum
  wtl_queueWaiting :: int
  wtl_queueFailed :: int
  wtl_release :: "string \<Rightarrow> int"
  wtl_cleared :: bool

definition worker_telemetry_started :: "string \<Rightarrow> worker_telemetry" where
  "worker_telemetry_started releaseVersion =
     \<lparr>wtl_deliveries = (\<lambda>_. 0), wtl_deliveryDuration = [], wtl_outboxClaimed = 0, wtl_outboxOldestAge = JInt 0,
      wtl_queueWaiting = 0, wtl_queueFailed = 0, wtl_release = (\<lambda>_. 0)(releaseVersion := 1), wtl_cleared = False\<rparr>"

fun worker_observe :: "worker_metric \<Rightarrow> worker_telemetry \<Rightarrow> worker_telemetry" where
  "worker_observe (DeliveriesInc outcome) tel =
     tel\<lparr>wtl_deliveries := (wtl_deliveries tel)(outcome := wtl_deliveries tel outcome + 1)\<rparr>"
| "worker_observe (OutboxClaimedInc n) tel = tel\<lparr>wtl_outboxClaimed := wtl_outboxClaimed tel + n\<rparr>"
| "worker_observe (OutboxOldestAgeSet age) tel = tel\<lparr>wtl_outboxOldestAge := age\<rparr>"
| "worker_observe (QueueWaitingSet n) tel = tel\<lparr>wtl_queueWaiting := n\<rparr>"
| "worker_observe (QueueFailedSet n) tel = tel\<lparr>wtl_queueFailed := n\<rparr>"

definition observe_delivery :: "jsnum \<Rightarrow> worker_telemetry \<Rightarrow> worker_telemetry" where
  "observe_delivery nanoseconds tel =
     tel\<lparr>wtl_deliveryDuration := wtl_deliveryDuration tel @ [js_div nanoseconds (JInt 1000000000)]\<rparr>"

text \<open>\<open>close\<close>: the registry is cleared whether or not the server closes; the result is the rejection.\<close>

definition telemetry_close :: "bool \<Rightarrow> exn option \<Rightarrow> worker_telemetry \<Rightarrow> exn option \<times> worker_telemetry" where
  "telemetry_close server closing tel =
     (if \<not> server then None else closing, tel\<lparr>wtl_cleared := True\<rparr>)"

section \<open>A worker's work\<close>

record job_call =
  jbc_reply :: http_reply
  jbc_newId :: "nat \<Rightarrow> int"
  jbc_now :: int
  jbc_attemptsMade :: int
  jbc_attempts :: "int option"
  jbc_event :: event_payload
  jbc_nanoseconds :: jsnum

record poll_call =
  plc_now :: "nat \<Rightarrow> int"
  plc_reply :: "nat \<Rightarrow> exn option"
  plc_counts :: "int \<times> int"
  plc_skipped :: "outbox_event \<Rightarrow> bool"

datatype worker_action = RunJob job_call | RunPoll poll_call

fun worker_act ::
  "(string \<Rightarrow> char list) \<Rightarrow> (string \<Rightarrow> string) \<Rightarrow> WorkerConfig \<Rightarrow> worker_action \<Rightarrow>
   database \<times> worker_telemetry \<Rightarrow> database \<times> worker_telemetry" where
  "worker_act sha256 sql_text config (RunJob c) (d, tel) =
     (let run = handle_job sha256 sql_text config (jbc_reply c) (jbc_newId c) (jbc_now c) (jbc_attemptsMade c)
            (jbc_attempts c) (jbc_event c) d
      in (dlr_db run, observe_delivery (jbc_nanoseconds c) (fold worker_observe (dlr_metrics run) tel)))"
| "worker_act sha256 sql_text config (RunPoll c) (d, tel) =
     (let run = poll config sql_text (plc_now c) (plc_reply c) (plc_counts c) (plc_skipped c) False d
      in (run_db run, fold worker_observe (run_metrics run) tel))"

section \<open>Counting rows\<close>

definition attempt_key :: "database \<Rightarrow> delivery_attempt \<Rightarrow> string \<times> int" where
  "attempt_key d r = (collation d (dlv_eventId r), dlv_attemptNumber r)"

definition attempts_unique :: "database \<Rightarrow> bool" where
  "attempts_unique d \<longleftrightarrow> distinct (map (attempt_key d) (delivery_attempts d))"

definition succeeded :: "database \<Rightarrow> nat" where
  "succeeded d = count_where (\<lambda>r. dlv_status r = SUCCEEDED) (delivery_attempts d)"

definition published_count :: "database \<Rightarrow> nat" where
  "published_count d = count_where (\<lambda>r. obx_status r = PUBLISHED) (outbox_events d)"

lemma count_update_where:
  assumes "\<And>r. r \<in> set rs \<Longrightarrow> Q r \<Longrightarrow> \<not> P r \<and> (P (f r) \<longleftrightarrow> b)"
  shows "count_where P (update_where Q f rs) = count_where P rs + (if b then count_where Q rs else 0)"
  using assms by (induction rs) (auto simp: count_where_def)

lemma count_update_le: "count_where P (update_where Q f rs) \<le> count_where P rs + count_where Q rs"
  by (induction rs) (auto simp: count_where_def)

lemma count_distinct_le: "distinct (map k rs) \<Longrightarrow> count_where (\<lambda>r. k r = x \<and> Q r) rs \<le> 1"
proof (induction rs)
  case (Cons a rs)
  moreover have "count_where (\<lambda>r. k r = k a \<and> Q r) rs = 0"
    using Cons.prems unfolding count_where_def length_0_conv filter_empty_conv
    by (metis distinct.simps(2) imageI list.set_map list.simps(9))
  ultimately show ?case by (auto simp: count_where_def)
qed (simp add: count_where_def)

lemma same_attempt_key: "same_attempt d r s \<longleftrightarrow> attempt_key d s = attempt_key d r"
  by (simp add: same_attempt_def attempt_key_def sql_eq_def)

lemma upsert_counts:
  assumes "upsert_delivery r d = Inr d'" and "attempts_unique d" and "\<not> delivered d (dlv_eventId r)"
  shows "succeeded d' = succeeded d + of_bool (dlv_status r = SUCCEEDED) \<and> attempts_unique d'"
proof (cases "list_ex (same_attempt d r) (delivery_attempts d)")
  case True
  then obtain x where x: "x \<in> set (delivery_attempts d)" "attempt_key d x = attempt_key d r"
    by (auto simp: list_ex_iff same_attempt_key)
  have "same_attempt d r = (\<lambda>s. attempt_key d s = attempt_key d x)" by (simp add: fun_eq_iff same_attempt_key x(2))
  then have "filter (same_attempt d r) (delivery_attempts d) = [x]"
    using filter_distinct_key [OF assms(2) [unfolded attempts_unique_def] x(1)] by simp
  then have one: "count_where (same_attempt d r) (delivery_attempts d) = 1" by (simp add: count_where_def)
  have "succeeded d' = count_where (\<lambda>r. dlv_status r = SUCCEEDED)
      (update_where (same_attempt d r) (overwrite r) (delivery_attempts d))"
    using assms(1) True by (auto simp: upsert_delivery_Inr succeeded_def)
  also have "\<dots> = succeeded d + (if dlv_status r = SUCCEEDED then 1 else 0)"
    unfolding succeeded_def one [symmetric]
    by (rule count_update_where) (use assms(3) in \<open>auto simp: delivered_iff same_attempt_def overwrite_def\<close>)
  moreover have "map (attempt_key d) (update_where (same_attempt d r) (overwrite r) (delivery_attempts d))
      = map (attempt_key d) (delivery_attempts d)"
    by (rule map_update_where_same) (auto simp: attempt_key_def overwrite_def)
  then have "attempts_unique d'"
    using assms(1,2) True by (auto simp: upsert_delivery_Inr attempts_unique_def attempt_key_def [abs_def])
  ultimately show ?thesis by simp
next
  case False
  then have "attempt_key d r \<notin> attempt_key d ` set (delivery_attempts d)"
    by (auto simp: list_ex_iff same_attempt_key)
  with False assms(1,2) show ?thesis
    by (auto simp: upsert_delivery_Inr succeeded_def count_where_def attempts_unique_def attempt_key_def [abs_def])
qed

definition claimed_of :: "worker_metric list \<Rightarrow> nat" where
  "claimed_of ms = sum_list (map (\<lambda>m. case m of OutboxClaimedInc n \<Rightarrow> n | _ \<Rightarrow> 0) ms)"

lemma fold_worker_observe:
  "wtl_deliveries (fold worker_observe ms tel) x = wtl_deliveries tel x + count_list ms (DeliveriesInc x)"
  "wtl_outboxClaimed (fold worker_observe ms tel) = wtl_outboxClaimed tel + claimed_of ms"
  "wtl_deliveryDuration (fold worker_observe ms tel) = wtl_deliveryDuration tel"
proof (induction ms arbitrary: tel)
  case (Cons m ms)
  { case 1 show ?case using Cons(1) [of "worker_observe m tel"] by (cases m) auto }
  { case 2 show ?case using Cons(2) [of "worker_observe m tel"] by (cases m) (auto simp: claimed_of_def) }
  { case 3 show ?case using Cons(3) [of "worker_observe m tel"] by (cases m) auto }
qed (simp_all add: claimed_of_def)

section \<open>A job and a poll\<close>

lemma job_counts:
  assumes "run = handle_job sha256 sql_text config reply newId now attemptsMade attempts event d"
    and "attempts_unique d"
  shows "succeeded (dlr_db run) = succeeded d + count_list (dlr_metrics run) (DeliveriesInc ''succeeded'')"
    and "attempts_unique (dlr_db run)" and "outbox_events (dlr_db run) = outbox_events d"
    and "collation (dlr_db run) = collation d" and "claimed_of (dlr_metrics run) = 0"
proof -
  show "outbox_events (dlr_db run) = outbox_events d" "collation (dlr_db run) = collation d"
    by (subst handle_job_frame [OF assms(1)], simp)+
  show "claimed_of (dlr_metrics run) = 0"
    unfolding assms(1) handle_job_def by (auto simp: Let_def claimed_of_def split: sum.splits prod.splits)
  have "succeeded (dlr_db run) = succeeded d + count_list (dlr_metrics run) (DeliveriesInc ''succeeded'') \<and>
      attempts_unique (dlr_db run)"
  proof (cases "delivered d (evp_eventId event)")
    case True
    then show ?thesis using assms by (simp add: handle_job_delivered)
  next
    case False
    then have counts: "upsert_delivery r d = Inr d' \<Longrightarrow> dlv_eventId r = evp_eventId event \<Longrightarrow>
        succeeded d' = succeeded d + of_bool (dlv_status r = SUCCEEDED) \<and> attempts_unique d'" for r d'
      using upsert_counts assms(2) by simp
    from False show ?thesis
      unfolding assms(1) handle_job_def
      by (auto simp: Let_def bindE_Inr_conv assms(2) counts sent_attempt_def failed_attempt_def
          dest!: counts split: sum.splits prod.splits)
  qed
  then show "succeeded (dlr_db run) = succeeded d + count_list (dlr_metrics run) (DeliveriesInc ''succeeded'')"
    "attempts_unique (dlr_db run)" by simp_all
qed

lemma publish_all_counts:
  assumes "outbox_ids_unique d"
  shows "published_count (publish_all config sql_text reply now i events d) \<le> published_count d + length events"
  using assms
proof (induction events arbitrary: i d)
  case (Cons ev events)
  let ?f = "settle config sql_text (reply i) (now i)"
  let ?d = "update_claimed ev ?f d"
  have u: "outbox_ids_unique ?d"
    using Cons.prems by (simp add: update_claimed_unique)
  have "published_count ?d \<le> published_count d + 1"
    using count_update_le [of "\<lambda>r. obx_status r = PUBLISHED" "\<lambda>r. sql_eq d (obx_id r) (obx_id ev) \<and> obx_status r = PROCESSING" ?f "outbox_events d"]
      count_distinct_le [OF Cons.prems [unfolded outbox_ids_unique_def], of "outbox_key d ev" "\<lambda>r. obx_status r = PROCESSING"]
    by (simp add: published_count_def update_claimed_def sql_eq_outbox_key)
  with Cons.IH [OF u, of "Suc i"] show ?case by simp
qed simp

lemma publish_all_unique:
  "outbox_ids_unique d \<Longrightarrow> outbox_ids_unique (publish_all config sql_text reply now i events d)"
  by (induction events arbitrary: i d) (simp_all add: update_claimed_unique)

lemma publish_all_others [simp]:
  "delivery_attempts (publish_all config sql_text reply now i events d) = delivery_attempts d"
  "collation (publish_all config sql_text reply now i events d) = collation d"
  unfolding publish_all_rows by simp_all

lemma claimed_rows_counts:
  assumes "set events \<subseteq> {r. claimable now r}"
  shows "published_count (claimed_rows events t d) \<le> published_count d"
proof -
  have "count_where (\<lambda>r. obx_status r = PUBLISHED) (map (\<lambda>r. if r \<in> set events then claimed t r else r) rs)
      \<le> count_where (\<lambda>r. obx_status r = PUBLISHED) rs" for rs
    by (induction rs) (auto simp: count_where_def)
  then show ?thesis by (simp add: published_count_def claimed_rows_def)
qed

lemma poll_counts:
  assumes "run = poll config sql_text now reply counts skipped polling d" and "outbox_ids_unique d"
  shows "published_count (run_db run) \<le> published_count d + claimed_of (run_metrics run)"
    and "outbox_ids_unique (run_db run)" and "delivery_attempts (run_db run) = delivery_attempts d"
    and "collation (run_db run) = collation d" and "count_list (run_metrics run) (DeliveriesInc x) = 0"
proof -
  have "published_count (run_db run) \<le> published_count d + claimed_of (run_metrics run) \<and>
    outbox_ids_unique (run_db run) \<and> delivery_attempts (run_db run) = delivery_attempts d \<and>
    collation (run_db run) = collation d \<and> count_list (run_metrics run) (DeliveriesInc x) = 0"
  proof (cases "claim 25 (now 0) (now 1) skipped d")
    case (Inl err)
    then show ?thesis by (simp add: assms poll_def)
  next
    case (Inr r)
    obtain events d1 where r: "r = (events, d1)" by fastforce
    with Inr have c: "events = claim_candidates 25 (now 0) skipped d" "d1 = claimed_rows events (now 1 + 30000) d"
      unfolding r claim_Inr [OF assms(2)] by auto
    let ?d2 = "publish_all config sql_text reply (\<lambda>i. now (2 + i)) 0 events d1"
    have u: "outbox_ids_unique d1"
      using assms(2) by (simp add: c(2) claimed_rows_unique)
    have "published_count ?d2 \<le> published_count d + length events"
      using publish_all_counts [OF u, of config sql_text reply "\<lambda>i. now (2 + i)" 0 events]
        claimed_rows_counts [of events "now 0" "now 1 + 30000" d] claim_candidates_mem [of _ 25 "now 0" skipped d]
      by (fastforce simp: c)
    moreover have "delivery_attempts d1 = delivery_attempts d" "collation d1 = collation d"
      by (simp_all add: c(2) claimed_rows_def)
    ultimately show ?thesis
      using Inr publish_all_unique [OF u, of config sql_text reply "\<lambda>i. now (2 + i)" 0 events] assms(2)
      by (auto simp: assms(1) poll_def r Let_def claimed_of_def updateMetrics_def split: prod.splits option.splits)
  qed
  then show "published_count (run_db run) \<le> published_count d + claimed_of (run_metrics run)"
    "outbox_ids_unique (run_db run)" "delivery_attempts (run_db run) = delivery_attempts d"
    "collation (run_db run) = collation d" "count_list (run_metrics run) (DeliveriesInc x) = 0" by simp_all
qed

section \<open>The counters agree with the rows\<close>

fun is_job :: "worker_action \<Rightarrow> bool" where
  "is_job (RunJob c) = True"
| "is_job (RunPoll c) = False"

definition worker_work ::
  "(string \<Rightarrow> char list) \<Rightarrow> (string \<Rightarrow> string) \<Rightarrow> WorkerConfig \<Rightarrow> worker_action list \<Rightarrow>
   database \<times> worker_telemetry \<Rightarrow> database \<times> worker_telemetry" where
  "worker_work sha256 sql_text config actions = fold (worker_act sha256 sql_text config) actions"

definition outcomes :: "(string \<Rightarrow> nat) \<Rightarrow> nat" where
  "outcomes f = f ''succeeded'' + f ''retrying'' + f ''dead_lettered'' + f ''deduplicated''"

lemma job_outcomes:
  "outcomes (\<lambda>x. count_list (dlr_metrics (handle_job sha256 sql_text config reply newId now attemptsMade attempts event d))
     (DeliveriesInc x)) \<le> 1"
  unfolding handle_job_def outcomes_def by (auto simp: Let_def split: sum.splits prod.splits)

lemma worker_act_agrees:
  assumes "worker_act sha256 sql_text config a (d, tel) = (d', tel')" and "attempts_unique d" and "outbox_ids_unique d"
  shows "succeeded d' + wtl_deliveries tel ''succeeded'' = succeeded d + wtl_deliveries tel' ''succeeded'' \<and>
    published_count d' + wtl_outboxClaimed tel \<le> published_count d + wtl_outboxClaimed tel' \<and>
    length (wtl_deliveryDuration tel') = length (wtl_deliveryDuration tel) + of_bool (is_job a) \<and>
    outcomes (wtl_deliveries tel') \<le> outcomes (wtl_deliveries tel) + of_bool (is_job a) \<and>
    attempts_unique d' \<and> outbox_ids_unique d'"
proof (cases a)
  case (RunJob c)
  let ?run = "handle_job sha256 sql_text config (jbc_reply c) (jbc_newId c) (jbc_now c) (jbc_attemptsMade c)
    (jbc_attempts c) (jbc_event c) d"
  note counts = job_counts [OF refl assms(2), of sha256 sql_text config "jbc_reply c" "jbc_newId c" "jbc_now c"
    "jbc_attemptsMade c" "jbc_attempts c" "jbc_event c"]
  have "outbox_ids_unique (dlr_db ?run)"
    using assms(3) counts(3,4) by (simp add: outbox_ids_unique_def outbox_key_def [abs_def])
  moreover note job_outcomes [of sha256 sql_text config "jbc_reply c" "jbc_newId c" "jbc_now c"
    "jbc_attemptsMade c" "jbc_attempts c" "jbc_event c" d]
  ultimately show ?thesis
    using assms(1) counts RunJob
    by (auto simp: Let_def observe_delivery_def fold_worker_observe published_count_def outcomes_def)
next
  case (RunPoll c)
  let ?run = "poll config sql_text (plc_now c) (plc_reply c) (plc_counts c) (plc_skipped c) False d"
  note counts = poll_counts [OF refl assms(3), of config sql_text "plc_now c" "plc_reply c" "plc_counts c" "plc_skipped c" False]
  have "attempts_unique (run_db ?run)"
    using assms(2) counts(3,4) by (simp add: attempts_unique_def attempt_key_def [abs_def])
  then show ?thesis
    using assms(1) counts RunPoll
    by (auto simp: Let_def fold_worker_observe succeeded_def outcomes_def)
qed

lemma worker_work_agrees:
  assumes "worker_work sha256 sql_text config actions (d, tel) = (d', tel')" and "attempts_unique d" and "outbox_ids_unique d"
  shows "succeeded d' + wtl_deliveries tel ''succeeded'' = succeeded d + wtl_deliveries tel' ''succeeded'' \<and>
    published_count d' + wtl_outboxClaimed tel \<le> published_count d + wtl_outboxClaimed tel' \<and>
    length (wtl_deliveryDuration tel') = length (wtl_deliveryDuration tel) + count_where is_job actions \<and>
    outcomes (wtl_deliveries tel') \<le> outcomes (wtl_deliveries tel) + count_where is_job actions"
  using assms
proof (induction actions arbitrary: d tel)
  case (Cons a actions)
  obtain d1 tel1 where a: "worker_act sha256 sql_text config a (d, tel) = (d1, tel1)" by fastforce
  with Cons.prems(1) have "worker_work sha256 sql_text config actions (d1, tel1) = (d', tel')" by (simp add: worker_work_def)
  note rest = Cons.IH [OF this] and first = worker_act_agrees [OF a Cons.prems(2,3)]
  have "count_where is_job (a # actions) = of_bool (is_job a) + count_where is_job actions" by (simp add: count_where_def)
  with rest first show ?case by linarith
qed (simp add: worker_work_def count_where_def)

text \<open>C38: The metrics of a worker tell what it did, whatever jobs and polls it ran since its start and however their
  calls ended: its successful deliveries are as many as the delivery attempts gained successful rows, it published
  no more events than it counted as claimed, it timed every job, and a job has at most one outcome.\<close>

theorem worker_counters_tell_rows:
  assumes "worker_work sha256 sql_text config actions (d, worker_telemetry_started release) = (d', tel)"
    and "attempts_unique d" and "outbox_ids_unique d"
  shows "succeeded d' = succeeded d + wtl_deliveries tel ''succeeded'' \<and>
    published_count d' \<le> published_count d + wtl_outboxClaimed tel \<and>
    length (wtl_deliveryDuration tel) = count_where is_job actions \<and>
    wtl_deliveries tel ''succeeded'' + wtl_deliveries tel ''retrying'' + wtl_deliveries tel ''dead_lettered'' +
      wtl_deliveries tel ''deduplicated'' \<le> count_where is_job actions"
  using worker_work_agrees [OF assms] by (simp add: worker_telemetry_started_def outcomes_def)

definition sample_work :: "worker_action list" where
  "sample_work =
     [RunPoll \<lparr>plc_now = (\<lambda>i. 2000 + int i), plc_reply = (\<lambda>_. None), plc_counts = (0, 0), plc_skipped = (\<lambda>_. False)\<rparr>,
      RunJob \<lparr>jbc_reply = Inr (200, None), jbc_newId = int, jbc_now = 2100, jbc_attemptsMade = 0, jbc_attempts = Some 3,
        jbc_event = sample_payload ''e1'', jbc_nanoseconds = JInt 5\<rparr>]"

theorem worker_counters_tell_rows_witness:
  "\<exists>d tel. worker_work sample_hash (\<lambda>c. c) sample_worker sample_work (outbox_db, worker_telemetry_started ''v1'') = (d, tel) \<and>
     succeeded d = 1 \<and> wtl_deliveries tel ''succeeded'' = 1"
proof -
  obtain d tel where w: "worker_work sample_hash (\<lambda>c. c) sample_worker sample_work (outbox_db, worker_telemetry_started ''v1'') = (d, tel)"
    by fastforce
  have u: "attempts_unique outbox_db" "outbox_ids_unique outbox_db" "succeeded outbox_db = 0" by code_simp+
  have "succeeded (fst (worker_work sample_hash (\<lambda>c. c) sample_worker sample_work (outbox_db, worker_telemetry_started ''v1''))) = 1"
    by code_simp
  with w worker_counters_tell_rows [OF w u(1,2)] u(3) show ?thesis by simp
qed

end
