(* ===== verification/PortalPage.thy ===== *)
theory PortalPage
  imports PortalApi
begin

text \<open>
  What the portal's page shows: the markup of \<open>apps/portal/src/app/page.tsx\<close> as a record of its texts, tables and
  form, computed from the page's state. Dates are their time values; the formatting of an amount in a currency
  and of a date by \<open>Intl\<close> is a parameter. The last section puts the page in front of the portal's routes and
  the API.
\<close>

section \<open>The data of the page\<close>

record OpsSummary =
  ops_release :: string
  ops_environment :: string
  ops_invoices :: int
  ops_payments :: int
  ops_refunds :: int
  ops_pendingOutbox :: int
  ops_processingOutbox :: int
  ops_successfulDeliveries :: int
  ops_deadLetters :: int
  ops_oldestPendingOutboxAt :: "int option"
  ops_generatedAt :: int

record Invoice =
  pgi_id :: string
  pgi_storeId :: string
  pgi_status :: string
  pgi_currency :: string
  pgi_subtotalMinor :: int
  pgi_discountMinor :: int
  pgi_taxMinor :: int
  pgi_totalMinor :: int
  pgi_issuedAt :: int
  pgi_version :: int

record Store =
  pgs_id :: string
  pgs_merchantId :: string
  pgs_code :: string
  pgs_name :: string
  pgs_timezone :: string

record Payment =
  pgp_id :: string
  pgp_invoiceId :: string
  pgp_provider :: string
  pgp_providerPaymentId :: string
  pgp_amountMinor :: int
  pgp_refundedMinor :: int
  pgp_currency :: string
  pgp_status :: string
  pgp_capturedAt :: int

record AuditEvent =
  pga_id :: string
  pga_actorSubject :: string
  pga_action :: string
  pga_resourceType :: string
  pga_resourceId :: string
  pga_createdAt :: int

text \<open>The five pieces of data, in the order in which \<open>refresh\<close> asks for them.\<close>

datatype page_body =
    SummaryBody "OpsSummary option"
  | InvoicesBody "Invoice list"
  | StoresBody "Store list"
  | PaymentsBody "Payment list"
  | AuditBody "AuditEvent list"

definition page_started :: "page_body page_state" where
  "page_started =
     \<lparr>pg_data = [SummaryBody None, InvoicesBody [], StoresBody [], PaymentsBody [], AuditBody []],
      pg_loading = True, pg_submitting = False, pg_error = None\<rparr>"

definition page_summary :: "page_body page_state \<Rightarrow> OpsSummary option" where
  "page_summary p = (case pg_data p ! 0 of SummaryBody s \<Rightarrow> s | _ \<Rightarrow> None)"

definition page_invoices :: "page_body page_state \<Rightarrow> Invoice list" where
  "page_invoices p = (case pg_data p ! 1 of InvoicesBody xs \<Rightarrow> xs | _ \<Rightarrow> [])"

definition page_stores :: "page_body page_state \<Rightarrow> Store list" where
  "page_stores p = (case pg_data p ! 2 of StoresBody xs \<Rightarrow> xs | _ \<Rightarrow> [])"

definition page_payments :: "page_body page_state \<Rightarrow> Payment list" where
  "page_payments p = (case pg_data p ! 3 of PaymentsBody xs \<Rightarrow> xs | _ \<Rightarrow> [])"

definition page_audit :: "page_body page_state \<Rightarrow> AuditEvent list" where
  "page_audit p = (case pg_data p ! 4 of AuditBody xs \<Rightarrow> xs | _ \<Rightarrow> [])"

section \<open>The view\<close>

record intl =
  intl_currency :: "string \<Rightarrow> jsnum \<Rightarrow> string"
  intl_date :: "int \<Rightarrow> string"

definition money :: "intl \<Rightarrow> int \<Rightarrow> string \<Rightarrow> string" where
  "money i minor currency = intl_currency i currency (js_div (JInt minor) (JInt 100))"

definition formatTime :: "intl \<Rightarrow> int \<Rightarrow> string" where
  "formatTime i v = intl_date i v"

text \<open>
  \<open>toUpperCase\<close> on Latin-1: the letters a-z and the accented small letters but for the division sign (247); the
  sharp s becomes SS. The two whose capital is no Latin-1 character (181, 255) stay as they are here.
\<close>

definition upper_char :: "char \<Rightarrow> string" where
  "upper_char c =
     (if is_lower c \<or> (in_range 224 c 254 \<and> code c \<noteq> 247) then [char_of (code c - 32)]
      else if code c = 223 then ''SS'' else [c])"

definition js_upper :: "string \<Rightarrow> string" where
  "js_upper s = concat (map upper_char s)"

record metric_view =
  mtv_label :: string
  mtv_value :: string
  mtv_tone :: string

definition Metric :: "string \<Rightarrow> int option \<Rightarrow> string \<Rightarrow> metric_view" where
  "Metric label v tone =
     \<lparr>mtv_label = label, mtv_value = (case v of None \<Rightarrow> ''-'' | Some n \<Rightarrow> show_int n), mtv_tone = tone\<rparr>"

definition metrics_band :: "OpsSummary option \<Rightarrow> metric_view list" where
  "metrics_band summary =
     [Metric ''Invoices'' (map_option ops_invoices summary) ''neutral'',
      Metric ''Payments'' (map_option ops_payments summary) ''active'',
      Metric ''Refunds'' (map_option ops_refunds summary) ''neutral'',
      Metric ''Pending outbox'' (map_option ops_pendingOutbox summary) ''warning'',
      Metric ''Delivered'' (map_option ops_successfulDeliveries summary) ''active'',
      Metric ''Dead letters'' (map_option ops_deadLetters summary) ''critical'']"

text \<open>A table: its column heads, the texts of each row, and the row that says there are none.\<close>

record table_view =
  tbv_head :: "string list"
  tbv_rows :: "string list list"
  tbv_empty :: "string option"

definition table :: "string list \<Rightarrow> ('r \<Rightarrow> string list) \<Rightarrow> string \<Rightarrow> bool \<Rightarrow> 'r list \<Rightarrow> table_view" where
  "table head row none loading rs =
     \<lparr>tbv_head = head, tbv_rows = map row rs, tbv_empty = (if \<not> loading \<and> rs = [] then Some none else None)\<rparr>"

definition invoices_table :: "intl \<Rightarrow> bool \<Rightarrow> Invoice list \<Rightarrow> table_view" where
  "invoices_table i =
     table [''Invoice'', ''Status'', ''Amount'', ''Issued'']
       (\<lambda>r. [slice_to 8 (pgi_id r), slice_to 8 (pgi_storeId r), pgi_status r, money i (pgi_totalMinor r) (pgi_currency r),
          formatTime i (pgi_issuedAt r)])
       ''No invoices issued''"

definition payments_table :: "intl \<Rightarrow> bool \<Rightarrow> Payment list \<Rightarrow> table_view" where
  "payments_table i =
     table [''Payment'', ''Status'', ''Captured'', ''Refunded'']
       (\<lambda>r. [pgp_providerPaymentId r, slice_to 8 (pgp_invoiceId r), pgp_status r, money i (pgp_amountMinor r) (pgp_currency r),
          money i (pgp_refundedMinor r) (pgp_currency r)])
       ''No captured payments''"

definition audit_table :: "intl \<Rightarrow> bool \<Rightarrow> AuditEvent list \<Rightarrow> table_view" where
  "audit_table i =
     table [''Action'', ''Resource'', ''Actor'', ''Time'']
       (\<lambda>r. [pga_action r, slice_to 12 (pga_resourceId r), pga_resourceType r, pga_actorSubject r,
          formatTime i (pga_createdAt r)])
       ''No audit events''"

section \<open>The form\<close>

datatype field_kind = SelectField "(string \<times> string) list" | TextField nat | EmailField nat | NumberField "int option" "int option"

record form_field =
  ffd_name :: string
  ffd_label :: string
  ffd_kind :: field_kind
  ffd_default :: string

text \<open>
  The fields of the form, all required: the store by its identifier, texts with their greatest length, numbers
  with their least and greatest value. \<open>step\<close> is not given, so numbers are integers.
\<close>

definition invoice_form :: "Store list \<Rightarrow> form_field list" where
  "invoice_form ss =
     [\<lparr>ffd_name = ''storeId'', ffd_label = ''Store'',
        ffd_kind = SelectField (map (\<lambda>s. (pgs_id s, pgs_name s @ '' ('' @ pgs_code s @ '')'')) ss), ffd_default = []\<rparr>,
      \<lparr>ffd_name = ''customerName'', ffd_label = ''Customer name'', ffd_kind = TextField 160, ffd_default = ''Aarav Sharma''\<rparr>,
      \<lparr>ffd_name = ''customerContact'', ffd_label = ''Customer email'', ffd_kind = EmailField 254,
        ffd_default = ''aarav@example.test''\<rparr>,
      \<lparr>ffd_name = ''description'', ffd_label = ''Line item'', ffd_kind = TextField 240, ffd_default = ''Retail order''\<rparr>,
      \<lparr>ffd_name = ''quantity'', ffd_label = ''Quantity'', ffd_kind = NumberField (Some 1) (Some 10000), ffd_default = ''1''\<rparr>,
      \<lparr>ffd_name = ''unitPriceMinor'', ffd_label = ''Unit price (paise)'', ffd_kind = NumberField (Some 0) None,
        ffd_default = ''12500''\<rparr>,
      \<lparr>ffd_name = ''discountMinor'', ffd_label = ''Discount (paise)'', ffd_kind = NumberField (Some 0) None, ffd_default = ''0''\<rparr>,
      \<lparr>ffd_name = ''taxRateBasisPoints'', ffd_label = ''Tax (basis points)'', ffd_kind = NumberField (Some 0) (Some 10000),
        ffd_default = ''1800''\<rparr>]"

text \<open>
  What a browser lets the user submit. A number's text is a decimal number; whether a text is an e-mail address is
  the browser's decision, a parameter.
\<close>

fun kind_accepts :: "(string \<Rightarrow> bool) \<Rightarrow> field_kind \<Rightarrow> string \<Rightarrow> bool" where
  "kind_accepts is_email (SelectField options) v \<longleftrightarrow> v \<in> set (map fst options)"
| "kind_accepts is_email (TextField n) v \<longleftrightarrow> length v \<le> n"
| "kind_accepts is_email (EmailField n) v \<longleftrightarrow> length v \<le> n \<and> is_email v"
| "kind_accepts is_email (NumberField lo hi) v \<longleftrightarrow>
     is_integer (js_number v) \<and> (case lo of None \<Rightarrow> True | Some i \<Rightarrow> \<not> js_lt (js_number v) (JInt i)) \<and>
     (case hi of None \<Rightarrow> True | Some i \<Rightarrow> \<not> js_lt (JInt i) (js_number v))"

definition form_accepts :: "(string \<Rightarrow> bool) \<Rightarrow> form_field list \<Rightarrow> (string \<Rightarrow> string) \<Rightarrow> bool" where
  "form_accepts is_email inputs form \<longleftrightarrow>
     list_all (\<lambda>f. form (ffd_name f) \<noteq> [] \<and> kind_accepts is_email (ffd_kind f) (form (ffd_name f))) inputs"

section \<open>The whole page\<close>

text \<open>The links of the sidebar, and the small and large heading of each section.\<close>

definition navigation :: "(string \<times> string) list" where
  "navigation = [(''#overview'', ''Overview''), (''#invoices'', ''Invoices''), (''#payments'', ''Payments''), (''#audit'', ''Audit'')]"

definition headings :: "(string \<times> string) list" where
  "headings =
     [(''OPERATIONS'', ''Merchant billing''), (''LATEST ACTIVITY'', ''Invoices''), (''AUTHORIZED STORE'', ''Issue invoice''),
      (''FINANCIAL EVENTS'', ''Payments''), (''APPEND-ONLY HISTORY'', ''Audit events''), (''DELIVERY PIPELINE'', ''Outbox health'')]"

record page_view =
  vw_brand :: "string \<times> string"
  vw_navigation :: "(string \<times> string) list"
  vw_headings :: "(string \<times> string) list"
  vw_environment :: string
  vw_release :: string
  vw_refreshDisabled :: bool
  vw_error :: "string option"
  vw_metrics :: "metric_view list"
  vw_timestamp :: string
  vw_invoices :: table_view
  vw_form :: "form_field list"
  vw_submitDisabled :: bool
  vw_submitLabel :: string
  vw_payments :: table_view
  vw_audit :: table_view
  vw_oldestPending :: string
  vw_queueClass :: string
  vw_queueState :: string
  vw_queueRelease :: string

definition text_or :: "string \<Rightarrow> string option \<Rightarrow> string" where
  "text_or fallback v = (case v of None \<Rightarrow> fallback | Some t \<Rightarrow> t)"

definition error_banner :: "string option \<Rightarrow> string option" where
  "error_banner err = (if truthy_opt err then err else None)"

definition dead_letters :: "OpsSummary option \<Rightarrow> bool" where
  "dead_letters summary = (case summary of None \<Rightarrow> False | Some s \<Rightarrow> ops_deadLetters s \<noteq> 0)"

definition page_view_of :: "intl \<Rightarrow> int \<Rightarrow> page_body page_state \<Rightarrow> page_view" where
  "page_view_of i now p =
     (let summary = page_summary p; loading = pg_loading p in
      \<lparr>vw_brand = (''MP'', ''Merchant Platform''), vw_navigation = navigation, vw_headings = headings,
       vw_environment = text_or ''CHECKING'' (map_option (js_upper \<circ> ops_environment) summary),
       vw_release = text_or ''checking'' (map_option ops_release summary),
       vw_refreshDisabled = loading, vw_error = error_banner (pg_error p),
       vw_metrics = metrics_band summary,
       vw_timestamp = text_or [] (map_option (formatTime i \<circ> ops_generatedAt) summary),
       vw_invoices = invoices_table i loading (page_invoices p),
       vw_form = invoice_form (page_stores p),
       vw_submitDisabled = (pg_submitting p \<or> page_stores p = []),
       vw_submitLabel = (if pg_submitting p then ''Issuing...'' else ''Issue invoice''),
       vw_payments = payments_table i loading (page_payments p),
       vw_audit = audit_table i loading (page_audit p),
       vw_oldestPending = age_text now (Option.bind summary ops_oldestPendingOutboxAt),
       vw_queueClass = (if dead_letters summary then ''criticalText'' else ''healthyText''),
       vw_queueState = (if dead_letters summary then ''Action required'' else ''Healthy''),
       vw_queueRelease = text_or ''unknown'' (map_option ops_release summary)\<rparr>)"

section \<open>The document and its headers\<close>

text \<open>\<open>layout.tsx\<close> and \<open>next.config.ts\<close>: the document's title and description, the headers of every response.\<close>

definition page_metadata :: "string \<times> string" where
  "page_metadata = (''Merchant Platform Operations'', ''Merchant billing and delivery operations'')"

definition quoted :: "string \<Rightarrow> string" where
  "quoted s = [CHR 0x27] @ s @ [CHR 0x27]"

definition content_security_policy :: "(string \<times> string list) list" where
  "content_security_policy =
     [(''default-src'', [quoted ''self'']), (''base-uri'', [quoted ''self'']), (''connect-src'', [quoted ''self'']),
      (''font-src'', [quoted ''self'']), (''form-action'', [quoted ''self'']), (''frame-ancestors'', [quoted ''none'']),
      (''img-src'', [quoted ''self'', ''data:'']), (''object-src'', [quoted ''none'']),
      (''script-src'', [quoted ''self'', quoted ''unsafe-inline'']),
      (''style-src'', [quoted ''self'', quoted ''unsafe-inline'']), (''upgrade-insecure-requests'', [])]"

definition portal_response_headers :: "(string \<times> string) list" where
  "portal_response_headers =
     [(''Strict-Transport-Security'', ''max-age=31536000; includeSubDomains''), (''X-Content-Type-Options'', ''nosniff''),
      (''X-Frame-Options'', ''DENY''), (''Referrer-Policy'', ''no-referrer''),
      (''Permissions-Policy'', ''camera=(), microphone=(), geolocation=(), payment=()''),
      (''Cross-Origin-Opener-Policy'', ''same-origin''), (''Cross-Origin-Resource-Policy'', ''same-origin''),
      (''Content-Security-Policy'', join_with ''; '' (map (\<lambda>(name, sources). join_with '' '' (name # sources)) content_security_policy))]"

section \<open>What the form sends\<close>

text \<open>The body of the form as the validated body the API reads it as, and back as JSON in the page's order.\<close>

definition form_dto :: "(string \<Rightarrow> string) \<Rightarrow> CreateInvoiceDto" where
  "form_dto form =
     \<lparr>dto_storeId = form ''storeId'', dto_customerName = form ''customerName'', dto_customerContact = form ''customerContact'',
      dto_currency = ''INR'', dto_discountMinor = num_int (js_number (form ''discountMinor'')),
      dto_taxRateBasisPoints = num_int (js_number (form ''taxRateBasisPoints'')),
      dto_items = [\<lparr>dln_description = form ''description'', dln_quantity = num_int (js_number (form ''quantity'')),
        dln_unitPriceMinor = num_int (js_number (form ''unitPriceMinor''))\<rparr>]\<rparr>"

definition form_json :: "CreateInvoiceDto \<Rightarrow> json" where
  "form_json b = JSObj
     [(''storeId'', JSStr (dto_storeId b)), (''customerName'', JSStr (dto_customerName b)),
      (''customerContact'', JSStr (dto_customerContact b)), (''currency'', JSStr (dto_currency b)),
      (''discountMinor'', JSNum (dto_discountMinor b)), (''taxRateBasisPoints'', JSNum (dto_taxRateBasisPoints b)),
      (''items'', JSArr (map line_json (dto_items b)))]"

lemma json_number_integer: "is_integer (js_number s) \<Longrightarrow> json_number s = JvNum (JInt (num_int (js_number s)))"
  by (erule is_integer_Fin) (simp add: json_number_def)

theorem form_body_accepted:
  assumes "form_accepts is_email (invoice_form ss) form" and "\<forall>s \<in> set ss. is_uuid (pgs_id s)"
    and "num_int (js_number (form ''unitPriceMinor'')) \<le> 100000000" and "num_int (js_number (form ''discountMinor'')) \<le> 100000000"
  shows "invoice_form_body form = value_of (form_json (form_dto form)) \<and> create_dto_valid is_uuid is_email (form_dto form)"
proof -
  have num: "is_integer (js_number (form ''quantity''))" "is_integer (js_number (form ''unitPriceMinor''))"
    "is_integer (js_number (form ''discountMinor''))" "is_integer (js_number (form ''taxRateBasisPoints''))"
    and bounds: "\<not> js_lt (js_number (form ''quantity'')) (JInt 1)" "\<not> js_lt (JInt 10000) (js_number (form ''quantity''))"
      "\<not> js_lt (js_number (form ''unitPriceMinor'')) (JInt 0)" "\<not> js_lt (js_number (form ''discountMinor'')) (JInt 0)"
      "\<not> js_lt (js_number (form ''taxRateBasisPoints'')) (JInt 0)" "\<not> js_lt (JInt 10000) (js_number (form ''taxRateBasisPoints''))"
    and texts: "form ''storeId'' \<in> pgs_id ` set ss" "length (form ''customerName'') \<le> 160"
      "length (form ''customerContact'') \<le> 254" "is_email (form ''customerContact'')" "length (form ''description'') \<le> 240"
    using assms(1) by (auto simp: form_accepts_def invoice_form_def image_iff)
  have low: "lo \<le> num_int n" if "is_integer n" "\<not> js_lt n (JInt lo)" for n lo
    using that(1) by (rule is_integer_Fin) (use that(2) in simp)
  have high: "num_int n \<le> hi" if "is_integer n" "\<not> js_lt (JInt hi) n" for n hi
    using that(1) by (rule is_integer_Fin) (use that(2) in simp)
  have "create_dto_valid is_uuid is_email (form_dto form)"
    using texts assms(2-4) low [OF num(1) bounds(1)] high [OF num(1) bounds(2)] low [OF num(2) bounds(3)]
      low [OF num(3) bounds(4)] low [OF num(4) bounds(5)] high [OF num(4) bounds(6)]
    by (auto simp: create_dto_valid_def line_dto_valid_def form_dto_def)
  moreover have "invoice_form_body form = value_of (form_json (form_dto form))"
    by (simp add: invoice_form_body_def form_json_def form_dto_def line_json_def json_text_def json_number_integer num)
  ultimately show ?thesis by blast
qed

section \<open>The page in front of the API\<close>

text \<open>What the answers of the API read as, once they went through JSON.\<close>

definition invoice_of :: "InvoiceResponse \<Rightarrow> Invoice" where
  "invoice_of r =
     \<lparr>pgi_id = rsp_id r, pgi_storeId = rsp_storeId r, pgi_status = status_name (rsp_status r), pgi_currency = rsp_currency r,
      pgi_subtotalMinor = rsp_subtotalMinor r, pgi_discountMinor = rsp_discountMinor r, pgi_taxMinor = rsp_taxMinor r,
      pgi_totalMinor = rsp_totalMinor r, pgi_issuedAt = rsp_issuedAt r, pgi_version = rsp_version r\<rparr>"

definition store_of :: "StoreResponse \<Rightarrow> Store" where
  "store_of s =
     \<lparr>pgs_id = srp_id s, pgs_merchantId = srp_merchantId s, pgs_code = srp_code s, pgs_name = srp_name s,
      pgs_timezone = srp_timezone s\<rparr>"

fun payment_status_name :: "PaymentStatus \<Rightarrow> string" where
  "payment_status_name Pay_CAPTURED = ''CAPTURED''"
| "payment_status_name Pay_PARTIALLY_REFUNDED = ''PARTIALLY_REFUNDED''"
| "payment_status_name Pay_REFUNDED = ''REFUNDED''"

definition payment_of :: "payment \<Rightarrow> Payment" where
  "payment_of r =
     \<lparr>pgp_id = pay_id r, pgp_invoiceId = pay_invoiceId r, pgp_provider = pay_provider r,
      pgp_providerPaymentId = pay_providerPaymentId r, pgp_amountMinor = pay_amountMinor r,
      pgp_refundedMinor = pay_refundedMinor r, pgp_currency = pay_currency r,
      pgp_status = payment_status_name (pay_status r), pgp_capturedAt = pay_capturedAt r\<rparr>"

definition audit_of :: "audit_event \<Rightarrow> AuditEvent" where
  "audit_of r =
     \<lparr>pga_id = aud_id r, pga_actorSubject = aud_actorSubject r, pga_action = aud_action r,
      pga_resourceType = aud_resourceType r, pga_resourceId = aud_resourceId r, pga_createdAt = aud_createdAt r\<rparr>"

definition summary_of :: "ops_summary \<Rightarrow> OpsSummary" where
  "summary_of s =
     \<lparr>ops_release = sum_release s, ops_environment = sum_environment s, ops_invoices = int (sum_invoices s),
      ops_payments = int (sum_payments s), ops_refunds = int (sum_refunds s), ops_pendingOutbox = int (sum_pendingOutbox s),
      ops_processingOutbox = int (sum_processingOutbox s), ops_successfulDeliveries = int (sum_successfulDeliveries s),
      ops_deadLetters = int (sum_deadLetters s), ops_oldestPendingOutboxAt = sum_oldestPendingOutboxAt s,
      ops_generatedAt = sum_generatedAt s\<rparr>"

text \<open>Bodies of other answers and of errors are not shown: the page reads them after a status of success only.\<close>

fun page_reply :: "(exn + answer) portal_answer \<Rightarrow> int \<times> (exn + page_body)" where
  "page_reply (Forwarded status (Inr (SummaryAnswer s))) = (status, Inr (SummaryBody (Some (summary_of s))))"
| "page_reply (Forwarded status (Inr (InvoicesAnswer rs))) = (status, Inr (InvoicesBody (map invoice_of rs)))"
| "page_reply (Forwarded status (Inr (StoresAnswer rs))) = (status, Inr (StoresBody (map store_of rs)))"
| "page_reply (Forwarded status (Inr (PaymentsAnswer rs))) = (status, Inr (PaymentsBody (map payment_of rs)))"
| "page_reply (Forwarded status (Inr (AuditAnswer rs))) = (status, Inr (AuditBody (map audit_of rs)))"
| "page_reply (Forwarded status _) = (status, Inl (TypeErr ''Unexpected answer''))"
| "page_reply (PortalError status m) = (status, Inl (PlainErr m))"

text \<open>The five calls run together; each finds the token cache as the others have left it.\<close>

definition page_replies ::
  "portal_env \<Rightarrow> int \<Rightarrow> dev_token reply \<Rightarrow> (exn + answer) backend \<Rightarrow> (nat \<Rightarrow> CachedToken option) \<Rightarrow>
   (int \<times> (exn + page_body)) list" where
  "page_replies env now tokenReply call caches = map page_reply
     [fst (ops_route env now tokenReply call None (caches 0)), fst (invoices_route env now tokenReply call None (caches 1)),
      fst (stores_route env now tokenReply call None (caches 2)), fst (payments_route env now tokenReply call None (caches 3)),
      fst (audit_route env now tokenReply call None (caches 4))]"

text \<open>All that is read for an actor is read for the actor's merchant.\<close>

lemma reads_for_merchant:
  assumes "act_actorMerchantId a = act_actorMerchantId b"
  shows "list_invoices d a n = list_invoices d b n" "listStores d a = listStores d b" "payment_list d a n = payment_list d b n"
    "audit_list d a n = audit_list d b n" "ops_summary_of config now d a = ops_summary_of config now d b"
  using assms by (simp_all add: list_invoices_def listStores_def payment_list_def audit_list_def ops_summary_of_def Let_def)

lemma refreshed_data:
  assumes "length (pg_data p) = 5" and "replies = [(200, Inr s), (200, Inr i), (200, Inr t), (200, Inr y), (200, Inr a)]"
  shows "refresh (Inr replies) p = p\<lparr>pg_data := [s, i, t, y, a], pg_loading := False, pg_error := None\<rparr>"
proof -
  obtain x1 x2 x3 x4 x5 where "pg_data p = [x1, x2, x3, x4, x5]"
    using assms(1) by (auto simp: eval_nat_numeral length_Suc_conv)
  then show ?thesis by (simp add: refresh_def assms(2) reply_ok_def)
qed

text \<open>What a refresh leaves in the page, outside production and without a session.\<close>

lemma page_refreshed:
  assumes "local_portal config env" and "\<And>m k. rt_hmac rt k m \<noteq> []" and "\<And>n. rt_limit_of rt n (Some ''20'') = Some 20"
    and "\<And>n. cache_issued (rt_hmac rt) config (caches n)"
    and "0 \<le> clock e 0" and "clock e 0 < 2 ^ 52" and "clock e 0 \<le> now + 60000"
    and reply: "reply = api_token_reply rt config (clock e 0) fresh e d (cfg_platformApiKey config)"
    and api: "api = api_backend rt config (clock e 0) fresh e d"
    and actor: "act_actorMerchantId actor = ''00000000-0000-4000-8000-000000000001''"
    and "length (pg_data p) = 5"
  shows "refresh (Inr (page_replies env now reply api caches)) p = p\<lparr>pg_data :=
    [SummaryBody (Some (summary_of (ops_summary_of config (clock e 0) d actor))),
     InvoicesBody (map invoice_of (list_invoices d actor 20)), StoresBody (map store_of (listStores d actor)),
     PaymentsBody (map payment_of (payment_list d actor 20)), AuditBody (map audit_of (audit_list d actor 20))],
    pg_loading := False, pg_error := None\<rparr>"
proof -
  have routes: "fst (invoices_route env now reply api None (caches n)) = Forwarded 200 (Inr (InvoicesAnswer (list_invoices d actor 20)))"
    "fst (stores_route env now reply api None (caches n)) = Forwarded 200 (Inr (StoresAnswer (listStores d actor)))"
    "fst (payments_route env now reply api None (caches n)) = Forwarded 200 (Inr (PaymentsAnswer (payment_list d actor 20)))"
    "fst (audit_route env now reply api None (caches n)) = Forwarded 200 (Inr (AuditAnswer (audit_list d actor 20)))"
    "fst (ops_route env now reply api None (caches n)) =
      Forwarded 200 (Inr (SummaryAnswer (ops_summary_of config (clock e 0) d actor)))" for n
  proof -
    obtain a cache' where a: "act_actorMerchantId a = ''00000000-0000-4000-8000-000000000001''"
      and "invoices_route env now reply api None (caches n) = (Forwarded 200 (Inr (InvoicesAnswer (list_invoices d a 20))), cache')"
      "stores_route env now reply api None (caches n) = (Forwarded 200 (Inr (StoresAnswer (listStores d a))), cache')"
      "payments_route env now reply api None (caches n) = (Forwarded 200 (Inr (PaymentsAnswer (payment_list d a 20))), cache')"
      "audit_route env now reply api None (caches n) = (Forwarded 200 (Inr (AuditAnswer (audit_list d a 20))), cache')"
      "ops_route env now reply api None (caches n) = (Forwarded 200 (Inr (SummaryAnswer (ops_summary_of config (clock e 0) d a))), cache')"
      using portal_shows_tenant [OF assms(1-3) assms(4) [of n] assms(5-7) reply api] by (elim exE conjE) (rule that)
    then show "fst (invoices_route env now reply api None (caches n)) = Forwarded 200 (Inr (InvoicesAnswer (list_invoices d actor 20)))"
      "fst (stores_route env now reply api None (caches n)) = Forwarded 200 (Inr (StoresAnswer (listStores d actor)))"
      "fst (payments_route env now reply api None (caches n)) = Forwarded 200 (Inr (PaymentsAnswer (payment_list d actor 20)))"
      "fst (audit_route env now reply api None (caches n)) = Forwarded 200 (Inr (AuditAnswer (audit_list d actor 20)))"
      "fst (ops_route env now reply api None (caches n)) =
        Forwarded 200 (Inr (SummaryAnswer (ops_summary_of config (clock e 0) d actor)))"
      by (simp_all add: reads_for_merchant [of a actor] actor)
  qed
  show ?thesis by (rule refreshed_data [OF assms(11)]) (simp add: page_replies_def routes)
qed

lemmas page_defs = page_view_of_def Let_def error_banner_def truthy_opt_def page_summary_def page_invoices_def page_stores_def
  page_payments_def page_audit_def invoices_table_def payments_table_def audit_table_def table_def
  invoice_of_def payment_of_def audit_of_def slice_to_def o_def

text \<open>C24: Outside production the page shows the development merchant what the API has for it and nothing else: after a
  refresh, without a session and whatever development tokens the portal's server has cached, there is no error, the
  tables have a row for each of the at most twenty invoices, payments and audit events the merchant may see, in the
  API's order, the store list offers the merchant's stores, the counts are the merchant's, and an invoice can be submitted when
  there is a store. The API's clock may be at most a minute ahead of the portal's.\<close>

theorem page_shows_tenant:
  assumes "local_portal config env" and "\<And>m k. rt_hmac rt k m \<noteq> []" and "\<And>n. rt_limit_of rt n (Some ''20'') = Some 20"
    and "\<And>n. cache_issued (rt_hmac rt) config (caches n)"
    and "0 \<le> clock e 0" and "clock e 0 < 2 ^ 52" and "clock e 0 \<le> now + 60000"
    and reply: "reply = api_token_reply rt config (clock e 0) fresh e d (cfg_platformApiKey config)"
    and api: "api = api_backend rt config (clock e 0) fresh e d"
    and actor: "act_actorMerchantId actor = ''00000000-0000-4000-8000-000000000001''"
    and "length (pg_data p) = 5" and "\<not> pg_submitting p"
    and view: "view = page_view_of i now (refresh (Inr (page_replies env now reply api caches)) p)"
  shows "vw_error view = None \<and>
    tbv_rows (vw_invoices view) = map (\<lambda>r. [take 8 (rsp_id r), take 8 (rsp_storeId r), status_name (rsp_status r),
      money i (rsp_totalMinor r) (rsp_currency r), formatTime i (rsp_issuedAt r)]) (list_invoices d actor 20) \<and>
    tbv_rows (vw_payments view) = map (\<lambda>r. [pay_providerPaymentId r, take 8 (pay_invoiceId r), payment_status_name (pay_status r),
      money i (pay_amountMinor r) (pay_currency r), money i (pay_refundedMinor r) (pay_currency r)]) (payment_list d actor 20) \<and>
    tbv_rows (vw_audit view) = map (\<lambda>r. [aud_action r, take 12 (aud_resourceId r), aud_resourceType r, aud_actorSubject r,
      formatTime i (aud_createdAt r)]) (audit_list d actor 20) \<and>
    vw_form view = invoice_form (map store_of (listStores d actor)) \<and>
    vw_metrics view = metrics_band (Some (summary_of (ops_summary_of config (clock e 0) d actor))) \<and>
    (vw_submitDisabled view \<longleftrightarrow> listStores d actor = [])"
  unfolding view page_refreshed [OF assms(1-11)] using assms(12) by (simp add: page_defs)

definition plain_intl :: intl where
  "plain_intl = \<lparr>intl_currency = (\<lambda>currency x. currency), intl_date = show_int\<rparr>"

theorem page_shows_tenant_witness:
  "\<exists>view. view = page_view_of plain_intl 1500 (refresh (Inr (page_replies sample_portal 1500
      (api_token_reply portal_runtime dev_config 1000 ''req-0001'' (sample_env 8) tenant_db (cfg_platformApiKey dev_config))
      (api_backend portal_runtime dev_config 1000 ''req-0001'' (sample_env 8) tenant_db) (\<lambda>_. None))) page_started) \<and>
    vw_error view = None \<and> length (tbv_rows (vw_invoices view)) = 1"
proof -
  have l: "local_portal dev_config sample_portal"
    by (simp add: local_portal_def dev_config_def sample_portal_def sample_secret_def)
  have rt: "rt_hmac portal_runtime k m \<noteq> []" "rt_limit_of portal_runtime n (Some ''20'') = Some 20" for k m n
    by (simp_all add: portal_runtime_def sample_runtime_def sample_hmac_def)
  have c: "cache_issued (rt_hmac portal_runtime) dev_config None" by (simp add: cache_issued_def)
  have k: "clock (sample_env 8) 0 = 1000" by (simp add: sample_env_def)
  then have t: "0 \<le> clock (sample_env 8) 0" "clock (sample_env 8) 0 < 2 ^ 52" "clock (sample_env 8) 0 \<le> 1500 + 60000"
    by simp_all
  have a: "act_actorMerchantId dev_actor = ''00000000-0000-4000-8000-000000000001''" by (simp only: dev_actor_def dev_actor_merchant)
  have n: "length (list_invoices tenant_db dev_actor 20) = 1" by code_simp
  have p: "length (pg_data page_started) = 5" "\<not> pg_submitting page_started" by (simp_all add: page_started_def)
  from page_shows_tenant [OF l rt c t refl refl a p refl, of plain_intl "''req-0001''" tenant_db] n
  show ?thesis unfolding k by simp
qed

end
