(* ===== verification/PortalIssue.thy ===== *)
theory PortalIssue
  imports PortalPage InvoiceQueries
begin

text \<open>
  Issuing an invoice from the page: the form's body goes through the portal's route to the API, which stores the
  invoice, and the next refresh shows it. The page's own handler breaks after a success, as \<open>issueInvoice\<close>
  says; the invoice is stored all the same.
\<close>

section \<open>The API as the backend of a creation\<close>

definition create_request :: "CreateInvoiceDto \<Rightarrow> headers \<Rightarrow> request" where
  "create_request b hs = \<lparr>rq_route = CreateInvoice, rq_headers = hs, rq_limit = None, rq_invoiceId = [], rq_provider = [],
     rq_rawBody = None, rq_body = CreateBody b\<rparr>"

definition api_create_backend ::
  "runtime \<Rightarrow> ApiConfig \<Rightarrow> int \<Rightarrow> string \<Rightarrow> env \<Rightarrow> database \<Rightarrow> CreateInvoiceDto \<Rightarrow> outcome backend" where
  "api_create_backend rt config now fresh e d b path hs =
     (if path = ''/v1/invoices''
      then let out = serve rt config now fresh e (create_request b hs) d in Inr (response_status CreateInvoice (fst out), out)
      else Inr (404, (Inl (NotFoundException path), d, [])))"

text \<open>A creation depends on its actor by merchant and subject only, which are the same in all development tokens.\<close>

lemma create_for_actor:
  assumes "act_actorMerchantId a = act_actorMerchantId b" and "actor_subject a = actor_subject b"
  shows "create sha256 e a rawKey requestId body d = create sha256 e b rawKey requestId body d"
proof -
  have "create_read a = create_read b"
    by (simp add: fun_eq_iff create_read_def assms(1) cong: option.case_cong)
  moreover have "create_write e a = create_write e b"
    by (simp add: fun_eq_iff create_write_def new_invoice_def assms)
  ultimately show ?thesis by (simp only: create_def create_from_def assms(1))
qed

lemma dev_subject: "actor_subject (actor_of (value_of (dev_payload x))) = ''local-operator''"
  by (simp add: actor_subject_def actor_of_def dev_payload_def property_of_def text_of_def) code_simp

lemma dev_actors: "create sha256 e (actor_of (value_of (dev_payload x))) rawKey requestId body d =
    create sha256 e dev_actor rawKey requestId body d"
  by (rule create_for_actor) (simp_all only: dev_actor_def dev_actor_merchant dev_subject)

text \<open>The route of the portal: the answer of the API to the development actor.\<close>

lemma portal_creates:
  assumes "local_portal config env" and digest: "\<And>m k. rt_hmac rt k m \<noteq> []"
    and "cache_issued (rt_hmac rt) config cache"
    and "0 \<le> clock e 0" and "clock e 0 < 2 ^ 52" and "clock e 0 \<le> now + 60000"
    and reply: "reply = api_token_reply rt config (clock e 0) fresh e d (cfg_platformApiKey config)"
    and valid: "create_dto_valid (rt_is_uuid rt) (rt_is_email rt) b"
    and made: "create (rt_sha256 rt) e dev_actor (Some key) fresh b d = (res, d', ms)"
  shows "\<exists>cache'. cache_issued (rt_hmac rt) config cache' \<and>
    portal_create env now reply (api_create_backend rt config (clock e 0) fresh e d b) (Some own) own (Some key) u None cache =
      (Forwarded (response_status CreateInvoice (answered InvoiceAnswer res)) (answered InvoiceAnswer res, d', ms), cache')"
proof -
  from assms(1,3,4,5,6) obtain t i cache' where tok: "actorToken env now reply None cache = (Inr (dvt_token t), cache')"
    and t: "devToken (rt_hmac rt) config i = Inr t" "clock e 0 < dvt_expiresAt t"
    and c: "cache_issued (rt_hmac rt) config cache'"
    unfolding reply by (rule portal_token)
  let ?hs = "backend_headers (dvt_token t) (cfg_platformApiKey config) [(''idempotency-key'', key)]"
  let ?rq = "create_request b ?hs"
  have k: "ptl_apiKey env = Some (cfg_platformApiKey config)" "cfg_platformApiKey config \<noteq> []"
    using assms(1) by (auto simp: local_portal_def)
  have h: "header (?hs ''x-platform-api-key'') = cfg_platformApiKey config" "header (?hs ''authorization'') = ''Bearer '' @ dvt_token t"
    "text_header ?rq ''idempotency-key'' = Some key" "text_header ?rq ''x-request-id'' = None"
    by (simp_all add: backend_headers_def header_def text_header_def create_request_def)
  have rq: "rq_body ?rq = CreateBody b" "rq_route ?rq = CreateInvoice" "rq_headers ?rq = ?hs" by (simp_all add: create_request_def)
  have "meta_requiredRoles (decorators CreateInvoice) \<noteq> []" by (simp add: role_route_def)
  from dev_token_guard [OF t(1) digest h(1,2) this, of "rt_sha256 rt" "rt_jwtVerify rt" "clock e 0"] t(2)
  have guard: "canActivate (rt_hmac rt) (rt_sha256 rt) (rt_jwtVerify rt) config (clock e 0) (decorators (rq_route ?rq)) (rq_headers ?rq)
      = Inr (Some (value_of (dev_payload (dvt_expiresAt t div 1000))))"
    by (simp only: rq if_True)
  have "serve rt config (clock e 0) fresh e ?rq d = invoices_create rt e fresh
      (actor_of (value_of (dev_payload (dvt_expiresAt t div 1000)))) ?rq d"
    using guard h(4) rq(2) by (simp add: serve_def Let_def request_identifier_def)
  also have "\<dots> = (answered InvoiceAnswer res, d', ms)"
    using made valid h(3) rq(1) by (simp add: invoices_create_def dev_actors)
  finally show ?thesis
    using tok k c by (auto simp: portal_create_def backendFetch_def truthy_opt_def api_create_backend_def forward_def Let_def)
qed

section \<open>The newest invoice comes first\<close>

lemma in_scope_cong:
  assumes "merchants d' = merchants d" and "collation d' = collation d"
  shows "in_scope d' = in_scope d"
proof -
  have eq: "sql_eq d' = sql_eq d" by (simp add: fun_eq_iff sql_eq_def assms(2))
  have "widen d' n xs ys = widen d n xs ys" for n xs ys
    by (induction n arbitrary: xs ys) (simp_all add: assms(1) eq cong: option.case_cong)
  then show ?thesis by (simp add: fun_eq_iff in_scope_def authorizedMerchantIds_def eq)
qed

lemma sort_key_last_first:
  fixes f :: "'a \<Rightarrow> 'b::linorder"
  shows "(\<And>x. x \<in> set xs \<Longrightarrow> f y < f x) \<Longrightarrow> sort_key f (xs @ [y]) = y # sort_key f xs"
proof (induction xs)
  case (Cons a xs)
  then have "\<not> f a \<le> f y" by (simp add: not_le)
  moreover have "sort_key f (xs @ [y]) = y # sort_key f xs" using Cons by simp
  ultimately show ?case by simp
qed simp

lemma created_comes_first:
  assumes "create sha256 e actor rawKey requestId b d = (Inr r, d', [InvoicesInc ''created''])"
    and "canonical_ids d (act_actorMerchantId actor)" and "\<forall>x \<in> set (invoices d). inv_createdAt x < db_now e" and "1 \<le> n"
  shows "\<exists>rs. list_invoices d' actor n = r # rs"
proof -
  let ?a = "act_actorMerchantId actor"
  from assms(1) obtain key store c where store: "authorizeStore d ?a (dto_storeId b) = Inr store"
    and w: "create_write e actor key (requestFingerprint sha256 (dto_json b)) requestId b store c d = Inr (r, d')"
    by (rule created_Inr)
  from store assms(2) have m: "manages_within d 16 ?a (sto_merchantId store)" and s: "store \<in> set (stores d)"
    by (auto simp: authorizeStore_Inr intro: manages_within_mono dest: find_Some_D)
  have scope: "in_scope d ?a (sto_merchantId store)"
    using s m by (subst in_scope_iff [OF assms(2)]) (auto simp: hierarchy_ids_def)
  from w show ?thesis
  proof (rule create_write_Inr, goal_cases)
    case (1 am lines)
    let ?ivc = "new_invoice e actor b store am"
    have same: "in_scope d' = in_scope d"
      by (rule in_scope_cong) (simp_all add: 1(6))
    have first: "newest_first inv_createdAt (filter (\<lambda>r. in_scope d ?a (inv_merchantId r)) (invoices d')) =
        ?ivc # newest_first inv_createdAt (filter (\<lambda>r. in_scope d ?a (inv_merchantId r)) (invoices d))"
      unfolding newest_first_def using scope assms(3)
      by (simp add: 1(6), subst sort_key_last_first) (auto simp: new_invoice_def)
    have "list_invoices d' actor n = map toResponse (take (take_limit n) (?ivc #
        newest_first inv_createdAt (filter (\<lambda>r. in_scope d ?a (inv_merchantId r)) (invoices d))))"
      unfolding list_invoices_def scoped_page_def same first ..
    moreover have "take_limit n \<noteq> 0" using assms(4) by (simp add: take_limit_def)
    ultimately show ?case by (cases "take_limit n") (simp_all add: 1(4))
  qed
qed

section \<open>From the form to the table\<close>

text \<open>C25: Issuing from the page stores what the form says: outside production, when the browser lets a form be submitted
  whose amounts are at most a hundred million paise and the API's service creates its invoice, the portal's route
  answers 201 with the invoice and the new database. Whether or not the form is still there when the answer comes, the
  next refresh shows the invoice as the first row of the table when the others are older; but without the form the button stays disabled.
  The API's clock may be at most a minute ahead of the portal's.\<close>

theorem page_issues_invoice:
  assumes "local_portal config env" and "\<And>m k. rt_hmac rt k m \<noteq> []" and "\<And>n. rt_limit_of rt n (Some ''20'') = Some 20"
    and "cache_issued (rt_hmac rt) config cache" and "\<And>n. cache_issued (rt_hmac rt) config (caches n)"
    and "0 \<le> clock e 0" and "clock e 0 < 2 ^ 52" and "clock e 0 \<le> now + 60000"
    and "0 \<le> clock e' 0" and "clock e' 0 < 2 ^ 52" and "clock e' 0 \<le> now' + 60000"
    and "form_accepts (rt_is_email rt) (invoice_form (page_stores p)) form" and "\<forall>s \<in> set (page_stores p). rt_is_uuid rt (pgs_id s)"
    and "num_int (js_number (form ''unitPriceMinor'')) \<le> 100000000" and "num_int (js_number (form ''discountMinor'')) \<le> 100000000"
    and made: "create (rt_sha256 rt) e dev_actor (Some key) fresh (form_dto form) d = (Inr r, d', [InvoicesInc ''created''])"
    and "canonical_ids d dev_merchant" and "\<forall>x \<in> set (invoices d). inv_createdAt x < db_now e"
    and "length (pg_data p) = 5"
    and replies: "replies = page_replies env now' (api_token_reply rt config (clock e' 0) fresh' e' d' (cfg_platformApiKey config))
      (api_backend rt config (clock e' 0) fresh' e' d') caches"
    and view: "view = page_view_of i seen (refresh (Inr replies) (snd (issueInvoice formLeft (Inr (201, None, None)) (Inr replies) p)))"
  shows "fst (portal_create env now (api_token_reply rt config (clock e 0) fresh e d (cfg_platformApiKey config))
      (api_create_backend rt config (clock e 0) fresh e d (form_dto form)) (Some own) own (Some key) u None cache) =
        Forwarded 201 (Inr (InvoiceAnswer r), d', [InvoicesInc ''created'']) \<and>
    invoice_form_body form = value_of (form_json (form_dto form)) \<and>
    (\<exists>rows. tbv_rows (vw_invoices view) = [take 8 (rsp_id r), take 8 (rsp_storeId r), status_name (rsp_status r),
      money i (rsp_totalMinor r) (rsp_currency r), formatTime i (rsp_issuedAt r)] # rows) \<and>
    (\<not> formLeft \<longrightarrow> vw_submitDisabled view)"
proof -
  have actor: "act_actorMerchantId dev_actor = ''00000000-0000-4000-8000-000000000001''"
    by (simp only: dev_actor_def dev_actor_merchant)
  have body: "invoice_form_body form = value_of (form_json (form_dto form))"
    "create_dto_valid (rt_is_uuid rt) (rt_is_email rt) (form_dto form)"
    using form_body_accepted [OF assms(12-15)] by simp_all
  note answer = portal_creates [OF assms(1,2,4,6,7,8) refl body(2) made, of own u]
  have "canonical_ids d (act_actorMerchantId dev_actor)" using assms(17) by (simp only: actor dev_merchant_def)
  from created_comes_first [OF made this assms(18), of 20] obtain rs where rs: "list_invoices d' dev_actor 20 = r # rs" by auto
  have shown: "refresh (Inr replies) q = q\<lparr>pg_data :=
      [SummaryBody (Some (summary_of (ops_summary_of config (clock e' 0) d' dev_actor))),
       InvoicesBody (map invoice_of (list_invoices d' dev_actor 20)), StoresBody (map store_of (listStores d' dev_actor)),
       PaymentsBody (map payment_of (payment_list d' dev_actor 20)), AuditBody (map audit_of (audit_list d' dev_actor 20))],
      pg_loading := False, pg_error := None\<rparr>" if "length (pg_data q) = 5" for q
    unfolding replies by (rule page_refreshed [OF assms(1-3,5,9-11) refl refl actor that])
  define p' where "p' = snd (issueInvoice formLeft (Inr (201, None, None)) (Inr replies) p)"
  have p': "length (pg_data p') = 5" "\<not> formLeft \<Longrightarrow> pg_submitting p'"
    using assms(19) by (auto simp: p'_def issueInvoice_def reply_ok_def Let_def shown)
  have "(\<exists>rows. tbv_rows (vw_invoices view) = [take 8 (rsp_id r), take 8 (rsp_storeId r), status_name (rsp_status r),
      money i (rsp_totalMinor r) (rsp_currency r), formatTime i (rsp_issuedAt r)] # rows) \<and> (\<not> formLeft \<longrightarrow> vw_submitDisabled view)"
    unfolding view p'_def [symmetric] shown [OF p'(1)] using p'(2) by (simp add: page_defs rs)
  moreover have "response_status CreateInvoice (answered InvoiceAnswer (Inr r)) = 201" "answered InvoiceAnswer (Inr r) = Inr (InvoiceAnswer r)"
    by (simp_all add: response_status_def answered_def)
  ultimately show ?thesis using answer body(1) by auto
qed

definition sample_form :: "string \<Rightarrow> string" where
  "sample_form f =
     (case map_of [(''storeId'', ''s1''), (''customerName'', '' Asha ''), (''customerContact'', ''Asha@Example.IN''), (''description'', ''Tea''),
        (''quantity'', ''2''), (''unitPriceMinor'', ''550''), (''discountMinor'', ''100''), (''taxRateBasisPoints'', ''1800'')] f of
      None \<Rightarrow> [] | Some v \<Rightarrow> v)"

definition issue_db :: database where
  "issue_db = tenant_db\<lparr>invoices := [], invoice_lines := [], outbox_events := [], idempotency_records := []\<rparr>"

definition issue_page :: "page_body page_state" where
  "issue_page = page_started\<lparr>pg_data := (pg_data page_started)[2 := StoresBody [\<lparr>pgs_id = ''s1'', pgs_merchantId = dev_merchant,
     pgs_code = ''S'', pgs_name = ''Store'', pgs_timezone = ''Asia/Kolkata''\<rparr>]]\<rparr>"

lemma sample_form_dto: "form_dto sample_form = sample_dto"
  by code_simp

lemma sample_form_accepted: "form_accepts (\<lambda>_. True) (invoice_form (page_stores issue_page)) sample_form"
  by code_simp

lemma sample_issued:
  "\<exists>r d'. create sample_hash (sample_env 0) dev_actor (Some sample_key) ''req-0001'' sample_dto issue_db =
     (Inr r, d', [InvoicesInc ''created'']) \<and> rsp_totalMinor r = 1180"
proof -
  let ?store = "sample_store\<lparr>sto_merchantId := dev_merchant\<rparr>"
  have "findIdempotency issue_db (act_actorMerchantId dev_actor) sample_key = None" by code_simp
  moreover have "case authorizeStore issue_db (act_actorMerchantId dev_actor) (dto_storeId sample_dto) of
      Inl _ \<Rightarrow> False | Inr s \<Rightarrow> s = ?store" by code_simp
  ultimately have read: "create_read dev_actor sample_key sample_fingerprint sample_dto issue_db = Inr (Proceed ?store sample_calculated)"
    using sample_calculates by (simp add: create_read_Proceed split: sum.splits)
  have "case create_write (sample_env 0) dev_actor sample_key sample_fingerprint ''req-0001'' sample_dto ?store sample_calculated issue_db of
      Inl _ \<Rightarrow> False | Inr (r, d) \<Rightarrow> rsp_totalMinor r = 1180" by code_simp
  then obtain r d' where "create_write (sample_env 0) dev_actor sample_key sample_fingerprint ''req-0001'' sample_dto ?store
      sample_calculated issue_db = Inr (r, d')" "rsp_totalMinor r = 1180" by (auto split: sum.splits)
  with read sample_key_ok show ?thesis unfolding create_Inr_iff sample_fingerprint_def by blast
qed

theorem page_issues_invoice_witness:
  "\<exists>r d' p' row rows. fst (portal_create sample_portal 1500
      (api_token_reply portal_runtime dev_config 1000 ''req-0001'' (sample_env 0) issue_db (cfg_platformApiKey dev_config))
      (api_create_backend portal_runtime dev_config 1000 ''req-0001'' (sample_env 0) issue_db (form_dto sample_form))
      (Some ''https://portal'') ''https://portal'' (Some sample_key) ''u'' None None) =
        Forwarded 201 (Inr (InvoiceAnswer r), d', [InvoicesInc ''created'']) \<and> rsp_totalMinor r = 1180 \<and>
    tbv_rows (vw_invoices (page_view_of plain_intl 1500 p')) = row # rows \<and> vw_submitDisabled (page_view_of plain_intl 1500 p')"
proof -
  have l: "local_portal dev_config sample_portal"
    by (simp add: local_portal_def dev_config_def sample_portal_def sample_secret_def)
  have rt: "rt_hmac portal_runtime k m \<noteq> []" "rt_limit_of portal_runtime n (Some ''20'') = Some 20" for k m n
    by (simp_all add: portal_runtime_def sample_runtime_def sample_hmac_def)
  have c: "cache_issued (rt_hmac portal_runtime) dev_config None" by (simp add: cache_issued_def)
  have k: "clock (sample_env 0) 0 = 1000" by (simp add: sample_env_def)
  then have t: "0 \<le> clock (sample_env 0) 0" "clock (sample_env 0) 0 < 2 ^ 52" "clock (sample_env 0) 0 \<le> 1500 + 60000"
    by simp_all
  have f: "form_accepts (rt_is_email portal_runtime) (invoice_form (page_stores issue_page)) sample_form"
    "\<forall>s \<in> set (page_stores issue_page). rt_is_uuid portal_runtime (pgs_id s)"
    using sample_form_accepted by (simp_all add: portal_runtime_def sample_runtime_def)
  have n: "num_int (js_number (sample_form ''unitPriceMinor'')) \<le> 100000000"
    "num_int (js_number (sample_form ''discountMinor'')) \<le> 100000000" by code_simp+
  obtain r d' where made: "create (rt_sha256 portal_runtime) (sample_env 0) dev_actor (Some sample_key) ''req-0001''
      (form_dto sample_form) issue_db = (Inr r, d', [InvoicesInc ''created''])" and total: "rsp_totalMinor r = 1180"
    using sample_issued by (auto simp: sample_form_dto portal_runtime_def sample_runtime_def)
  have d: "canonical_ids issue_db dev_merchant" by code_simp
  have older: "\<forall>x \<in> set (invoices issue_db). inv_createdAt x < db_now (sample_env 0)" by (simp add: issue_db_def)
  have p: "length (pg_data issue_page) = 5" by (simp add: issue_page_def page_started_def)
  from page_issues_invoice [OF l rt c c t t f n made d older p refl refl,
      where own = "''https://portal''" and u = "''u''" and i = plain_intl and seen = 1500 and formLeft = False and fresh' = "''req-0002''"] total
  show ?thesis unfolding k by blast
qed

end
