(* ===== verification/ScriptRuns.thy ===== *)
theory ScriptRuns
  imports LocalScripts Provision
begin

text \<open>
  The scripts as whole runs: the connections of \<open>scripts/migrate.mjs\<close>, \<open>provision-tenant.mjs\<close> and
  \<open>seed-local.mjs\<close>, whose options are read from the environment, and the requests and report of
  \<open>load-test.mjs\<close>. Opening a connection and reading a file are parameters.
\<close>

section \<open>Connections\<close>

record connection_options =
  cno_host :: string
  cno_port :: jsnum
  cno_database :: string
  cno_user :: string
  cno_password :: string
  cno_ssl :: "ssl_options option"
  cno_multipleStatements :: bool

definition script_ssl :: "(string \<Rightarrow> exn + string) \<Rightarrow> process_env \<Rightarrow> exn + ssl_options option" where
  "script_ssl read_file env =
     (if env ''MYSQL_SSL'' \<noteq> Some ''true'' then Inr None
      else bindE (required env ''MYSQL_SSL_CA_PATH'') (\<lambda>path. bindE (read_file path)
        (\<lambda>ca. Inr (Some \<lparr>ssl_ca = ca, ssl_rejectUnauthorized = True\<rparr>))))"

definition provisioner_ssl :: "(string \<Rightarrow> exn + string) \<Rightarrow> process_env \<Rightarrow> exn + ssl_options option" where
  "provisioner_ssl = script_ssl"

definition script_port :: "process_env \<Rightarrow> jsnum" where
  "script_port env = (case env ''MYSQL_PORT'' of None \<Rightarrow> JInt 3306 | Some s \<Rightarrow> js_number s)"

definition script_connection ::
  "(exn + ssl_options option) \<Rightarrow> jsnum \<Rightarrow> bool \<Rightarrow> process_env \<Rightarrow> exn + connection_options" where
  "script_connection ssl port multiple env =
     bindE (required env ''MYSQL_HOST'') (\<lambda>host.
     bindE (required env ''MYSQL_DATABASE'') (\<lambda>database.
     bindE (required env ''MYSQL_USER'') (\<lambda>user.
     bindE (required env ''MYSQL_PASSWORD'') (\<lambda>password.
     bindE ssl (\<lambda>s.
     Inr \<lparr>cno_host = host, cno_port = port, cno_database = database, cno_user = user, cno_password = password,
       cno_ssl = s, cno_multipleStatements = multiple\<rparr>)))))"

definition provision_connection :: "(string \<Rightarrow> exn + string) \<Rightarrow> process_env \<Rightarrow> exn + connection_options" where
  "provision_connection read_file env =
     bindE (provision_port env) (\<lambda>port. script_connection (provisioner_ssl read_file env) (JInt port) False env)"

definition migrate_connection :: "(string \<Rightarrow> exn + string) \<Rightarrow> process_env \<Rightarrow> exn + connection_options" where
  "migrate_connection read_file env = script_connection (script_ssl read_file env) (script_port env) True env"

definition seed_connection :: "process_env \<Rightarrow> exn + connection_options" where
  "seed_connection env = script_connection (Inr None) (script_port env) True env"

text \<open>One attempt: the options are read again each time, so a missing variable is an attempt that fails.\<close>

definition attempt_connection ::
  "(exn + connection_options) \<Rightarrow> (nat \<Rightarrow> connection_options \<Rightarrow> exn + 'c) \<Rightarrow> nat \<Rightarrow> exn + 'c" where
  "attempt_connection options dial i = bindE options (dial i)"

section \<open>Whole runs\<close>

definition migrate_script ::
  "(string \<Rightarrow> string) \<Rightarrow> (char list \<Rightarrow> char list) \<Rightarrow> 's script_effect \<Rightarrow> (migration_call \<Rightarrow> exn option) \<Rightarrow>
   (string \<Rightarrow> string) \<Rightarrow> (string \<Rightarrow> exn option) \<Rightarrow> (string \<Rightarrow> exn + string) \<Rightarrow> (nat \<Rightarrow> connection_options \<Rightarrow> exn + 'c) \<Rightarrow> process_env \<Rightarrow> int \<Rightarrow> (string \<times> string) list \<Rightarrow>
   's migrated \<Rightarrow> exn option \<times> 's migrated \<times> string list" where
  "migrate_script collate sha256 run fails escape query read_file dial env acquired directory s =
     (case connectWithRetry (attempt_connection (migrate_connection read_file env) dial) of
        Inl err \<Rightarrow> (Some err, s, [])
      | Inr _ \<Rightarrow> migrate_run collate sha256 run fails escape query env acquired directory s)"

definition provision_script ::
  "(string \<Rightarrow> bool) \<Rightarrow> (string \<Rightarrow> exn + string) \<Rightarrow> (connection_options \<Rightarrow> exn + unit) \<Rightarrow> process_env \<Rightarrow> env \<Rightarrow> database \<Rightarrow>
   (exn + provision_outcome) \<times> database" where
  "provision_script is_timezone read_file dial penv e d =
     (case bindE (provision_input_of is_timezone penv) (\<lambda>input.
         bindE (provision_connection read_file penv) (\<lambda>options. bindE (dial options) (\<lambda>_. Inr input))) of
        Inl err \<Rightarrow> (Inl err, d)
      | Inr input \<Rightarrow> provision e input d)"

definition seed_script ::
  "process_env \<Rightarrow> (nat \<Rightarrow> connection_options \<Rightarrow> exn + 'c) \<Rightarrow> (nat \<Rightarrow> exn + nat) \<Rightarrow> exn + string \<Rightarrow> 's script_effect \<Rightarrow> 's \<Rightarrow>
   exn option \<times> 's" where
  "seed_script env dial found sqlFile run s =
     seed_local env (attempt_connection (seed_connection env) dial) found sqlFile run s"

text \<open>A connection has what the environment names, over TLS exactly when it asks for it.\<close>

lemma script_connection_Inr:
  "script_connection ssl port multiple env = Inr c \<longleftrightarrow>
     (\<exists>s. ssl = Inr s \<and> list_all (\<lambda>k. truthy_opt (env k)) [''MYSQL_HOST'', ''MYSQL_DATABASE'', ''MYSQL_USER'', ''MYSQL_PASSWORD''] \<and>
       c = \<lparr>cno_host = the (env ''MYSQL_HOST''), cno_port = port, cno_database = the (env ''MYSQL_DATABASE''),
         cno_user = the (env ''MYSQL_USER''), cno_password = the (env ''MYSQL_PASSWORD''), cno_ssl = s,
         cno_multipleStatements = multiple\<rparr>)"
  by (auto simp: script_connection_def bindE_Inr_conv required_Inr truthy_opt_def split: option.splits)

lemma script_ssl_Inr:
  "script_ssl read_file env = Inr s \<Longrightarrow> s \<noteq> None \<longleftrightarrow> env ''MYSQL_SSL'' = Some ''true''"
  by (auto simp: script_ssl_def bindE_Inr_conv split: if_splits)

text \<open>
  A run that cannot connect changes nothing; and an option that is missing is found missing sixty times, with a pause
  of two seconds after each, before the run reports it.
\<close>

lemma attempts_from_const: "attempts_from n i (\<lambda>_. Inl err) e = Inl (if n = 0 then e else err)"
  by (induction n arbitrary: i e) simp_all

theorem migrate_needs_connection:
  assumes "migrate_connection read_file env = Inl err"
  shows "migrate_script collate sha256 run fails escape query read_file dial env acquired directory s = (Some err, s, [])"
proof -
  have "attempt_connection (migrate_connection read_file env) dial = (\<lambda>_. Inl err)"
    by (simp add: fun_eq_iff attempt_connection_def assms)
  then have "connectWithRetry (attempt_connection (migrate_connection read_file env) dial) = Inl err"
    by (simp add: connectWithRetry_def attempts_from_const del: attempts_from.simps)
  then show ?thesis by (simp add: migrate_script_def)
qed

theorem provision_needs_connection:
  assumes "provision_script is_timezone read_file dial penv e d = (res, d')" and "d' \<noteq> d"
  shows "\<exists>options. provision_connection read_file penv = Inr options \<and> dial options = Inr () \<and>
    (cno_ssl options \<noteq> None \<longleftrightarrow> penv ''MYSQL_SSL'' = Some ''true'') \<and> \<not> cno_multipleStatements options"
proof -
  from assms obtain input where i: "bindE (provision_input_of is_timezone penv) (\<lambda>input.
      bindE (provision_connection read_file penv) (\<lambda>options. bindE (dial options) (\<lambda>_. Inr input))) = Inr input"
    by (auto simp: provision_script_def split: sum.splits)
  then obtain options where "provision_connection read_file penv = Inr options" "dial options = Inr ()"
    by (auto simp: bindE_Inr_conv)
  moreover from this(1) obtain s where "script_ssl read_file penv = Inr s" "cno_ssl options = s" "\<not> cno_multipleStatements options"
    by (auto simp: provision_connection_def bindE_Inr_conv script_connection_Inr provisioner_ssl_def)
  ultimately show ?thesis using script_ssl_Inr by blast
qed

section \<open>The requests of the load test\<close>

record load_config =
  ldc_apiUrl :: string
  ldc_apiKey :: string
  ldc_requests :: int
  ldc_concurrency :: int
  ldc_token :: string

text \<open>\<open>developmentToken\<close>, given the answer of the token route.\<close>

definition developmentToken :: "exn + int \<times> string \<Rightarrow> exn + string" where
  "developmentToken reply =
     bindE reply (\<lambda>(status, token).
       if \<not> (200 \<le> status \<and> status \<le> 299)
       then Inl (PlainErr (''Could not obtain development token: HTTP '' @ show_int status)) else Inr token)"

definition load_config_of :: "process_env \<Rightarrow> exn + int \<times> string \<Rightarrow> exn + load_config" where
  "load_config_of env tokenReply =
     bindE (positiveInteger (env_or env ''REQUESTS'' ''200'') ''REQUESTS'') (\<lambda>requests.
     bindE (positiveInteger (env_or env ''CONCURRENCY'' ''20'') ''CONCURRENCY'') (\<lambda>concurrency.
     bindE (case env ''ACTOR_TOKEN'' of Some t \<Rightarrow> Inr t | None \<Rightarrow> developmentToken tokenReply) (\<lambda>token.
     Inr \<lparr>ldc_apiUrl = env_or env ''API_URL'' ''http://127.0.0.1:8080'',
          ldc_apiKey = env_or env ''PLATFORM_API_KEY'' ''local-platform-api-key-change-me'',
          ldc_requests = requests, ldc_concurrency = concurrency, ldc_token = token\<rparr>)))"

definition pad_start :: "nat \<Rightarrow> string \<Rightarrow> string" where
  "pad_start n s = replicate (n - length s) (CHR ''0'') @ s"

definition load_key :: "nat \<Rightarrow> nat \<Rightarrow> string" where
  "load_key now index = ''load:'' @ show_nat now @ '':'' @ pad_start 8 (show_nat index)"

definition load_body :: "nat \<Rightarrow> CreateInvoiceDto" where
  "load_body index =
     \<lparr>dto_storeId = ''10000000-0000-4000-8000-000000000002'', dto_customerName = ''Load User '' @ show_nat index,
      dto_customerContact = ''load-'' @ show_nat index @ ''@example.test'', dto_currency = ''INR'', dto_discountMinor = 0,
      dto_taxRateBasisPoints = 1800,
      dto_items = [\<lparr>dln_description = ''Load order'', dln_quantity = 1, dln_unitPriceMinor = 10000\<rparr>]\<rparr>"

record load_request =
  ldr_url :: string
  ldr_method :: string
  ldr_headers :: "(string \<times> string) list"
  ldr_body :: CreateInvoiceDto

definition load_request_of :: "load_config \<Rightarrow> nat \<Rightarrow> nat \<Rightarrow> load_request" where
  "load_request_of config now index =
     \<lparr>ldr_url = ldc_apiUrl config @ ''/v1/invoices'', ldr_method = ''POST'',
      ldr_headers = [(''authorization'', ''Bearer '' @ ldc_token config), (''x-platform-api-key'', ldc_apiKey config),
        (''idempotency-key'', load_key now index), (''content-type'', ''application/json'')],
      ldr_body = load_body index\<rparr>"

text \<open>
  The keys of a load test are accepted by the API and differ from request to request, whatever the clock shows,
  so no request is answered as the retry of another; the bodies pass the API's validation.
\<close>

lemma digits_value_zeros: "digits_value 0 (replicate n (CHR ''0'') @ s) = digits_value 0 s"
  by (induction n) simp_all

lemma pad_start_inject: "pad_start n (show_nat i) = pad_start n (show_nat j) \<Longrightarrow> i = j"
  by (metis digits_value_zeros pad_start_def show_nat_value)

lemma pad_start_digits: "list_all is_digit (pad_start n (show_nat i))"
  using show_nat_digits [of i] by (auto simp: pad_start_def list_all_iff is_digit_def in_range_def)

lemma last_part:
  assumes "CHR '':'' \<notin> set x" and "CHR '':'' \<notin> set y" and "p @ CHR '':'' # x = q @ CHR '':'' # y"
  shows "x = y"
proof -
  have "takeWhile (\<lambda>c. c \<noteq> CHR '':'') (rev (p @ CHR '':'' # x)) = rev x" "takeWhile (\<lambda>c. c \<noteq> CHR '':'') (rev (q @ CHR '':'' # y)) = rev y"
    using assms(1,2) by (auto simp: takeWhile_append)
  with assms(3) show ?thesis by simp
qed

lemma load_key_inject: "load_key now i = load_key now' j \<Longrightarrow> i = j"
proof -
  assume eq: "load_key now i = load_key now' j"
  have "CHR '':'' \<notin> set (pad_start 8 (show_nat k))" for k
    using pad_start_digits [of 8 k] by (auto simp: list_all_iff is_digit_def in_range_def)
  with eq have "pad_start 8 (show_nat i) = pad_start 8 (show_nat j)"
    using last_part [of _ _ "''load:'' @ show_nat now" "''load:'' @ show_nat now'"] by (simp add: load_key_def)
  then show "i = j" by (rule pad_start_inject)
qed

lemma show_nat_length: "0 < k \<Longrightarrow> n < 10 ^ k \<Longrightarrow> length (show_nat n) \<le> k"
proof (induction k arbitrary: n)
  case (Suc k)
  show ?case
  proof (cases "n < 10")
    case True
    then show ?thesis by (subst show_nat.simps) simp
  next
    case False
    have "0 < k" using False Suc.prems(2) by (cases k) simp_all
    moreover have "n div 10 < 10 ^ k" using Suc.prems(2) by (simp add: less_mult_imp_div_less mult.commute)
    ultimately show ?thesis using Suc.IH False by (subst show_nat.simps) simp
  qed
qed simp

lemma load_key_accepted:
  assumes "10 \<le> now" and "now < 10 ^ 60" and "index < 10 ^ 60"
  shows "key_format (load_key now index)"
proof -
  let ?p = "pad_start 8 (show_nat index)"
  have now: "2 \<le> length (show_nat now)" "length (show_nat now) \<le> 60"
    using assms(1,2) show_nat_length [of 60 now] by (subst show_nat.simps, auto simp: Suc_le_eq)
  have p: "8 \<le> length ?p" "length ?p \<le> 60"
    using show_nat_length [OF _ assms(3)] by (auto simp: pad_start_def)
  have "list_all is_key_char (show_nat now)" "list_all is_key_char ?p"
    using show_nat_digits [of now] pad_start_digits [of 8 index] by (auto simp: list_all_iff is_key_char_def is_alnum_def)
  moreover have "list_all is_key_char ''oad:''" "is_key_char CHR '':''" "is_alnum CHR ''l''" by code_simp+
  ultimately show ?thesis
    using now p by (simp add: load_key_def key_format_def class_between_def)
qed

theorem load_requests_fresh:
  assumes "10 \<le> now i" "now i < 10 ^ 60" "i < 10 ^ 60" and "i \<noteq> j"
    and "is_uuid ''10000000-0000-4000-8000-000000000002''" and "is_email (dto_customerContact (load_body i))"
  shows "normalizeIdempotencyKey (Some (load_key (now i) i)) = Inr (load_key (now i) i) \<and>
    load_key (now i) i \<noteq> load_key (now j) j \<and> create_dto_valid is_uuid is_email (load_body i)"
proof -
  have k: "key_format (load_key (now i) i)" using assms(1-3) by (rule load_key_accepted)
  have "length (show_nat i) \<le> 60" using show_nat_length [OF _ assms(3)] by simp
  then have "create_dto_valid is_uuid is_email (load_body i)"
    using assms(5,6) by (simp add: create_dto_valid_def load_body_def line_dto_valid_def)
  moreover have "load_key (now i) i \<noteq> load_key (now j) j" using load_key_inject assms(4) by blast
  ultimately show ?thesis using k by (simp add: res_simps key_format_trimmed)
qed

section \<open>The report of the load test\<close>

fun insert_latency :: "jsnum \<Rightarrow> jsnum list \<Rightarrow> jsnum list" where
  "insert_latency x [] = [x]"
| "insert_latency x (y # ys) = (if js_lt y x then y # insert_latency x ys else x # y # ys)"

definition sort_latencies :: "jsnum list \<Rightarrow> jsnum list" where
  "sort_latencies xs = foldr insert_latency xs []"

record load_report =
  lrp_requests :: int
  lrp_concurrency :: int
  lrp_statuses :: "(int \<times> nat) list"
  lrp_p50 :: jsnum
  lrp_p95 :: jsnum
  lrp_p99 :: jsnum
  lrp_max :: jsnum
  lrp_failures :: nat
  lrp_exitCode :: "int option"

text \<open>An object lists its integer keys in ascending order.\<close>

definition load_report_of :: "load_config \<Rightarrow> load_state \<Rightarrow> load_report" where
  "load_report_of config s =
     (let latencies = sort_latencies (ld_latencies s); failed = failures (ld_statuses s)
      in \<lparr>lrp_requests = ldc_requests config, lrp_concurrency = ldc_concurrency config,
          lrp_statuses = sort_key fst (ld_statuses s),
          lrp_p50 = percentile latencies (Fin (1 / 2)), lrp_p95 = percentile latencies (round64 (95 / 100)),
          lrp_p99 = percentile latencies (round64 (99 / 100)),
          lrp_max = js_round (if latencies = [] then JInt 0 else last latencies),
          lrp_failures = failed, lrp_exitCode = (if failed \<noteq> 0 then Some 1 else None)\<rparr>)"

lemma sort_latencies_mset [simp]: "mset (sort_latencies xs) = mset xs"
proof -
  have "mset (insert_latency x ys) = add_mset x (mset ys)" for x ys
    by (induction x ys rule: insert_latency.induct) auto
  then show ?thesis by (induction xs) (simp_all add: sort_latencies_def)
qed

lemma sort_latencies_sorted:
  assumes "list_all (\<lambda>x. \<exists>a. x = Fin a) xs"
  shows "sorted_wrt (\<lambda>x y. \<not> js_lt y x) (sort_latencies xs)"
proof -
  let ?fin = "list_all (\<lambda>x. \<exists>a. x = Fin a)"
  have "?fin ys \<Longrightarrow> sorted_wrt (\<lambda>x y. \<not> js_lt y x) ys \<Longrightarrow>
      ?fin (insert_latency (Fin a) ys) \<and> sorted_wrt (\<lambda>x y. \<not> js_lt y x) (insert_latency (Fin a) ys)" for a ys
  proof (induction ys)
    case (Cons y ys)
    have "set (insert_latency (Fin a) ys) = insert (Fin a) (set ys)" for ys
      by (induction ys) auto
    moreover have "js_lt x (Fin a) \<Longrightarrow> \<not> js_lt y (Fin a) \<Longrightarrow> \<exists>b. x = Fin b \<Longrightarrow> \<exists>b. y = Fin b \<Longrightarrow> js_lt x y" for x
      by auto
    ultimately show ?case using Cons by (fastforce simp: list_all_iff)
  qed simp
  with assms have "?fin (sort_latencies xs) \<and> sorted_wrt (\<lambda>x y. \<not> js_lt y x) (sort_latencies xs)"
    by (induction xs) (auto simp: sort_latencies_def)
  then show ?thesis by blast
qed

end
