(* ===== verification/Spec2Isabelle.thy ===== *)
theory Spec2Isabelle
  imports Config Database InvoiceQueries InvoiceService JsNumber JsText Ledger Lifecycle MerchantScope
    Money PaymentEvents PaymentService Platform Prelude Relay Retention Delivery Selection Samples Signatures StableJson
    JsonParse ActorToken Access Api Telemetry Schema PortalApi Repository LocalScripts HttpLog WorkerProcess Portal Provision Migration
    Startup WorkerTelemetry PortalPage PortalIssue ScriptRuns
begin

text \<open>
  The invoicing platform of a merchant network: an HTTP API that creates invoices and takes payment
  events, a MySQL database it writes, a worker that publishes what happened and delivers notifications,
  a portal in front of the API, and the scripts that migrate the database, provision tenants and check the
  repository. This library models the API from the request's headers to the rows it stores, the domain
  package, the entities, the worker, the portal's server and its page, the start of the processes, and the scripts.

  \<^bold>\<open>Parts and theories.\<close>

  \<^item> \<^theory_text>\<open>Prelude\<close>: exceptions as the type \<open>exn\<close>, results as \<open>exn + 'a\<close> with \<open>bindE\<close>, \<open>guardE\<close>, \<open>someE\<close>,
    \<open>catchE\<close>, \<open>mapE\<close> and \<open>foldE\<close> for sequencing, \<open>throw\<close>, \<open>?? throw\<close>, \<open>try/catch\<close>, \<open>map\<close> and loops;
    reachable states and the locale \<open>inductive_invariant\<close>; row updates and counts.
  \<^item> \<^theory_text>\<open>JsNumber\<close>, \<^theory_text>\<open>JsText\<close>, \<^theory_text>\<open>JsonParse\<close>: the numbers and strings of JavaScript as far as the source uses
    them: binary64 arithmetic with rounding to even, \<open>Number\<close> of a text, \<open>trim\<close>, \<open>toLowerCase\<close>, the
    character classes of the regular expressions; \<open>JSON.stringify\<close>, \<open>JSON.parse\<close>, the decoding of UTF-8.
    A string is a list of Latin-1 code units; parsed JSON has the full range of 16-bit units.
  \<^item> \<^theory_text>\<open>Money\<close>, \<^theory_text>\<open>Lifecycle\<close>, \<^theory_text>\<open>StableJson\<close>, \<^theory_text>\<open>Signatures\<close>, \<^theory_text>\<open>ActorToken\<close>:
    \<open>packages/domain/src/index.js\<close>: the pricing of an invoice, the status table and the idempotency key, the
    canonical JSON text and fingerprint of a request, the webhook signatures, the actor tokens with their
    base64url coding.
  \<^item> \<^theory_text>\<open>Database\<close>, \<^theory_text>\<open>Samples\<close>: \<open>packages/persistence/src/entities.ts\<close>: one record per entity, one insert
    per table that checks its constraints in order, and \<open>transaction\<close>, which undoes everything when
    the body throws. The locale \<open>keyed_table\<close> states what a table with a unique key promises and is
    interpreted for eight keys. The collation that decides equality in SQL is a parameter.
  \<^item> \<^theory_text>\<open>Config\<close>: \<open>loadApiConfig\<close>, \<open>loadWorkerConfig\<close>, \<open>databaseOptions\<close>.
  \<^item> \<^theory_text>\<open>MerchantScope\<close>: the two walks of the merchant hierarchy, downwards for lists and upwards for
    single stores, each with its depth bound.
  \<^item> \<^theory_text>\<open>InvoiceService\<close>, \<^theory_text>\<open>InvoiceQueries\<close>: \<open>create\<close>, \<open>get\<close>, \<open>list\<close> and \<open>transition\<close> of
    \<open>invoice.service.ts\<close>, with the audit record they write.
  \<^item> \<^theory_text>\<open>PaymentService\<close>, \<^theory_text>\<open>Ledger\<close>, \<^theory_text>\<open>PaymentEvents\<close>: \<open>payment.service.ts\<close>: signature check, event window,
    receipts, captures and refunds; the invariant of the ledger over any sequence of requests; the
    effect of one event.
  \<^item> \<^theory_text>\<open>Access\<close>: \<open>common/platform-auth.guard.ts\<close>, \<open>request-context.middleware.ts\<close>, \<open>http.ts\<close>,
    \<open>dev-auth.controller.ts\<close>: the guard with its decorators, the actor it sets, the development token.
  \<^item> \<^theory_text>\<open>Api\<close>, \<^theory_text>\<open>HttpLog\<close>, \<^theory_text>\<open>Telemetry\<close>: the controllers and \<open>serve\<close>, which takes a request through request identifier,
    guard, pipes, controller and service; the logging interceptor; the counters of a process.
  \<^item> \<^theory_text>\<open>Selection\<close>, \<^theory_text>\<open>Relay\<close>: \<open>apps/worker/src/outbox-relay.ts\<close>: \<open>ORDER BY ... LIMIT\<close>; \<open>claim\<close> marks
    up to 25 due events as taken, \<open>publish_all\<close> adds them to the queue and settles each row,
    \<open>reconcilePublished\<close> adds up to 100 published events again that no delivery settled.
  \<^item> \<^theory_text>\<open>Delivery\<close>: \<open>handle_job\<close>, the job handler of \<open>apps/worker/src/main.ts\<close>, with the two providers
    of \<open>provider.ts\<close> and the attempt rows it upserts.
  \<^item> \<^theory_text>\<open>Retention\<close>: \<open>runRetention\<close> of \<open>main.ts\<close>: the four purges, each in batches.
  \<^item> \<^theory_text>\<open>WorkerProcess\<close>, \<^theory_text>\<open>WorkerTelemetry\<close>: the life of a worker: the relay's timer and flag, readiness, the metrics
    server of \<open>telemetry.ts\<close> with readiness requests that wait for their answer, start-up and its failures, the shutdowns
    of the two signals, and the ways the process can end; the metrics its jobs and polls add to.
  \<^item> \<^theory_text>\<open>Startup\<close>: \<open>apps/api/src/main.ts\<close> with the module of \<open>app.module.ts\<close>, and the start of the worker's \<open>main\<close>:
    \<open>api_main\<close> and \<open>worker_main\<close> give what a start leaves behind in every way it can end, with the worker's metrics port
    taken or Redis silent as well.
  \<^item> \<^theory_text>\<open>Platform\<close>, \<^theory_text>\<open>Schema\<close>: the API, the relay, the job handler and the retention as one step relation
    \<open>platform_step\<close> on the database and the queue; with the provisioning script, \<open>deployment_step\<close>. The locale
    \<open>typed_table\<close> of \<^theory_text>\<open>Schema\<close> is interpreted for the eleven tables.
  \<^item> \<^theory_text>\<open>Portal\<close>, \<^theory_text>\<open>PortalApi\<close>, \<^theory_text>\<open>PortalPage\<close>, \<^theory_text>\<open>PortalIssue\<close>: \<open>apps/portal\<close>: the backend client with its token cache, the routes, the
    alert receiver, and the page's state with \<open>refresh\<close> and \<open>issueInvoice\<close>; the portal in front of the API; what the
    page shows and which forms it lets through, with the headers of its responses; an invoice's way from the form
    through the portal and the API to the page's table.
  \<^item> \<^theory_text>\<open>Provision\<close>, \<^theory_text>\<open>Migration\<close>, \<^theory_text>\<open>LocalScripts\<close>, \<^theory_text>\<open>ScriptRuns\<close>, \<^theory_text>\<open>Repository\<close>: \<open>scripts/\<close>: the tenant
    provisioning, the migration runner with every call of it that can fail, the local seed and load test, their
    connections and the load test's requests and report, the validation of the repository.

  \<^bold>\<open>Time, identifiers, concurrency.\<close> An operation reads its surroundings from a record \<open>env\<close>: the \<open>i\<close>-th
  reading of the clock, the \<open>i\<close>-th random UUID, the server's timestamp. A READ COMMITTED transaction
  may see other requests' commits between its reads and its writes, so \<open>create_from\<close> and
  \<open>transition_from\<close> take the database of each phase; \<open>create\<close> and \<open>transition\<close> are the runs alone. A
  SERIALIZABLE transaction is one step, and so is the provisioning, which locks what it reads. In
  \<open>platform_step\<close> the relay's calls are separate steps, so other requests and other relays may act between a
  claim and its settlement. \<open>process_step\<close> and \<open>load_step\<close> interleave the turns of one event loop.

  \<^bold>\<open>Lemma groups.\<close> \<^theory_text>\<open>Money\<close>: the exact integer meaning of the floating-point code.
  \<^theory_text>\<open>StableJson\<close>: the text determines the value up to member order. \<^theory_text>\<open>JsonParse\<close>, \<^theory_text>\<open>ActorToken\<close>: writing and
  reading JSON and tokens, and which tokens are accepted. \<^theory_text>\<open>MerchantScope\<close>: both walks
  against the ancestor relation. \<^theory_text>\<open>InvoiceService\<close>, \<^theory_text>\<open>InvoiceQueries\<close>: what a creation and a status
  change store, idempotency, linearizability. \<^theory_text>\<open>Ledger\<close>: \<open>ledger_ok\<close> is an inductive invariant of
  \<open>api_step\<close>; the locale \<open>accountable_operation\<close> gives one audit entry and one outbox event per change.
  \<^theory_text>\<open>Api\<close>: a request makes at most one \<open>api_step\<close>, changes need authority, reads stay within the tenant. \<^theory_text>\<open>Telemetry\<close>, \<^theory_text>\<open>WorkerTelemetry\<close>: counters agree with tables.
  \<^theory_text>\<open>WorkerProcess\<close>: \<open>process_ok\<close> is an inductive invariant of \<open>process_step\<close>: one poll at a time, no new poll or
  readiness check once it is stopping. \<^theory_text>\<open>Startup\<close>: a process runs only as configured; the module's classes can be built one after the other.
  \<^theory_text>\<open>Relay\<close>: a poll settles what it claimed, claims of two relays are disjoint while the 30 s lock holds,
  polls drain the outbox. \<^theory_text>\<open>Delivery\<close>: attempts end in success or dead letter; a delivered event is not
  sent again. \<^theory_text>\<open>Retention\<close>: the locale \<open>batch_purge\<close> states the loop once; it is interpreted for the four
  tables. \<^theory_text>\<open>Platform\<close>: \<open>platform_ok\<close> is an inductive invariant; a poll is a run of relay steps.
  \<^theory_text>\<open>Schema\<close>: every statement, and so every operation, keeps rows, references and keys well typed.
  \<^theory_text>\<open>Portal\<close>, \<^theory_text>\<open>PortalApi\<close>, \<^theory_text>\<open>PortalPage\<close>, \<^theory_text>\<open>PortalIssue\<close>: the guard lets the portal's own token pass, the page
  shows what the API answers, the API accepts what the form sends, and an issued invoice is the table's first row. \<^theory_text>\<open>Provision\<close>, \<^theory_text>\<open>Migration\<close>, \<^theory_text>\<open>ScriptRuns\<close>: runs are complete or
  without effect, and repeating them changes nothing; the requests of a load test are fresh. \<^theory_text>\<open>Repository\<close>: when the validation succeeds.

  \<^bold>\<open>Bounds.\<close> A claim takes 25 events and a reconciliation 100; a lock lasts 30 s; a purge deletes at most 20
  batches of 1000 rows per table and run, and the loop of \<open>purge_loop\<close> counts down from 20, so it needs no
  other fuel. An attempt number fits its unsigned 16-bit column because the job's attempts are below 65536,
  a hypothesis where it is used. The two hierarchy walks stop at depth 16. The JSON reader descends with
  fuel \<open>2 * length text + 1\<close>; every call below a value consumes a unit or leaves a nesting level, and
  \<open>enough_fuel\<close> shows that more fuel gives the same result. The connection and schema loops count down from 60.

  \<^bold>\<open>Parameters.\<close> SHA-256, HMAC-SHA-256, the verification of JSON web tokens, the parsing of dates and URLs,
  the validators of e-mail addresses, UUIDs, dates and time zones, the framework's parameter pipes, and the
  database collation are arguments of the definitions that use them; so are the answers of the job queue,
  of the notification server and of the API to the portal, the outcome of connecting and listening, the effect of a migration script and which of the
  runner's other calls fail, the shell's verdict on a script, the auto-increment ids, and the rows other transactions hold when a query says
  \<open>SKIP LOCKED\<close>. Rows of a query without an order come in the order they were inserted.

  \<^bold>\<open>Not modelled.\<close> The \<open>updated_at\<close> columns and the relation properties of the entities. Of the portal's page the
  elements and classes of the markup, and the formatting of amounts and dates by \<open>Intl\<close>, a parameter. The text and
  the default metrics of the registries; imports and the wiring of
  decorators beyond what they declare; the deployment descriptions, container images, shell scripts and tests:
  they render, wire or describe, and keep no state of the program's logic. Subjects of tokens are read as Latin-1 texts. That closing
  the migration runner's connection fails.
\<close>

section \<open>Retries after the retention ran\<close>

lemma find_filter_kept:
  "find P xs = Some x \<Longrightarrow> Q x \<Longrightarrow> find P (filter Q xs) = Some x"
  by (induction xs) (auto split: if_splits)

lemma created_key_found:
  assumes "create sha256 e actor rawKey requestId b d = (Inr r, d', [InvoicesInc ''created''])"
  obtains key x where "normalizeIdempotencyKey rawKey = Inr key"
    and "findIdempotency d' (act_actorMerchantId actor) key = Some x"
    and "idm_requestHash x = requestFingerprint sha256 (dto_json b)" and "idm_responseBody x = r"
    and "idm_createdAt x = db_now e"
proof -
  from assms obtain key store c where key: "normalizeIdempotencyKey rawKey = Inr key"
    and w: "create_write e actor key (requestFingerprint sha256 (dto_json b)) requestId b store c d = Inr (r, d')"
    unfolding create_Inr_iff by auto
  from w show ?thesis
  proof (rule create_write_Inr, goal_cases)
    case (1 a lines)
    let ?x = "key_record e (length (ca_items c)) actor key (requestFingerprint sha256 (dto_json b)) r"
    have "findIdempotency d' (act_actorMerchantId actor) key = Some ?x"
      using 1 by (simp add: findIdempotency_def find_append sql_eq_def key_record_def)
    then show ?thesis using that [OF key, of ?x] by (simp add: key_record_def)
  qed
qed

text \<open>C30: A creation may be retried for as many days as idempotency records are kept: after the retention
  ran, a retry with the key and body of a creation that is not older still gets the first response and
  changes nothing.\<close>

theorem create_retry_survives_retention:
  assumes "create sha256 e actor rawKey requestId b d = (Inr r, d', [InvoicesInc ''created''])"
    and "table_ids_unique d'" and "runRetention worker now d' = (counts, d'')"
    and "now 0 \<le> db_now e + wcf_idempotencyRetentionDays worker * 86400000"
  shows "create sha256 e' actor rawKey requestId' b d'' = (Inr r, d'', [InvoicesInc ''replayed''])"
proof -
  from assms(1) obtain key x where key: "normalizeIdempotencyKey rawKey = Inr key"
    and x: "findIdempotency d' (act_actorMerchantId actor) key = Some x"
      "idm_requestHash x = requestFingerprint sha256 (dto_json b)" "idm_responseBody x = r"
      "idm_createdAt x = db_now e"
    by (rule created_key_found)
  note ret = runRetention_tables [OF assms(2,3)]
  have "x \<notin> set (oldest 20000 idm_createdAt
      (\<lambda>r. idm_createdAt r < days_ago (wcf_idempotencyRetentionDays worker) (now 0)) (idempotency_records d'))"
    using assms(4) x(4) by (auto simp: days_ago_def dest: oldest_mem)
  moreover have "collation d'' = collation d'" by (subst ret(5)) simp
  ultimately have "findIdempotency d'' (act_actorMerchantId actor) key = Some x"
    using x(1) unfolding findIdempotency_def ret(3) drop_oldest_def
    by (intro find_filter_kept) (simp_all add: sql_eq_def)
  then have "replays sha256 actor key b d'' r" using x by (simp add: replays_def)
  then show ?thesis unfolding create_Inr_iff using key by auto
qed

theorem create_retry_survives_retention_witness:
  "create sample_hash (sample_env 7) sample_actor (Some sample_key) ''again'' sample_dto
     (snd (runRetention sample_worker (\<lambda>i. 604800999) created_db)) =
   (Inr created_response, snd (runRetention sample_worker (\<lambda>i. 604800999) created_db), [InvoicesInc ''replayed''])"
proof -
  obtain counts d'' where r: "runRetention sample_worker (\<lambda>i. 604800999) created_db = (counts, d'')" by fastforce
  have u: "table_ids_unique created_db" by code_simp
  have "604800999 \<le> db_now (sample_env 0) + wcf_idempotencyRetentionDays sample_worker * 86400000"
    by (simp add: sample_env_def sample_worker_def)
  from create_retry_survives_retention [OF sample_created u r this] show ?thesis by (simp add: r)
qed

text \<open>An accepted event has a date, within the window, and its receipt is found.\<close>

lemma accepted_dated:
  "capture date_of e provider b requestId d = Inr (resp, d') \<Longrightarrow> date_of (pwd_occurredAt b) \<noteq> None"
  "refund_payment date_of e provider b requestId d = Inr (resp, d') \<Longrightarrow> date_of (pwd_occurredAt b) \<noteq> None"
  by (auto simp: capture_def refund_payment_def Let_def res_simps date_column_def)

lemma accepted_receipt:
  assumes "handleWebhook hmac sha256 date_of e config provider timestamp signature rawBody b requestId d
      = (Inr resp, d', ms)"
    and "\<not> pwr_duplicate resp"
  obtains t rcp where "date_of (pwd_occurredAt b) = Some t" and "t \<le> clock e 1 + 300000"
    and "find_receipt d' provider (pwd_providerEventId b) = Some rcp"
    and "rcp_payloadHash rcp = hex_of_bytes (sha256 rawBody)" and "rcp_receivedAt rcp = db_now e"
    and "provider = cfg_paymentProvider config"
proof -
  let ?rcp = "\<lparr>rcp_id = uuid e 3, rcp_provider = provider, rcp_providerEventId = pwd_providerEventId b,
    rcp_eventType = pwd_eventType b, rcp_payloadHash = hex_of_bytes (sha256 rawBody), rcp_receivedAt = db_now e\<rparr>"
  have p: "provider = cfg_paymentProvider config" and w: "\<not> outside_window (date_of (pwd_occurredAt b)) (clock e 1)"
    using assms(1) by (auto simp: handleWebhook_def handleWebhook_from_def Let_def split: if_splits sum.splits)
  note ev = handled_event [OF assms]
  have none: "find_receipt d provider (pwd_providerEventId b) = None"
    using ev assms(2) by (auto simp: process_event_def duplicate_response_def split: option.splits if_splits)
  obtain d1 where pay: "(if pwd_eventType b = ''payment.captured'' then capture date_of e provider b requestId d
      else refund_payment date_of e provider b requestId d) = Inr (resp, d1)" and ins: "insert_receipt ?rcp d1 = Inr d'"
    using ev none by (auto simp: process_event_def bindE_Inr_conv)
  obtain t where t: "date_of (pwd_occurredAt b) = Some t"
    using pay accepted_dated [of date_of e provider b requestId d resp d1] by (auto split: if_splits)
  have "find (\<lambda>x. receipt_key d' x = receipt_key d1 ?rcp) (webhook_receipts d') = Some ?rcp"
    using receipt_table.find_after_ins [OF ins] by simp
  then have "find_receipt d' provider (pwd_providerEventId b) = Some ?rcp"
    using ins by (simp add: find_receipt_def receipt_key_def insert_receipt_Inr sql_eq_def)
  with that [of t ?rcp] t w p show ?thesis by (simp add: outside_window_def)
qed

text \<open>C29: A redelivery stays harmless after the retention ran: when receipts are kept for at least 91 days
  and the server's clock is not behind the application's, every authentic redelivery of an accepted event
  that is still inside the acceptance window is answered as a duplicate, which names the event and says
  that it was seen (not the payment, refund or invoice the first answer named), and changes nothing.\<close>

theorem redelivery_survives_retention:
  assumes "handleWebhook hmac sha256 date_of e config provider timestamp signature rawBody b requestId d
      = (Inr resp, d', ms)"
    and "\<not> pwr_duplicate resp" and "clock e 1 \<le> db_now e"
    and "table_ids_unique d'" and "runRetention worker now d' = (counts, d'')"
    and "91 \<le> wcf_webhookReceiptRetentionDays worker" and "now 2 \<le> clock e' 1"
    and "verifyWebhookSignature hmac sha256 rawBody (cfg_paymentWebhookSecret config)
      (case timestamp' of None \<Rightarrow> [] | Some s \<Rightarrow> s) (case signature' of None \<Rightarrow> [] | Some s \<Rightarrow> s)
      (clock e' 0 div 1000) (JInt (cfg_paymentWebhookToleranceSeconds config)) = Inr True"
    and "\<not> outside_window (date_of (pwd_occurredAt b)) (clock e' 1)"
  shows "handleWebhook hmac sha256 date_of e' config provider timestamp' signature' rawBody b requestId' d''
    = (Inr \<lparr>pwr_providerEventId = pwd_providerEventId b, pwr_duplicate = True, pwr_invoiceId = None,
          pwr_invoiceStatus = None, pwr_paymentId = None\<rparr>,
        d'', [PaymentWebhooksInc ''duplicate'' (pwd_eventType b)])"
proof -
  from assms(1,2) obtain t rcp where t: "date_of (pwd_occurredAt b) = Some t" "t \<le> clock e 1 + 300000"
    and r: "find_receipt d' provider (pwd_providerEventId b) = Some rcp"
      "rcp_payloadHash rcp = hex_of_bytes (sha256 rawBody)" "rcp_receivedAt rcp = db_now e"
    and p: "provider = cfg_paymentProvider config"
    by (rule accepted_receipt)
  note ret = runRetention_tables [OF assms(4,5)]
  have "clock e' 1 - 7776000000 \<le> t" using assms(9) t(1) by (simp add: outside_window_def)
  then have "\<not> rcp_receivedAt rcp < days_ago (wcf_webhookReceiptRetentionDays worker) (now 2)"
    using assms(3,6,7) t(2) r(3) by (simp add: days_ago_def)
  then have "rcp \<notin> set (oldest 20000 rcp_receivedAt
      (\<lambda>r. rcp_receivedAt r < days_ago (wcf_webhookReceiptRetentionDays worker) (now 2)) (webhook_receipts d'))"
    by (auto dest: oldest_mem)
  moreover have "collation d'' = collation d'" by (subst ret(5)) simp
  ultimately have "find_receipt d'' provider (pwd_providerEventId b) = Some rcp"
    using r(1) unfolding find_receipt_def ret(4) drop_oldest_def
    by (intro find_filter_kept) (simp_all add: sql_eq_def)
  then have "process_event date_of e' provider (hex_of_bytes (sha256 rawBody)) b requestId' d''
      = Inr (duplicate_response b, d'')"
    by (simp add: process_event_def r)
  then show ?thesis
    using assms(8,9) p
    by (simp add: handleWebhook_def handleWebhook_from_def Let_def transaction_def duplicate_response_def)
qed

theorem redelivery_survives_retention_witness:
  "handleWebhook sample_hmac sample_hash sample_date (sample_env 9) sample_config ''sandboxpay''
     (Some ''7'') (Some (header_signature ''one'')) ''one'' capture_event ''again''
     (snd (runRetention sample_worker (\<lambda>i. 1000) paid_db)) =
   (Inr (duplicate_response capture_event), snd (runRetention sample_worker (\<lambda>i. 1000) paid_db),
     [PaymentWebhooksInc ''duplicate'' (pwd_eventType capture_event)])"
proof -
  obtain counts d'' where r: "runRetention sample_worker (\<lambda>i. 1000) paid_db = (counts, d'')" by fastforce
  have u: "table_ids_unique paid_db" by code_simp
  have c: "clock (sample_env n) 1 = 1000" "db_now (sample_env n) = 1000" for n by (simp_all add: sample_env_def)
  show ?thesis
    unfolding r snd_conv
    using redelivery_survives_retention [OF sample_paid [of created_db, folded handleWebhook_def]
        conjunct2 [OF paid_result_ok] _ u r, of "sample_env 9" "Some ''7''" "Some (header_signature ''one'')" "''again''"]
      sample_verifies [of "''one''"]
    by (simp add: c sample_worker_def sample_config_def sample_env_def outside_window_def sample_date_def duplicate_response_def)
qed

end
